(* ===== verification/Gateway_Prelude.thy ===== *)
theory Gateway_Prelude
  imports Main "HOL-Library.Sublist"
begin

text \<open>
  The vocabulary the component theories share: Go results as sums, Go time and duration as
  integers of nanoseconds, \<^verbatim>\<open>strings.TrimSpace\<close> and \<^verbatim>\<open>strings.ToLower\<close> on byte strings,
  \<^verbatim>\<open>fmt\<close>'s \<^verbatim>\<open>%d\<close>, SQL tables as lists of rows with the effect of
  \<^verbatim>\<open>SELECT\<close>, \<^verbatim>\<open>INSERT\<close>, \<^verbatim>\<open>UPDATE\<close> and \<^verbatim>\<open>DELETE\<close> on them, and
  reachable states of a step relation.  Two interfaces are stated as locales here:
  \<open>invariant_system\<close> (an invariant kept by every step holds in every reachable state) and
  \<open>keyed_table\<close> (what a lookup by primary key sees after each statement).
\<close>

named_theorems go_eval \<open>definitions unfolded when a closed term is evaluated\<close>

subsection \<open>Results and time\<close>

type_synonym time = int \<comment> \<open>nanoseconds since the zero value of Go's \<^verbatim>\<open>time.Time\<close>\<close>
type_synonym duration = int \<comment> \<open>nanoseconds\<close>

definition IsZero :: "time \<Rightarrow> bool" where
  "IsZero t \<longleftrightarrow> t = 0"

definition bind_result :: "'e + 'a \<Rightarrow> ('a \<Rightarrow> 'e + 'b) \<Rightarrow> 'e + 'b" where
  "bind_result r f = (case r of Inl e \<Rightarrow> Inl e | Inr x \<Rightarrow> f x)"

lemma bind_result_simps [simp]:
  "bind_result (Inl e) f = Inl e"
  "bind_result (Inr x) f = f x"
  by (simp_all add: bind_result_def)

lemma bind_result_Inr_iff:
  "bind_result r f = Inr y \<longleftrightarrow> (\<exists>x. r = Inr x \<and> f x = Inr y)"
  by (cases r) auto

lemma bind_result_Inl_iff:
  "bind_result r f = Inl e \<longleftrightarrow> r = Inl e \<or> (\<exists>x. r = Inr x \<and> f x = Inl e)"
  by (cases r) auto

lemma if_Inl_Inr_iff [simp]:
  "(if c then Inl e else r) = Inr y \<longleftrightarrow> \<not> c \<and> r = Inr y"
  by simp

subsection \<open>Byte strings\<close>

text \<open>
  A Go string is a sequence of bytes, here a list of \<^typ>\<open>char\<close>.
  \<^verbatim>\<open>strings.TrimSpace\<close> removes the code points of \<^verbatim>\<open>unicode.IsSpace\<close> at both ends; the
  list below holds their UTF-8 encodings.  No encoding is a prefix of another and only a
  lead byte starts one, so matching bytes at either end is the same as decoding the first
  or the last code point.
\<close>

definition space_encodings :: "string list" where
  "space_encodings =
     [[CHR 0x20], [CHR 0x09], [CHR 0x0A], [CHR 0x0B], [CHR 0x0C], [CHR 0x0D],
      [CHR 0xC2, CHR 0x85], [CHR 0xC2, CHR 0xA0], [CHR 0xE1, CHR 0x9A, CHR 0x80],
      [CHR 0xE2, CHR 0x80, CHR 0x80], [CHR 0xE2, CHR 0x80, CHR 0x81], [CHR 0xE2, CHR 0x80, CHR 0x82],
      [CHR 0xE2, CHR 0x80, CHR 0x83], [CHR 0xE2, CHR 0x80, CHR 0x84], [CHR 0xE2, CHR 0x80, CHR 0x85],
      [CHR 0xE2, CHR 0x80, CHR 0x86], [CHR 0xE2, CHR 0x80, CHR 0x87], [CHR 0xE2, CHR 0x80, CHR 0x88],
      [CHR 0xE2, CHR 0x80, CHR 0x89], [CHR 0xE2, CHR 0x80, CHR 0x8A], [CHR 0xE2, CHR 0x80, CHR 0xA8],
      [CHR 0xE2, CHR 0x80, CHR 0xA9], [CHR 0xE2, CHR 0x80, CHR 0xAF], [CHR 0xE2, CHR 0x81, CHR 0x9F],
      [CHR 0xE3, CHR 0x80, CHR 0x80]]"

text \<open>Repeatedly drop a prefix that is one of the (non-empty) words \<open>ws\<close>.\<close>

function strip_prefixes :: "'a list list \<Rightarrow> 'a list \<Rightarrow> 'a list" where
  "strip_prefixes ws s =
     (case find (\<lambda>w. w \<noteq> [] \<and> prefix w s) ws of
        None \<Rightarrow> s
      | Some w \<Rightarrow> strip_prefixes ws (drop (length w) s))"
  by pat_completeness auto
termination
proof (relation "measure (\<lambda>(ws, s). length s)")
  fix ws :: "'a list list" and s w
  assume "find (\<lambda>w. w \<noteq> [] \<and> prefix w s) ws = Some w"
  then have "w \<noteq> []" "prefix w s" by (auto simp: find_Some_iff)
  then show "((ws, drop (length w) s), ws, s) \<in> measure (\<lambda>(ws, s). length s)"
    by (cases s) auto
qed simp

declare strip_prefixes.simps [simp del]

definition TrimSpace :: "string \<Rightarrow> string" where
  "TrimSpace s =
     rev (strip_prefixes (map rev space_encodings) (rev (strip_prefixes space_encodings s)))"

lemma strip_prefixes_clean:
  "find (\<lambda>w. w \<noteq> [] \<and> prefix w (strip_prefixes ws s)) ws = None"
proof (induction ws s rule: strip_prefixes.induct)
  case (1 ws s)
  then show ?case
    by (cases "find (\<lambda>w. w \<noteq> [] \<and> prefix w s) ws") (auto simp: strip_prefixes.simps [of ws s])
qed

lemma strip_prefixes_id:
  "find (\<lambda>w. w \<noteq> [] \<and> prefix w s) ws = None \<Longrightarrow> strip_prefixes ws s = s"
  by (simp add: strip_prefixes.simps)

lemma strip_prefixes_suffix: "suffix (strip_prefixes ws s) s"
proof (induction ws s rule: strip_prefixes.induct)
  case (1 ws s)
  show ?case
  proof (cases "find (\<lambda>w. w \<noteq> [] \<and> prefix w s) ws")
    case None
    then show ?thesis by (simp add: strip_prefixes.simps)
  next
    case (Some w)
    then have "strip_prefixes ws s = strip_prefixes ws (drop (length w) s)"
      by (simp add: strip_prefixes.simps [of ws s])
    with 1 Some show ?thesis by (metis suffix_drop suffix_order.trans)
  qed
qed

lemma TrimSpace_idem [simp]: "TrimSpace (TrimSpace s) = TrimSpace s"
proof -
  let ?l = "strip_prefixes space_encodings s"
  let ?r = "strip_prefixes (map rev space_encodings) (rev ?l)"
  have "prefix (rev ?r) ?l"
    using strip_prefixes_suffix [of "map rev space_encodings" "rev ?l"]
    by (simp add: suffix_to_prefix)
  then have "find (\<lambda>w. w \<noteq> [] \<and> prefix w (rev ?r)) space_encodings = None"
    using strip_prefixes_clean [of space_encodings s]
    by (auto simp: find_None_iff intro: prefix_order.trans)
  then have "strip_prefixes space_encodings (rev ?r) = rev ?r"
    by (rule strip_prefixes_id)
  moreover have "strip_prefixes (map rev space_encodings) ?r = ?r"
    by (rule strip_prefixes_id [OF strip_prefixes_clean])
  ultimately show ?thesis by (simp add: TrimSpace_def)
qed

lemma TrimSpace_Nil [simp]: "TrimSpace [] = []"
proof -
  have "find (\<lambda>w. w \<noteq> [] \<and> prefix w []) ws = None" for ws :: "string list"
    by (auto simp: find_None_iff)
  then show ?thesis
    by (simp add: TrimSpace_def strip_prefixes_id)
qed

definition char_between :: "char \<Rightarrow> char \<Rightarrow> char \<Rightarrow> bool" where
  [go_eval]: "char_between lo hi c \<longleftrightarrow> (of_char lo :: nat) \<le> of_char c \<and> (of_char c :: nat) \<le> of_char hi"

text \<open>
  \<^verbatim>\<open>strings.ToLower\<close>: the ASCII capitals, and the two other code points whose lower case
  is ASCII (U+0130 to \<^verbatim>\<open>i\<close>, U+212A to \<^verbatim>\<open>k\<close>).  Other letters outside ASCII keep their
  bytes here: the program compares the result with ASCII literals only.
\<close>

fun ToLower :: "string \<Rightarrow> string" where
  "ToLower [] = []"
| "ToLower (c # cs) =
     (if c = CHR 0xC4 \<and> prefix [CHR 0xB0] cs then CHR ''i'' # ToLower (drop 1 cs)
      else if c = CHR 0xE2 \<and> prefix [CHR 0x84, CHR 0xAA] cs then CHR ''k'' # ToLower (drop 2 cs)
      else if char_between CHR ''A'' CHR ''Z'' c
        then char_of ((of_char c :: nat) + 32) # ToLower cs
      else c # ToLower cs)"

text \<open>\<^verbatim>\<open>fmt\<close>'s \<^verbatim>\<open>%d\<close>, and a reader that shows it loses nothing.\<close>

fun show_nat :: "nat \<Rightarrow> string" where
  "show_nat n = (if n < 10 then [char_of (48 + n)] else show_nat (n div 10) @ [char_of (48 + n mod 10)])"

declare show_nat.simps [simp del]

definition show_int :: "int \<Rightarrow> string" where
  "show_int i = (if i < 0 then CHR ''-'' # show_nat (nat (- i)) else show_nat (nat i))"

definition digit_char :: "char \<Rightarrow> bool" where
  [go_eval]: "digit_char c \<longleftrightarrow> char_between CHR ''0'' CHR ''9'' c"

definition read_nat :: "string \<Rightarrow> nat" where
  "read_nat s = foldl (\<lambda>a c. 10 * a + (of_char c - 48)) 0 s"

lemma of_char_digit: "d < 10 \<Longrightarrow> (of_char (char_of (48 + d :: nat)) :: nat) = 48 + d"
  by (simp add: of_char_of)

lemma show_nat_digits: "c \<in> set (show_nat n) \<Longrightarrow> digit_char c"
proof (induction n rule: show_nat.induct)
  case (1 n)
  have d: "digit_char (char_of (48 + k))" if "k < 10" for k :: nat
    using of_char_digit [OF that] that by (simp add: digit_char_def char_between_def)
  show ?case
    using 1 by (cases "n < 10") (auto simp: show_nat.simps [of n] d)
qed

lemma read_show_nat: "read_nat (show_nat n) = n"
proof (induction n rule: show_nat.induct)
  case (1 n)
  show ?case
  proof (cases "n < 10")
    case True
    then show ?thesis by (simp add: show_nat.simps [of n] read_nat_def of_char_digit)
  next
    case False
    then have "read_nat (show_nat n) = 10 * read_nat (show_nat (n div 10)) + n mod 10"
      by (simp add: show_nat.simps [of n] read_nat_def of_char_digit)
    with 1 False show ?thesis by simp
  qed
qed

lemma show_nat_nonempty [simp]: "show_nat n \<noteq> []"
  by (subst show_nat.simps) simp

lemma show_int_chars: "c \<in> set (show_int i) \<Longrightarrow> c \<noteq> CHR 0x0A"
  by (auto simp: show_int_def digit_char_def char_between_def dest!: show_nat_digits split: if_splits)

lemma show_int_inject [simp]: "show_int i = show_int j \<longleftrightarrow> i = j"
proof
  have no_minus: "show_nat n \<noteq> CHR ''-'' # s" for n s
    using show_nat_digits [of "CHR ''-''" n] by (auto simp: digit_char_def char_between_def)
  assume "show_int i = show_int j"
  then have "(i < 0 \<longleftrightarrow> j < 0) \<and> show_nat (nat \<bar>i\<bar>) = show_nat (nat \<bar>j\<bar>)"
    by (cases "i < 0"; cases "j < 0") (simp_all add: show_int_def no_minus no_minus [symmetric])
  then have "(i < 0 \<longleftrightarrow> j < 0) \<and> nat \<bar>i\<bar> = nat \<bar>j\<bar>"
    by (metis read_show_nat)
  then show "i = j" by arith
qed simp

text \<open>
  Fields joined by a separator can be taken apart again where the field before the
  separator does not contain it.
\<close>

lemma separated_inject:
  assumes "x \<notin> set a" "x \<notin> set a'"
  shows "a @ x # b = a' @ x # b' \<longleftrightarrow> a = a' \<and> b = b'"
proof
  assume eq: "a @ x # b = a' @ x # b'"
  then have "takeWhile (\<lambda>c. c \<noteq> x) (a @ x # b) = takeWhile (\<lambda>c. c \<noteq> x) (a' @ x # b')"
    by simp
  moreover have "takeWhile (\<lambda>c. c \<noteq> x) (a @ x # b) = a" "takeWhile (\<lambda>c. c \<noteq> x) (a' @ x # b') = a'"
    using assms by (auto simp: takeWhile_append)
  ultimately have "a = a'" by simp
  with eq show "a = a' \<and> b = b'" by simp
qed simp

subsection \<open>SQL tables\<close>

text \<open>
  A table is the list of its rows.  \<open>sql_update p f\<close> is \<^verbatim>\<open>UPDATE ... SET f WHERE p\<close>,
  \<open>sql_delete p\<close> is \<^verbatim>\<open>DELETE ... WHERE p\<close>, \<open>sql_count p\<close> the number of rows
  \<open>p\<close> selects (\<^verbatim>\<open>RowsAffected\<close> of the statement), \<open>sql_insert\<close> appends a row, and
  \<open>lookup_row\<close> is \<^verbatim>\<open>SELECT ... WHERE key = k\<close> on a primary key.
\<close>

definition lookup_row :: "('r \<Rightarrow> 'k) \<Rightarrow> 'r list \<Rightarrow> 'k \<Rightarrow> 'r option" where
  "lookup_row key t k = find (\<lambda>r. key r = k) t"

definition sql_insert :: "'r \<Rightarrow> 'r list \<Rightarrow> 'r list" where
  "sql_insert r t = t @ [r]"

definition sql_update :: "('r \<Rightarrow> bool) \<Rightarrow> ('r \<Rightarrow> 'r) \<Rightarrow> 'r list \<Rightarrow> 'r list" where
  "sql_update p f t = map (\<lambda>r. if p r then f r else r) t"

definition sql_delete :: "('r \<Rightarrow> bool) \<Rightarrow> 'r list \<Rightarrow> 'r list" where
  "sql_delete p t = filter (\<lambda>r. \<not> p r) t"

definition sql_count :: "('r \<Rightarrow> bool) \<Rightarrow> 'r list \<Rightarrow> nat" where
  "sql_count p t = length (filter p t)"

definition unique_keys :: "('r \<Rightarrow> 'k) \<Rightarrow> 'r list \<Rightarrow> bool" where
  "unique_keys key t \<longleftrightarrow> distinct (map key t)"

text \<open>The interface the store's proofs use: what a lookup sees after each statement.\<close>

locale keyed_table =
  fixes key :: "'r \<Rightarrow> 'k"
    and ok :: "'t \<Rightarrow> bool"
    and lookup :: "'t \<Rightarrow> 'k \<Rightarrow> 'r option"
    and ins :: "'r \<Rightarrow> 't \<Rightarrow> 't"
    and upd :: "('r \<Rightarrow> bool) \<Rightarrow> ('r \<Rightarrow> 'r) \<Rightarrow> 't \<Rightarrow> 't"
    and del :: "('r \<Rightarrow> bool) \<Rightarrow> 't \<Rightarrow> 't"
    and count :: "('r \<Rightarrow> bool) \<Rightarrow> 't \<Rightarrow> nat"
  assumes lookup_key: "lookup t k = Some r \<Longrightarrow> key r = k"
    and lookup_ins: "lookup t (key r) = None \<Longrightarrow>
          lookup (ins r t) k = (if k = key r then Some r else lookup t k)"
    and lookup_upd: "(\<And>r. key (f r) = key r) \<Longrightarrow>
          lookup (upd p f t) k = map_option (\<lambda>r. if p r then f r else r) (lookup t k)"
    and lookup_del: "ok t \<Longrightarrow>
          lookup (del p t) k = (case lookup t k of None \<Rightarrow> None | Some r \<Rightarrow> if p r then None else Some r)"
    and count_key: "ok t \<Longrightarrow> (\<And>r. p r \<Longrightarrow> key r = k) \<Longrightarrow>
          count p t = (case lookup t k of None \<Rightarrow> 0 | Some r \<Rightarrow> if p r then 1 else 0)"
    and ok_ins: "ok t \<Longrightarrow> lookup t (key r) = None \<Longrightarrow> ok (ins r t)"
    and ok_upd: "(\<And>r. key (f r) = key r) \<Longrightarrow> ok t \<Longrightarrow> ok (upd p f t)"
    and ok_del: "ok t \<Longrightarrow> ok (del p t)"
begin

lemma count_le_one: "ok t \<Longrightarrow> (\<And>r. p r \<Longrightarrow> key r = k) \<Longrightarrow> count p t \<le> 1"
  using count_key [of t p k] by (auto split: option.splits)

lemma count_pos_iff:
  "ok t \<Longrightarrow> (\<And>r. p r \<Longrightarrow> key r = k) \<Longrightarrow> 0 < count p t \<longleftrightarrow> (\<exists>r. lookup t k = Some r \<and> p r)"
  using count_key [of t p k] by (auto split: option.splits)

lemma upd_other:
  "(\<And>r. key (f r) = key r) \<Longrightarrow> (\<And>r. p r \<Longrightarrow> key r = k) \<Longrightarrow> k' \<noteq> k \<Longrightarrow>
     lookup (upd p f t) k' = lookup t k'"
  by (cases "lookup t k'") (auto simp: lookup_upd dest: lookup_key)

lemma del_other:
  "ok t \<Longrightarrow> (\<And>r. p r \<Longrightarrow> key r = k) \<Longrightarrow> k' \<noteq> k \<Longrightarrow> lookup (del p t) k' = lookup t k'"
  by (cases "lookup t k'") (auto simp: lookup_del dest: lookup_key)

end

text \<open>Lists of rows with distinct keys provide the interface.\<close>

lemma lookup_row_None_iff: "lookup_row key t k = None \<longleftrightarrow> k \<notin> key ` set t"
  by (auto simp: lookup_row_def find_None_iff)

lemma lookup_row_notin: "k \<notin> key ` set t \<Longrightarrow> lookup_row key t k = None"
  by (simp add: lookup_row_None_iff)

lemma lookup_row_SomeD: "lookup_row key t k = Some r \<Longrightarrow> key r = k \<and> r \<in> set t"
  by (auto simp: lookup_row_def find_Some_iff)

lemma lookup_row_Cons:
  "lookup_row key (r # t) k = (if key r = k then Some r else lookup_row key t k)"
  by (simp add: lookup_row_def)

lemma lookup_row_append:
  "lookup_row key (t @ u) k = (case lookup_row key t k of None \<Rightarrow> lookup_row key u k | Some r \<Rightarrow> Some r)"
  by (induction t) (auto simp: lookup_row_Cons, simp add: lookup_row_def)

lemma lookup_row_member:
  "unique_keys key t \<Longrightarrow> lookup_row key t (key r) = Some r \<longleftrightarrow> r \<in> set t"
  by (induction t) (auto simp: lookup_row_Cons unique_keys_def lookup_row_def)

lemma lookup_row_update:
  "(\<And>r. key (f r) = key r) \<Longrightarrow>
   lookup_row key (sql_update p f t) k = map_option (\<lambda>r. if p r then f r else r) (lookup_row key t k)"
  by (induction t) (auto simp: lookup_row_Cons sql_update_def, simp add: lookup_row_def)

lemma lookup_row_delete:
  "unique_keys key t \<Longrightarrow> lookup_row key (sql_delete p t) k =
     (case lookup_row key t k of None \<Rightarrow> None | Some r \<Rightarrow> if p r then None else Some r)"
proof (induction t)
  case (Cons r t)
  then show ?case
    by (cases "key r = k"; cases "p r")
       (auto simp: lookup_row_Cons sql_delete_def unique_keys_def lookup_row_notin)
qed (simp add: sql_delete_def lookup_row_def)

lemma sql_count_key:
  assumes "unique_keys key t" "\<And>r. p r \<Longrightarrow> key r = k"
  shows "sql_count p t = (case lookup_row key t k of None \<Rightarrow> 0 | Some r \<Rightarrow> if p r then 1 else 0)"
  using assms(1)
proof (induction t)
  case (Cons r t)
  then show ?case
    using assms(2) [of r]
    by (cases "key r = k"; cases "lookup_row key t k")
       (auto simp: lookup_row_Cons sql_count_def unique_keys_def lookup_row_notin
             dest: lookup_row_SomeD split: if_splits)
qed (simp add: sql_count_def lookup_row_def)

text \<open>A search that can only hit one key is a lookup.\<close>

lemma find_keyed:
  assumes "unique_keys key t" "\<And>r. p r \<Longrightarrow> key r = k"
  shows "find p t = (case lookup_row key t k of None \<Rightarrow> None | Some r \<Rightarrow> if p r then Some r else None)"
  using assms(1)
proof (induction t)
  case (Cons r t)
  then show ?case
    using assms(2) [of r]
    by (cases "key r = k"; cases "lookup_row key t k")
       (auto simp: lookup_row_Cons unique_keys_def lookup_row_notin dest: lookup_row_SomeD)
qed (simp add: lookup_row_def)

lemma sql_update_none: "(\<And>r. r \<in> set t \<Longrightarrow> \<not> p r) \<Longrightarrow> sql_update p f t = t"
  by (auto simp: sql_update_def intro: map_idI)

lemma list_keyed_table:
  "keyed_table key (unique_keys key) (lookup_row key) sql_insert sql_update sql_delete sql_count"
proof (unfold_locales, goal_cases)
  case (2 t r k)
  then show ?case
    by (cases "lookup_row key t k")
       (auto simp: sql_insert_def lookup_row_append lookup_row_Cons, simp add: lookup_row_def)
next
  case 6 then show ?case by (auto simp: unique_keys_def sql_insert_def lookup_row_None_iff)
next
  case 7 then show ?case by (auto simp: unique_keys_def sql_update_def comp_def if_distrib cong: if_cong)
next
  case 8 then show ?case by (auto simp: unique_keys_def sql_delete_def intro: distinct_map_filter)
qed (auto dest: lookup_row_SomeD simp: lookup_row_update lookup_row_delete sql_count_key)

subsection \<open>64-bit integers\<close>

text \<open>Go's \<^verbatim>\<open>int64\<close> arithmetic (also \<^verbatim>\<open>int\<close> and \<^verbatim>\<open>time.Duration\<close>): the result modulo \<open>2 ^ 64\<close>, as a signed number.\<close>

definition wrap64 :: "int \<Rightarrow> int" where
  "wrap64 x = (x + 2 ^ 63) mod 2 ^ 64 - 2 ^ 63"

definition int64 :: "int \<Rightarrow> bool" where
  "int64 x \<longleftrightarrow> - (2 ^ 63) \<le> x \<and> x < 2 ^ 63"

lemma wrap64_id: "int64 x \<Longrightarrow> wrap64 x = x"
  by (simp add: wrap64_def int64_def)

lemma wrap64_int64 [simp]: "int64 (wrap64 x)"
  using pos_mod_sign [of "2 ^ 64" "x + 2 ^ 63"] pos_mod_bound [of "2 ^ 64" "x + 2 ^ 63"]
  by (simp add: wrap64_def int64_def)

subsection \<open>Reachable states\<close>

inductive reachable :: "('s \<Rightarrow> bool) \<Rightarrow> ('s \<Rightarrow> 's \<Rightarrow> bool) \<Rightarrow> 's \<Rightarrow> bool"
  for init :: "'s \<Rightarrow> bool" and step :: "'s \<Rightarrow> 's \<Rightarrow> bool" where
  reachable_init: "init s \<Longrightarrow> reachable init step s"
| reachable_step: "reachable init step s \<Longrightarrow> step s t \<Longrightarrow> reachable init step t"

locale invariant_system =
  fixes init :: "'s \<Rightarrow> bool" and step :: "'s \<Rightarrow> 's \<Rightarrow> bool" and inv :: "'s \<Rightarrow> bool"
  assumes init_inv: "init s \<Longrightarrow> inv s"
    and step_inv: "inv s \<Longrightarrow> step s t \<Longrightarrow> inv t"
begin

lemma reachable_inv: "reachable init step s \<Longrightarrow> inv s"
  by (induction rule: reachable.induct) (auto intro: init_inv step_inv)

lemma steps_inv: "step\<^sup>*\<^sup>* s t \<Longrightarrow> inv s \<Longrightarrow> inv t"
  by (induction rule: rtranclp_induct) (auto intro: step_inv)

end

end
