(* ===== verification/Payment_Errors.thy ===== *)
theory Payment_Errors
  imports Gateway_Prelude
begin

text \<open>
  The error values of the gateway: the sentinel errors of
  \<^verbatim>\<open>gateway/internal/domain/payment.go\<close>, the \<^verbatim>\<open>PaymentError\<close> and
  \<^verbatim>\<open>IdempotencyRecoveryError\<close> types of \<^verbatim>\<open>gateway/internal/app/payment_errors.go\<close>, and
  the errors of the libraries the gateway inspects (no rows, an expired or cancelled
  context, a transport failure).  A Go error chain is a value of \<open>go_error\<close>;
  \<^verbatim>\<open>errors.AsType\<close> is recursion along its causes.
\<close>

subsection \<open>Kinds\<close>

type_synonym PaymentErrorKind = string

definition PaymentErrorInvalidInput :: PaymentErrorKind where
  [go_eval]: "PaymentErrorInvalidInput = ''invalid_input''"
definition PaymentErrorNotFound :: PaymentErrorKind where
  [go_eval]: "PaymentErrorNotFound = ''not_found''"
definition PaymentErrorIdempotencyConflict :: PaymentErrorKind where
  [go_eval]: "PaymentErrorIdempotencyConflict = ''idempotency_conflict''"
definition PaymentErrorIdempotencyInProgress :: PaymentErrorKind where
  [go_eval]: "PaymentErrorIdempotencyInProgress = ''idempotency_in_progress''"
definition PaymentErrorPaymentStatusConflict :: PaymentErrorKind where
  [go_eval]: "PaymentErrorPaymentStatusConflict = ''payment_status_conflict''"
definition PaymentErrorAuthorizationExpired :: PaymentErrorKind where
  [go_eval]: "PaymentErrorAuthorizationExpired = ''authorization_expired''"
definition PaymentErrorBankStateConflict :: PaymentErrorKind where
  [go_eval]: "PaymentErrorBankStateConflict = ''bank_state_conflict''"
definition PaymentErrorBankUnavailable :: PaymentErrorKind where
  [go_eval]: "PaymentErrorBankUnavailable = ''bank_unavailable''"
definition PaymentErrorBankTimeout :: PaymentErrorKind where
  [go_eval]: "PaymentErrorBankTimeout = ''bank_timeout''"
definition PaymentErrorInternal :: PaymentErrorKind where
  [go_eval]: "PaymentErrorInternal = ''internal''"

lemmas kind_defs =
  PaymentErrorInvalidInput_def PaymentErrorNotFound_def PaymentErrorIdempotencyConflict_def
  PaymentErrorIdempotencyInProgress_def PaymentErrorPaymentStatusConflict_def
  PaymentErrorAuthorizationExpired_def PaymentErrorBankStateConflict_def
  PaymentErrorBankUnavailable_def PaymentErrorBankTimeout_def PaymentErrorInternal_def

definition payment_error_kinds :: "PaymentErrorKind list" where
  [go_eval]: "payment_error_kinds =
     [PaymentErrorInvalidInput, PaymentErrorNotFound, PaymentErrorIdempotencyConflict,
      PaymentErrorIdempotencyInProgress, PaymentErrorPaymentStatusConflict,
      PaymentErrorAuthorizationExpired, PaymentErrorBankStateConflict,
      PaymentErrorBankUnavailable, PaymentErrorBankTimeout, PaymentErrorInternal]"

lemma kind_neq [simp]:
  "PaymentErrorInvalidInput \<noteq> PaymentErrorNotFound"
  "PaymentErrorInvalidInput \<noteq> PaymentErrorIdempotencyConflict"
  "PaymentErrorInvalidInput \<noteq> PaymentErrorIdempotencyInProgress"
  "PaymentErrorInvalidInput \<noteq> PaymentErrorPaymentStatusConflict"
  "PaymentErrorInvalidInput \<noteq> PaymentErrorAuthorizationExpired"
  "PaymentErrorInvalidInput \<noteq> PaymentErrorBankStateConflict"
  "PaymentErrorInvalidInput \<noteq> PaymentErrorBankUnavailable"
  "PaymentErrorInvalidInput \<noteq> PaymentErrorBankTimeout"
  "PaymentErrorInvalidInput \<noteq> PaymentErrorInternal"
  "PaymentErrorNotFound \<noteq> PaymentErrorIdempotencyConflict"
  "PaymentErrorNotFound \<noteq> PaymentErrorIdempotencyInProgress"
  "PaymentErrorNotFound \<noteq> PaymentErrorPaymentStatusConflict"
  "PaymentErrorNotFound \<noteq> PaymentErrorAuthorizationExpired"
  "PaymentErrorNotFound \<noteq> PaymentErrorBankStateConflict"
  "PaymentErrorNotFound \<noteq> PaymentErrorBankUnavailable"
  "PaymentErrorNotFound \<noteq> PaymentErrorBankTimeout"
  "PaymentErrorNotFound \<noteq> PaymentErrorInternal"
  "PaymentErrorIdempotencyConflict \<noteq> PaymentErrorIdempotencyInProgress"
  "PaymentErrorIdempotencyConflict \<noteq> PaymentErrorPaymentStatusConflict"
  "PaymentErrorIdempotencyConflict \<noteq> PaymentErrorAuthorizationExpired"
  "PaymentErrorIdempotencyConflict \<noteq> PaymentErrorBankStateConflict"
  "PaymentErrorIdempotencyConflict \<noteq> PaymentErrorBankUnavailable"
  "PaymentErrorIdempotencyConflict \<noteq> PaymentErrorBankTimeout"
  "PaymentErrorIdempotencyConflict \<noteq> PaymentErrorInternal"
  "PaymentErrorIdempotencyInProgress \<noteq> PaymentErrorPaymentStatusConflict"
  "PaymentErrorIdempotencyInProgress \<noteq> PaymentErrorAuthorizationExpired"
  "PaymentErrorIdempotencyInProgress \<noteq> PaymentErrorBankStateConflict"
  "PaymentErrorIdempotencyInProgress \<noteq> PaymentErrorBankUnavailable"
  "PaymentErrorIdempotencyInProgress \<noteq> PaymentErrorBankTimeout"
  "PaymentErrorIdempotencyInProgress \<noteq> PaymentErrorInternal"
  "PaymentErrorPaymentStatusConflict \<noteq> PaymentErrorAuthorizationExpired"
  "PaymentErrorPaymentStatusConflict \<noteq> PaymentErrorBankStateConflict"
  "PaymentErrorPaymentStatusConflict \<noteq> PaymentErrorBankUnavailable"
  "PaymentErrorPaymentStatusConflict \<noteq> PaymentErrorBankTimeout"
  "PaymentErrorPaymentStatusConflict \<noteq> PaymentErrorInternal"
  "PaymentErrorAuthorizationExpired \<noteq> PaymentErrorBankStateConflict"
  "PaymentErrorAuthorizationExpired \<noteq> PaymentErrorBankUnavailable"
  "PaymentErrorAuthorizationExpired \<noteq> PaymentErrorBankTimeout"
  "PaymentErrorAuthorizationExpired \<noteq> PaymentErrorInternal"
  "PaymentErrorBankStateConflict \<noteq> PaymentErrorBankUnavailable"
  "PaymentErrorBankStateConflict \<noteq> PaymentErrorBankTimeout"
  "PaymentErrorBankStateConflict \<noteq> PaymentErrorInternal"
  "PaymentErrorBankUnavailable \<noteq> PaymentErrorBankTimeout"
  "PaymentErrorBankUnavailable \<noteq> PaymentErrorInternal"
  "PaymentErrorBankTimeout \<noteq> PaymentErrorInternal"
  by (simp_all add: kind_defs)

lemmas kind_neq_sym [simp] = kind_neq [symmetric]

lemma kind_nonempty [simp]: "k \<in> set payment_error_kinds \<Longrightarrow> k \<noteq> []"
  by (auto simp: payment_error_kinds_def kind_defs)

lemma AuthorizationExpired_nonempty [simp]:
  "PaymentErrorAuthorizationExpired \<noteq> []" "[] \<noteq> PaymentErrorAuthorizationExpired"
  by (simp_all add: kind_defs)

subsection \<open>Error values\<close>

datatype domain_error =
    ErrInvalidPaymentID | ErrInvalidOrderID | ErrInvalidCustomerID | ErrInvalidAmount
  | ErrInvalidBankAuthorizationID | ErrInvalidBankCaptureID | ErrInvalidBankRefundID
  | ErrInvalidBankVoidID | ErrInvalidBankOperationKey | ErrInvalidAuthorizationCardFingerprint
  | ErrInvalidDeclineReason | ErrInvalidPaymentTimestamp
  | ErrInvalidAuthorizationExpirationTime | ErrInvalidPaymentStatus

datatype go_error =
    DomainError domain_error
  | PaymentError PaymentErrorKind string "go_error option"
      \<comment> \<open>\<^verbatim>\<open>*PaymentError\<close>: kind, message and cause (\<open>None\<close> for nil)\<close>
  | IdempotencyRecoveryError string go_error
  | ErrNoRows
  | DeadlineExceeded
  | Canceled
  | TransportError bool bool
      \<comment> \<open>an error of \<^verbatim>\<open>http.Client.Do\<close>: wraps \<^verbatim>\<open>context.DeadlineExceeded\<close>, is a timing-out \<^verbatim>\<open>net.Error\<close>\<close>
  | OtherError string

definition NewIdempotencyRecoveryError :: "string \<Rightarrow> go_error \<Rightarrow> go_error" where
  "NewIdempotencyRecoveryError result cause = IdempotencyRecoveryError result cause"

definition NewInvalidPaymentInputError :: "string \<Rightarrow> go_error option \<Rightarrow> go_error" where
  "NewInvalidPaymentInputError reason cause = PaymentError PaymentErrorInvalidInput reason cause"

definition NewPaymentNotFoundError :: "string \<Rightarrow> go_error option \<Rightarrow> go_error" where
  "NewPaymentNotFoundError pid cause =
     PaymentError PaymentErrorNotFound (''payment '' @ pid @ '' was not found'') cause"

definition NewPaymentIdempotencyConflictError :: "go_error option \<Rightarrow> go_error" where
  "NewPaymentIdempotencyConflictError cause =
     PaymentError PaymentErrorIdempotencyConflict
       ''idempotency key was already used with a different request'' cause"

definition NewPaymentIdempotencyInProgressError :: "go_error option \<Rightarrow> go_error" where
  "NewPaymentIdempotencyInProgressError cause =
     PaymentError PaymentErrorIdempotencyInProgress ''idempotency key is already in progress'' cause"

definition NewPaymentStatusConflictError :: "go_error option \<Rightarrow> go_error" where
  "NewPaymentStatusConflictError cause =
     PaymentError PaymentErrorPaymentStatusConflict ''payment status does not allow this operation'' cause"

definition NewPaymentAuthorizationExpiredError :: "go_error option \<Rightarrow> go_error" where
  "NewPaymentAuthorizationExpiredError cause =
     PaymentError PaymentErrorAuthorizationExpired ''authorization expired'' cause"

definition NewPaymentBankStateConflictError :: "go_error option \<Rightarrow> go_error" where
  "NewPaymentBankStateConflictError cause =
     PaymentError PaymentErrorBankStateConflict ''bank state conflicts with local payment state'' cause"

definition NewPaymentBankUnavailableError :: "go_error option \<Rightarrow> go_error" where
  "NewPaymentBankUnavailableError cause =
     PaymentError PaymentErrorBankUnavailable ''bank is unavailable'' cause"

definition NewPaymentBankTimeoutError :: "go_error option \<Rightarrow> go_error" where
  "NewPaymentBankTimeoutError cause =
     PaymentError PaymentErrorBankTimeout ''bank request timed out'' cause"

definition NewInternalPaymentError :: "go_error option \<Rightarrow> go_error" where
  "NewInternalPaymentError cause =
     PaymentError PaymentErrorInternal ''internal server error'' cause"

lemmas error_constructor_defs [go_eval] =
  NewIdempotencyRecoveryError_def NewInvalidPaymentInputError_def NewPaymentNotFoundError_def
  NewPaymentIdempotencyConflictError_def NewPaymentIdempotencyInProgressError_def
  NewPaymentStatusConflictError_def NewPaymentAuthorizationExpiredError_def
  NewPaymentBankStateConflictError_def NewPaymentBankUnavailableError_def
  NewPaymentBankTimeoutError_def NewInternalPaymentError_def

subsection \<open>Inspecting and rebuilding errors\<close>

fun PaymentErrorKindOf :: "go_error \<Rightarrow> PaymentErrorKind option" where
  "PaymentErrorKindOf (PaymentError kind message cause) = Some kind"
| "PaymentErrorKindOf (IdempotencyRecoveryError result cause) = PaymentErrorKindOf cause"
| "PaymentErrorKindOf _ = None"

definition HasPaymentErrorKind :: "go_error \<Rightarrow> PaymentErrorKind \<Rightarrow> bool" where
  "HasPaymentErrorKind err kind \<longleftrightarrow>
     (case PaymentErrorKindOf err of None \<Rightarrow> False | Some actual \<Rightarrow> actual = kind)"

text \<open>\<^verbatim>\<open>errors.AsType[*IdempotencyRecoveryError]\<close>, and the \<^verbatim>\<open>Result()\<close> of what it finds.\<close>

fun recovery_result :: "go_error \<Rightarrow> string option" where
  "recovery_result (IdempotencyRecoveryError result cause) = Some result"
| "recovery_result (PaymentError kind message (Some cause)) = recovery_result cause"
| "recovery_result _ = None"

definition NewPaymentErrorOfKind :: "PaymentErrorKind \<Rightarrow> go_error option \<Rightarrow> go_error" where
  "NewPaymentErrorOfKind kind cause =
     (if kind = PaymentErrorIdempotencyConflict then NewPaymentIdempotencyConflictError cause
      else if kind = PaymentErrorIdempotencyInProgress then NewPaymentIdempotencyInProgressError cause
      else if kind = PaymentErrorPaymentStatusConflict then NewPaymentStatusConflictError cause
      else if kind = PaymentErrorAuthorizationExpired then NewPaymentAuthorizationExpiredError cause
      else if kind = PaymentErrorBankStateConflict then NewPaymentBankStateConflictError cause
      else if kind = PaymentErrorBankUnavailable then NewPaymentBankUnavailableError cause
      else if kind = PaymentErrorBankTimeout then NewPaymentBankTimeoutError cause
      else if kind = PaymentErrorInternal then NewInternalPaymentError cause
      else NewInternalPaymentError (Some (OtherError
             (''payment error kind '' @ kind @ '' cannot be rebuilt from its kind''))))"

definition IsTerminalFailureKind :: "PaymentErrorKind \<Rightarrow> bool" where
  "IsTerminalFailureKind kind \<longleftrightarrow> kind = PaymentErrorAuthorizationExpired"

definition ensurePaymentError :: "go_error \<Rightarrow> go_error" where
  "ensurePaymentError err =
     (case PaymentErrorKindOf err of Some _ \<Rightarrow> err | None \<Rightarrow> NewInternalPaymentError (Some err))"

lemmas [go_eval] =
  HasPaymentErrorKind_def NewPaymentErrorOfKind_def IsTerminalFailureKind_def ensurePaymentError_def

lemma kind_of_constructor [simp]:
  "PaymentErrorKindOf (NewIdempotencyRecoveryError r e) = PaymentErrorKindOf e"
  "PaymentErrorKindOf (NewInvalidPaymentInputError m c) = Some PaymentErrorInvalidInput"
  "PaymentErrorKindOf (NewPaymentNotFoundError i c) = Some PaymentErrorNotFound"
  "PaymentErrorKindOf (NewPaymentIdempotencyConflictError c) = Some PaymentErrorIdempotencyConflict"
  "PaymentErrorKindOf (NewPaymentIdempotencyInProgressError c) = Some PaymentErrorIdempotencyInProgress"
  "PaymentErrorKindOf (NewPaymentStatusConflictError c) = Some PaymentErrorPaymentStatusConflict"
  "PaymentErrorKindOf (NewPaymentAuthorizationExpiredError c) = Some PaymentErrorAuthorizationExpired"
  "PaymentErrorKindOf (NewPaymentBankStateConflictError c) = Some PaymentErrorBankStateConflict"
  "PaymentErrorKindOf (NewPaymentBankUnavailableError c) = Some PaymentErrorBankUnavailable"
  "PaymentErrorKindOf (NewPaymentBankTimeoutError c) = Some PaymentErrorBankTimeout"
  "PaymentErrorKindOf (NewInternalPaymentError c) = Some PaymentErrorInternal"
  by (simp_all add: error_constructor_defs)

lemma HasPaymentErrorKind_iff: "HasPaymentErrorKind e k \<longleftrightarrow> PaymentErrorKindOf e = Some k"
  by (auto simp: HasPaymentErrorKind_def split: option.splits)

lemma ensurePaymentError_id [simp]: "PaymentErrorKindOf e = Some k \<Longrightarrow> ensurePaymentError e = e"
  by (simp add: ensurePaymentError_def)

lemma ensurePaymentError_kind: "\<exists>k. PaymentErrorKindOf (ensurePaymentError e) = Some k"
  by (auto simp: ensurePaymentError_def split: option.splits)

end
