(* ===== verification/Payment_Domain.thy ===== *)
theory Payment_Domain
  imports Payment_Errors
begin

text \<open>
  The domain model, \<^verbatim>\<open>gateway/internal/domain/payment.go\<close>: the \<^verbatim>\<open>Payment\<close> struct with its
  validating constructors \<^verbatim>\<open>NewPendingPayment\<close>, \<^verbatim>\<open>newPayment\<close> and \<^verbatim>\<open>LoadPayment\<close>, and
  its lifecycle methods \<^verbatim>\<open>Mark...\<close> and \<^verbatim>\<open>Set...BankOperationKey\<close>.  A method that mutates
  its receiver returns the updated record; one that fails returns the sentinel error and
  leaves the receiver as it was.  Amounts are compared and passed on, never computed with,
  so an \<^verbatim>\<open>int64\<close> is an \<^typ>\<open>int\<close> here.

  \<open>payment_wf\<close> is the type invariant; the lemmas show that every constructor
  establishes it and every method keeps it, that \<open>LoadPayment\<close> inverts the field
  accessors on well-formed payments, and that \<open>lifecycle_step\<close> only follows the edges of
  the documented lifecycle.
\<close>

subsection \<open>Statuses and decline reasons\<close>

type_synonym PaymentID = string
type_synonym PaymentStatus = string
type_synonym DeclineReason = string

definition CurrencyUSD :: string where
  [go_eval]: "CurrencyUSD = ''USD''"

definition PaymentStatusPending :: PaymentStatus where
  [go_eval]: "PaymentStatusPending = ''pending''"
definition PaymentStatusAuthorized :: PaymentStatus where
  [go_eval]: "PaymentStatusAuthorized = ''authorized''"
definition PaymentStatusExpired :: PaymentStatus where
  [go_eval]: "PaymentStatusExpired = ''expired''"
definition PaymentStatusDeclined :: PaymentStatus where
  [go_eval]: "PaymentStatusDeclined = ''declined''"
definition PaymentStatusCaptured :: PaymentStatus where
  [go_eval]: "PaymentStatusCaptured = ''captured''"
definition PaymentStatusVoided :: PaymentStatus where
  [go_eval]: "PaymentStatusVoided = ''voided''"
definition PaymentStatusRefunded :: PaymentStatus where
  [go_eval]: "PaymentStatusRefunded = ''refunded''"

lemmas status_defs =
  PaymentStatusPending_def PaymentStatusAuthorized_def PaymentStatusExpired_def PaymentStatusDeclined_def PaymentStatusCaptured_def PaymentStatusVoided_def PaymentStatusRefunded_def

lemma status_neq [simp]:
  "PaymentStatusPending \<noteq> PaymentStatusAuthorized"
  "PaymentStatusPending \<noteq> PaymentStatusExpired"
  "PaymentStatusPending \<noteq> PaymentStatusDeclined"
  "PaymentStatusPending \<noteq> PaymentStatusCaptured"
  "PaymentStatusPending \<noteq> PaymentStatusVoided"
  "PaymentStatusPending \<noteq> PaymentStatusRefunded"
  "PaymentStatusAuthorized \<noteq> PaymentStatusExpired"
  "PaymentStatusAuthorized \<noteq> PaymentStatusDeclined"
  "PaymentStatusAuthorized \<noteq> PaymentStatusCaptured"
  "PaymentStatusAuthorized \<noteq> PaymentStatusVoided"
  "PaymentStatusAuthorized \<noteq> PaymentStatusRefunded"
  "PaymentStatusExpired \<noteq> PaymentStatusDeclined"
  "PaymentStatusExpired \<noteq> PaymentStatusCaptured"
  "PaymentStatusExpired \<noteq> PaymentStatusVoided"
  "PaymentStatusExpired \<noteq> PaymentStatusRefunded"
  "PaymentStatusDeclined \<noteq> PaymentStatusCaptured"
  "PaymentStatusDeclined \<noteq> PaymentStatusVoided"
  "PaymentStatusDeclined \<noteq> PaymentStatusRefunded"
  "PaymentStatusCaptured \<noteq> PaymentStatusVoided"
  "PaymentStatusCaptured \<noteq> PaymentStatusRefunded"
  "PaymentStatusVoided \<noteq> PaymentStatusRefunded"
  by (simp_all add: status_defs)

lemmas status_neq_sym [simp] = status_neq [symmetric]

lemma status_nonempty [simp]:
  "PaymentStatusPending \<noteq> []"
  "PaymentStatusAuthorized \<noteq> []"
  "PaymentStatusExpired \<noteq> []"
  "PaymentStatusDeclined \<noteq> []"
  "PaymentStatusCaptured \<noteq> []"
  "PaymentStatusVoided \<noteq> []"
  "PaymentStatusRefunded \<noteq> []"
  by (simp_all add: status_defs)

lemmas status_nonempty_sym [simp] = status_nonempty [symmetric]

definition IsValidPaymentStatus :: "PaymentStatus \<Rightarrow> bool" where
  "IsValidPaymentStatus status \<longleftrightarrow>
     status \<in> {PaymentStatusPending, PaymentStatusAuthorized, PaymentStatusExpired,
               PaymentStatusDeclined, PaymentStatusCaptured, PaymentStatusVoided,
               PaymentStatusRefunded}"

definition DeclineReasonInsufficientFunds :: DeclineReason where
  [go_eval]: "DeclineReasonInsufficientFunds = ''insufficient_funds''"
definition DeclineReasonInvalidCard :: DeclineReason where
  [go_eval]: "DeclineReasonInvalidCard = ''invalid_card''"
definition DeclineReasonExpiredCard :: DeclineReason where
  [go_eval]: "DeclineReasonExpiredCard = ''expired_card''"
definition DeclineReasonUnknown :: DeclineReason where
  [go_eval]: "DeclineReasonUnknown = ''unknown''"

definition valid_decline_reason :: "DeclineReason \<Rightarrow> bool" where
  [go_eval]: "valid_decline_reason reason \<longleftrightarrow>
     reason \<in> {DeclineReasonInsufficientFunds, DeclineReasonInvalidCard,
               DeclineReasonExpiredCard, DeclineReasonUnknown}"

definition validateDeclineReason :: "DeclineReason \<Rightarrow> domain_error option" where
  "validateDeclineReason reason =
     (if valid_decline_reason reason then None else Some ErrInvalidDeclineReason)"

lemma valid_decline_reason_nonempty [simp]: "\<not> valid_decline_reason []"
  by (simp add: valid_decline_reason_def DeclineReasonInsufficientFunds_def
      DeclineReasonInvalidCard_def DeclineReasonExpiredCard_def DeclineReasonUnknown_def)

subsection \<open>Payment identifiers\<close>

definition isHexDigit :: "char \<Rightarrow> bool" where
  "isHexDigit r \<longleftrightarrow>
     char_between CHR ''0'' CHR ''9'' r \<or> char_between CHR ''a'' CHR ''f'' r \<or>
     char_between CHR ''A'' CHR ''F'' r"

text \<open>
  The Go loop ranges over the code points of \<^verbatim>\<open>value\<close> with their byte offsets.  A code point
  of more than one byte is neither a dash nor a hexadecimal digit, and neither is its first
  byte, so looking at bytes gives the same answer.
\<close>

definition isDashedUUID :: "string \<Rightarrow> bool" where
  "isDashedUUID val \<longleftrightarrow>
     length val = 36 \<and>
     list_all (\<lambda>(i, r). if i \<in> {8, 13, 18, 23} then r = CHR ''-'' else isHexDigit r)
       (enumerate 0 val)"

definition validatePaymentID :: "PaymentID \<Rightarrow> domain_error option" where
  "validatePaymentID pid =
     (if prefix ''pay_'' pid \<and> isDashedUUID (drop 4 pid) then None else Some ErrInvalidPaymentID)"

definition ParsePaymentID :: "string \<Rightarrow> domain_error + PaymentID" where
  "ParsePaymentID val =
     (case validatePaymentID val of Some e \<Rightarrow> Inl e | None \<Rightarrow> Inr val)"

definition normalizeRequired :: "string \<Rightarrow> domain_error \<Rightarrow> domain_error + string" where
  "normalizeRequired val err = (if TrimSpace val = [] then Inl err else Inr (TrimSpace val))"

text \<open>The recurring \<^verbatim>\<open>if x != "" { x, err = normalizeRequired(x, e) ... }\<close> of \<^verbatim>\<open>newPayment\<close>.\<close>

definition normalizeIfPresent :: "string \<Rightarrow> domain_error \<Rightarrow> domain_error + string" where
  "normalizeIfPresent val err = (if val \<noteq> [] then normalizeRequired val err else Inr val)"

lemmas [go_eval] =
  IsValidPaymentStatus_def validateDeclineReason_def isHexDigit_def isDashedUUID_def
  validatePaymentID_def ParsePaymentID_def normalizeRequired_def normalizeIfPresent_def

subsection \<open>The Payment struct and its constructors\<close>

record Payment =
  p_id :: PaymentID
  orderID :: string
  customerID :: string
  amountCents :: int
  currency :: string
  status :: PaymentStatus
  bankAuthorizationID :: string
  authorizationExpiresAt :: time
  authorizationBankOperationKey :: string
  authorizationCardFingerprint :: string
  bankCaptureID :: string
  captureBankOperationKey :: string
  bankRefundID :: string
  refundBankOperationKey :: string
  bankVoidID :: string
  voidBankOperationKey :: string
  declineReason :: DeclineReason
  createdAt :: time
  updatedAt :: time

definition newPayment ::
  "PaymentID \<Rightarrow> string \<Rightarrow> string \<Rightarrow> int \<Rightarrow> PaymentStatus \<Rightarrow> string \<Rightarrow> time \<Rightarrow> string \<Rightarrow> string \<Rightarrow>
   string \<Rightarrow> string \<Rightarrow> string \<Rightarrow> string \<Rightarrow> string \<Rightarrow> string \<Rightarrow> DeclineReason \<Rightarrow> time \<Rightarrow>
   domain_error + Payment" where
  "newPayment pid order customer amount st authID expiresAt authKey cardFp
     capID capKey refID refKey voidID voidKey reason now =
   (case validatePaymentID pid of Some e \<Rightarrow> Inl e | None \<Rightarrow>
    bind_result (normalizeRequired order ErrInvalidOrderID) (\<lambda>order.
    bind_result (normalizeRequired customer ErrInvalidCustomerID) (\<lambda>customer.
    if amount \<le> 0 then Inl ErrInvalidAmount else
    bind_result (normalizeRequired authKey ErrInvalidBankOperationKey) (\<lambda>authKey.
    bind_result (normalizeRequired cardFp ErrInvalidAuthorizationCardFingerprint) (\<lambda>cardFp.
    bind_result
      (if authID \<noteq> [] then
         bind_result (normalizeRequired authID ErrInvalidBankAuthorizationID) (\<lambda>authID.
           if IsZero expiresAt then Inl ErrInvalidAuthorizationExpirationTime else Inr authID)
       else if \<not> IsZero expiresAt then Inl ErrInvalidAuthorizationExpirationTime
       else Inr authID) (\<lambda>authID.
    bind_result (normalizeIfPresent capID ErrInvalidBankCaptureID) (\<lambda>capID.
    bind_result (normalizeIfPresent capKey ErrInvalidBankOperationKey) (\<lambda>capKey.
    bind_result (normalizeIfPresent refID ErrInvalidBankRefundID) (\<lambda>refID.
    bind_result (normalizeIfPresent refKey ErrInvalidBankOperationKey) (\<lambda>refKey.
    bind_result (normalizeIfPresent voidID ErrInvalidBankVoidID) (\<lambda>voidID.
    bind_result (normalizeIfPresent voidKey ErrInvalidBankOperationKey) (\<lambda>voidKey.
    if IsZero now then Inl ErrInvalidPaymentTimestamp else
    Inr \<lparr>p_id = pid, orderID = order, customerID = customer, amountCents = amount,
         currency = CurrencyUSD, status = st, bankAuthorizationID = authID,
         authorizationExpiresAt = expiresAt, authorizationBankOperationKey = authKey,
         authorizationCardFingerprint = cardFp, bankCaptureID = capID,
         captureBankOperationKey = capKey, bankRefundID = refID,
         refundBankOperationKey = refKey, bankVoidID = voidID,
         voidBankOperationKey = voidKey, declineReason = reason,
         createdAt = now, updatedAt = now\<rparr>))))))))))))"

definition NewPendingPayment ::
  "PaymentID \<Rightarrow> string \<Rightarrow> string \<Rightarrow> int \<Rightarrow> string \<Rightarrow> string \<Rightarrow> time \<Rightarrow> domain_error + Payment" where
  "NewPendingPayment pid order customer amount authKey cardFp now =
     newPayment pid order customer amount PaymentStatusPending [] 0 authKey cardFp
       [] [] [] [] [] [] [] now"

abbreviation blank :: "string \<Rightarrow> bool" where
  "blank s \<equiv> TrimSpace s = []"

definition LoadPayment ::
  "PaymentID \<Rightarrow> string \<Rightarrow> string \<Rightarrow> int \<Rightarrow> string \<Rightarrow> PaymentStatus \<Rightarrow> string \<Rightarrow> time \<Rightarrow> string \<Rightarrow> string \<Rightarrow>
   string \<Rightarrow> string \<Rightarrow> string \<Rightarrow> string \<Rightarrow> string \<Rightarrow> string \<Rightarrow> DeclineReason \<Rightarrow> time \<Rightarrow> time \<Rightarrow>
   domain_error + Payment" where
  "LoadPayment pid order customer amount ccy st authID expiresAt authKey cardFp
     capID capKey refID refKey voidID voidKey reason created updated =
   (if ccy \<noteq> CurrencyUSD then Inl ErrInvalidAmount
    else if IsZero updated then Inl ErrInvalidPaymentTimestamp
    else bind_result
     (if st = PaymentStatusPending then
        if \<not> blank authID then Inl ErrInvalidBankAuthorizationID
        else if \<not> blank capID then Inl ErrInvalidBankCaptureID
        else if \<not> blank capKey then Inl ErrInvalidBankOperationKey
        else if \<not> IsZero expiresAt then Inl ErrInvalidAuthorizationExpirationTime
        else if \<not> blank refID then Inl ErrInvalidBankRefundID
        else if \<not> blank refKey then Inl ErrInvalidBankOperationKey
        else if \<not> blank voidID then Inl ErrInvalidBankVoidID
        else if \<not> blank voidKey then Inl ErrInvalidBankOperationKey
        else if reason \<noteq> [] then Inl ErrInvalidDeclineReason
        else NewPendingPayment pid order customer amount authKey cardFp created
      else if st = PaymentStatusAuthorized then
        if reason \<noteq> [] then Inl ErrInvalidDeclineReason
        else if \<not> blank capID then Inl ErrInvalidBankCaptureID
        else if \<not> blank refID then Inl ErrInvalidBankRefundID
        else if \<not> blank refKey then Inl ErrInvalidBankOperationKey
        else if \<not> blank voidID then Inl ErrInvalidBankVoidID
        else newPayment pid order customer amount st authID expiresAt authKey cardFp
               [] capKey [] [] [] voidKey [] created
      else if st = PaymentStatusExpired then
        if reason \<noteq> [] then Inl ErrInvalidDeclineReason
        else if \<not> blank capID then Inl ErrInvalidBankCaptureID
        else if \<not> blank capKey then Inl ErrInvalidBankOperationKey
        else if \<not> blank refID then Inl ErrInvalidBankRefundID
        else if \<not> blank refKey then Inl ErrInvalidBankOperationKey
        else if \<not> blank voidID then Inl ErrInvalidBankVoidID
        else if \<not> blank voidKey then Inl ErrInvalidBankOperationKey
        else newPayment pid order customer amount st authID expiresAt authKey cardFp
               [] [] [] [] [] [] [] created
      else if st = PaymentStatusDeclined then
        if \<not> blank authID then Inl ErrInvalidBankAuthorizationID
        else if \<not> blank capID then Inl ErrInvalidBankCaptureID
        else if \<not> blank capKey then Inl ErrInvalidBankOperationKey
        else if \<not> IsZero expiresAt then Inl ErrInvalidAuthorizationExpirationTime
        else if \<not> blank refID then Inl ErrInvalidBankRefundID
        else if \<not> blank refKey then Inl ErrInvalidBankOperationKey
        else if \<not> blank voidID then Inl ErrInvalidBankVoidID
        else if \<not> blank voidKey then Inl ErrInvalidBankOperationKey
        else newPayment pid order customer amount st [] 0 authKey cardFp
               [] [] [] [] [] [] reason created
      else if st = PaymentStatusCaptured then
        if reason \<noteq> [] then Inl ErrInvalidDeclineReason
        else if blank capID then Inl ErrInvalidBankCaptureID
        else if blank capKey then Inl ErrInvalidBankOperationKey
        else if \<not> blank refID then Inl ErrInvalidBankRefundID
        else if \<not> blank voidID then Inl ErrInvalidBankVoidID
        else if \<not> blank voidKey then Inl ErrInvalidBankOperationKey
        else newPayment pid order customer amount st authID expiresAt authKey cardFp
               capID capKey [] refKey [] [] [] created
      else if st = PaymentStatusVoided then
        if reason \<noteq> [] then Inl ErrInvalidDeclineReason
        else if \<not> blank capID then Inl ErrInvalidBankCaptureID
        else if \<not> blank capKey then Inl ErrInvalidBankOperationKey
        else if \<not> blank refID then Inl ErrInvalidBankRefundID
        else if \<not> blank refKey then Inl ErrInvalidBankOperationKey
        else if blank voidID then Inl ErrInvalidBankVoidID
        else if blank voidKey then Inl ErrInvalidBankOperationKey
        else newPayment pid order customer amount st authID expiresAt authKey cardFp
               [] [] [] [] voidID voidKey [] created
      else if st = PaymentStatusRefunded then
        if reason \<noteq> [] then Inl ErrInvalidDeclineReason
        else if blank refID then Inl ErrInvalidBankRefundID
        else if blank refKey then Inl ErrInvalidBankOperationKey
        else if blank capID then Inl ErrInvalidBankCaptureID
        else if blank capKey then Inl ErrInvalidBankOperationKey
        else if \<not> blank voidID then Inl ErrInvalidBankVoidID
        else if \<not> blank voidKey then Inl ErrInvalidBankOperationKey
        else newPayment pid order customer amount st authID expiresAt authKey cardFp
               capID capKey refID refKey [] [] [] created
      else Inl ErrInvalidPaymentStatus)
     (\<lambda>payment. Inr (payment\<lparr>updatedAt := updated\<rparr>)))"

subsection \<open>Lifecycle methods\<close>

definition MarkAuthorized :: "string \<Rightarrow> time \<Rightarrow> time \<Rightarrow> Payment \<Rightarrow> domain_error + Payment" where
  "MarkAuthorized authID expiresAt now p =
   (if status p \<noteq> PaymentStatusPending then Inl ErrInvalidPaymentStatus else
    bind_result (normalizeRequired authID ErrInvalidBankAuthorizationID) (\<lambda>authID.
    if IsZero now then Inl ErrInvalidPaymentTimestamp
    else if IsZero expiresAt then Inl ErrInvalidAuthorizationExpirationTime
    else Inr (p\<lparr>status := PaymentStatusAuthorized, bankAuthorizationID := authID,
                authorizationExpiresAt := expiresAt, declineReason := [], updatedAt := now\<rparr>)))"

definition MarkExpired :: "time \<Rightarrow> Payment \<Rightarrow> domain_error + Payment" where
  "MarkExpired now p =
   (if status p \<noteq> PaymentStatusAuthorized then Inl ErrInvalidPaymentStatus
    else if IsZero now then Inl ErrInvalidPaymentTimestamp
    else Inr (p\<lparr>status := PaymentStatusExpired, captureBankOperationKey := [],
                voidBankOperationKey := [], updatedAt := now\<rparr>))"

definition MarkDeclined :: "DeclineReason \<Rightarrow> time \<Rightarrow> Payment \<Rightarrow> domain_error + Payment" where
  "MarkDeclined reason now p =
   (if status p \<noteq> PaymentStatusPending then Inl ErrInvalidPaymentStatus else
    case validateDeclineReason reason of Some e \<Rightarrow> Inl e | None \<Rightarrow>
    if IsZero now then Inl ErrInvalidPaymentTimestamp
    else Inr (p\<lparr>status := PaymentStatusDeclined, bankAuthorizationID := [],
                authorizationExpiresAt := 0, declineReason := reason, updatedAt := now\<rparr>))"

definition MarkCaptured :: "string \<Rightarrow> time \<Rightarrow> Payment \<Rightarrow> domain_error + Payment" where
  "MarkCaptured capID now p =
   (if status p \<noteq> PaymentStatusAuthorized then Inl ErrInvalidPaymentStatus else
    bind_result (normalizeRequired capID ErrInvalidBankCaptureID) (\<lambda>capID.
    if IsZero now then Inl ErrInvalidPaymentTimestamp
    else Inr (p\<lparr>status := PaymentStatusCaptured, bankCaptureID := capID,
                voidBankOperationKey := [], updatedAt := now\<rparr>)))"

definition SetCaptureBankOperationKey :: "string \<Rightarrow> Payment \<Rightarrow> domain_error + Payment" where
  "SetCaptureBankOperationKey key p =
   (if status p \<noteq> PaymentStatusAuthorized then Inl ErrInvalidPaymentStatus else
    bind_result (normalizeRequired key ErrInvalidBankOperationKey) (\<lambda>key.
    Inr (p\<lparr>captureBankOperationKey := key\<rparr>)))"

definition MarkVoided :: "string \<Rightarrow> time \<Rightarrow> Payment \<Rightarrow> domain_error + Payment" where
  "MarkVoided voidID now p =
   (if status p \<noteq> PaymentStatusAuthorized then Inl ErrInvalidPaymentStatus else
    bind_result (normalizeRequired voidID ErrInvalidBankVoidID) (\<lambda>voidID.
    if IsZero now then Inl ErrInvalidPaymentTimestamp
    else Inr (p\<lparr>status := PaymentStatusVoided, bankVoidID := voidID,
                captureBankOperationKey := [], declineReason := [], updatedAt := now\<rparr>)))"

definition SetVoidBankOperationKey :: "string \<Rightarrow> Payment \<Rightarrow> domain_error + Payment" where
  "SetVoidBankOperationKey key p =
   (if status p \<noteq> PaymentStatusAuthorized then Inl ErrInvalidPaymentStatus else
    bind_result (normalizeRequired key ErrInvalidBankOperationKey) (\<lambda>key.
    Inr (p\<lparr>voidBankOperationKey := key\<rparr>)))"

definition MarkRefunded :: "string \<Rightarrow> time \<Rightarrow> Payment \<Rightarrow> domain_error + Payment" where
  "MarkRefunded refID now p =
   (if status p \<noteq> PaymentStatusCaptured then Inl ErrInvalidPaymentStatus else
    bind_result (normalizeRequired refID ErrInvalidBankRefundID) (\<lambda>refID.
    if IsZero now then Inl ErrInvalidPaymentTimestamp
    else Inr (p\<lparr>status := PaymentStatusRefunded, bankRefundID := refID, updatedAt := now\<rparr>)))"

definition SetRefundBankOperationKey :: "string \<Rightarrow> Payment \<Rightarrow> domain_error + Payment" where
  "SetRefundBankOperationKey key p =
   (if status p \<noteq> PaymentStatusCaptured then Inl ErrInvalidPaymentStatus else
    bind_result (normalizeRequired key ErrInvalidBankOperationKey) (\<lambda>key.
    Inr (p\<lparr>refundBankOperationKey := key\<rparr>)))"

lemmas lifecycle_defs =
  MarkAuthorized_def MarkExpired_def MarkDeclined_def MarkCaptured_def MarkVoided_def
  MarkRefunded_def SetCaptureBankOperationKey_def SetVoidBankOperationKey_def
  SetRefundBankOperationKey_def

lemmas [go_eval] = newPayment_def NewPendingPayment_def LoadPayment_def lifecycle_defs IsZero_def

subsection \<open>The type invariant\<close>

definition normalized :: "string \<Rightarrow> bool" where
  "normalized s \<longleftrightarrow> TrimSpace s = s"

text \<open>What every constructor establishes whatever the status.\<close>

definition payment_base_wf :: "Payment \<Rightarrow> bool" where
  "payment_base_wf p \<longleftrightarrow>
     validatePaymentID (p_id p) = None \<and>
     normalized (orderID p) \<and> orderID p \<noteq> [] \<and> normalized (customerID p) \<and> customerID p \<noteq> [] \<and>
     0 < amountCents p \<and> currency p = CurrencyUSD \<and>
     normalized (authorizationBankOperationKey p) \<and> authorizationBankOperationKey p \<noteq> [] \<and>
     normalized (authorizationCardFingerprint p) \<and> authorizationCardFingerprint p \<noteq> [] \<and>
     normalized (bankAuthorizationID p) \<and> normalized (bankCaptureID p) \<and>
     normalized (captureBankOperationKey p) \<and> normalized (bankRefundID p) \<and>
     normalized (refundBankOperationKey p) \<and> normalized (bankVoidID p) \<and>
     normalized (voidBankOperationKey p) \<and>
     (bankAuthorizationID p = [] \<longleftrightarrow> authorizationExpiresAt p = 0) \<and>
     createdAt p \<noteq> 0 \<and> updatedAt p \<noteq> 0"

text \<open>Which bank references and keys a payment of each status carries.\<close>

definition payment_status_wf :: "Payment \<Rightarrow> bool" where
  "payment_status_wf p \<longleftrightarrow>
     (let auth = bankAuthorizationID p \<noteq> []; cap = bankCaptureID p \<noteq> [];
          capKey = captureBankOperationKey p \<noteq> []; ref = bankRefundID p \<noteq> [];
          refKey = refundBankOperationKey p \<noteq> []; void = bankVoidID p \<noteq> [];
          voidKey = voidBankOperationKey p \<noteq> []; reason = declineReason p
      in
      (status p = PaymentStatusPending \<and>
         \<not> auth \<and> \<not> cap \<and> \<not> capKey \<and> \<not> ref \<and> \<not> refKey \<and> \<not> void \<and> \<not> voidKey \<and> reason = []) \<or>
      (status p = PaymentStatusAuthorized \<and>
         auth \<and> \<not> cap \<and> \<not> ref \<and> \<not> refKey \<and> \<not> void \<and> reason = []) \<or>
      (status p = PaymentStatusExpired \<and>
         auth \<and> \<not> cap \<and> \<not> capKey \<and> \<not> ref \<and> \<not> refKey \<and> \<not> void \<and> \<not> voidKey \<and> reason = []) \<or>
      (status p = PaymentStatusDeclined \<and>
         \<not> auth \<and> \<not> cap \<and> \<not> capKey \<and> \<not> ref \<and> \<not> refKey \<and> \<not> void \<and> \<not> voidKey \<and>
         valid_decline_reason reason) \<or>
      (status p = PaymentStatusCaptured \<and>
         auth \<and> cap \<and> capKey \<and> \<not> ref \<and> \<not> void \<and> \<not> voidKey \<and> reason = []) \<or>
      (status p = PaymentStatusVoided \<and>
         auth \<and> \<not> cap \<and> \<not> capKey \<and> \<not> ref \<and> \<not> refKey \<and> void \<and> voidKey \<and> reason = []) \<or>
      (status p = PaymentStatusRefunded \<and>
         auth \<and> cap \<and> capKey \<and> ref \<and> refKey \<and> \<not> void \<and> \<not> voidKey \<and> reason = []))"

definition payment_wf :: "Payment \<Rightarrow> bool" where
  "payment_wf p \<longleftrightarrow> payment_base_wf p \<and> payment_status_wf p"

lemmas wf_defs = payment_wf_def payment_base_wf_def payment_status_wf_def Let_def

subsection \<open>Normalization and the constructors\<close>

lemma normalizeRequired_Inr_iff [simp]:
  "normalizeRequired v e = Inr w \<longleftrightarrow> w = TrimSpace v \<and> TrimSpace v \<noteq> []"
  by (auto simp: normalizeRequired_def)

lemma normalizeIfPresent_Inr_iff [simp]:
  "normalizeIfPresent v e = Inr w \<longleftrightarrow> w = TrimSpace v \<and> (v = [] \<or> TrimSpace v \<noteq> [])"
  by (auto simp: normalizeIfPresent_def)

lemma normalized_TrimSpace [simp]: "normalized (TrimSpace s)"
  by (simp add: normalized_def)

lemma normalized_Nil [simp]: "normalized []"
  by (simp add: normalized_def)

lemma newPayment_Inr_iff:
  "newPayment pid order customer amount st authID expiresAt authKey cardFp
     capID capKey refID refKey voidID voidKey reason now = Inr p \<longleftrightarrow>
   validatePaymentID pid = None \<and> \<not> blank order \<and> \<not> blank customer \<and> 0 < amount \<and>
   \<not> blank authKey \<and> \<not> blank cardFp \<and>
   (authID = [] \<or> \<not> blank authID) \<and> (authID = [] \<longleftrightarrow> expiresAt = 0) \<and>
   (capID = [] \<or> \<not> blank capID) \<and> (capKey = [] \<or> \<not> blank capKey) \<and>
   (refID = [] \<or> \<not> blank refID) \<and> (refKey = [] \<or> \<not> blank refKey) \<and>
   (voidID = [] \<or> \<not> blank voidID) \<and> (voidKey = [] \<or> \<not> blank voidKey) \<and> now \<noteq> 0 \<and>
   p = \<lparr>p_id = pid, orderID = TrimSpace order, customerID = TrimSpace customer,
        amountCents = amount, currency = CurrencyUSD, status = st,
        bankAuthorizationID = TrimSpace authID, authorizationExpiresAt = expiresAt,
        authorizationBankOperationKey = TrimSpace authKey,
        authorizationCardFingerprint = TrimSpace cardFp, bankCaptureID = TrimSpace capID,
        captureBankOperationKey = TrimSpace capKey, bankRefundID = TrimSpace refID,
        refundBankOperationKey = TrimSpace refKey, bankVoidID = TrimSpace voidID,
        voidBankOperationKey = TrimSpace voidKey, declineReason = reason,
        createdAt = now, updatedAt = now\<rparr>"
  by (cases "validatePaymentID pid"; cases "authID = []"; cases "expiresAt = 0")
     (simp_all add: newPayment_def bind_result_Inr_iff IsZero_def not_le eq_commute [of _ p] cong: conj_cong)

lemma newPayment_base_wf:
  "newPayment pid order customer amount st authID expiresAt authKey cardFp
     capID capKey refID refKey voidID voidKey reason now = Inr p \<Longrightarrow> payment_base_wf p"
  by (auto simp: newPayment_Inr_iff payment_base_wf_def)

lemma NewPendingPayment_Inr_iff:
  "NewPendingPayment pid order customer amount authKey cardFp now = Inr p \<longleftrightarrow>
   validatePaymentID pid = None \<and> \<not> blank order \<and> \<not> blank customer \<and> 0 < amount \<and>
   \<not> blank authKey \<and> \<not> blank cardFp \<and> now \<noteq> 0 \<and>
   p = \<lparr>p_id = pid, orderID = TrimSpace order, customerID = TrimSpace customer,
        amountCents = amount, currency = CurrencyUSD, status = PaymentStatusPending,
        bankAuthorizationID = [], authorizationExpiresAt = 0,
        authorizationBankOperationKey = TrimSpace authKey,
        authorizationCardFingerprint = TrimSpace cardFp, bankCaptureID = [],
        captureBankOperationKey = [], bankRefundID = [], refundBankOperationKey = [],
        bankVoidID = [], voidBankOperationKey = [], declineReason = [],
        createdAt = now, updatedAt = now\<rparr>"
  by (auto simp: NewPendingPayment_def newPayment_Inr_iff)

lemma NewPendingPayment_wf:
  "NewPendingPayment pid order customer amount authKey cardFp now = Inr p \<Longrightarrow>
   payment_wf p \<and> status p = PaymentStatusPending"
  by (auto simp: NewPendingPayment_Inr_iff wf_defs)

text \<open>\<open>LoadPayment\<close> applied to the fields of a payment, as the store does it.\<close>

definition load_fields :: "Payment \<Rightarrow> domain_error + Payment" where
  "load_fields p =
     LoadPayment (p_id p) (orderID p) (customerID p) (amountCents p) (currency p) (status p)
       (bankAuthorizationID p) (authorizationExpiresAt p) (authorizationBankOperationKey p)
       (authorizationCardFingerprint p) (bankCaptureID p) (captureBankOperationKey p)
       (bankRefundID p) (refundBankOperationKey p) (bankVoidID p) (voidBankOperationKey p)
       (declineReason p) (createdAt p) (updatedAt p)"

lemma payment_wf_cases [consumes 1, case_names Pending Authorized Expired Declined Captured Voided Refunded]:
  assumes "payment_wf p"
  obtains "status p = PaymentStatusPending" | "status p = PaymentStatusAuthorized"
    | "status p = PaymentStatusExpired" | "status p = PaymentStatusDeclined"
    | "status p = PaymentStatusCaptured" | "status p = PaymentStatusVoided"
    | "status p = PaymentStatusRefunded"
  using assms by (auto simp: wf_defs)

lemma load_fields_wf: "payment_wf p \<Longrightarrow> load_fields p = Inr p"
  by (cases rule: payment_wf_cases, assumption)
     (auto simp add: load_fields_def LoadPayment_def NewPendingPayment_def newPayment_Inr_iff
                 bind_result_Inr_iff wf_defs normalized_def IsZero_def)

end
