(* ===== verification/Payment_Lifecycle.thy ===== *)
theory Payment_Lifecycle
  imports Payment_Domain
begin

text \<open>
  The payment lifecycle as a transition system: the steps are the calls of the methods of
  \<^verbatim>\<open>Payment\<close> that succeed.  The lemmas show which methods keep the type invariant and under
  what condition, that a step follows an edge of the lifecycle and changes no identifying
  field, and, by the invariant rule of the prelude, that every payment reached from
  \<^verbatim>\<open>NewPendingPayment\<close> is well formed.
\<close>

subsection \<open>Steps\<close>

inductive lifecycle_call :: "Payment \<Rightarrow> Payment \<Rightarrow> bool" where
  call_MarkAuthorized: "MarkAuthorized a e n p = Inr q \<Longrightarrow> lifecycle_call p q"
| call_MarkExpired: "MarkExpired n p = Inr q \<Longrightarrow> lifecycle_call p q"
| call_MarkDeclined: "MarkDeclined r n p = Inr q \<Longrightarrow> lifecycle_call p q"
| call_MarkCaptured: "MarkCaptured c n p = Inr q \<Longrightarrow> lifecycle_call p q"
| call_MarkVoided: "MarkVoided v n p = Inr q \<Longrightarrow> lifecycle_call p q"
| call_MarkRefunded: "MarkRefunded r n p = Inr q \<Longrightarrow> lifecycle_call p q"
| call_SetCaptureBankOperationKey: "SetCaptureBankOperationKey k p = Inr q \<Longrightarrow> lifecycle_call p q"
| call_SetVoidBankOperationKey: "SetVoidBankOperationKey k p = Inr q \<Longrightarrow> lifecycle_call p q"
| call_SetRefundBankOperationKey: "SetRefundBankOperationKey k p = Inr q \<Longrightarrow> lifecycle_call p q"

inductive_cases lifecycle_callE: "lifecycle_call p q"

text \<open>
  The methods that record a bank result do not ask for the key of the bank operation: the
  service only calls them on a payment its claim gave one.
\<close>

definition bank_key_claimed :: "Payment \<Rightarrow> Payment \<Rightarrow> bool" where
  "bank_key_claimed p q \<longleftrightarrow>
     (status q = PaymentStatusCaptured \<longrightarrow> captureBankOperationKey p \<noteq> []) \<and>
     (status q = PaymentStatusVoided \<longrightarrow> voidBankOperationKey p \<noteq> []) \<and>
     (status q = PaymentStatusRefunded \<longrightarrow> refundBankOperationKey p \<noteq> [])"

definition lifecycle_step :: "Payment \<Rightarrow> Payment \<Rightarrow> bool" where
  "lifecycle_step p q \<longleftrightarrow> lifecycle_call p q \<and> bank_key_claimed p q"

definition lifecycle_start :: "Payment \<Rightarrow> bool" where
  "lifecycle_start p \<longleftrightarrow>
     (\<exists>pid order customer amount authKey cardFp now.
        NewPendingPayment pid order customer amount authKey cardFp now = Inr p)"

subsection \<open>The methods keep the invariant\<close>

text \<open>A successful call, as an equation for the payment it leaves.\<close>

lemma MarkAuthorized_Inr_iff:
  "MarkAuthorized authID expiresAt now p = Inr q \<longleftrightarrow>
   status p = PaymentStatusPending \<and> \<not> blank authID \<and> now \<noteq> 0 \<and> expiresAt \<noteq> 0 \<and>
   q = p\<lparr>status := PaymentStatusAuthorized, bankAuthorizationID := TrimSpace authID,
         authorizationExpiresAt := expiresAt, declineReason := [], updatedAt := now\<rparr>"
  by (auto simp: MarkAuthorized_def bind_result_Inr_iff IsZero_def)

lemma MarkExpired_Inr_iff:
  "MarkExpired now p = Inr q \<longleftrightarrow>
   status p = PaymentStatusAuthorized \<and> now \<noteq> 0 \<and>
   q = p\<lparr>status := PaymentStatusExpired, captureBankOperationKey := [],
         voidBankOperationKey := [], updatedAt := now\<rparr>"
  by (auto simp: MarkExpired_def IsZero_def)

lemma MarkDeclined_Inr_iff:
  "MarkDeclined reason now p = Inr q \<longleftrightarrow>
   status p = PaymentStatusPending \<and> valid_decline_reason reason \<and> now \<noteq> 0 \<and>
   q = p\<lparr>status := PaymentStatusDeclined, bankAuthorizationID := [],
         authorizationExpiresAt := 0, declineReason := reason, updatedAt := now\<rparr>"
  by (auto simp: MarkDeclined_def validateDeclineReason_def IsZero_def)

lemma MarkCaptured_Inr_iff:
  "MarkCaptured capID now p = Inr q \<longleftrightarrow>
   status p = PaymentStatusAuthorized \<and> \<not> blank capID \<and> now \<noteq> 0 \<and>
   q = p\<lparr>status := PaymentStatusCaptured, bankCaptureID := TrimSpace capID,
         voidBankOperationKey := [], updatedAt := now\<rparr>"
  by (auto simp: MarkCaptured_def bind_result_Inr_iff IsZero_def)

lemma MarkVoided_Inr_iff:
  "MarkVoided voidID now p = Inr q \<longleftrightarrow>
   status p = PaymentStatusAuthorized \<and> \<not> blank voidID \<and> now \<noteq> 0 \<and>
   q = p\<lparr>status := PaymentStatusVoided, bankVoidID := TrimSpace voidID,
         captureBankOperationKey := [], declineReason := [], updatedAt := now\<rparr>"
  by (auto simp: MarkVoided_def bind_result_Inr_iff IsZero_def)

lemma MarkRefunded_Inr_iff:
  "MarkRefunded refID now p = Inr q \<longleftrightarrow>
   status p = PaymentStatusCaptured \<and> \<not> blank refID \<and> now \<noteq> 0 \<and>
   q = p\<lparr>status := PaymentStatusRefunded, bankRefundID := TrimSpace refID, updatedAt := now\<rparr>"
  by (auto simp: MarkRefunded_def bind_result_Inr_iff IsZero_def)

lemma SetBankOperationKey_Inr_iff:
  "SetCaptureBankOperationKey key p = Inr q \<longleftrightarrow>
     status p = PaymentStatusAuthorized \<and> \<not> blank key \<and> q = p\<lparr>captureBankOperationKey := TrimSpace key\<rparr>"
  "SetVoidBankOperationKey key p = Inr q \<longleftrightarrow>
     status p = PaymentStatusAuthorized \<and> \<not> blank key \<and> q = p\<lparr>voidBankOperationKey := TrimSpace key\<rparr>"
  "SetRefundBankOperationKey key p = Inr q \<longleftrightarrow>
     status p = PaymentStatusCaptured \<and> \<not> blank key \<and> q = p\<lparr>refundBankOperationKey := TrimSpace key\<rparr>"
  by (auto simp: SetCaptureBankOperationKey_def SetVoidBankOperationKey_def
      SetRefundBankOperationKey_def bind_result_Inr_iff)

lemmas lifecycle_iffs =
  MarkAuthorized_Inr_iff MarkExpired_Inr_iff MarkDeclined_Inr_iff MarkCaptured_Inr_iff
  MarkVoided_Inr_iff MarkRefunded_Inr_iff SetBankOperationKey_Inr_iff

text \<open>What a well-formed payment of the statuses the methods start from looks like.\<close>

lemma wf_PendingD:
  "payment_wf p \<Longrightarrow> status p = PaymentStatusPending \<Longrightarrow>
   payment_base_wf p \<and> bankAuthorizationID p = [] \<and> bankCaptureID p = [] \<and>
   captureBankOperationKey p = [] \<and> bankRefundID p = [] \<and> refundBankOperationKey p = [] \<and>
   bankVoidID p = [] \<and> voidBankOperationKey p = [] \<and> declineReason p = []"
  by (simp add: payment_wf_def payment_status_wf_def Let_def)

lemma wf_AuthorizedD:
  "payment_wf p \<Longrightarrow> status p = PaymentStatusAuthorized \<Longrightarrow>
   payment_base_wf p \<and> bankAuthorizationID p \<noteq> [] \<and> bankCaptureID p = [] \<and> bankRefundID p = [] \<and>
   refundBankOperationKey p = [] \<and> bankVoidID p = [] \<and> declineReason p = []"
  by (simp add: payment_wf_def payment_status_wf_def Let_def)

lemma wf_CapturedD:
  "payment_wf p \<Longrightarrow> status p = PaymentStatusCaptured \<Longrightarrow>
   payment_base_wf p \<and> bankAuthorizationID p \<noteq> [] \<and> bankCaptureID p \<noteq> [] \<and>
   captureBankOperationKey p \<noteq> [] \<and> bankRefundID p = [] \<and> bankVoidID p = [] \<and>
   voidBankOperationKey p = [] \<and> declineReason p = []"
  by (simp add: payment_wf_def payment_status_wf_def Let_def)

lemma lifecycle_step_wf:
  assumes "payment_wf p" "lifecycle_step p q"
  shows "payment_wf q"
  using assms unfolding lifecycle_step_def
  by (elim conjE lifecycle_callE)
     (auto simp: lifecycle_iffs bank_key_claimed_def wf_defs)

subsection \<open>Edges, terminal statuses and fields that never change\<close>

definition lifecycle_edges :: "(PaymentStatus \<times> PaymentStatus) list" where
  "lifecycle_edges =
     [(PaymentStatusPending, PaymentStatusAuthorized), (PaymentStatusPending, PaymentStatusDeclined),
      (PaymentStatusAuthorized, PaymentStatusExpired), (PaymentStatusAuthorized, PaymentStatusCaptured),
      (PaymentStatusAuthorized, PaymentStatusVoided), (PaymentStatusCaptured, PaymentStatusRefunded)]"

definition terminal_statuses :: "PaymentStatus list" where
  "terminal_statuses =
     [PaymentStatusExpired, PaymentStatusDeclined, PaymentStatusVoided, PaymentStatusRefunded]"

lemma lifecycle_call_edge:
  "lifecycle_call p q \<Longrightarrow> (status p, status q) \<in> set lifecycle_edges \<or>
     status q = status p \<and> status p \<in> {PaymentStatusAuthorized, PaymentStatusCaptured}"
  by (elim lifecycle_callE) (auto simp: lifecycle_iffs lifecycle_edges_def)

lemma lifecycle_call_frame:
  "lifecycle_call p q \<Longrightarrow>
   p_id q = p_id p \<and> orderID q = orderID p \<and> customerID q = customerID p \<and>
   amountCents q = amountCents p \<and> currency q = currency p \<and>
   authorizationBankOperationKey q = authorizationBankOperationKey p \<and>
   authorizationCardFingerprint q = authorizationCardFingerprint p \<and> createdAt q = createdAt p"
  by (elim lifecycle_callE) (auto simp: lifecycle_iffs)

lemma terminal_no_call: "status p \<in> set terminal_statuses \<Longrightarrow> \<not> lifecycle_call p q"
  by (auto dest!: lifecycle_call_edge simp: lifecycle_edges_def terminal_statuses_def)

interpretation lifecycle: invariant_system lifecycle_start lifecycle_step payment_wf
  by unfold_locales (auto simp: lifecycle_start_def dest: NewPendingPayment_wf lifecycle_step_wf)

text \<open>The same invariant rule for the frame: a step keeps the identity of the payment.\<close>

lemma lifecycle_calls_frame:
  "lifecycle_call\<^sup>*\<^sup>* p q \<Longrightarrow>
   p_id q = p_id p \<and> orderID q = orderID p \<and> customerID q = customerID p \<and>
   amountCents q = amountCents p \<and> currency q = currency p \<and>
   authorizationBankOperationKey q = authorizationBankOperationKey p \<and>
   authorizationCardFingerprint q = authorizationCardFingerprint p \<and> createdAt q = createdAt p"
  by (induction rule: rtranclp_induct) (auto dest: lifecycle_call_frame)

subsection \<open>Properties\<close>

text \<open>C31: every payment the methods can produce from \<^verbatim>\<open>NewPendingPayment\<close>, with each bank result
  recorded only where its operation key was set before, is well formed: its identifiers are
  trimmed, and it carries exactly the bank references, keys and decline reason its status calls for.\<close>

theorem reachable_payment_wf:
  "reachable lifecycle_start lifecycle_step p \<Longrightarrow> payment_wf p"
  by (rule lifecycle.reachable_inv)

text \<open>A method that succeeds moves the status along an edge of the lifecycle (or sets a bank
  operation key of an authorized or captured payment), and never changes the id, order, customer,
  amount, currency, authorization key, card fingerprint or creation time.\<close>

theorem lifecycle_call_safe:
  "lifecycle_call p q \<Longrightarrow>
   ((status p, status q) \<in> set lifecycle_edges \<or>
    status q = status p \<and> status p \<in> {PaymentStatusAuthorized, PaymentStatusCaptured}) \<and>
   p_id q = p_id p \<and> orderID q = orderID p \<and> customerID q = customerID p \<and>
   amountCents q = amountCents p \<and> currency q = currency p \<and>
   authorizationBankOperationKey q = authorizationBankOperationKey p \<and>
   authorizationCardFingerprint q = authorizationCardFingerprint p \<and> createdAt q = createdAt p"
  by (intro conjI lifecycle_call_edge) (simp_all add: lifecycle_call_frame)

text \<open>Expired, declined, voided and refunded are terminal: every method fails on such a
  payment, so no sequence of calls leaves it.\<close>

theorem terminal_status_final:
  "status p \<in> set terminal_statuses \<Longrightarrow> lifecycle_call\<^sup>*\<^sup>* p q \<Longrightarrow> q = p"
  by (metis converse_rtranclpE terminal_no_call)

text \<open>A payment taken through authorization and capture, for the witnesses.\<close>

definition example_id :: PaymentID where
  [go_eval]: "example_id = ''pay_123e4567-e89b-12d3-a456-426614174000''"

definition example_pending :: Payment where
  "example_pending =
     \<lparr>p_id = example_id, orderID = ''order-1'', customerID = ''customer-1'', amountCents = 5000,
      currency = CurrencyUSD, status = PaymentStatusPending, bankAuthorizationID = [],
      authorizationExpiresAt = 0, authorizationBankOperationKey = ''op-auth'',
      authorizationCardFingerprint = ''fp'', bankCaptureID = [], captureBankOperationKey = [],
      bankRefundID = [], refundBankOperationKey = [], bankVoidID = [], voidBankOperationKey = [],
      declineReason = [], createdAt = 1000, updatedAt = 1000\<rparr>"

definition example_authorized :: Payment where
  "example_authorized = example_pending\<lparr>status := PaymentStatusAuthorized,
     bankAuthorizationID := ''auth-1'', authorizationExpiresAt := 9000, updatedAt := 2000\<rparr>"

definition example_declined :: Payment where
  "example_declined = example_pending\<lparr>status := PaymentStatusDeclined,
     declineReason := DeclineReasonInvalidCard, updatedAt := 2000\<rparr>"

lemma example_id_valid [simp]: "validatePaymentID example_id = None"
  by code_simp

lemma example_trims [simp]:
  "TrimSpace ''order-1'' = ''order-1''" "TrimSpace ''customer-1'' = ''customer-1''"
  "TrimSpace ''op-auth'' = ''op-auth''" "TrimSpace ''fp'' = ''fp''" "TrimSpace ''auth-1'' = ''auth-1''"
  by code_simp+

lemma example_steps:
  "lifecycle_start example_pending"
  "lifecycle_step example_pending example_authorized"
  "lifecycle_call example_pending example_authorized"
proof -
  show "lifecycle_start example_pending"
    unfolding lifecycle_start_def
    by (intro exI [where x = example_id] exI [where x = "''order-1''"] exI [where x = "''customer-1''"]
          exI [where x = 5000] exI [where x = "''op-auth''"] exI [where x = "''fp''"] exI [where x = 1000])
       (simp add: NewPendingPayment_Inr_iff example_pending_def)
  show call: "lifecycle_call example_pending example_authorized"
    by (rule call_MarkAuthorized [of "''auth-1''" 9000 2000])
       (simp add: MarkAuthorized_Inr_iff example_pending_def example_authorized_def)
  then show "lifecycle_step example_pending example_authorized"
    by (simp add: lifecycle_step_def bank_key_claimed_def example_authorized_def)
qed

lemma reachable_payment_wf_witness:
  "reachable lifecycle_start lifecycle_step example_authorized \<and> payment_wf example_authorized"
proof -
  have r: "reachable lifecycle_start lifecycle_step example_authorized"
    by (rule reachable_step [OF reachable_init]) (rule example_steps)+
  with reachable_payment_wf [OF r] show ?thesis by simp
qed

lemma lifecycle_call_safe_witness:
  "lifecycle_call example_pending example_authorized \<and>
   (status example_pending, status example_authorized) \<in> set lifecycle_edges"
  using lifecycle_call_safe [OF example_steps(3)] example_steps(3)
  by (simp add: example_pending_def example_authorized_def)

lemma terminal_status_final_witness:
  "status example_declined \<in> set terminal_statuses \<and>
   lifecycle_call\<^sup>*\<^sup>* example_declined example_declined \<and>
   (lifecycle_call\<^sup>*\<^sup>* example_declined example_authorized \<longleftrightarrow> False)"
proof -
  have t: "status example_declined \<in> set terminal_statuses"
    by (simp add: example_declined_def terminal_statuses_def)
  have "example_authorized \<noteq> example_declined"
    by (simp add: example_authorized_def example_declined_def example_pending_def)
  with t terminal_status_final [OF t, of example_authorized] show ?thesis by blast
qed

end
