(* ===== verification/Go_Effects.thy ===== *)
theory Go_Effects
  imports Payment_Errors
begin

text \<open>
  Stateful Go functions that return \<^verbatim>\<open>(value, error)\<close>: an action maps a state to a result
  and the state it leaves.  \<open>act_bind\<close> is the early return \<^verbatim>\<open>if err != nil { return ..., err }\<close>,
  \<open>act_map_err\<close> wraps the error on the way out.  Also the printable ASCII strings, which
  \<^verbatim>\<open>strings.TrimSpace\<close> leaves alone.
\<close>

type_synonym ('e, 's, 'a) fallible = "'s \<Rightarrow> ('e + 'a) \<times> 's"
type_synonym ('s, 'a) action = "(go_error, 's, 'a) fallible"

definition act_return :: "'a \<Rightarrow> ('e, 's, 'a) fallible" where
  "act_return x s = (Inr x, s)"

definition act_fail :: "'e \<Rightarrow> ('e, 's, 'a) fallible" where
  "act_fail e s = (Inl e, s)"

definition act_bind :: "('e, 's, 'a) fallible \<Rightarrow> ('a \<Rightarrow> ('e, 's, 'b) fallible) \<Rightarrow> ('e, 's, 'b) fallible" where
  "act_bind m f s = (case m s of (Inl e, t) \<Rightarrow> (Inl e, t) | (Inr x, t) \<Rightarrow> f x t)"

definition act_map_err :: "('e \<Rightarrow> 'f) \<Rightarrow> ('e, 's, 'a) fallible \<Rightarrow> ('f, 's, 'a) fallible" where
  "act_map_err g m s = (case m s of (Inl e, t) \<Rightarrow> (Inl (g e), t) | (Inr x, t) \<Rightarrow> (Inr x, t))"

definition act_lift :: "'e + 'a \<Rightarrow> ('e, 's, 'a) fallible" where
  "act_lift r s = (r, s)"

text \<open>A sentinel of the domain package seen as a Go error.\<close>

definition domain_result :: "domain_error + 'a \<Rightarrow> go_error + 'a" where
  "domain_result r = (case r of Inl e \<Rightarrow> Inl (DomainError e) | Inr x \<Rightarrow> Inr x)"

lemma domain_result_simps [simp]:
  "domain_result (Inl e) = Inl (DomainError e)" "domain_result (Inr x) = Inr x"
  by (simp_all add: domain_result_def)

lemma domain_result_Inr_iff [simp]: "domain_result r = Inr x \<longleftrightarrow> r = Inr x"
  by (cases r) auto

lemma act_basic [simp]:
  "act_return x s = (Inr x, s)" "act_fail e s = (Inl e, s)" "act_lift r s = (r, s)"
  by (simp_all add: act_return_def act_fail_def act_lift_def)

lemma act_bind_simps [simp]:
  "m s = (Inl e, t) \<Longrightarrow> act_bind m f s = (Inl e, t)"
  "m s = (Inr x, t) \<Longrightarrow> act_bind m f s = f x t"
  by (simp_all add: act_bind_def)

lemma act_map_err_simps [simp]:
  "m s = (Inl e, t) \<Longrightarrow> act_map_err g m s = (Inl (g e), t)"
  "m s = (Inr x, t) \<Longrightarrow> act_map_err g m s = (Inr x, t)"
  by (simp_all add: act_map_err_def)

lemma act_bind_Inr_iff:
  "act_bind m f s = (Inr y, u) \<longleftrightarrow> (\<exists>x t. m s = (Inr x, t) \<and> f x t = (Inr y, u))"
  by (auto simp: act_bind_def split: prod.splits sum.splits)

lemma act_bind_Inl_iff:
  "act_bind m f s = (Inl e, u) \<longleftrightarrow>
     m s = (Inl e, u) \<or> (\<exists>x t. m s = (Inr x, t) \<and> f x t = (Inl e, u))"
  by (auto simp: act_bind_def split: prod.splits sum.splits)

lemma act_map_err_Inr_iff [simp]: "act_map_err g m s = (Inr y, u) \<longleftrightarrow> m s = (Inr y, u)"
  by (auto simp: act_map_err_def split: prod.splits sum.splits)

lemma act_map_err_Inl_iff:
  "act_map_err g m s = (Inl e, u) \<longleftrightarrow> (\<exists>e'. m s = (Inl e', u) \<and> e = g e')"
  by (auto simp: act_map_err_def split: prod.splits sum.splits)

lemma act_if_Inr_iff:
  "(if c then act_fail e else m) s = (Inr y, u) \<longleftrightarrow> \<not> c \<and> m s = (Inr y, u)"
  by simp

text \<open>The rule for frame conditions: what every step of an action keeps, the action keeps.\<close>

definition act_keeps :: "('s \<Rightarrow> 's \<Rightarrow> bool) \<Rightarrow> ('e, 's, 'a) fallible \<Rightarrow> bool" where
  "act_keeps R m \<longleftrightarrow> (\<forall>s. R s (snd (m s)))"

lemma act_keeps_bind:
  assumes "transp R" "act_keeps R m" "\<And>x. act_keeps R (f x)"
  shows "act_keeps R (act_bind m f)"
  unfolding act_keeps_def
proof
  fix s
  obtain r t where m: "m s = (r, t)" by fastforce
  then have "R s t" using assms(2) by (auto simp: act_keeps_def dest: spec [of _ s])
  then show "R s (snd (act_bind m f s))"
    using assms(1,3) m by (cases r) (auto simp: act_keeps_def dest: transpD)
qed

lemma act_keeps_map_err: "act_keeps R m \<Longrightarrow> act_keeps R (act_map_err g m)"
  by (auto simp: act_keeps_def act_map_err_def split: prod.splits sum.splits) (metis snd_conv)+

lemma act_keeps_pure:
  "reflp R \<Longrightarrow> act_keeps R (act_return x)" "reflp R \<Longrightarrow> act_keeps R (act_fail e)"
  "reflp R \<Longrightarrow> act_keeps R (act_lift r)"
  by (auto simp: act_keeps_def reflp_def)

subsection \<open>Printable strings\<close>

definition printable :: "char \<Rightarrow> bool" where
  "printable c \<longleftrightarrow> char_between CHR 0x21 CHR 0x7E c"

lemma TrimSpace_printable:
  assumes "list_all printable s"
  shows "TrimSpace s = s"
proof (cases "s = []")
  case False
  have front: "\<forall>w \<in> set space_encodings. w \<noteq> [] \<and> \<not> printable (hd w) \<and> \<not> printable (last w)"
    by (simp add: space_encodings_def printable_def char_between_def)
  have p: "printable (hd s)" "printable (last s)"
    using assms False by (auto simp: list_all_iff)
  have "find (\<lambda>w. w \<noteq> [] \<and> prefix w s) space_encodings = None"
    using front p False by (auto simp: find_None_iff prefix_def)
  moreover have "find (\<lambda>w. w \<noteq> [] \<and> prefix w (rev s)) (map rev space_encodings) = None"
  proof -
    have "\<not> prefix (rev w) (rev s)" if "w \<in> set space_encodings" for w
      using front p that by (auto simp: suffix_to_prefix [symmetric] suffix_def)
    then show ?thesis by (auto simp: find_None_iff)
  qed
  ultimately show ?thesis
    by (simp add: TrimSpace_def strip_prefixes_id)
qed simp

end
