(* ===== verification/Hmac_Sha256.thy ===== *)
theory Hmac_Sha256
  imports Go_Effects "HOL-Library.Word"
begin

text \<open>
  The parts of Go's standard library the gateway hashes with: \<^verbatim>\<open>crypto/sha256\<close>,
  \<^verbatim>\<open>crypto/hmac\<close> and \<^verbatim>\<open>encoding/hex\<close>, on byte strings and 32-bit words.  The gateway only
  relies on the digest being a function of secret and payload and on its hexadecimal form
  being 64 lower-case digits, which is what the lemmas show.
\<close>

unbundle bit_operations_syntax

subsection \<open>SHA-256\<close>

text \<open>
  The round constants and the initial value are the first 32 bits of the fractional parts of
  the cube roots of the first 64 primes and of the square roots of the first 8: the low word of
  the integer root of the prime scaled by a power of \<open>2\<close>.
\<close>

definition int_root :: "nat \<Rightarrow> int \<Rightarrow> int" where
  "int_root k n = foldl (\<lambda>r i. if (r + 2 ^ i) ^ k \<le> n then r + 2 ^ i else r) 0 (rev [0..<40])"

definition small_primes :: "nat \<Rightarrow> int list" where
  "small_primes b = map int (filter (\<lambda>n. \<not> list_ex (\<lambda>d. n mod d = 0) [2..<n]) [2..<b])"

definition sha256_K :: "32 word list" where
  "sha256_K = map (\<lambda>p. word_of_int (int_root 3 (p * 2 ^ 96))) (small_primes 312)"

definition sha256_H :: "32 word list" where
  "sha256_H = map (\<lambda>p. word_of_int (int_root 2 (p * 2 ^ 64))) (small_primes 20)"

definition be_bytes :: "nat \<Rightarrow> int \<Rightarrow> string" where
  "be_bytes k n = map (\<lambda>i. char_of (n div 256 ^ (k - 1 - i))) [0..<k]"

definition be_word :: "string \<Rightarrow> 32 word" where
  "be_word bs = foldl (\<lambda>a c. a * 256 + of_int (of_char c)) 0 bs"

definition sha256_pad :: "string \<Rightarrow> string" where
  "sha256_pad msg =
     (let n = length msg; z = (119 - n mod 64) mod 64
      in msg @ [CHR 0x80] @ replicate z (CHR 0x00) @ be_bytes 8 (8 * int n))"

fun chunks :: "nat \<Rightarrow> nat \<Rightarrow> 'a list \<Rightarrow> 'a list list" where
  "chunks 0 k xs = []"
| "chunks (Suc n) k xs = take k xs # chunks n k (drop k xs)"

definition sha256_extend :: "32 word list \<Rightarrow> 32 word list" where
  "sha256_extend ws =
     (let t = length ws; w15 = ws ! (t - 15); w2 = ws ! (t - 2);
          s0 = word_rotr 7 w15 XOR word_rotr 18 w15 XOR drop_bit 3 w15;
          s1 = word_rotr 17 w2 XOR word_rotr 19 w2 XOR drop_bit 10 w2
      in ws @ [ws ! (t - 16) + s0 + ws ! (t - 7) + s1])"

fun sha256_round :: "32 word \<times> 32 word \<Rightarrow> 32 word list \<Rightarrow> 32 word list" where
  "sha256_round (k, w) [a, b, c, d, e, f, g, h] =
     (let s1 = word_rotr 6 e XOR word_rotr 11 e XOR word_rotr 25 e;
          ch = (e AND f) XOR (NOT e AND g);
          t1 = h + s1 + ch + k + w;
          s0 = word_rotr 2 a XOR word_rotr 13 a XOR word_rotr 22 a;
          maj = (a AND b) XOR (a AND c) XOR (b AND c);
          t2 = s0 + maj
      in [t1 + t2, a, b, c, d + t1, e, f, g])"
| "sha256_round kw st = st"

definition sha256_block :: "32 word list \<Rightarrow> string \<Rightarrow> 32 word list" where
  "sha256_block hs blk =
     (let ws = (sha256_extend ^^ 48) (map be_word (chunks 16 4 blk))
      in map2 (+) hs (fold sha256_round (zip sha256_K ws) hs))"

definition sha256_Sum256 :: "string \<Rightarrow> string" where
  "sha256_Sum256 msg =
     (let p = sha256_pad msg
      in concat (map (\<lambda>h. be_bytes 4 (uint h))
           (fold (\<lambda>blk hs. sha256_block hs blk) (chunks (length p div 64) 64 p) sha256_H)))"

subsection \<open>HMAC and hexadecimal encoding\<close>

definition char_xor :: "int \<Rightarrow> char \<Rightarrow> char" where
  "char_xor m c = char_of ((of_char c :: int) XOR m)"

definition hmac_sha256 :: "string \<Rightarrow> string \<Rightarrow> string" where
  "hmac_sha256 key msg =
     (let k0 = (if 64 < length key then sha256_Sum256 key else key);
          k = k0 @ replicate (64 - length k0) (CHR 0x00)
      in sha256_Sum256 (map (char_xor 0x5C) k @ sha256_Sum256 (map (char_xor 0x36) k @ msg)))"

definition hex_digit :: "int \<Rightarrow> char" where
  "hex_digit d = (if d < 10 then char_of (48 + d) else char_of (87 + d))"

definition hex_EncodeToString :: "string \<Rightarrow> string" where
  "hex_EncodeToString bs =
     concat (map (\<lambda>c. [hex_digit (of_char c div 16), hex_digit (of_char c mod 16)]) bs)"

subsection \<open>The shape of a digest\<close>

definition lower_hex :: "char \<Rightarrow> bool" where
  "lower_hex c \<longleftrightarrow> char_between CHR ''0'' CHR ''9'' c \<or> char_between CHR ''a'' CHR ''f'' c"

lemma length_be_bytes [simp]: "length (be_bytes k n) = k"
  by (simp add: be_bytes_def)

lemma length_sha256_H: "length sha256_H = 8"
proof -
  have "length (small_primes 20) = 8" by code_simp
  then show ?thesis by (simp add: sha256_H_def)
qed

lemma length_sha256_round [simp]: "length (sha256_round kw st) = length st"
  by (cases "(kw, st)" rule: sha256_round.cases) (simp_all add: Let_def)

lemma length_sha256_block: "length hs = 8 \<Longrightarrow> length (sha256_block hs blk) = 8"
proof -
  assume "length hs = 8"
  moreover have "length (fold sha256_round kws st) = length st" for kws st
    by (induction kws arbitrary: st) auto
  ultimately show ?thesis by (simp add: sha256_block_def Let_def)
qed

lemma length_sha256_Sum256 [simp]: "length (sha256_Sum256 msg) = 32"
proof -
  have "length (fold (\<lambda>blk hs. sha256_block hs blk) bs hs) = 8" if "length hs = 8" for bs hs
    using that by (induction bs arbitrary: hs) (auto simp: length_sha256_block)
  then have "length (fold (\<lambda>blk hs. sha256_block hs blk) bs sha256_H) = 8" for bs
    by (simp add: length_sha256_H)
  moreover have "length (concat (map (\<lambda>h. be_bytes 4 (uint h)) hs)) = 4 * length hs" for hs :: "32 word list"
    by (induction hs) auto
  ultimately show ?thesis by (simp add: sha256_Sum256_def Let_def)
qed

lemma length_hmac_sha256 [simp]: "length (hmac_sha256 key msg) = 32"
  by (simp add: hmac_sha256_def Let_def)

lemma length_hex [simp]: "length (hex_EncodeToString bs) = 2 * length bs"
  by (induction bs) (auto simp: hex_EncodeToString_def)

lemma lower_hex_digit:
  assumes "0 \<le> d" "d < 16"
  shows "lower_hex (hex_digit d)"
proof -
  from assms have "d \<in> {0, 1, 2, 3, 4, 5, 6, 7, 8, 9, 10, 11, 12, 13, 14, 15}"
    by (simp only: insert_iff empty_iff) presburger
  then show ?thesis
    by (elim insertE emptyE; hypsubst; code_simp)
qed

lemma lower_hex_EncodeToString: "list_all lower_hex (hex_EncodeToString bs)"
proof (induction bs)
  case (Cons c bs)
  have "(of_char c :: int) = of_char c mod 256" by simp
  then have "0 \<le> (of_char c :: int) \<and> (of_char c :: int) < 256"
    by (metis pos_mod_bound pos_mod_sign zero_less_numeral)
  then have "0 \<le> (of_char c :: int) div 16 \<and> (of_char c :: int) div 16 < 16" by linarith
  with Cons show ?case by (simp add: hex_EncodeToString_def lower_hex_digit)
qed (simp add: hex_EncodeToString_def)

lemma hex_nonempty: "bs \<noteq> [] \<Longrightarrow> hex_EncodeToString bs \<noteq> []"
  by (simp add: hex_EncodeToString_def)

lemma TrimSpace_hex: "TrimSpace (hex_EncodeToString bs) = hex_EncodeToString bs"
proof (rule TrimSpace_printable)
  have "printable c" if "lower_hex c" for c
    using that by (auto simp: lower_hex_def printable_def char_between_def)
  then show "list_all printable (hex_EncodeToString bs)"
    using lower_hex_EncodeToString [of bs] by (auto simp: list_all_iff)
qed

end
