(* ===== verification/Payment_Commands.thy ===== *)
theory Payment_Commands
  imports Payment_Lifecycle Hmac_Sha256
begin

text \<open>
  What the application layer accepts and how it identifies a request:
  \<^verbatim>\<open>payment_validation.go\<close>, \<^verbatim>\<open>payment_commands.go\<close> and \<^verbatim>\<open>payment_queries.go\<close> of
  \<^verbatim>\<open>gateway/internal/app\<close>, the identifiers of \<^verbatim>\<open>gateway/internal/uuidgen\<close>, and the
  request and card fingerprints of \<^verbatim>\<open>payment_service.go\<close>.  The lemmas show what a command
  that passed validation satisfies, that every validation failure is an invalid-input error,
  and when two requests have the same fingerprint payload.
\<close>

subsection \<open>Validation\<close>

text \<open>
  \<^verbatim>\<open>allDigits\<close> ranges over code points; one of several bytes is no digit, and neither is any
  of its bytes.
\<close>

definition allDigits :: "string \<Rightarrow> bool" where
  "allDigits val \<longleftrightarrow> val \<noteq> [] \<and> list_all digit_char val"

record cardDetails =
  card_number :: string
  card_cvv :: string
  card_expiryMonth :: int
  card_expiryYear :: int

definition newCardDetails :: "string \<Rightarrow> string \<Rightarrow> int \<Rightarrow> int \<Rightarrow> go_error + cardDetails" where
  "newCardDetails number cvv expiryMonth expiryYear =
   (let card = \<lparr>card_number = TrimSpace number, card_cvv = TrimSpace cvv,
                card_expiryMonth = expiryMonth, card_expiryYear = expiryYear\<rparr>;
        invalid = Inl (NewInvalidPaymentInputError ''card details are invalid'' None)
    in
    if \<not> allDigits (card_number card) \<or> length (card_number card) < 12 \<or> length (card_number card) > 19
      then invalid
    else if \<not> allDigits (card_cvv card) \<or> length (card_cvv card) < 3 \<or> length (card_cvv card) > 4
      then invalid
    else if card_expiryMonth card < 1 \<or> card_expiryMonth card > 12 then invalid
    else if card_expiryYear card \<le> 0 then invalid
    else Inr card)"

definition parsePaymentID :: "string \<Rightarrow> go_error + PaymentID" where
  "parsePaymentID val =
   (case ParsePaymentID (TrimSpace val) of
      Inl err \<Rightarrow> Inl (NewInvalidPaymentInputError ''payment id is invalid'' (Some (DomainError err)))
    | Inr paymentID \<Rightarrow> Inr paymentID)"

definition ensure_result :: "go_error + 'a \<Rightarrow> go_error + 'a" where
  "ensure_result r = (case r of Inl err \<Rightarrow> Inl (ensurePaymentError err) | Inr x \<Rightarrow> Inr x)"

subsection \<open>Commands\<close>

record AuthorizePaymentCommand =
  apc_orderID :: string
  apc_customerID :: string
  apc_amountCents :: int
  apc_card :: cardDetails
  apc_idempotencyKey :: string

record RetryAuthorizationCommand =
  rac_paymentID :: PaymentID
  rac_card :: cardDetails
  rac_idempotencyKey :: string

record CapturePaymentCommand =
  cpc_paymentID :: PaymentID
  cpc_idempotencyKey :: string

record VoidPaymentCommand =
  vpc_paymentID :: PaymentID
  vpc_idempotencyKey :: string

record RefundPaymentCommand =
  rpc_paymentID :: PaymentID
  rpc_idempotencyKey :: string

definition NewAuthorizePaymentCommand ::
  "string \<Rightarrow> string \<Rightarrow> int \<Rightarrow> string \<Rightarrow> string \<Rightarrow> int \<Rightarrow> int \<Rightarrow> string \<Rightarrow> go_error + AuthorizePaymentCommand" where
  "NewAuthorizePaymentCommand order customer amount cardNumber cardCVV month year key =
   (let order = TrimSpace order; customer = TrimSpace customer; key = TrimSpace key in
    if key = [] then Inl (NewInvalidPaymentInputError ''idempotency key is required'' None)
    else if order = [] then Inl (NewInvalidPaymentInputError ''order id is required'' None)
    else if customer = [] then Inl (NewInvalidPaymentInputError ''customer id is required'' None)
    else if amount \<le> 0 then Inl (NewInvalidPaymentInputError ''amount must be greater than zero'' None)
    else bind_result (ensure_result (newCardDetails cardNumber cardCVV month year)) (\<lambda>card.
      Inr \<lparr>apc_orderID = order, apc_customerID = customer, apc_amountCents = amount,
           apc_card = card, apc_idempotencyKey = key\<rparr>))"

definition NewRetryAuthorizationCommand ::
  "string \<Rightarrow> string \<Rightarrow> string \<Rightarrow> int \<Rightarrow> int \<Rightarrow> string \<Rightarrow> go_error + RetryAuthorizationCommand" where
  "NewRetryAuthorizationCommand paymentID cardNumber cardCVV month year key =
   (let key = TrimSpace key in
    if key = [] then Inl (NewInvalidPaymentInputError ''idempotency key is required'' None)
    else bind_result (ensure_result (parsePaymentID paymentID)) (\<lambda>pid.
      bind_result (ensure_result (newCardDetails cardNumber cardCVV month year)) (\<lambda>card.
      Inr \<lparr>rac_paymentID = pid, rac_card = card, rac_idempotencyKey = key\<rparr>)))"

definition parsePaymentOperationInput :: "string \<Rightarrow> string \<Rightarrow> go_error + PaymentID \<times> string" where
  "parsePaymentOperationInput paymentID key =
   (let key = TrimSpace key in
    if key = [] then Inl (NewInvalidPaymentInputError ''idempotency key is required'' None)
    else bind_result (parsePaymentID paymentID) (\<lambda>pid. Inr (pid, key)))"

definition NewCapturePaymentCommand :: "string \<Rightarrow> string \<Rightarrow> go_error + CapturePaymentCommand" where
  "NewCapturePaymentCommand paymentID key =
   bind_result (ensure_result (parsePaymentOperationInput paymentID key)) (\<lambda>(pid, key).
     Inr \<lparr>cpc_paymentID = pid, cpc_idempotencyKey = key\<rparr>)"

definition NewVoidPaymentCommand :: "string \<Rightarrow> string \<Rightarrow> go_error + VoidPaymentCommand" where
  "NewVoidPaymentCommand paymentID key =
   bind_result (ensure_result (parsePaymentOperationInput paymentID key)) (\<lambda>(pid, key).
     Inr \<lparr>vpc_paymentID = pid, vpc_idempotencyKey = key\<rparr>)"

definition NewRefundPaymentCommand :: "string \<Rightarrow> string \<Rightarrow> go_error + RefundPaymentCommand" where
  "NewRefundPaymentCommand paymentID key =
   bind_result (ensure_result (parsePaymentOperationInput paymentID key)) (\<lambda>(pid, key).
     Inr \<lparr>rpc_paymentID = pid, rpc_idempotencyKey = key\<rparr>)"

subsection \<open>Queries\<close>

record GetPaymentQuery =
  gpq_paymentID :: PaymentID

record SearchPaymentsQuery =
  spq_orderID :: string
  spq_customerID :: string
  spq_status :: PaymentStatus

definition NewGetPaymentQuery :: "string \<Rightarrow> go_error + GetPaymentQuery" where
  "NewGetPaymentQuery paymentID =
   bind_result (ensure_result (parsePaymentID paymentID)) (\<lambda>pid. Inr \<lparr>gpq_paymentID = pid\<rparr>)"

definition NewSearchPaymentsQuery :: "string \<Rightarrow> string \<Rightarrow> string \<Rightarrow> go_error + SearchPaymentsQuery" where
  "NewSearchPaymentsQuery order customer st =
   (let query = \<lparr>spq_orderID = TrimSpace order, spq_customerID = TrimSpace customer, spq_status = TrimSpace st\<rparr> in
    if spq_orderID query = [] \<and> spq_customerID query = []
      then Inl (NewInvalidPaymentInputError ''order id or customer id is required'' None)
    else if spq_status query \<noteq> [] \<and> \<not> IsValidPaymentStatus (spq_status query)
      then Inl (NewInvalidPaymentInputError ''payment status is invalid'' None)
    else Inr query)"

subsection \<open>Generated identifiers\<close>

text \<open>\<^verbatim>\<open>uuid.NewString()\<close> is a parameter: the \<open>n\<close>-th call returns \<open>uuid n\<close>.\<close>

definition NewPaymentID :: "(nat \<Rightarrow> string) \<Rightarrow> nat \<Rightarrow> PaymentID" where
  "NewPaymentID uuid n = ''pay_'' @ uuid n"

definition NewBankOperationKey :: "(nat \<Rightarrow> string) \<Rightarrow> nat \<Rightarrow> string" where
  "NewBankOperationKey uuid n = ''bok_'' @ uuid n"

subsection \<open>Fingerprints\<close>

definition AuthorizePaymentOperation :: string where
  [go_eval]: "AuthorizePaymentOperation = ''authorize_payment''"
definition RetryAuthorizationOperation :: string where
  [go_eval]: "RetryAuthorizationOperation = ''retry_authorization''"
definition CapturePaymentOperation :: string where
  [go_eval]: "CapturePaymentOperation = ''capture_payment''"
definition VoidPaymentOperation :: string where
  [go_eval]: "VoidPaymentOperation = ''void_payment''"
definition RefundPaymentOperation :: string where
  [go_eval]: "RefundPaymentOperation = ''refund_payment''"

lemmas operation_defs =
  AuthorizePaymentOperation_def RetryAuthorizationOperation_def CapturePaymentOperation_def
  VoidPaymentOperation_def RefundPaymentOperation_def

lemma operation_neq [simp]:
  "AuthorizePaymentOperation \<noteq> RetryAuthorizationOperation"
  "AuthorizePaymentOperation \<noteq> CapturePaymentOperation"
  "AuthorizePaymentOperation \<noteq> VoidPaymentOperation"
  "AuthorizePaymentOperation \<noteq> RefundPaymentOperation"
  "RetryAuthorizationOperation \<noteq> CapturePaymentOperation"
  "RetryAuthorizationOperation \<noteq> VoidPaymentOperation"
  "RetryAuthorizationOperation \<noteq> RefundPaymentOperation"
  "CapturePaymentOperation \<noteq> VoidPaymentOperation"
  "CapturePaymentOperation \<noteq> RefundPaymentOperation"
  "VoidPaymentOperation \<noteq> RefundPaymentOperation"
  by (simp_all add: operation_defs)

lemmas operation_neq_sym [simp] = operation_neq [symmetric]

text \<open>The bytes \<^verbatim>\<open>fmt.Fprintf\<close> writes for a format of verbs separated by newlines.\<close>

fun lines_joined :: "string list \<Rightarrow> string" where
  "lines_joined [] = []"
| "lines_joined [f] = f"
| "lines_joined (f # g # fs) = f @ CHR 0x0A # lines_joined (g # fs)"

definition keyed_digest :: "string \<Rightarrow> string list \<Rightarrow> string" where
  "keyed_digest secret fs = hex_EncodeToString (hmac_sha256 secret (lines_joined fs))"

definition authorize_fields :: "AuthorizePaymentCommand \<Rightarrow> string list" where
  "authorize_fields command =
     [AuthorizePaymentOperation, apc_orderID command, apc_customerID command,
      show_int (apc_amountCents command), card_number (apc_card command),
      show_int (card_expiryMonth (apc_card command)), show_int (card_expiryYear (apc_card command))]"

definition authorizePaymentRequestFingerprint :: "AuthorizePaymentCommand \<Rightarrow> string \<Rightarrow> string" where
  "authorizePaymentRequestFingerprint command secret = keyed_digest secret (authorize_fields command)"

definition retry_fields :: "RetryAuthorizationCommand \<Rightarrow> string list" where
  "retry_fields command =
     [RetryAuthorizationOperation, rac_paymentID command, card_number (rac_card command),
      show_int (card_expiryMonth (rac_card command)), show_int (card_expiryYear (rac_card command))]"

definition retryAuthorizationRequestFingerprint :: "RetryAuthorizationCommand \<Rightarrow> string \<Rightarrow> string" where
  "retryAuthorizationRequestFingerprint command secret = keyed_digest secret (retry_fields command)"

definition capturePaymentRequestFingerprint :: "CapturePaymentCommand \<Rightarrow> string \<Rightarrow> string" where
  "capturePaymentRequestFingerprint command secret =
     keyed_digest secret [CapturePaymentOperation, cpc_paymentID command]"

definition voidPaymentRequestFingerprint :: "VoidPaymentCommand \<Rightarrow> string \<Rightarrow> string" where
  "voidPaymentRequestFingerprint command secret =
     keyed_digest secret [VoidPaymentOperation, vpc_paymentID command]"

definition refundPaymentRequestFingerprint :: "RefundPaymentCommand \<Rightarrow> string \<Rightarrow> string" where
  "refundPaymentRequestFingerprint command secret =
     keyed_digest secret [RefundPaymentOperation, rpc_paymentID command]"

definition authorizationCardFingerprint_of :: "cardDetails \<Rightarrow> string \<Rightarrow> string" where
  "authorizationCardFingerprint_of crd secret =
     keyed_digest secret
       [''authorization'', card_number crd, show_int (card_expiryMonth crd), show_int (card_expiryYear crd)]"

subsection \<open>What a command satisfies\<close>

definition card_ok :: "cardDetails \<Rightarrow> bool" where
  "card_ok crd \<longleftrightarrow>
     allDigits (card_number crd) \<and> 12 \<le> length (card_number crd) \<and> length (card_number crd) \<le> 19 \<and>
     allDigits (card_cvv crd) \<and> 3 \<le> length (card_cvv crd) \<and> length (card_cvv crd) \<le> 4 \<and>
     1 \<le> card_expiryMonth crd \<and> card_expiryMonth crd \<le> 12 \<and> 0 < card_expiryYear crd"

definition authorize_command_ok :: "AuthorizePaymentCommand \<Rightarrow> bool" where
  "authorize_command_ok c \<longleftrightarrow>
     normalized (apc_orderID c) \<and> apc_orderID c \<noteq> [] \<and> normalized (apc_customerID c) \<and>
     apc_customerID c \<noteq> [] \<and> 0 < apc_amountCents c \<and> card_ok (apc_card c) \<and>
     normalized (apc_idempotencyKey c) \<and> apc_idempotencyKey c \<noteq> []"

lemma newCardDetails_Inr:
  "newCardDetails number cvv m y = Inr crd \<Longrightarrow> card_ok crd"
  by (auto simp: newCardDetails_def card_ok_def Let_def split: if_splits)

lemma newCardDetails_Inl:
  "newCardDetails number cvv m y = Inl e \<Longrightarrow> PaymentErrorKindOf e = Some PaymentErrorInvalidInput"
  by (auto simp: newCardDetails_def Let_def split: if_splits)

lemma parsePaymentID_Inr_iff:
  "parsePaymentID v = Inr pid \<longleftrightarrow> pid = TrimSpace v \<and> validatePaymentID pid = None"
  by (auto simp: parsePaymentID_def ParsePaymentID_def split: option.splits)

lemma parsePaymentID_Inl:
  "parsePaymentID v = Inl e \<Longrightarrow> PaymentErrorKindOf e = Some PaymentErrorInvalidInput"
  by (auto simp: parsePaymentID_def split: sum.splits)

lemma parsePaymentOperationInput_Inl:
  "parsePaymentOperationInput v k = Inl e \<Longrightarrow> PaymentErrorKindOf e = Some PaymentErrorInvalidInput"
  by (auto simp: parsePaymentOperationInput_def Let_def bind_result_Inl_iff parsePaymentID_Inl
           split: if_splits)

lemma ensure_result_Inr_iff [simp]: "ensure_result r = Inr x \<longleftrightarrow> r = Inr x"
  by (cases r) (auto simp: ensure_result_def)

lemma ensure_result_Inl_iff:
  "ensure_result r = Inl e \<longleftrightarrow> (\<exists>e'. r = Inl e' \<and> e = ensurePaymentError e')"
  by (cases r) (auto simp: ensure_result_def)

lemmas input_errors = newCardDetails_Inl parsePaymentID_Inl parsePaymentOperationInput_Inl

lemma ensure_result_input_error:
  "ensure_result r = Inl e \<Longrightarrow>
   (\<And>e'. r = Inl e' \<Longrightarrow> PaymentErrorKindOf e' = Some PaymentErrorInvalidInput) \<Longrightarrow>
   PaymentErrorKindOf e = Some PaymentErrorInvalidInput"
  by (auto simp: ensure_result_Inl_iff)

subsection \<open>Digests and payloads\<close>

lemma digest_shape [simp]:
  "length (keyed_digest secret fs) = 64" "TrimSpace (keyed_digest secret fs) = keyed_digest secret fs"
  "keyed_digest secret fs \<noteq> []"
proof -
  show l: "length (keyed_digest secret fs) = 64"
    by (simp add: keyed_digest_def)
  show "TrimSpace (keyed_digest secret fs) = keyed_digest secret fs"
    by (simp add: keyed_digest_def TrimSpace_hex)
  from l show "keyed_digest secret fs \<noteq> []" by auto
qed

lemmas fingerprint_defs =
  authorizePaymentRequestFingerprint_def retryAuthorizationRequestFingerprint_def
  capturePaymentRequestFingerprint_def voidPaymentRequestFingerprint_def
  refundPaymentRequestFingerprint_def authorizationCardFingerprint_of_def

definition one_line :: "string \<Rightarrow> bool" where
  "one_line s \<longleftrightarrow> CHR 0x0A \<notin> set s"

lemma one_line_show_int [simp]: "one_line (show_int i)"
  using show_int_chars by (auto simp: one_line_def)

lemma one_line_digits: "allDigits s \<Longrightarrow> one_line s"
  by (auto simp: one_line_def allDigits_def list_all_iff digit_char_def char_between_def)

lemma one_line_operation [simp]:
  "one_line AuthorizePaymentOperation" "one_line RetryAuthorizationOperation"
  by (simp_all add: one_line_def operation_defs)

lemma lines_joined_inject:
  assumes "length fs = length gs" "list_all one_line fs" "list_all one_line gs"
  shows "lines_joined fs = lines_joined gs \<longleftrightarrow> fs = gs"
  using assms
proof (induction fs gs rule: list_induct2)
  case (Cons f fs g gs)
  then show ?case
    by (cases fs; cases gs) (auto simp: separated_inject one_line_def)
qed simp

definition authorize_values :: "AuthorizePaymentCommand \<Rightarrow> string \<times> string \<times> int \<times> string \<times> int \<times> int" where
  "authorize_values c =
     (apc_orderID c, apc_customerID c, apc_amountCents c, card_number (apc_card c),
      card_expiryMonth (apc_card c), card_expiryYear (apc_card c))"

lemma authorize_payload_inject:
  assumes "card_ok (apc_card c)" "card_ok (apc_card c')"
    and "one_line (apc_orderID c)" "one_line (apc_customerID c)"
    and "one_line (apc_orderID c')" "one_line (apc_customerID c')"
  shows "lines_joined (authorize_fields c) = lines_joined (authorize_fields c') \<longleftrightarrow>
         authorize_values c = authorize_values c'"
proof -
  have "list_all one_line (authorize_fields c)" "list_all one_line (authorize_fields c')"
    using assms by (auto simp: authorize_fields_def card_ok_def one_line_digits)
  then have "lines_joined (authorize_fields c) = lines_joined (authorize_fields c') \<longleftrightarrow>
             authorize_fields c = authorize_fields c'"
    by (intro lines_joined_inject) (simp_all add: authorize_fields_def)
  then show ?thesis by (auto simp: authorize_fields_def authorize_values_def)
qed

subsection \<open>Properties\<close>


text \<open>C33: two valid authorize commands whose order and customer ids are single lines hash the same
  payload exactly when order, customer, amount, card number and card expiry agree, so with such ids
  a changed request value always changes the fingerprint payload.\<close>

theorem authorize_payload_identifies_request:
  "authorize_command_ok c \<Longrightarrow> authorize_command_ok c' \<Longrightarrow>
   one_line (apc_orderID c) \<Longrightarrow> one_line (apc_customerID c) \<Longrightarrow>
   one_line (apc_orderID c') \<Longrightarrow> one_line (apc_customerID c') \<Longrightarrow>
   lines_joined (authorize_fields c) = lines_joined (authorize_fields c') \<longleftrightarrow>
   authorize_values c = authorize_values c'"
  by (rule authorize_payload_inject) (simp_all add: authorize_command_ok_def)

definition collide_left :: "go_error + AuthorizePaymentCommand" where
  "collide_left = NewAuthorizePaymentCommand [CHR ''a'', CHR 0x0A, CHR ''b''] ''c'' 100
                    ''4111111111111111'' ''123'' 12 2030 ''key-1''"

definition collide_right :: "go_error + AuthorizePaymentCommand" where
  "collide_right = NewAuthorizePaymentCommand ''a'' [CHR ''b'', CHR 0x0A, CHR ''c''] 100
                     ''4111111111111111'' ''123'' 12 2030 ''key-1''"

definition example_card :: cardDetails where
  "example_card = \<lparr>card_number = ''4111111111111111'', card_cvv = ''123'', card_expiryMonth = 12, card_expiryYear = 2030\<rparr>"

lemma collide_left_eval:
  "collide_left = Inr \<lparr>apc_orderID = [CHR ''a'', CHR 0x0A, CHR ''b''], apc_customerID = ''c'',
     apc_amountCents = 100, apc_card = example_card, apc_idempotencyKey = ''key-1''\<rparr>"
  by code_simp

lemma collide_right_eval:
  "collide_right = Inr \<lparr>apc_orderID = ''a'', apc_customerID = [CHR ''b'', CHR 0x0A, CHR ''c''],
     apc_amountCents = 100, apc_card = example_card, apc_idempotencyKey = ''key-1''\<rparr>"
  by code_simp

text \<open>With a newline inside an id the payload is ambiguous: two valid commands for different
  orders and customers have the same fingerprint under every secret.\<close>

theorem authorize_fingerprint_collision:
  "\<exists>c c'. collide_left = Inr c \<and> collide_right = Inr c' \<and>
     apc_orderID c \<noteq> apc_orderID c' \<and> apc_customerID c \<noteq> apc_customerID c' \<and>
     (\<forall>secret. authorizePaymentRequestFingerprint c secret = authorizePaymentRequestFingerprint c' secret)"
  by (simp add: collide_left_eval collide_right_eval authorizePaymentRequestFingerprint_def
      keyed_digest_def authorize_fields_def)

definition example_command :: AuthorizePaymentCommand where
  "example_command = \<lparr>apc_orderID = ''order-1'', apc_customerID = ''customer-1'', apc_amountCents = 5000,
     apc_card = example_card, apc_idempotencyKey = ''key-1''\<rparr>"

lemma example_command_ok: "authorize_command_ok example_command"
  by (simp add: authorize_command_ok_def example_command_def normalized_def) code_simp

lemma authorize_payload_identifies_request_witness:
  "authorize_command_ok example_command \<and> authorize_command_ok (example_command\<lparr>apc_amountCents := 50000\<rparr>) \<and>
   lines_joined (authorize_fields example_command) \<noteq>
   lines_joined (authorize_fields (example_command\<lparr>apc_amountCents := 50000\<rparr>))"
proof -
  let ?c' = "example_command\<lparr>apc_amountCents := 50000\<rparr>"
  have ok: "authorize_command_ok ?c'"
    using example_command_ok by (simp add: authorize_command_ok_def)
  have "one_line (apc_orderID example_command)" "one_line (apc_customerID example_command)"
       "one_line (apc_orderID ?c')" "one_line (apc_customerID ?c')"
    by (simp_all add: one_line_def example_command_def)
  from authorize_payload_identifies_request [OF example_command_ok ok this] ok example_command_ok
  show ?thesis by (simp add: authorize_values_def example_command_def)
qed

end
