(* ===== verification/Payment_Claims.thy ===== *)
theory Payment_Claims
  imports Payment_Commands
begin

text \<open>
  The contracts between the parts of the gateway, as \<^verbatim>\<open>payment_service.go\<close> declares them:
  the results of commands, the claim requests and claims exchanged with the store, the
  requests and results exchanged with the bank client, and the two interfaces
  \<^verbatim>\<open>PaymentStore\<close> and \<^verbatim>\<open>BankClient\<close> as records of actions on a state.  The Go interface
  \<^verbatim>\<open>PaymentCommandClaimRequest\<close> is the base record the two request structs extend.
\<close>

subsection \<open>Results\<close>

record PaymentResult =
  pr_ID :: string
  pr_OrderID :: string
  pr_CustomerID :: string
  pr_AmountCents :: int
  pr_Currency :: string
  pr_Status :: string
  pr_DeclineReason :: string
  pr_AuthorizationExpiresAt :: time
  pr_CreatedAt :: time
  pr_UpdatedAt :: time

record PaymentCommandResult =
  pcr_Payment :: PaymentResult
  pcr_FailureKind :: PaymentErrorKind

definition zero_PaymentResult :: PaymentResult where
  "zero_PaymentResult =
     \<lparr>pr_ID = [], pr_OrderID = [], pr_CustomerID = [], pr_AmountCents = 0, pr_Currency = [],
      pr_Status = [], pr_DeclineReason = [], pr_AuthorizationExpiresAt = 0, pr_CreatedAt = 0,
      pr_UpdatedAt = 0\<rparr>"

definition zero_PaymentCommandResult :: PaymentCommandResult where
  "zero_PaymentCommandResult = \<lparr>pcr_Payment = zero_PaymentResult, pcr_FailureKind = []\<rparr>"

definition newPaymentResult :: "Payment \<Rightarrow> PaymentResult" where
  "newPaymentResult payment =
     \<lparr>pr_ID = p_id payment, pr_OrderID = orderID payment, pr_CustomerID = customerID payment,
      pr_AmountCents = amountCents payment, pr_Currency = currency payment, pr_Status = status payment,
      pr_DeclineReason = declineReason payment,
      pr_AuthorizationExpiresAt = authorizationExpiresAt payment,
      pr_CreatedAt = createdAt payment, pr_UpdatedAt = updatedAt payment\<rparr>"

subsection \<open>Claim requests and claims\<close>

record PaymentCommandClaimRequest =
  cr_operation :: string
  cr_key :: string
  cr_requestFingerprint :: string
  cr_expectedStatus :: PaymentStatus
  cr_now :: time
  cr_claimStuckAfter :: duration

record AuthorizationStartClaimRequest = PaymentCommandClaimRequest +
  asr_payment :: "Payment option"

record ExistingPaymentCommandClaimRequest = PaymentCommandClaimRequest +
  ecr_paymentID :: PaymentID
  ecr_bankOperationKey :: string
  ecr_authorizationCardFingerprint :: string

definition NewAuthorizationStartClaimRequest ::
  "string \<Rightarrow> string \<Rightarrow> Payment \<Rightarrow> time \<Rightarrow> duration \<Rightarrow> AuthorizationStartClaimRequest" where
  "NewAuthorizationStartClaimRequest key fingerprint payment now stuckAfter =
     \<lparr>cr_operation = AuthorizePaymentOperation, cr_key = key, cr_requestFingerprint = fingerprint,
      cr_expectedStatus = PaymentStatusPending, cr_now = now, cr_claimStuckAfter = stuckAfter,
      asr_payment = Some payment\<rparr>"

definition NewAuthorizationRetryClaimRequest ::
  "string \<Rightarrow> string \<Rightarrow> PaymentID \<Rightarrow> string \<Rightarrow> time \<Rightarrow> duration \<Rightarrow> ExistingPaymentCommandClaimRequest" where
  "NewAuthorizationRetryClaimRequest key fingerprint pid cardFingerprint now stuckAfter =
     \<lparr>cr_operation = RetryAuthorizationOperation, cr_key = key, cr_requestFingerprint = fingerprint,
      cr_expectedStatus = PaymentStatusPending, cr_now = now, cr_claimStuckAfter = stuckAfter,
      ecr_paymentID = pid, ecr_bankOperationKey = [], ecr_authorizationCardFingerprint = cardFingerprint\<rparr>"

definition NewCaptureClaimRequest ::
  "string \<Rightarrow> string \<Rightarrow> PaymentID \<Rightarrow> string \<Rightarrow> time \<Rightarrow> duration \<Rightarrow> ExistingPaymentCommandClaimRequest" where
  "NewCaptureClaimRequest key fingerprint pid bankKey now stuckAfter =
     \<lparr>cr_operation = CapturePaymentOperation, cr_key = key, cr_requestFingerprint = fingerprint,
      cr_expectedStatus = PaymentStatusAuthorized, cr_now = now, cr_claimStuckAfter = stuckAfter,
      ecr_paymentID = pid, ecr_bankOperationKey = bankKey, ecr_authorizationCardFingerprint = []\<rparr>"

definition NewVoidClaimRequest ::
  "string \<Rightarrow> string \<Rightarrow> PaymentID \<Rightarrow> string \<Rightarrow> time \<Rightarrow> duration \<Rightarrow> ExistingPaymentCommandClaimRequest" where
  "NewVoidClaimRequest key fingerprint pid bankKey now stuckAfter =
     \<lparr>cr_operation = VoidPaymentOperation, cr_key = key, cr_requestFingerprint = fingerprint,
      cr_expectedStatus = PaymentStatusAuthorized, cr_now = now, cr_claimStuckAfter = stuckAfter,
      ecr_paymentID = pid, ecr_bankOperationKey = bankKey, ecr_authorizationCardFingerprint = []\<rparr>"

definition NewRefundClaimRequest ::
  "string \<Rightarrow> string \<Rightarrow> PaymentID \<Rightarrow> string \<Rightarrow> time \<Rightarrow> duration \<Rightarrow> ExistingPaymentCommandClaimRequest" where
  "NewRefundClaimRequest key fingerprint pid bankKey now stuckAfter =
     \<lparr>cr_operation = RefundPaymentOperation, cr_key = key, cr_requestFingerprint = fingerprint,
      cr_expectedStatus = PaymentStatusCaptured, cr_now = now, cr_claimStuckAfter = stuckAfter,
      ecr_paymentID = pid, ecr_bankOperationKey = bankKey, ecr_authorizationCardFingerprint = []\<rparr>"

lemmas claim_request_defs =
  NewAuthorizationStartClaimRequest_def NewAuthorizationRetryClaimRequest_def
  NewCaptureClaimRequest_def NewVoidClaimRequest_def NewRefundClaimRequest_def

text \<open>The operations on an existing payment, with the status each expects.\<close>

definition service_operation :: "string \<Rightarrow> PaymentStatus \<Rightarrow> bool" where
  "service_operation operation expected \<longleftrightarrow>
     (operation, expected) \<in>
       {(RetryAuthorizationOperation, PaymentStatusPending), (CapturePaymentOperation, PaymentStatusAuthorized),
        (VoidPaymentOperation, PaymentStatusAuthorized), (RefundPaymentOperation, PaymentStatusCaptured)}"

lemma service_operation_requests [simp]:
  "service_operation (cr_operation (NewAuthorizationRetryClaimRequest k f i cf n sa))
     (cr_expectedStatus (NewAuthorizationRetryClaimRequest k f i cf n sa))"
  "service_operation (cr_operation (NewCaptureClaimRequest k f i b n sa)) (cr_expectedStatus (NewCaptureClaimRequest k f i b n sa))"
  "service_operation (cr_operation (NewVoidClaimRequest k f i b n sa)) (cr_expectedStatus (NewVoidClaimRequest k f i b n sa))"
  "service_operation (cr_operation (NewRefundClaimRequest k f i b n sa)) (cr_expectedStatus (NewRefundClaimRequest k f i b n sa))"
  by (simp_all add: service_operation_def claim_request_defs)

record PaymentCommandClaim =
  pcc_operation :: string
  pcc_key :: string
  pcc_requestFingerprint :: string
  pcc_expectedStatus :: PaymentStatus
  pcc_payment :: "Payment option"
  pcc_replayResult :: PaymentCommandResult
  pcc_replayed :: bool
  pcc_recovered :: bool

definition NewClaimedPaymentCommand ::
  "'a PaymentCommandClaimRequest_scheme \<Rightarrow> Payment \<Rightarrow> PaymentCommandClaim" where
  "NewClaimedPaymentCommand request payment =
     \<lparr>pcc_operation = cr_operation request, pcc_key = cr_key request,
      pcc_requestFingerprint = cr_requestFingerprint request,
      pcc_expectedStatus = cr_expectedStatus request, pcc_payment = Some payment,
      pcc_replayResult = zero_PaymentCommandResult, pcc_replayed = False, pcc_recovered = False\<rparr>"

definition NewRecoveredPaymentCommand ::
  "'a PaymentCommandClaimRequest_scheme \<Rightarrow> Payment \<Rightarrow> PaymentCommandClaim" where
  "NewRecoveredPaymentCommand request payment =
     (NewClaimedPaymentCommand request payment)\<lparr>pcc_recovered := True\<rparr>"

definition NewReplayedPaymentCommand ::
  "'a PaymentCommandClaimRequest_scheme \<Rightarrow> PaymentCommandResult \<Rightarrow> PaymentCommandClaim" where
  "NewReplayedPaymentCommand request result =
     \<lparr>pcc_operation = cr_operation request, pcc_key = cr_key request,
      pcc_requestFingerprint = cr_requestFingerprint request,
      pcc_expectedStatus = cr_expectedStatus request, pcc_payment = None,
      pcc_replayResult = result, pcc_replayed = True, pcc_recovered = False\<rparr>"

lemmas claim_defs =
  NewClaimedPaymentCommand_def NewRecoveredPaymentCommand_def NewReplayedPaymentCommand_def

subsection \<open>Bank requests and results\<close>

record BankAuthorizationRequest =
  bar_OperationKey :: string
  bar_OrderID :: string
  bar_CustomerID :: string
  bar_AmountCents :: int
  bar_Currency :: string
  bar_CardNumber :: string
  bar_CardCVV :: string
  bar_CardExpiryMonth :: int
  bar_CardExpiryYear :: int

record BankAuthorizationResult =
  bas_BankAuthorizationID :: string
  bas_AuthorizationExpiresAt :: time
  bas_DeclineReason :: DeclineReason

record BankCaptureRequest =
  bcr_OperationKey :: string
  bcr_BankAuthorizationID :: string
  bcr_AmountCents :: int
  bcr_Currency :: string

record BankCaptureResult =
  bcs_BankCaptureID :: string

record BankVoidRequest =
  bvr_OperationKey :: string
  bvr_BankAuthorizationID :: string

record BankVoidResult =
  bvs_BankVoidID :: string

record BankRefundRequest =
  brr_OperationKey :: string
  brr_BankCaptureID :: string
  brr_AmountCents :: int
  brr_Currency :: string

record BankRefundResult =
  brs_BankRefundID :: string

subsection \<open>Interfaces\<close>

record 'db PaymentStore =
  FindByID :: "PaymentID \<Rightarrow> ('db, Payment) action"
  Search :: "SearchPaymentsQuery \<Rightarrow> ('db, Payment list) action"
  ClaimAuthorizationStart :: "AuthorizationStartClaimRequest \<Rightarrow> ('db, PaymentCommandClaim) action"
  ClaimExistingPaymentCommand :: "ExistingPaymentCommandClaimRequest \<Rightarrow> ('db, PaymentCommandClaim) action"
  CompletePaymentCommand :: "PaymentCommandClaim \<Rightarrow> PaymentCommandResult \<Rightarrow> time \<Rightarrow> ('db, unit) action"
  ReleasePaymentCommand :: "PaymentCommandClaim \<Rightarrow> ('db, unit) action"
  CleanupCompletedIdempotencyRecords :: "time \<Rightarrow> ('db, nat) action"

record 'bk BankClient =
  bank_AuthorizePayment :: "BankAuthorizationRequest \<Rightarrow> ('bk, BankAuthorizationResult) action"
  bank_CapturePayment :: "BankCaptureRequest \<Rightarrow> ('bk, BankCaptureResult) action"
  bank_VoidPayment :: "BankVoidRequest \<Rightarrow> ('bk, BankVoidResult) action"
  bank_RefundPayment :: "BankRefundRequest \<Rightarrow> ('bk, BankRefundResult) action"

text \<open>
  What the service relies on from its bank client: every error carries a kind, only captures and
  voids report an expired authorization, an authorization is either declined for a known reason
  or approved with an id and an expiry, and the other successes carry an id.
\<close>

definition authorization_result_ok :: "BankAuthorizationResult \<Rightarrow> bool" where
  "authorization_result_ok r \<longleftrightarrow>
     valid_decline_reason (bas_DeclineReason r) \<or>
     bas_DeclineReason r = [] \<and> \<not> blank (bas_BankAuthorizationID r) \<and> bas_AuthorizationExpiresAt r \<noteq> 0"

locale bank_contract =
  fixes bank :: "'bk BankClient"
  assumes authorize_error: "bank_AuthorizePayment bank areq s = (Inl e, t) \<Longrightarrow>
            \<exists>k \<in> set payment_error_kinds. PaymentErrorKindOf e = Some k \<and> k \<noteq> PaymentErrorAuthorizationExpired"
    and authorize_result: "bank_AuthorizePayment bank areq s = (Inr ar, t) \<Longrightarrow> authorization_result_ok ar"
    and capture_error: "bank_CapturePayment bank creq s = (Inl e, t) \<Longrightarrow>
            \<exists>k \<in> set payment_error_kinds. PaymentErrorKindOf e = Some k"
    and capture_result: "bank_CapturePayment bank creq s = (Inr cr, t) \<Longrightarrow> \<not> blank (bcs_BankCaptureID cr)"
    and void_error: "bank_VoidPayment bank vreq s = (Inl e, t) \<Longrightarrow>
            \<exists>k \<in> set payment_error_kinds. PaymentErrorKindOf e = Some k"
    and void_result: "bank_VoidPayment bank vreq s = (Inr vr, t) \<Longrightarrow> \<not> blank (bvs_BankVoidID vr)"
    and refund_error: "bank_RefundPayment bank rreq s = (Inl e, t) \<Longrightarrow>
            \<exists>k \<in> set payment_error_kinds. PaymentErrorKindOf e = Some k \<and> k \<noteq> PaymentErrorAuthorizationExpired"
    and refund_result: "bank_RefundPayment bank rreq s = (Inr rr, t) \<Longrightarrow> \<not> blank (brs_BankRefundID rr)"

text \<open>
  A client whose requests can be observed: a call adds at most its own operation, under the key it was
  given, to what was sent before.
\<close>

locale bank_observer =
  fixes bank :: "'bk BankClient" and sent :: "'bk \<Rightarrow> (string \<times> string) set"
  assumes authorize_sends: "sent (snd (bank_AuthorizePayment bank areq b)) \<subseteq>
            insert (AuthorizePaymentOperation, bar_OperationKey areq) (sent b)"
    and capture_sends: "sent (snd (bank_CapturePayment bank creq b)) \<subseteq>
            insert (CapturePaymentOperation, bcr_OperationKey creq) (sent b)"
    and void_sends: "sent (snd (bank_VoidPayment bank vreq b)) \<subseteq> insert (VoidPaymentOperation, bvr_OperationKey vreq) (sent b)"
    and refund_sends: "sent (snd (bank_RefundPayment bank rreq b)) \<subseteq>
            insert (RefundPaymentOperation, brr_OperationKey rreq) (sent b)"

end
