(* ===== verification/Payment_Service.thy ===== *)
theory Payment_Service
  imports Payment_Claims
begin

text \<open>
  The application service, \<^verbatim>\<open>gateway/internal/app/payment_service.go\<close>: the five payment
  commands, the two queries and the cleanup, over any store and any bank client (the records
  \<^verbatim>\<open>PaymentStore\<close> and \<^verbatim>\<open>BankClient\<close> of the contracts).  The state of a run is the store's
  state, the bank client's state, how often the clock and the identifier generators were read,
  and the metrics recorded, without their durations.  The clock and the identifiers are
  functions of the number of the reading: \<^verbatim>\<open>svc_clock\<close> and \<^verbatim>\<open>svc_uuid\<close>.

  A command is the same sequence in the code five times over: claim, replay if the claim
  answers with a stored result, call the bank, record its outcome on the payment, complete the
  claim, and on every failure in between release it.  \<open>claimed_command\<close> is the part before the
  bank call, \<open>complete_command\<close> and \<open>abandon_command\<close> the two ways out.  The payment a
  claim carries is a pointer the command mutates, so the claim it completes carries the
  mutated payment.
\<close>

subsection \<open>State and collaborators\<close>

datatype operation_metric =
    PaymentOperation string string \<comment> \<open>operation, outcome\<close>
  | IdempotencyRecovery string string
  | PaymentCommandReleaseFailure string

record ('db, 'bk) ServiceState =
  ss_db :: 'db
  ss_bank :: 'bk
  ss_ticks :: nat
  ss_ids :: nat
  ss_metrics :: "operation_metric list"

record ('db, 'bk) PaymentService =
  svc_store :: "'db PaymentStore"
  svc_bank :: "'bk BankClient"
  svc_uuid :: "nat \<Rightarrow> string"
  svc_clock :: "nat \<Rightarrow> time"
  svc_fingerprintSecret :: string
  svc_claimStuckAfter :: duration

text \<open>\<open>Inl\<close> is a panic; a collaborator of the model is never nil.\<close>

definition NewPaymentService ::
  "'db PaymentStore \<Rightarrow> (nat \<Rightarrow> string) \<Rightarrow> 'bk BankClient \<Rightarrow> (nat \<Rightarrow> time) \<Rightarrow> string \<Rightarrow> duration \<Rightarrow>
   string + ('db, 'bk) PaymentService" where
  "NewPaymentService store uuid bank clock fingerprintSecret claimStuckAfter =
   (let fingerprintSecret = TrimSpace fingerprintSecret in
    if fingerprintSecret = [] then Inl ''fingerprint secret is required''
    else if claimStuckAfter \<le> 0 then Inl ''idempotency claim stuck-after must be positive''
    else Inr \<lparr>svc_store = store, svc_bank = bank, svc_uuid = uuid, svc_clock = clock,
              svc_fingerprintSecret = fingerprintSecret, svc_claimStuckAfter = claimStuckAfter\<rparr>)"

definition clock_Now :: "('db, 'bk) PaymentService \<Rightarrow> ('db, 'bk) ServiceState \<Rightarrow> time \<times> ('db, 'bk) ServiceState" where
  "clock_Now svc s = (svc_clock svc (ss_ticks s), s\<lparr>ss_ticks := ss_ticks s + 1\<rparr>)"

definition next_payment_id where
  "next_payment_id svc s = (NewPaymentID (svc_uuid svc) (ss_ids s), s\<lparr>ss_ids := ss_ids s + 1\<rparr>)"

definition next_bank_operation_key where
  "next_bank_operation_key svc s = (NewBankOperationKey (svc_uuid svc) (ss_ids s), s\<lparr>ss_ids := ss_ids s + 1\<rparr>)"

definition call_store :: "('db, 'a) action \<Rightarrow> (('db, 'bk) ServiceState, 'a) action" where
  "call_store m s = (case m (ss_db s) of (r, d) \<Rightarrow> (r, s\<lparr>ss_db := d\<rparr>))"

definition call_bank :: "('bk, 'a) action \<Rightarrow> (('db, 'bk) ServiceState, 'a) action" where
  "call_bank m s = (case m (ss_bank s) of (r, b) \<Rightarrow> (r, s\<lparr>ss_bank := b\<rparr>))"

definition record_op :: "operation_metric \<Rightarrow> ('db, 'bk) ServiceState \<Rightarrow> ('db, 'bk) ServiceState" where
  "record_op m s = s\<lparr>ss_metrics := ss_metrics s @ [m]\<rparr>"

definition recordIdempotencyRecoveryAttempt where
  "recordIdempotencyRecoveryAttempt operation = record_op (IdempotencyRecovery operation ''attempted'')"
definition recordIdempotencyRecoveryCompleted where
  "recordIdempotencyRecoveryCompleted operation = record_op (IdempotencyRecovery operation ''recovered'')"
definition recordIdempotencyRecoveryFailure where
  "recordIdempotencyRecoveryFailure operation result = record_op (IdempotencyRecovery operation result)"

definition releasePaymentCommand ::
  "('db, 'bk) PaymentService \<Rightarrow> PaymentCommandClaim \<Rightarrow> ('db, 'bk) ServiceState \<Rightarrow> ('db, 'bk) ServiceState" where
  "releasePaymentCommand svc claim s =
   (case call_store (ReleasePaymentCommand (svc_store svc) claim) s of
      (Inl err, s1) \<Rightarrow> record_op (PaymentCommandReleaseFailure (pcc_operation claim)) s1
    | (Inr _, s1) \<Rightarrow> s1)"

definition replayPaymentCommand :: "PaymentCommandResult \<Rightarrow> go_error + PaymentCommandResult" where
  "replayPaymentCommand result =
   (if pcr_FailureKind result = [] then Inr result
    else Inl (NewPaymentErrorOfKind (pcr_FailureKind result) None))"

definition paymentOperationOutcome :: "go_error + PaymentCommandResult \<Rightarrow> bool \<Rightarrow> string" where
  "paymentOperationOutcome r replayed =
   (if replayed then ''replayed'' else
    case r of
      Inl err \<Rightarrow>
        if HasPaymentErrorKind err PaymentErrorAuthorizationExpired then PaymentStatusExpired
        else (case PaymentErrorKindOf err of Some kind \<Rightarrow> kind | None \<Rightarrow> PaymentErrorInternal)
    | Inr result \<Rightarrow>
        if pr_Status (pcr_Payment result) \<noteq> [] then pr_Status (pcr_Payment result)
        else PaymentErrorInternal)"

definition applyAuthorizationOutcome :: "Payment \<Rightarrow> BankAuthorizationResult \<Rightarrow> time \<Rightarrow> domain_error + Payment" where
  "applyAuthorizationOutcome payment bankResult now =
   (if bas_DeclineReason bankResult \<noteq> [] then MarkDeclined (bas_DeclineReason bankResult) now payment
    else MarkAuthorized (bas_BankAuthorizationID bankResult) (bas_AuthorizationExpiresAt bankResult) now payment)"

definition isUnknownAuthorizationOutcome :: "go_error \<Rightarrow> bool" where
  "isUnknownAuthorizationOutcome err \<longleftrightarrow>
     HasPaymentErrorKind err PaymentErrorBankTimeout \<or> HasPaymentErrorKind err PaymentErrorBankUnavailable"

subsection \<open>The common steps of a command\<close>

type_synonym ('db, 'bk) command = "('db, 'bk) ServiceState \<Rightarrow> (go_error + PaymentCommandResult) \<times> ('db, 'bk) ServiceState"

text \<open>The deferred metric; the flag says whether the claim was replayed.\<close>

definition with_outcome_metric ::
  "string \<Rightarrow> (go_error + PaymentCommandResult) \<times> bool \<times> ('db, 'bk) ServiceState \<Rightarrow>
   (go_error + PaymentCommandResult) \<times> ('db, 'bk) ServiceState" where
  "with_outcome_metric operation = (\<lambda>(r, replayed, s).
     (r, record_op (PaymentOperation operation (paymentOperationOutcome r replayed)) s))"

definition claim_failed :: "string \<Rightarrow> go_error \<Rightarrow> ('db, 'bk) ServiceState \<Rightarrow> ('db, 'bk) ServiceState" where
  "claim_failed operation err s =
   (case recovery_result err of
      None \<Rightarrow> s
    | Some result \<Rightarrow> recordIdempotencyRecoveryFailure operation result (recordIdempotencyRecoveryAttempt operation s))"

definition claimed_command ::
  "string \<Rightarrow> ('db, PaymentCommandClaim) action \<Rightarrow>
   (PaymentCommandClaim \<Rightarrow> Payment \<Rightarrow> ('db, 'bk) command) \<Rightarrow> ('db, 'bk) command" where
  "claimed_command operation claimAction body s =
   with_outcome_metric operation
    (case call_store claimAction s of
       (Inl err, s1) \<Rightarrow> (Inl (ensurePaymentError err), False, claim_failed operation err s1)
     | (Inr claim, s1) \<Rightarrow>
         if pcc_replayed claim then (replayPaymentCommand (pcc_replayResult claim), True, s1)
         else
           (case pcc_payment claim of
              None \<Rightarrow> (Inl (OtherError ''panic: nil payment''), False, s1)
            | Some payment \<Rightarrow>
                (case body claim payment
                        (if pcc_recovered claim then recordIdempotencyRecoveryAttempt operation s1 else s1) of
                   (r, s2) \<Rightarrow> (r, False, s2))))"

definition complete_command ::
  "('db, 'bk) PaymentService \<Rightarrow> string \<Rightarrow> PaymentCommandClaim \<Rightarrow> Payment \<Rightarrow> PaymentErrorKind \<Rightarrow> ('db, 'bk) command" where
  "complete_command svc operation claim payment failureKind s =
   (let result = \<lparr>pcr_Payment = newPaymentResult payment, pcr_FailureKind = failureKind\<rparr>;
        (now, s1) = clock_Now svc s
    in case call_store (CompletePaymentCommand (svc_store svc) (claim\<lparr>pcc_payment := Some payment\<rparr>) result now) s1 of
         (Inl err, s2) \<Rightarrow> (Inl (ensurePaymentError err), s2)
       | (Inr _, s2) \<Rightarrow>
           (if failureKind = [] then Inr result else Inl (NewPaymentErrorOfKind (pcr_FailureKind result) None),
            if pcc_recovered claim then recordIdempotencyRecoveryCompleted operation s2 else s2))"

definition abandon_command ::
  "('db, 'bk) PaymentService \<Rightarrow> PaymentCommandClaim \<Rightarrow> go_error \<Rightarrow> ('db, 'bk) command" where
  "abandon_command svc claim err s = (Inl (ensurePaymentError err), releasePaymentCommand svc claim s)"

text \<open>Apply a lifecycle method to the payment, then complete, or release when it refuses.\<close>

definition mark_and_complete ::
  "('db, 'bk) PaymentService \<Rightarrow> string \<Rightarrow> PaymentCommandClaim \<Rightarrow> (time \<Rightarrow> domain_error + Payment) \<Rightarrow>
   PaymentErrorKind \<Rightarrow> ('db, 'bk) command" where
  "mark_and_complete svc operation claim mark failureKind s =
   (case clock_Now svc s of (now, s1) \<Rightarrow>
      (case mark now of
         Inl err \<Rightarrow> abandon_command svc claim (DomainError err) s1
       | Inr payment \<Rightarrow> complete_command svc operation claim payment failureKind s1))"

subsection \<open>Authorization\<close>

definition bank_authorization_request :: "cardDetails \<Rightarrow> Payment \<Rightarrow> BankAuthorizationRequest" where
  "bank_authorization_request crd payment =
     \<lparr>bar_OperationKey = authorizationBankOperationKey payment, bar_OrderID = orderID payment,
      bar_CustomerID = customerID payment, bar_AmountCents = amountCents payment,
      bar_Currency = currency payment, bar_CardNumber = card_number crd, bar_CardCVV = card_cvv crd,
      bar_CardExpiryMonth = card_expiryMonth crd, bar_CardExpiryYear = card_expiryYear crd\<rparr>"

definition authorize_body ::
  "('db, 'bk) PaymentService \<Rightarrow> string \<Rightarrow> cardDetails \<Rightarrow> bool \<Rightarrow> PaymentCommandClaim \<Rightarrow> Payment \<Rightarrow> ('db, 'bk) command" where
  "authorize_body svc operation crd keep_unknown claim payment s =
   (case call_bank (bank_AuthorizePayment (svc_bank svc) (bank_authorization_request crd payment)) s of
      (Inl err, s1) \<Rightarrow>
        if keep_unknown \<and> isUnknownAuthorizationOutcome err
        then complete_command svc operation claim payment [] s1
        else abandon_command svc claim err s1
    | (Inr bankResult, s1) \<Rightarrow>
        mark_and_complete svc operation claim (applyAuthorizationOutcome payment bankResult) [] s1)"

definition AuthorizePayment ::
  "('db, 'bk) PaymentService \<Rightarrow> AuthorizePaymentCommand \<Rightarrow> ('db, 'bk) command" where
  "AuthorizePayment svc command s =
   (let (now, s1) = clock_Now svc s;
        (paymentID, s2) = next_payment_id svc s1;
        (bankKey, s3) = next_bank_operation_key svc s2
    in case NewPendingPayment paymentID (apc_orderID command) (apc_customerID command)
              (apc_amountCents command) bankKey
              (authorizationCardFingerprint_of (apc_card command) (svc_fingerprintSecret svc)) now of
         Inl err \<Rightarrow> with_outcome_metric AuthorizePaymentOperation
                     (Inl (ensurePaymentError (DomainError err)), False, s3)
       | Inr payment \<Rightarrow>
           claimed_command AuthorizePaymentOperation
             (ClaimAuthorizationStart (svc_store svc) (NewAuthorizationStartClaimRequest
                (apc_idempotencyKey command)
                (authorizePaymentRequestFingerprint command (svc_fingerprintSecret svc))
                payment now (svc_claimStuckAfter svc)))
             (authorize_body svc AuthorizePaymentOperation (apc_card command) True) s3)"

definition RetryAuthorization ::
  "('db, 'bk) PaymentService \<Rightarrow> RetryAuthorizationCommand \<Rightarrow> ('db, 'bk) command" where
  "RetryAuthorization svc command s =
   (let (now, s1) = clock_Now svc s
    in claimed_command RetryAuthorizationOperation
         (ClaimExistingPaymentCommand (svc_store svc) (NewAuthorizationRetryClaimRequest
            (rac_idempotencyKey command)
            (retryAuthorizationRequestFingerprint command (svc_fingerprintSecret svc))
            (rac_paymentID command)
            (authorizationCardFingerprint_of (rac_card command) (svc_fingerprintSecret svc))
            now (svc_claimStuckAfter svc)))
         (authorize_body svc RetryAuthorizationOperation (rac_card command) False) s1)"

subsection \<open>Capture, void and refund\<close>

definition capture_body ::
  "('db, 'bk) PaymentService \<Rightarrow> PaymentCommandClaim \<Rightarrow> Payment \<Rightarrow> ('db, 'bk) command" where
  "capture_body svc claim payment s =
   (case call_bank (bank_CapturePayment (svc_bank svc)
            \<lparr>bcr_OperationKey = captureBankOperationKey payment,
             bcr_BankAuthorizationID = bankAuthorizationID payment,
             bcr_AmountCents = amountCents payment, bcr_Currency = currency payment\<rparr>) s of
      (Inl err, s1) \<Rightarrow>
        if HasPaymentErrorKind err PaymentErrorAuthorizationExpired
        then mark_and_complete svc CapturePaymentOperation claim (\<lambda>now. MarkExpired now payment)
               PaymentErrorAuthorizationExpired s1
        else abandon_command svc claim err s1
    | (Inr bankResult, s1) \<Rightarrow>
        mark_and_complete svc CapturePaymentOperation claim
          (\<lambda>now. MarkCaptured (bcs_BankCaptureID bankResult) now payment) [] s1)"

definition CapturePayment ::
  "('db, 'bk) PaymentService \<Rightarrow> CapturePaymentCommand \<Rightarrow> ('db, 'bk) command" where
  "CapturePayment svc command s =
   (let (bankKey, s1) = next_bank_operation_key svc s; (now, s2) = clock_Now svc s1
    in claimed_command CapturePaymentOperation
         (ClaimExistingPaymentCommand (svc_store svc) (NewCaptureClaimRequest
            (cpc_idempotencyKey command)
            (capturePaymentRequestFingerprint command (svc_fingerprintSecret svc))
            (cpc_paymentID command) bankKey now (svc_claimStuckAfter svc)))
         (capture_body svc) s2)"

definition void_body ::
  "('db, 'bk) PaymentService \<Rightarrow> PaymentCommandClaim \<Rightarrow> Payment \<Rightarrow> ('db, 'bk) command" where
  "void_body svc claim payment s =
   (case call_bank (bank_VoidPayment (svc_bank svc)
            \<lparr>bvr_OperationKey = voidBankOperationKey payment,
             bvr_BankAuthorizationID = bankAuthorizationID payment\<rparr>) s of
      (Inl err, s1) \<Rightarrow>
        if HasPaymentErrorKind err PaymentErrorAuthorizationExpired
        then mark_and_complete svc VoidPaymentOperation claim (\<lambda>now. MarkExpired now payment)
               PaymentErrorAuthorizationExpired s1
        else abandon_command svc claim err s1
    | (Inr bankResult, s1) \<Rightarrow>
        mark_and_complete svc VoidPaymentOperation claim
          (\<lambda>now. MarkVoided (bvs_BankVoidID bankResult) now payment) [] s1)"

definition VoidPayment ::
  "('db, 'bk) PaymentService \<Rightarrow> VoidPaymentCommand \<Rightarrow> ('db, 'bk) command" where
  "VoidPayment svc command s =
   (let (bankKey, s1) = next_bank_operation_key svc s; (now, s2) = clock_Now svc s1
    in claimed_command VoidPaymentOperation
         (ClaimExistingPaymentCommand (svc_store svc) (NewVoidClaimRequest
            (vpc_idempotencyKey command)
            (voidPaymentRequestFingerprint command (svc_fingerprintSecret svc))
            (vpc_paymentID command) bankKey now (svc_claimStuckAfter svc)))
         (void_body svc) s2)"

definition refund_body ::
  "('db, 'bk) PaymentService \<Rightarrow> PaymentCommandClaim \<Rightarrow> Payment \<Rightarrow> ('db, 'bk) command" where
  "refund_body svc claim payment s =
   (case call_bank (bank_RefundPayment (svc_bank svc)
            \<lparr>brr_OperationKey = refundBankOperationKey payment,
             brr_BankCaptureID = bankCaptureID payment,
             brr_AmountCents = amountCents payment, brr_Currency = currency payment\<rparr>) s of
      (Inl err, s1) \<Rightarrow> abandon_command svc claim err s1
    | (Inr bankResult, s1) \<Rightarrow>
        mark_and_complete svc RefundPaymentOperation claim
          (\<lambda>now. MarkRefunded (brs_BankRefundID bankResult) now payment) [] s1)"

definition RefundPayment ::
  "('db, 'bk) PaymentService \<Rightarrow> RefundPaymentCommand \<Rightarrow> ('db, 'bk) command" where
  "RefundPayment svc command s =
   (let (bankKey, s1) = next_bank_operation_key svc s; (now, s2) = clock_Now svc s1
    in claimed_command RefundPaymentOperation
         (ClaimExistingPaymentCommand (svc_store svc) (NewRefundClaimRequest
            (rpc_idempotencyKey command)
            (refundPaymentRequestFingerprint command (svc_fingerprintSecret svc))
            (rpc_paymentID command) bankKey now (svc_claimStuckAfter svc)))
         (refund_body svc) s2)"

subsection \<open>Queries and cleanup\<close>

definition GetPayment ::
  "('db, 'bk) PaymentService \<Rightarrow> GetPaymentQuery \<Rightarrow> (('db, 'bk) ServiceState, PaymentResult) action" where
  "GetPayment svc query =
   act_bind (act_map_err ensurePaymentError (call_store (FindByID (svc_store svc) (gpq_paymentID query))))
     (\<lambda>payment. act_return (newPaymentResult payment))"

definition SearchPayments ::
  "('db, 'bk) PaymentService \<Rightarrow> SearchPaymentsQuery \<Rightarrow> (('db, 'bk) ServiceState, PaymentResult list) action" where
  "SearchPayments svc query =
   act_bind (act_map_err ensurePaymentError (call_store (Search (svc_store svc) query)))
     (\<lambda>payments. act_return (map newPaymentResult payments))"

definition idempotencyReplayWindow :: duration where
  "idempotencyReplayWindow = 24 * 3600 * 1000000000"

definition CleanupCompletedIdempotencyReplays ::
  "('db, 'bk) PaymentService \<Rightarrow> (('db, 'bk) ServiceState, nat) action" where
  "CleanupCompletedIdempotencyReplays svc s =
   (case clock_Now svc s of (now, s1) \<Rightarrow>
      call_store (CleanupCompletedIdempotencyRecords (svc_store svc) (now - idempotencyReplayWindow)) s1)"

end
