(* ===== verification/Payment_Snapshot.thy ===== *)
theory Payment_Snapshot
  imports Payment_Claims
begin

text \<open>
  The JSON snapshot of a command result that the store keeps for replays:
  \<^verbatim>\<open>paymentResultSnapshot\<close>, \<^verbatim>\<open>encodePaymentResultSnapshot\<close> and
  \<^verbatim>\<open>decodePaymentResultSnapshot\<close> of \<^verbatim>\<open>gateway/internal/postgres/payment_store.go\<close>, with
  what they use of \<^verbatim>\<open>encoding/json\<close>: the members of an object with \<^verbatim>\<open>omitempty\<close>, the
  replacement of invalid UTF-8, and the range check of \<^verbatim>\<open>time.Time\<close>.  A document is its list
  of members; the order of members, which \<^verbatim>\<open>jsonb\<close> does not keep, plays no part in decoding.
  An RFC 3339 timestamp is the instant it denotes.
\<close>

subsection \<open>UTF-8\<close>

definition cont :: "char \<Rightarrow> bool" where
  "cont c \<longleftrightarrow> char_between CHR 0x80 CHR 0xBF c"

text \<open>
  The length of the code point a byte string starts with, as \<^verbatim>\<open>utf8.DecodeRune\<close> finds it;
  0 when the first byte starts none.
\<close>

fun rune_len :: "string \<Rightarrow> nat" where
  "rune_len [] = 0"
| "rune_len (a # r) =
     (if char_between CHR 0x00 CHR 0x7F a then 1
      else (case r of [] \<Rightarrow> 0 | b # r' \<Rightarrow>
        if char_between CHR 0xC2 CHR 0xDF a then (if cont b then 2 else 0)
        else (case r' of [] \<Rightarrow> 0 | c # r'' \<Rightarrow>
          if a = CHR 0xE0 then (if char_between CHR 0xA0 CHR 0xBF b \<and> cont c then 3 else 0)
          else if a = CHR 0xED then (if char_between CHR 0x80 CHR 0x9F b \<and> cont c then 3 else 0)
          else if char_between CHR 0xE1 CHR 0xEF a then (if cont b \<and> cont c then 3 else 0)
          else (case r'' of [] \<Rightarrow> 0 | d # _ \<Rightarrow>
            if a = CHR 0xF0 then (if char_between CHR 0x90 CHR 0xBF b \<and> cont c \<and> cont d then 4 else 0)
            else if a = CHR 0xF4 then (if char_between CHR 0x80 CHR 0x8F b \<and> cont c \<and> cont d then 4 else 0)
            else if char_between CHR 0xF1 CHR 0xF3 a then (if cont b \<and> cont c \<and> cont d then 4 else 0)
            else 0))))"

function valid_utf8 :: "string \<Rightarrow> bool" where
  "valid_utf8 s =
     (if s = [] then True
      else if rune_len s = 0 then False
      else valid_utf8 (drop (rune_len s) s))"
  by pat_completeness auto
termination by (relation "measure length") auto

text \<open>The string a JSON document written by \<^verbatim>\<open>json.Marshal\<close> denotes.\<close>

function json_coerce :: "string \<Rightarrow> string" where
  "json_coerce s =
     (if s = [] then []
      else if rune_len s = 0 then [CHR 0xEF, CHR 0xBF, CHR 0xBD] @ json_coerce (tl s)
      else take (rune_len s) s @ json_coerce (drop (rune_len s) s))"
  by pat_completeness auto
termination by (relation "measure length") auto

declare valid_utf8.simps [simp del] json_coerce.simps [simp del]

lemma json_coerce_valid: "valid_utf8 s \<Longrightarrow> json_coerce s = s"
proof (induction s rule: json_coerce.induct)
  case (1 s)
  then show ?case
    using valid_utf8.simps [of s] by (subst json_coerce.simps) (auto split: if_splits)
qed

lemma valid_utf8_ascii: "list_all (char_between CHR 0x00 CHR 0x7F) s \<Longrightarrow> valid_utf8 s"
  by (induction s) (auto simp: valid_utf8.simps)

subsection \<open>Documents\<close>

datatype json_value = JString string | JNumber int | JTime time | JNull | JOther

type_synonym json_object = "(string \<times> json_value) list"

definition year_in_range :: "time \<Rightarrow> bool" where
  "year_in_range t \<longleftrightarrow> - 366 * 86400 * 1000000000 \<le> t \<and> t < 3652059 * 86400 * 1000000000"
  \<comment> \<open>from the start of year 0 to the start of year 10000\<close>

definition encodePaymentResultSnapshot :: "PaymentResult \<Rightarrow> go_error + json_object" where
  "encodePaymentResultSnapshot result =
   (if \<not> (year_in_range (pr_AuthorizationExpiresAt result) \<and> year_in_range (pr_CreatedAt result) \<and>
           year_in_range (pr_UpdatedAt result))
      then Inl (OtherError ''Time.MarshalJSON: year outside of range [0,9999]'')
    else Inr (
      [(''id'', JString (json_coerce (pr_ID result))),
       (''order_id'', JString (json_coerce (pr_OrderID result))),
       (''customer_id'', JString (json_coerce (pr_CustomerID result))),
       (''amount'', JNumber (pr_AmountCents result)),
       (''currency'', JString (json_coerce (pr_Currency result))),
       (''status'', JString (json_coerce (pr_Status result)))] @
      (if pr_DeclineReason result = [] then []
       else [(''decline_reason'', JString (json_coerce (pr_DeclineReason result)))]) @
      [(''authorization_expires_at'', JTime (pr_AuthorizationExpiresAt result)),
       (''created_at'', JTime (pr_CreatedAt result)),
       (''updated_at'', JTime (pr_UpdatedAt result))]))"

text \<open>
  \<^verbatim>\<open>json.Unmarshal\<close> into a struct: a member belongs to the field whose name it equals up to the
  folding of \<^verbatim>\<open>encoding/json\<close> (ASCII case, U+017F for \<^verbatim>\<open>s\<close>, U+212A for \<^verbatim>\<open>k\<close>), the last such
  member wins, \<^verbatim>\<open>null\<close> and a missing member leave the zero value, and a member of another type is
  an error.  Members decoded as strings are identifiers and codes, never timestamps.
\<close>

fun json_fold :: "string \<Rightarrow> string" where
  "json_fold [] = []"
| "json_fold (c # cs) =
     (if c = CHR 0xC5 \<and> prefix [CHR 0xBF] cs then CHR ''s'' # json_fold (drop 1 cs)
      else if c = CHR 0xE2 \<and> prefix [CHR 0x84, CHR 0xAA] cs then CHR ''k'' # json_fold (drop 2 cs)
      else if char_between CHR ''A'' CHR ''Z'' c then char_of ((of_char c :: nat) + 32) # json_fold cs
      else c # json_fold cs)"

declare json_fold.simps [simp del]

definition json_members :: "json_object \<Rightarrow> string \<Rightarrow> json_value list" where
  "json_members doc name = filter (\<lambda>v. v \<noteq> JNull) (map snd (filter (\<lambda>(n, v). json_fold n = name) doc))"

definition json_string_member :: "json_object \<Rightarrow> string \<Rightarrow> go_error + string" where
  "json_string_member doc name =
   (let vs = json_members doc name in
    if list_all (\<lambda>v. case v of JString _ \<Rightarrow> True | _ \<Rightarrow> False) vs
    then Inr (case rev vs of JString s # _ \<Rightarrow> s | _ \<Rightarrow> [])
    else Inl (OtherError ''json: cannot unmarshal into string''))"

definition json_number_member :: "json_object \<Rightarrow> string \<Rightarrow> go_error + int" where
  "json_number_member doc name =
   (let vs = json_members doc name in
    if list_all (\<lambda>v. case v of JNumber _ \<Rightarrow> True | _ \<Rightarrow> False) vs
    then Inr (case rev vs of JNumber n # _ \<Rightarrow> n | _ \<Rightarrow> 0)
    else Inl (OtherError ''json: cannot unmarshal into int64''))"

definition json_time_member :: "json_object \<Rightarrow> string \<Rightarrow> go_error + time" where
  "json_time_member doc name =
   (let vs = json_members doc name in
    if list_all (\<lambda>v. case v of JTime _ \<Rightarrow> True | _ \<Rightarrow> False) vs
    then Inr (case rev vs of JTime t # _ \<Rightarrow> t | _ \<Rightarrow> 0)
    else Inl (OtherError ''json: cannot unmarshal into time''))"

definition decodePaymentResultSnapshot :: "json_object option \<Rightarrow> go_error + PaymentResult" where
  "decodePaymentResultSnapshot data =
   (case data of None \<Rightarrow> Inl (OtherError ''unexpected end of JSON input'') | Some doc \<Rightarrow>
    bind_result (json_string_member doc ''id'') (\<lambda>i.
    bind_result (json_string_member doc ''order_id'') (\<lambda>order.
    bind_result (json_string_member doc ''customer_id'') (\<lambda>customer.
    bind_result (json_number_member doc ''amount'') (\<lambda>amount.
    bind_result (json_string_member doc ''currency'') (\<lambda>ccy.
    bind_result (json_string_member doc ''status'') (\<lambda>st.
    bind_result (json_string_member doc ''decline_reason'') (\<lambda>reason.
    bind_result (json_time_member doc ''authorization_expires_at'') (\<lambda>expires.
    bind_result (json_time_member doc ''created_at'') (\<lambda>created.
    bind_result (json_time_member doc ''updated_at'') (\<lambda>updated.
    Inr \<lparr>pr_ID = i, pr_OrderID = order, pr_CustomerID = customer, pr_AmountCents = amount,
         pr_Currency = ccy, pr_Status = st, pr_DeclineReason = reason,
         pr_AuthorizationExpiresAt = expires, pr_CreatedAt = created, pr_UpdatedAt = updated\<rparr>)))))))))))"

subsection \<open>Round trip\<close>

definition result_storable :: "PaymentResult \<Rightarrow> bool" where
  "result_storable r \<longleftrightarrow>
     valid_utf8 (pr_ID r) \<and> valid_utf8 (pr_OrderID r) \<and> valid_utf8 (pr_CustomerID r) \<and>
     valid_utf8 (pr_Currency r) \<and> valid_utf8 (pr_Status r) \<and> valid_utf8 (pr_DeclineReason r) \<and>
     year_in_range (pr_AuthorizationExpiresAt r) \<and> year_in_range (pr_CreatedAt r) \<and>
     year_in_range (pr_UpdatedAt r)"

lemmas json_member_defs =
  json_string_member_def json_number_member_def json_time_member_def json_members_def Let_def

lemma json_fold_snapshot [simp]:
  "json_fold ''id'' = ''id''" "json_fold ''order_id'' = ''order_id''"
  "json_fold ''customer_id'' = ''customer_id''" "json_fold ''amount'' = ''amount''"
  "json_fold ''currency'' = ''currency''" "json_fold ''status'' = ''status''"
  "json_fold ''decline_reason'' = ''decline_reason''"
  "json_fold ''authorization_expires_at'' = ''authorization_expires_at''"
  "json_fold ''created_at'' = ''created_at''" "json_fold ''updated_at'' = ''updated_at''"
  by code_simp+

lemma snapshot_roundtrip:
  assumes "result_storable r"
  shows "\<exists>doc. encodePaymentResultSnapshot r = Inr doc \<and> decodePaymentResultSnapshot (Some doc) = Inr r"
  using assms
  by (cases "pr_DeclineReason r = []")
     (simp_all add: result_storable_def encodePaymentResultSnapshot_def decodePaymentResultSnapshot_def
        json_member_defs json_coerce_valid)

lemma json_coerce_Nil [simp]: "json_coerce [] = []"
  by (simp add: json_coerce.simps)

text \<open>Whatever could be encoded decodes, to the result with its strings coerced to UTF-8.\<close>

definition coerced_result :: "PaymentResult \<Rightarrow> PaymentResult" where
  "coerced_result r =
     r\<lparr>pr_ID := json_coerce (pr_ID r), pr_OrderID := json_coerce (pr_OrderID r),
       pr_CustomerID := json_coerce (pr_CustomerID r), pr_Currency := json_coerce (pr_Currency r),
       pr_Status := json_coerce (pr_Status r), pr_DeclineReason := json_coerce (pr_DeclineReason r)\<rparr>"

lemma snapshot_decodable:
  assumes "encodePaymentResultSnapshot r = Inr doc"
  shows "decodePaymentResultSnapshot (Some doc) = Inr (coerced_result r)"
proof -
  from assms have doc: "doc = projr (encodePaymentResultSnapshot r)"
    and years: "year_in_range (pr_AuthorizationExpiresAt r)" "year_in_range (pr_CreatedAt r)"
      "year_in_range (pr_UpdatedAt r)"
    by (simp_all add: encodePaymentResultSnapshot_def split: if_splits)
  show ?thesis
    unfolding doc
    by (cases "pr_DeclineReason r = []")
       (simp_all add: years encodePaymentResultSnapshot_def decodePaymentResultSnapshot_def
          json_member_defs coerced_result_def)
qed

text \<open>C34: the snapshot the store keeps of a command result decodes to that very result, the
  optional decline reason included, whenever its strings are valid UTF-8 and its times lie in the
  years \<^verbatim>\<open>encoding/json\<close> can write.\<close>

theorem snapshot_encode_decode:
  "result_storable r \<Longrightarrow>
   \<exists>doc. encodePaymentResultSnapshot r = Inr doc \<and> decodePaymentResultSnapshot (Some doc) = Inr r"
  by (rule snapshot_roundtrip)

lemma snapshot_encode_decode_witness:
  "result_storable (newPaymentResult example_declined) \<and>
   (\<exists>doc. encodePaymentResultSnapshot (newPaymentResult example_declined) = Inr doc \<and>
          decodePaymentResultSnapshot (Some doc) = Inr (newPaymentResult example_declined))"
proof -
  have "result_storable (newPaymentResult example_declined)" by code_simp
  with snapshot_encode_decode [OF this] show ?thesis by simp
qed

end
