(* ===== verification/Idempotency_Ledger.thy ===== *)
theory Idempotency_Ledger
  imports Payment_Claims
begin

text \<open>
  The abstract specification of idempotency.  A ledger maps an operation and an idempotency key to
  nothing, to an open claim (request fingerprint, payment, time of the claim) or to a closed one
  (fingerprint, result, time of completion), and has four operations: claim, complete, release
  and sweep.
\<close>

datatype ledger_entry =
    Open string PaymentID time
  | Closed string PaymentCommandResult time

type_synonym ledger = "string \<times> string \<Rightarrow> ledger_entry option"

datatype ledger_outcome =
    Acquired | Recovered PaymentID | Replayed PaymentCommandResult | InProgress | Conflict

definition ledger_claim ::
  "string \<times> string \<Rightarrow> string \<Rightarrow> PaymentID \<Rightarrow> time \<Rightarrow> time \<Rightarrow> ledger \<Rightarrow> ledger_outcome \<times> ledger" where
  "ledger_claim k fp pid now stuck_before L =
   (case L k of
      None \<Rightarrow> (Acquired, L(k \<mapsto> Open fp pid now))
    | Some (Open fp' pid' t) \<Rightarrow>
        if fp' \<noteq> fp then (Conflict, L)
        else if t \<le> stuck_before then (Recovered pid', L(k \<mapsto> Open fp pid' now))
        else (InProgress, L)
    | Some (Closed fp' result t) \<Rightarrow> if fp' \<noteq> fp then (Conflict, L) else (Replayed result, L))"

definition ledger_complete ::
  "string \<times> string \<Rightarrow> string \<Rightarrow> PaymentCommandResult \<Rightarrow> time \<Rightarrow> ledger \<Rightarrow> ledger option" where
  "ledger_complete k fp result now L =
   (case L k of
      Some (Open fp' pid t) \<Rightarrow> if fp' = fp then Some (L(k \<mapsto> Closed fp result now)) else None
    | _ \<Rightarrow> None)"

definition ledger_release :: "string \<times> string \<Rightarrow> ledger \<Rightarrow> ledger" where
  "ledger_release k L = (case L k of Some (Open fp pid t) \<Rightarrow> L(k := None) | _ \<Rightarrow> L)"

definition ledger_sweep :: "time \<Rightarrow> ledger \<Rightarrow> ledger" where
  "ledger_sweep cutoff L = (\<lambda>k.
     case L k of Some (Closed fp result t) \<Rightarrow> if t < cutoff then None else L k | _ \<Rightarrow> L k)"

definition request_pk :: "'a PaymentCommandClaimRequest_scheme \<Rightarrow> string \<times> string" where
  "request_pk request = (cr_operation request, cr_key request)"

definition claim_pk :: "PaymentCommandClaim \<Rightarrow> string \<times> string" where
  "claim_pk claim = (pcc_operation claim, pcc_key claim)"

subsection \<open>Laws of the ledger\<close>

lemma ledger_claim_Acquired:
  "ledger_claim k fp pid now t L = (Acquired, L') \<Longrightarrow> L k = None \<and> L' = L(k \<mapsto> Open fp pid now)"
  by (auto simp: ledger_claim_def split: option.splits ledger_entry.splits if_splits)

lemma ledger_claim_Recovered:
  "ledger_claim k fp pid now t L = (Recovered pid', L') \<Longrightarrow>
   (\<exists>t'. L k = Some (Open fp pid' t')) \<and> L' = L(k \<mapsto> Open fp pid' now)"
  by (auto simp: ledger_claim_def split: option.splits ledger_entry.splits if_splits)

lemma ledger_complete_Some_iff:
  "ledger_complete k fp result now L = Some L' \<longleftrightarrow>
   (\<exists>pid t. L k = Some (Open fp pid t)) \<and> L' = L(k \<mapsto> Closed fp result now)"
  by (auto simp: ledger_complete_def split: option.splits ledger_entry.splits)

end
