(* ===== verification/Service_Contract.thy ===== *)
theory Service_Contract
  imports Payment_Service Payment_Snapshot Idempotency_Ledger
begin

text \<open>
  What the payment service promises about idempotency, proved against an interface of the store.
  The locale \<open>ledger_store\<close> states what each call of a store does to its idempotency ledger, and
  what a claim answers when no call fails; inside it the service's handlers are shown to record
  the outcome they return and to replay a recorded outcome without calling the bank.
\<close>

subsection \<open>The effects of the store calls on the ledger\<close>

definition claim_of :: "'a PaymentCommandClaimRequest_scheme \<Rightarrow> PaymentCommandClaim \<Rightarrow> bool" where
  "claim_of request c \<longleftrightarrow>
     pcc_operation c = cr_operation request \<and> pcc_key c = cr_key request \<and>
     pcc_requestFingerprint c = cr_requestFingerprint request \<and> \<not> pcc_replayed c \<and> pcc_payment c \<noteq> None"

definition claim_effect ::
  "'a PaymentCommandClaimRequest_scheme \<Rightarrow> ledger \<Rightarrow> go_error + PaymentCommandClaim \<Rightarrow> ledger \<Rightarrow> bool" where
  "claim_effect request L r L' \<longleftrightarrow>
     L' = L \<and>
       (\<forall>c. r = Inr c \<longrightarrow> (\<exists>result t. c = NewReplayedPaymentCommand request result \<and>
          L (request_pk request) = Some (Closed (cr_requestFingerprint request) result t))) \<or>
     (\<forall>fp result t. L (request_pk request) \<noteq> Some (Closed fp result t)) \<and>
       (\<exists>pid t. L' = L(request_pk request \<mapsto> Open (cr_requestFingerprint request) pid t)) \<and>
       (\<forall>c. r = Inr c \<longrightarrow> claim_of request c)"

text \<open>A result as the store keeps it: its text as JSON keeps it.\<close>

definition stored_as :: "PaymentCommandResult \<Rightarrow> PaymentCommandResult" where
  "stored_as result =
     \<lparr>pcr_Payment = coerced_result (pcr_Payment result), pcr_FailureKind = pcr_FailureKind result\<rparr>"

definition complete_effect ::
  "PaymentCommandClaim \<Rightarrow> PaymentCommandResult \<Rightarrow> ledger \<Rightarrow> go_error + unit \<Rightarrow> ledger \<Rightarrow> bool" where
  "complete_effect claim result L r L' \<longleftrightarrow>
     L' = L \<and> r \<noteq> Inr () \<or>
     (\<exists>now. ledger_complete (claim_pk claim) (pcc_requestFingerprint claim) (stored_as result) now L = Some L')"

definition release_effect :: "PaymentCommandClaim \<Rightarrow> ledger \<Rightarrow> go_error + unit \<Rightarrow> ledger \<Rightarrow> bool" where
  "release_effect claim L r L' \<longleftrightarrow> L' = L \<and> r \<noteq> Inr () \<or> L' = ledger_release (claim_pk claim) L"

text \<open>The requests the tables accept, and the answer to one whose key is taken.\<close>

definition claim_admissible :: "'a PaymentCommandClaimRequest_scheme \<Rightarrow> PaymentID \<Rightarrow> bool" where
  "claim_admissible request pid \<longleftrightarrow>
     cr_now request \<noteq> 0 \<and> validatePaymentID pid = None \<and>
     (\<forall>s \<in> {cr_operation request, cr_key request, cr_requestFingerprint request}. normalized s \<and> s \<noteq> [])"

definition taken_answer ::
  "'a PaymentCommandClaimRequest_scheme \<Rightarrow> ledger_entry \<Rightarrow> go_error + PaymentCommandClaim" where
  "taken_answer request e =
   (case e of
      Open fp pid t \<Rightarrow>
        if fp \<noteq> cr_requestFingerprint request then Inl (NewPaymentIdempotencyConflictError None)
        else Inl (NewPaymentIdempotencyInProgressError None)
    | Closed fp result t \<Rightarrow>
        if fp \<noteq> cr_requestFingerprint request then Inl (NewPaymentIdempotencyConflictError None)
        else Inr (NewReplayedPaymentCommand request result))"

definition taken :: "(time \<Rightarrow> time) \<Rightarrow> 'a PaymentCommandClaimRequest_scheme \<Rightarrow> ledger_entry \<Rightarrow> bool" where
  "taken ts request e \<longleftrightarrow>
   (case e of
      Open fp pid t \<Rightarrow> fp \<noteq> cr_requestFingerprint request \<or> ts (cr_now request - cr_claimStuckAfter request) < t
    | Closed fp result t \<Rightarrow> True)"

subsection \<open>The five commands\<close>

datatype payment_command =
    Authorize AuthorizePaymentCommand
  | Retry RetryAuthorizationCommand
  | Capture CapturePaymentCommand
  | Void VoidPaymentCommand
  | Refund RefundPaymentCommand

fun run_command :: "('db, 'bk) PaymentService \<Rightarrow> payment_command \<Rightarrow> ('db, 'bk) command" where
  "run_command svc (Authorize c) = AuthorizePayment svc c"
| "run_command svc (Retry c) = RetryAuthorization svc c"
| "run_command svc (Capture c) = CapturePayment svc c"
| "run_command svc (Void c) = VoidPayment svc c"
| "run_command svc (Refund c) = RefundPayment svc c"

fun command_pk :: "payment_command \<Rightarrow> string \<times> string" where
  "command_pk (Authorize c) = (AuthorizePaymentOperation, apc_idempotencyKey c)"
| "command_pk (Retry c) = (RetryAuthorizationOperation, rac_idempotencyKey c)"
| "command_pk (Capture c) = (CapturePaymentOperation, cpc_idempotencyKey c)"
| "command_pk (Void c) = (VoidPaymentOperation, vpc_idempotencyKey c)"
| "command_pk (Refund c) = (RefundPaymentOperation, rpc_idempotencyKey c)"

fun command_fingerprint :: "string \<Rightarrow> payment_command \<Rightarrow> string" where
  "command_fingerprint secret (Authorize c) = authorizePaymentRequestFingerprint c secret"
| "command_fingerprint secret (Retry c) = retryAuthorizationRequestFingerprint c secret"
| "command_fingerprint secret (Capture c) = capturePaymentRequestFingerprint c secret"
| "command_fingerprint secret (Void c) = voidPaymentRequestFingerprint c secret"
| "command_fingerprint secret (Refund c) = refundPaymentRequestFingerprint c secret"

text \<open>What the command constructors guarantee, and what the clock and the id generator must provide.\<close>

fun command_valid :: "payment_command \<Rightarrow> bool" where
  "command_valid (Authorize c) \<longleftrightarrow> authorize_command_ok c"
| "command_valid (Retry c) \<longleftrightarrow> validatePaymentID (rac_paymentID c) = None \<and>
     normalized (rac_idempotencyKey c) \<and> rac_idempotencyKey c \<noteq> []"
| "command_valid (Capture c) \<longleftrightarrow> validatePaymentID (cpc_paymentID c) = None \<and>
     normalized (cpc_idempotencyKey c) \<and> cpc_idempotencyKey c \<noteq> []"
| "command_valid (Void c) \<longleftrightarrow> validatePaymentID (vpc_paymentID c) = None \<and>
     normalized (vpc_idempotencyKey c) \<and> vpc_idempotencyKey c \<noteq> []"
| "command_valid (Refund c) \<longleftrightarrow> validatePaymentID (rpc_paymentID c) = None \<and>
     normalized (rpc_idempotencyKey c) \<and> rpc_idempotencyKey c \<noteq> []"

definition generators_ok :: "('db, 'bk) PaymentService \<Rightarrow> bool" where
  "generators_ok svc \<longleftrightarrow>
     (\<forall>n. svc_clock svc n \<noteq> 0) \<and>
     (\<forall>n. validatePaymentID (NewPaymentID (svc_uuid svc) n) = None \<and> \<not> blank (NewBankOperationKey (svc_uuid svc) n))"

subsection \<open>How a command uses the store\<close>

text \<open>
  The bodies the handlers run under a claim, and the two shapes of a handler: it rejects the
  command, or it makes one claim for the command's key and fingerprint and runs a body under it.
\<close>

definition operation_body ::
  "('db, 'bk) PaymentService \<Rightarrow> string \<Rightarrow> (PaymentCommandClaim \<Rightarrow> Payment \<Rightarrow> ('db, 'bk) command) \<Rightarrow> bool" where
  "operation_body svc op body \<longleftrightarrow>
     (\<exists>crd. op = AuthorizePaymentOperation \<and> body = authorize_body svc op crd True) \<or>
     (\<exists>crd. op = RetryAuthorizationOperation \<and> body = authorize_body svc op crd False) \<or>
     op = CapturePaymentOperation \<and> body = capture_body svc \<or>
     op = VoidPaymentOperation \<and> body = void_body svc \<or>
     op = RefundPaymentOperation \<and> body = refund_body svc"

definition start_request ::
  "('db, 'bk) PaymentService \<Rightarrow> AuthorizationStartClaimRequest \<Rightarrow> Payment \<Rightarrow> bool" where
  "start_request svc areq p \<longleftrightarrow>
     (\<exists>key fp n pid order customer amount authKey cardFp.
        areq = NewAuthorizationStartClaimRequest key fp p (svc_clock svc n) (svc_claimStuckAfter svc) \<and>
        NewPendingPayment pid order customer amount authKey cardFp (svc_clock svc n) = Inr p)"

lemma start_request_payment: "start_request svc areq p \<Longrightarrow> asr_payment areq = Some p"
  by (auto simp: start_request_def claim_request_defs)

definition request_of :: "string \<Rightarrow> payment_command \<Rightarrow> 'a PaymentCommandClaimRequest_scheme \<Rightarrow> bool" where
  "request_of secret cmd request \<longleftrightarrow>
     request_pk request = command_pk cmd \<and> cr_requestFingerprint request = command_fingerprint secret cmd"

lemmas service_step_defs = clock_Now_def next_payment_id_def next_bank_operation_key_def

lemma operation_shape [simp]:
  "normalized AuthorizePaymentOperation" "normalized RetryAuthorizationOperation"
  "normalized CapturePaymentOperation" "normalized VoidPaymentOperation" "normalized RefundPaymentOperation"
  "AuthorizePaymentOperation \<noteq> []" "RetryAuthorizationOperation \<noteq> []" "CapturePaymentOperation \<noteq> []"
  "VoidPaymentOperation \<noteq> []" "RefundPaymentOperation \<noteq> []"
  by code_simp+

lemma fingerprint_shape [simp]:
  "normalized (authorizePaymentRequestFingerprint a secret)" "authorizePaymentRequestFingerprint a secret \<noteq> []"
  "normalized (retryAuthorizationRequestFingerprint b secret)" "retryAuthorizationRequestFingerprint b secret \<noteq> []"
  "normalized (capturePaymentRequestFingerprint c secret)" "capturePaymentRequestFingerprint c secret \<noteq> []"
  "normalized (voidPaymentRequestFingerprint d secret)" "voidPaymentRequestFingerprint d secret \<noteq> []"
  "normalized (refundPaymentRequestFingerprint e secret)" "refundPaymentRequestFingerprint e secret \<noteq> []"
  "\<not> blank (authorizationCardFingerprint_of crd secret)"
  by (simp_all add: fingerprint_defs normalized_def)

lemma new_payment_valid:
  assumes "generators_ok svc" "authorize_command_ok c"
  shows "\<exists>p. NewPendingPayment (NewPaymentID (svc_uuid svc) i) (apc_orderID c) (apc_customerID c)
     (apc_amountCents c) (NewBankOperationKey (svc_uuid svc) j)
     (authorizationCardFingerprint_of (apc_card c) secret) (svc_clock svc n) = Inr p"
  using assms fingerprint_shape(11) [of "apc_card c" secret]
  by (simp add: NewPendingPayment_Inr_iff generators_ok_def authorize_command_ok_def normalized_def)

lemma run_command_cases:
  assumes "run_command svc cmd s = (r, s')"
  obtains (rejected) e where "r = Inl (ensurePaymentError e)" "ss_db s' = ss_db s" "ss_bank s' = ss_bank s"
      "generators_ok svc \<longrightarrow> \<not> command_valid cmd"
    | (start) areq p op body s1 where "start_request svc areq p" "request_of (svc_fingerprintSecret svc) cmd areq"
      "operation_body svc op body" "ss_db s1 = ss_db s" "ss_bank s1 = ss_bank s"
      "claimed_command op (ClaimAuthorizationStart (svc_store svc) areq) body s1 = (r, s')"
      "generators_ok svc \<longrightarrow> command_valid cmd \<longrightarrow> claim_admissible areq (p_id p)" "cr_operation areq = op"
    | (existing) ereq op body s1 where "request_of (svc_fingerprintSecret svc) cmd ereq"
      "operation_body svc op body" "ss_db s1 = ss_db s" "ss_bank s1 = ss_bank s"
      "claimed_command op (ClaimExistingPaymentCommand (svc_store svc) ereq) body s1 = (r, s')"
      "generators_ok svc \<longrightarrow> command_valid cmd \<longrightarrow> claim_admissible ereq (ecr_paymentID ereq)"
      "cr_operation ereq = op" "service_operation op (cr_expectedStatus ereq)"
proof (cases cmd)
  case (Authorize c)
  let ?now = "svc_clock svc (ss_ticks s)" and ?fp = "svc_fingerprintSecret svc"
  let ?new = "NewPendingPayment (NewPaymentID (svc_uuid svc) (ss_ids s)) (apc_orderID c) (apc_customerID c)
     (apc_amountCents c) (NewBankOperationKey (svc_uuid svc) (ss_ids s + 1))
     (authorizationCardFingerprint_of (apc_card c) ?fp) ?now"
  show ?thesis
  proof (cases ?new)
    case (Inl e)
    then have "generators_ok svc \<longrightarrow> \<not> command_valid cmd"
      using Authorize new_payment_valid [of svc c "ss_ids s" "ss_ids s + 1" ?fp "ss_ticks s"] by auto
    with Inl assms Authorize show ?thesis
      by (intro rejected [of "DomainError e"])
         (auto simp: AuthorizePayment_def service_step_defs with_outcome_metric_def record_op_def)
  next
    case (Inr p)
    let ?req = "NewAuthorizationStartClaimRequest (apc_idempotencyKey c)
             (authorizePaymentRequestFingerprint c ?fp) p ?now (svc_claimStuckAfter svc)"
    have "generators_ok svc \<longrightarrow> command_valid cmd \<longrightarrow> claim_admissible ?req (p_id p)"
      using Authorize new_payment_valid [of svc c, unfolded NewPendingPayment_Inr_iff] Inr
      by (auto simp: claim_admissible_def claim_request_defs authorize_command_ok_def generators_ok_def NewPendingPayment_Inr_iff)
    moreover have "start_request svc ?req p" using Inr unfolding start_request_def by blast
    ultimately show ?thesis
      using Inr assms Authorize
      by (intro start [of ?req p AuthorizePaymentOperation "authorize_body svc AuthorizePaymentOperation (apc_card c) True"])
         (auto simp: AuthorizePayment_def service_step_defs request_of_def request_pk_def operation_body_def claim_request_defs)
  qed
next
  case (Retry c)
  with assms show ?thesis
    by (intro existing [of "NewAuthorizationRetryClaimRequest (rac_idempotencyKey c)
            (retryAuthorizationRequestFingerprint c (svc_fingerprintSecret svc)) (rac_paymentID c)
            (authorizationCardFingerprint_of (rac_card c) (svc_fingerprintSecret svc))
            (svc_clock svc (ss_ticks s)) (svc_claimStuckAfter svc)"
          RetryAuthorizationOperation "authorize_body svc RetryAuthorizationOperation (rac_card c) False" "s\<lparr>ss_ticks := ss_ticks s + 1\<rparr>"])
       (auto simp: RetryAuthorization_def service_step_defs request_of_def request_pk_def operation_body_def
          claim_request_defs claim_admissible_def generators_ok_def service_operation_def)
next
  case (Capture c)
  with assms show ?thesis
    by (intro existing [of "NewCaptureClaimRequest (cpc_idempotencyKey c)
            (capturePaymentRequestFingerprint c (svc_fingerprintSecret svc)) (cpc_paymentID c)
            (NewBankOperationKey (svc_uuid svc) (ss_ids s)) (svc_clock svc (ss_ticks s)) (svc_claimStuckAfter svc)"
          CapturePaymentOperation "capture_body svc" "s\<lparr>ss_ids := ss_ids s + 1, ss_ticks := ss_ticks s + 1\<rparr>"])
       (auto simp: CapturePayment_def service_step_defs request_of_def request_pk_def operation_body_def
          claim_request_defs claim_admissible_def generators_ok_def service_operation_def)
next
  case (Void c)
  with assms show ?thesis
    by (intro existing [of "NewVoidClaimRequest (vpc_idempotencyKey c)
            (voidPaymentRequestFingerprint c (svc_fingerprintSecret svc)) (vpc_paymentID c)
            (NewBankOperationKey (svc_uuid svc) (ss_ids s)) (svc_clock svc (ss_ticks s)) (svc_claimStuckAfter svc)"
          VoidPaymentOperation "void_body svc" "s\<lparr>ss_ids := ss_ids s + 1, ss_ticks := ss_ticks s + 1\<rparr>"])
       (auto simp: VoidPayment_def service_step_defs request_of_def request_pk_def operation_body_def
          claim_request_defs claim_admissible_def generators_ok_def service_operation_def)
next
  case (Refund c)
  with assms show ?thesis
    by (intro existing [of "NewRefundClaimRequest (rpc_idempotencyKey c)
            (refundPaymentRequestFingerprint c (svc_fingerprintSecret svc)) (rpc_paymentID c)
            (NewBankOperationKey (svc_uuid svc) (ss_ids s)) (svc_clock svc (ss_ticks s)) (svc_claimStuckAfter svc)"
          RefundPaymentOperation "refund_body svc" "s\<lparr>ss_ids := ss_ids s + 1, ss_ticks := ss_ticks s + 1\<rparr>"])
       (auto simp: RefundPayment_def service_step_defs request_of_def request_pk_def operation_body_def
          claim_request_defs claim_admissible_def generators_ok_def service_operation_def)
qed

subsection \<open>What a handler leaves in the ledger\<close>

definition outcome_recorded :: "string \<times> string \<Rightarrow> string \<Rightarrow> ledger \<Rightarrow> go_error + PaymentCommandResult \<Rightarrow> bool" where
  "outcome_recorded k fp L r \<longleftrightarrow>
     (\<exists>result kept t. L k = Some (Closed fp kept t) \<and> r = replayPaymentCommand result \<and>
        (kept = result \<or> kept = stored_as result))"

definition handler_effect :: "string \<times> string \<Rightarrow> string \<Rightarrow> ledger \<Rightarrow> go_error + PaymentCommandResult \<Rightarrow> bool" where
  "handler_effect k fp L r \<longleftrightarrow> outcome_recorded k fp L r \<or> (\<exists>e. r = Inl (ensurePaymentError e))"

lemma handler_effect_error [simp]: "handler_effect k fp L (Inl (ensurePaymentError e))"
  by (auto simp: handler_effect_def)

lemma record_op_frame [simp]:
  "ss_db (record_op m s) = ss_db s" "ss_bank (record_op m s) = ss_bank s"
  by (simp_all add: record_op_def)

lemma recovery_metric_frame [simp]:
  "ss_db (recordIdempotencyRecoveryAttempt op s) = ss_db s" "ss_bank (recordIdempotencyRecoveryAttempt op s) = ss_bank s"
  "ss_db (recordIdempotencyRecoveryCompleted op s) = ss_db s" "ss_bank (recordIdempotencyRecoveryCompleted op s) = ss_bank s"
  "ss_db (recordIdempotencyRecoveryFailure op w s) = ss_db s" "ss_bank (recordIdempotencyRecoveryFailure op w s) = ss_bank s"
  by (simp_all add: recordIdempotencyRecoveryAttempt_def recordIdempotencyRecoveryCompleted_def
      recordIdempotencyRecoveryFailure_def)

lemma claim_failed_frame [simp]:
  "ss_db (claim_failed op e s) = ss_db s" "ss_bank (claim_failed op e s) = ss_bank s"
  by (simp_all add: claim_failed_def split: option.splits)

lemma clock_Now_frame [simp]:
  "ss_db (snd (clock_Now svc s)) = ss_db s" "ss_bank (snd (clock_Now svc s)) = ss_bank s"
  by (simp_all add: clock_Now_def)

lemma call_bank_db: "call_bank m s = (r, s') \<Longrightarrow> ss_db s' = ss_db s"
  by (auto simp: call_bank_def split: prod.splits)

text \<open>The handler, unfolded once: claim, then replay or run the body.\<close>

lemma claimed_command_cases:
  assumes "claimed_command op act body s = (r, s')"
  obtains (refused) e d where "act (ss_db s) = (Inl e, d)" "r = Inl (ensurePaymentError e)" "ss_db s' = d"
      "ss_bank s' = ss_bank s"
    | (replayed) c d where "act (ss_db s) = (Inr c, d)" "pcc_replayed c" "r = replayPaymentCommand (pcc_replayResult c)"
      "ss_db s' = d" "ss_bank s' = ss_bank s"
    | (panic) c d where "act (ss_db s) = (Inr c, d)" "\<not> pcc_replayed c" "pcc_payment c = None"
    | (ran) c d p s1 s2 where "act (ss_db s) = (Inr c, d)" "\<not> pcc_replayed c" "pcc_payment c = Some p"
      "body c p s1 = (r, s2)" "ss_db s1 = d" "ss_bank s1 = ss_bank s" "ss_db s' = ss_db s2" "ss_bank s' = ss_bank s2"
proof -
  obtain q d where a: "act (ss_db s) = (q, d)" by fastforce
  show ?thesis
  proof (cases q)
    case (Inl e)
    with a assms show ?thesis
      by (intro refused [of e d]) (auto simp: claimed_command_def call_store_def with_outcome_metric_def)
  next
    case (Inr c)
    show ?thesis
    proof (cases "pcc_replayed c \<or> pcc_payment c = None")
      case True
      with a Inr assms show ?thesis
        by (cases "pcc_replayed c")
           (auto simp: claimed_command_def call_store_def with_outcome_metric_def intro: replayed panic)
    next
      case False
      then obtain p where p: "pcc_payment c = Some p" "\<not> pcc_replayed c" by auto
      let ?s0 = "s\<lparr>ss_db := d\<rparr>"
      let ?s1 = "if pcc_recovered c then recordIdempotencyRecoveryAttempt op ?s0 else ?s0"
      obtain r' s2 where b: "body c p ?s1 = (r', s2)" by fastforce
      with a Inr assms p have r: "r' = r" "ss_db s' = ss_db s2" "ss_bank s' = ss_bank s2"
        by (auto simp: claimed_command_def call_store_def with_outcome_metric_def)
      show ?thesis by (rule ran [OF _ _ _ b [unfolded r(1)]]) (use a Inr p r in simp_all)
    qed
  qed
qed

text \<open>A body asks the bank once and then completes or releases the claim.\<close>

lemma mark_and_complete_cases:
  assumes "mark_and_complete svc op c mark fk s = (r, s')"
  obtains (completed) q s1 where "complete_command svc op c q fk s1 = (r, s')" "ss_db s1 = ss_db s"
    | (abandoned) e s1 where "abandon_command svc c e s1 = (r, s')" "ss_db s1 = ss_db s"
  using assms by (auto simp: mark_and_complete_def clock_Now_def split: sum.splits intro: that)

lemma service_body_cases:
  assumes "operation_body svc op0 body" "body c p s = (r, s')"
  obtains (completed) op q fk s1 where "complete_command svc op c q fk s1 = (r, s')" "ss_db s1 = ss_db s"
    | (abandoned) e s1 where "abandon_command svc c e s1 = (r, s')" "ss_db s1 = ss_db s"
proof -
  have marked: thesis if "mark_and_complete svc op c mark fk s1 = (r, s')" "ss_db s1 = ss_db s" for op mark fk s1
    using that(1) by (cases rule: mark_and_complete_cases) (use that(2) in \<open>auto intro: completed abandoned\<close>)
  from assms(1) consider (auth) op crd keep where "body = authorize_body svc op crd keep"
    | (cap) "body = capture_body svc" | (void) "body = void_body svc" | (ref) "body = refund_body svc"
    unfolding operation_body_def by blast
  then show ?thesis
  proof cases
    case auth
    with assms(2) show ?thesis
      by (auto simp: authorize_body_def split: prod.splits sum.splits if_splits
          dest: call_bank_db intro: marked completed abandoned)
  next
    case cap
    with assms(2) show ?thesis
      by (auto simp: capture_body_def split: prod.splits sum.splits if_splits dest: call_bank_db intro: marked abandoned)
  next
    case void
    with assms(2) show ?thesis
      by (auto simp: void_body_def split: prod.splits sum.splits if_splits dest: call_bank_db intro: marked abandoned)
  next
    case ref
    with assms(2) show ?thesis
      by (auto simp: refund_body_def split: prod.splits sum.splits if_splits dest: call_bank_db intro: marked abandoned)
  qed
qed

lemma taken_answer_result:
  assumes "request_of secret cmd request"
  shows "(case taken_answer request e of Inl err \<Rightarrow> Inl (ensurePaymentError err)
          | Inr c \<Rightarrow> replayPaymentCommand (pcc_replayResult c)) =
    (case e of
       Open fp pid t \<Rightarrow> Inl (if fp \<noteq> command_fingerprint secret cmd then NewPaymentIdempotencyConflictError None
                             else NewPaymentIdempotencyInProgressError None)
     | Closed fp kept t \<Rightarrow> if fp \<noteq> command_fingerprint secret cmd then Inl (NewPaymentIdempotencyConflictError None)
                            else replayPaymentCommand kept)"
  using assms
  by (auto simp: taken_answer_def request_of_def NewReplayedPaymentCommand_def error_constructor_defs split: ledger_entry.splits)

subsection \<open>The interface\<close>

locale ledger_store =
  fixes store :: "'db PaymentStore" and ok :: "'db \<Rightarrow> bool" and healthy :: "'db \<Rightarrow> bool"
    and ledger :: "'db \<Rightarrow> ledger" and ts :: "time \<Rightarrow> time"
  assumes start_effect: "\<lbrakk>ok d; asr_payment areq = Some p; ClaimAuthorizationStart store areq d = (r, d')\<rbrakk> \<Longrightarrow>
            ok d' \<and> claim_effect areq (ledger d) r (ledger d')"
    and existing_effect: "\<lbrakk>ok d; ClaimExistingPaymentCommand store ereq d = (r, d')\<rbrakk> \<Longrightarrow>
            ok d' \<and> claim_effect ereq (ledger d) r (ledger d')"
    and complete_effect: "\<lbrakk>ok d; CompletePaymentCommand store c result now d = (u, d')\<rbrakk> \<Longrightarrow>
            ok d' \<and> complete_effect c result (ledger d) u (ledger d')"
    and release_effect: "\<lbrakk>ok d; ReleasePaymentCommand store c d = (u, d')\<rbrakk> \<Longrightarrow>
            ok d' \<and> release_effect c (ledger d) u (ledger d')"
    and start_taken: "\<lbrakk>ok d; healthy d; asr_payment areq = Some p; claim_admissible areq (p_id p);
            ledger d (request_pk areq) = Some e; taken ts areq e\<rbrakk> \<Longrightarrow>
            ClaimAuthorizationStart store areq d = (taken_answer areq e, d)"
    and existing_taken: "\<lbrakk>ok d; healthy d; claim_admissible ereq (ecr_paymentID ereq);
            ledger d (request_pk ereq) = Some e; taken ts ereq e\<rbrakk> \<Longrightarrow>
            ClaimExistingPaymentCommand store ereq d = (taken_answer ereq e, d)"
    and release_healthy: "\<lbrakk>ok d; healthy d\<rbrakk> \<Longrightarrow>
            \<exists>d'. ReleasePaymentCommand store c d = (Inr (), d') \<and> healthy d' \<and>
                 ledger d' = ledger_release (claim_pk c) (ledger d)"
begin

lemma complete_command_effect:
  assumes "svc_store svc = store" "ok (ss_db s)" "complete_command svc op c p fk s = (r, s')"
  shows "ok (ss_db s')" "handler_effect (claim_pk c) (pcc_requestFingerprint c) (ledger (ss_db s')) r"
proof -
  let ?result = "\<lparr>pcr_Payment = newPaymentResult p, pcr_FailureKind = fk\<rparr>" and ?c = "c\<lparr>pcc_payment := Some p\<rparr>"
  obtain u d where run: "CompletePaymentCommand store ?c ?result (svc_clock svc (ss_ticks s)) (ss_db s) = (u, d)"
    by fastforce
  note E = complete_effect [OF assms(2) run]
  have s': "ss_db s' = d" and r: "r = (case u of Inl e \<Rightarrow> Inl (ensurePaymentError e) | Inr _ \<Rightarrow> replayPaymentCommand ?result)"
    using assms(1,3) run
    by (cases u; auto simp: complete_command_def clock_Now_def call_store_def replayPaymentCommand_def Let_def split: if_splits)+
  show "ok (ss_db s')" using E s' by simp
  show "handler_effect (claim_pk c) (pcc_requestFingerprint c) (ledger (ss_db s')) r"
  proof (cases u)
    case (Inl e)
    then show ?thesis using r by simp
  next
    case (Inr x)
    with E obtain now where "ledger d = (ledger (ss_db s))(claim_pk c \<mapsto> Closed (pcc_requestFingerprint c) (stored_as ?result) now)"
      by (auto simp: complete_effect_def ledger_complete_Some_iff claim_pk_def)
    then show ?thesis using r s' Inr by (auto simp: handler_effect_def outcome_recorded_def)
  qed
qed

lemma abandon_command_effect:
  assumes "svc_store svc = store" "ok (ss_db s)" "abandon_command svc c e s = (r, s')"
  shows "ok (ss_db s')" "r = Inl (ensurePaymentError e)"
proof -
  obtain u d where run: "ReleasePaymentCommand store c (ss_db s) = (u, d)" by fastforce
  note E = release_effect [OF assms(2) run]
  have "ss_db s' = d"
    using assms(1,3) run
    by (auto simp: abandon_command_def releasePaymentCommand_def call_store_def split: sum.splits)
  then show "ok (ss_db s')" using E by simp
  show "r = Inl (ensurePaymentError e)" using assms(3) by (simp add: abandon_command_def)
qed

lemma service_body_effect:
  assumes "svc_store svc = store" "operation_body svc op0 body" "ok (ss_db s)" "body c p s = (r, s')"
  shows "ok (ss_db s') \<and> handler_effect (claim_pk c) (pcc_requestFingerprint c) (ledger (ss_db s')) r"
  using assms(2,4)
proof (cases rule: service_body_cases)
  case (completed op q fk s1)
  then show ?thesis using complete_command_effect [OF assms(1) _ completed(1)] assms(3) by simp
next
  case (abandoned e s1)
  then show ?thesis using abandon_command_effect [OF assms(1) _ abandoned(1)] assms(3) by simp
qed

text \<open>A handler leaves the database in order, and what it returns without error is recorded.\<close>

lemma claimed_command_effect:
  assumes "svc_store svc = store" "operation_body svc op0 body" "ok (ss_db s)" "claimed_command op act body s = (r, s')"
    and act: "\<And>q d. act (ss_db s) = (q, d) \<Longrightarrow> ok d \<and> claim_effect request (ledger (ss_db s)) q (ledger d)"
  shows "ok (ss_db s') \<and> handler_effect (request_pk request) (cr_requestFingerprint request) (ledger (ss_db s')) r"
  using assms(4)
proof (cases rule: claimed_command_cases)
  case (refused e d)
  then show ?thesis using act by auto
next
  case (replayed c d)
  from act [OF replayed(1)] replayed(2) obtain result t where
    "c = NewReplayedPaymentCommand request result" "ledger d = ledger (ss_db s)"
    "ledger (ss_db s) (request_pk request) = Some (Closed (cr_requestFingerprint request) result t)"
    by (auto simp: claim_effect_def claim_of_def)
  then show ?thesis
    using act [OF replayed(1)] replayed
    by (auto simp: handler_effect_def outcome_recorded_def NewReplayedPaymentCommand_def)
next
  case (panic c d)
  then show ?thesis using act [OF panic(1)] by (auto simp: claim_effect_def claim_of_def NewReplayedPaymentCommand_def)
next
  case (ran c d p s1 s2)
  from act [OF ran(1)] ran(2) have c: "claim_of request c"
    by (auto simp: claim_effect_def NewReplayedPaymentCommand_def)
  have "ok (ss_db s2) \<and> handler_effect (claim_pk c) (pcc_requestFingerprint c) (ledger (ss_db s2)) r"
    by (rule service_body_effect [OF assms(1,2) _ ran(4)]) (use act [OF ran(1)] ran(5) in simp)
  then show ?thesis using ran(7) c by (simp add: claim_of_def claim_pk_def request_pk_def)
qed

lemma run_command_effect:
  assumes "svc_store svc = store" "ok (ss_db s)" "run_command svc cmd s = (r, s')"
  shows "ok (ss_db s') \<and>
    handler_effect (command_pk cmd) (command_fingerprint (svc_fingerprintSecret svc) cmd) (ledger (ss_db s')) r"
  using assms(3)
proof (cases rule: run_command_cases)
  case (rejected e)
  then show ?thesis using assms(2) by simp
next
  case (start areq p op body s1)
  have "ok d \<and> claim_effect areq (ledger (ss_db s1)) q (ledger d)"
    if "ClaimAuthorizationStart (svc_store svc) areq (ss_db s1) = (q, d)" for q d
    using start_effect [OF _ start_request_payment [OF start(1)]] that assms(1,2) start(4) by simp
  from claimed_command_effect [OF assms(1) start(3) _ start(6) this] show ?thesis
    using start(2,4) assms(2) by (simp add: request_of_def)
next
  case (existing ereq op body s1)
  have "ok d \<and> claim_effect ereq (ledger (ss_db s1)) q (ledger d)"
    if "ClaimExistingPaymentCommand (svc_store svc) ereq (ss_db s1) = (q, d)" for q d
    using existing_effect that assms(1,2) existing(3) by simp
  from claimed_command_effect [OF assms(1) existing(2) _ existing(5) this] show ?thesis
    using existing(1,3) assms(2) by (simp add: request_of_def)
qed

lemma run_command_success_recorded:
  assumes "svc_store svc = store" "ok (ss_db s)" "run_command svc cmd s = (Inr result, s')"
  shows "\<exists>kept t. ledger (ss_db s') (command_pk cmd) =
      Some (Closed (command_fingerprint (svc_fingerprintSecret svc) cmd) kept t) \<and>
    pcr_FailureKind kept = [] \<and> (kept = result \<or> kept = stored_as result)"
  using run_command_effect [OF assms]
  by (auto simp: handler_effect_def outcome_recorded_def replayPaymentCommand_def stored_as_def split: if_splits)

text \<open>A recorded outcome is replayed: same answer, no bank call, no change of the database.\<close>

lemma claimed_command_taken:
  assumes "claimed_command op act body s = (r, s')" "act (ss_db s) = (taken_answer request e, ss_db s)"
  shows "ss_db s' = ss_db s \<and> ss_bank s' = ss_bank s \<and>
     r = (case taken_answer request e of Inl err \<Rightarrow> Inl (ensurePaymentError err)
          | Inr c \<Rightarrow> replayPaymentCommand (pcc_replayResult c))"
  using assms(1)
proof (cases rule: claimed_command_cases)
qed (use assms(2) in \<open>auto simp: taken_answer_def NewReplayedPaymentCommand_def split: ledger_entry.splits if_splits\<close>)

lemma run_command_taken:
  assumes svc: "svc_store svc = store" "generators_ok svc" "command_valid cmd"
    and d: "ok (ss_db s)" "healthy (ss_db s)" "ledger (ss_db s) (command_pk cmd) = Some e"
    and settled: "\<And>fp pid t. e = Open fp pid t \<Longrightarrow> fp \<noteq> command_fingerprint (svc_fingerprintSecret svc) cmd"
    and run: "run_command svc cmd s = (r, s')"
  shows "ss_db s' = ss_db s \<and> ss_bank s' = ss_bank s \<and>
    r = (case e of
       Open fp pid t \<Rightarrow> Inl (NewPaymentIdempotencyConflictError None)
     | Closed fp kept t \<Rightarrow>
         if fp \<noteq> command_fingerprint (svc_fingerprintSecret svc) cmd then Inl (NewPaymentIdempotencyConflictError None)
         else replayPaymentCommand kept)"
  using run
proof (cases rule: run_command_cases)
  case (rejected x)
  then show ?thesis using svc by simp
next
  case (start areq p op body s1)
  have "taken ts areq e"
    using settled start(2) by (auto simp: taken_def request_of_def split: ledger_entry.splits)
  then have "ClaimAuthorizationStart (svc_store svc) areq (ss_db s1) = (taken_answer areq e, ss_db s1)"
    using start_taken [OF _ _ start_request_payment [OF start(1)]] start d svc by (simp add: request_of_def)
  from claimed_command_taken [OF start(6) this] show ?thesis
    unfolding taken_answer_result [OF start(2)] using settled start(4,5) by (simp split: ledger_entry.splits)
next
  case (existing ereq op body s1)
  have "taken ts ereq e"
    using settled existing(1) by (auto simp: taken_def request_of_def split: ledger_entry.splits)
  then have "ClaimExistingPaymentCommand (svc_store svc) ereq (ss_db s1) = (taken_answer ereq e, ss_db s1)"
    using existing_taken existing d svc by (simp add: request_of_def)
  from claimed_command_taken [OF existing(5) this] show ?thesis
    unfolding taken_answer_result [OF existing(1)] using settled existing(3,4) by (simp split: ledger_entry.splits)
qed

lemma abandon_command_releases:
  assumes "svc_store svc = store" "ok (ss_db s)" "healthy (ss_db s)" "abandon_command svc c e s = (r, s')"
  shows "ledger (ss_db s') = ledger_release (claim_pk c) (ledger (ss_db s))"
  using release_healthy [OF assms(2,3), of c] assms(1,4)
  by (auto simp: abandon_command_def releasePaymentCommand_def call_store_def)

end

end
