(* ===== verification/Payment_Store.thy ===== *)
theory Payment_Store
  imports Payment_Snapshot
begin

text \<open>
  The Postgres store, \<^verbatim>\<open>gateway/internal/postgres/payment_store.go\<close>, over the tables of
  \<^verbatim>\<open>gateway/migrations/000001_create_payments.up.sql\<close>.  A database is its two tables and the
  outcomes Postgres will give the next statements: \<open>StmtOk\<close> runs the statement,
  \<open>StmtErr\<close> rejects it, and \<open>StmtLostReply\<close> runs it but reports an error, as a
  connection lost after \<^verbatim>\<open>COMMIT\<close> does.  When the list is empty every statement is run.  A
  statement that violates a constraint fails and changes nothing; a transaction whose body
  fails is rolled back.  Each store call is one transaction and is atomic here; the row locks
  it takes have no further effect.

  How the driver writes a \<^verbatim>\<open>time.Time\<close> into a \<^verbatim>\<open>timestamptz\<close> column is the parameter
  \<open>ts\<close>, the collation of \<^verbatim>\<open>text\<close> columns the parameter \<open>text_le\<close>, and the server's
  \<^verbatim>\<open>CURRENT_TIMESTAMP\<close> the parameter \<open>pg_now\<close>.
\<close>

subsection \<open>Tables\<close>

definition idempotencyRecordInProgress :: string where
  [go_eval]: "idempotencyRecordInProgress = ''in_progress''"
definition idempotencyRecordCompleted :: string where
  [go_eval]: "idempotencyRecordCompleted = ''completed''"

lemma record_status_neq [simp]:
  "idempotencyRecordInProgress \<noteq> idempotencyRecordCompleted"
  "idempotencyRecordCompleted \<noteq> idempotencyRecordInProgress"
  by (simp_all add: idempotencyRecordInProgress_def idempotencyRecordCompleted_def)

record PaymentRow =
  r_id :: string
  r_order_id :: string
  r_customer_id :: string
  r_amount_cents :: int
  r_currency :: string
  r_status :: string
  r_bank_authorization_id :: "string option"
  r_authorization_expires_at :: "time option"
  r_authorization_bank_operation_key :: string
  r_authorization_card_fingerprint :: string
  r_bank_capture_id :: "string option"
  r_capture_bank_operation_key :: "string option"
  r_bank_refund_id :: "string option"
  r_refund_bank_operation_key :: "string option"
  r_bank_void_id :: "string option"
  r_void_bank_operation_key :: "string option"
  r_decline_reason :: "string option"
  r_created_at :: time
  r_updated_at :: time

text \<open>The column \<^verbatim>\<open>created_at\<close> of the second table has a default and no reader; it is left out.\<close>

record IdempotencyRow =
  i_operation :: string
  i_key :: string
  i_request_fingerprint :: string
  i_payment_id :: "string option"
  i_status :: string
  i_failure_kind :: "string option"
  i_payment_result :: "json_object option"
  i_claimed_at :: time
  i_completed_at :: "time option"

definition i_pk :: "IdempotencyRow \<Rightarrow> string \<times> string" where
  "i_pk r = (i_operation r, i_key r)"

subsection \<open>Constraints of the schema\<close>

text \<open>\<^verbatim>\<open>length(trim(x)) > 0\<close>: SQL's \<^verbatim>\<open>trim\<close> removes spaces only.\<close>

definition sql_nonblank :: "string \<Rightarrow> bool" where
  "sql_nonblank s \<longleftrightarrow> list_ex (\<lambda>c. c \<noteq> CHR '' '') s"

definition sql_opt_nonblank :: "string option \<Rightarrow> bool" where
  "sql_opt_nonblank v \<longleftrightarrow> (case v of None \<Rightarrow> True | Some s \<Rightarrow> sql_nonblank s)"

text \<open>The regular expression of payment ids, one character class per position.\<close>

definition payment_id_pattern :: "(char \<Rightarrow> bool) list" where
  "payment_id_pattern =
     map (=) ''pay_'' @ replicate 8 isHexDigit @ [(=) (CHR ''-'')] @ replicate 4 isHexDigit @
     [(=) (CHR ''-'')] @ replicate 4 isHexDigit @ [(=) (CHR ''-'')] @ replicate 4 isHexDigit @
     [(=) (CHR ''-'')] @ replicate 12 isHexDigit"

definition payment_id_matches :: "string \<Rightarrow> bool" where
  "payment_id_matches s \<longleftrightarrow> list_all2 (\<lambda>p c. p c) payment_id_pattern s"

definition payments_column_checks :: "PaymentRow \<Rightarrow> bool" where
  "payments_column_checks r \<longleftrightarrow>
     payment_id_matches (r_id r) \<and> sql_nonblank (r_order_id r) \<and> sql_nonblank (r_customer_id r) \<and>
     0 < r_amount_cents r \<and> r_currency r = ''USD'' \<and>
     r_status r \<in> {''pending'', ''authorized'', ''expired'', ''declined'', ''captured'', ''voided'', ''refunded''} \<and>
     sql_opt_nonblank (r_bank_authorization_id r) \<and>
     sql_nonblank (r_authorization_bank_operation_key r) \<and>
     sql_nonblank (r_authorization_card_fingerprint r) \<and>
     sql_opt_nonblank (r_bank_capture_id r) \<and> sql_opt_nonblank (r_capture_bank_operation_key r) \<and>
     sql_opt_nonblank (r_bank_refund_id r) \<and> sql_opt_nonblank (r_refund_bank_operation_key r) \<and>
     sql_opt_nonblank (r_bank_void_id r) \<and> sql_opt_nonblank (r_void_bank_operation_key r) \<and>
     (case r_decline_reason r of None \<Rightarrow> True | Some s \<Rightarrow>
        s \<in> {''insufficient_funds'', ''invalid_card'', ''expired_card'', ''unknown''})"

definition payments_status_private_fields_check :: "PaymentRow \<Rightarrow> bool" where
  "payments_status_private_fields_check r \<longleftrightarrow>
     (let auth = r_bank_authorization_id r; expires = r_authorization_expires_at r;
          cap = r_bank_capture_id r; capKey = r_capture_bank_operation_key r;
          ref = r_bank_refund_id r; refKey = r_refund_bank_operation_key r;
          reason = r_decline_reason r; void = r_bank_void_id r; voidKey = r_void_bank_operation_key r
      in
      (r_status r = ''pending'' \<and> auth = None \<and> expires = None \<and> cap = None \<and> capKey = None \<and>
         ref = None \<and> refKey = None \<and> reason = None \<and> void = None \<and> voidKey = None) \<or>
      (r_status r = ''authorized'' \<and> auth \<noteq> None \<and> expires \<noteq> None \<and> cap = None \<and>
         ref = None \<and> refKey = None \<and> reason = None \<and> void = None) \<or>
      (r_status r = ''expired'' \<and> auth \<noteq> None \<and> expires \<noteq> None \<and> cap = None \<and> capKey = None \<and>
         ref = None \<and> refKey = None \<and> reason = None \<and> void = None \<and> voidKey = None) \<or>
      (r_status r = ''declined'' \<and> auth = None \<and> expires = None \<and> cap = None \<and> capKey = None \<and>
         ref = None \<and> refKey = None \<and> reason \<noteq> None \<and> void = None \<and> voidKey = None) \<or>
      (r_status r = ''captured'' \<and> auth \<noteq> None \<and> expires \<noteq> None \<and> cap \<noteq> None \<and> capKey \<noteq> None \<and>
         ref = None \<and> reason = None \<and> void = None \<and> voidKey = None) \<or>
      (r_status r = ''voided'' \<and> auth \<noteq> None \<and> expires \<noteq> None \<and> cap = None \<and> capKey = None \<and>
         ref = None \<and> refKey = None \<and> reason = None \<and> void \<noteq> None \<and> voidKey \<noteq> None) \<or>
      (r_status r = ''refunded'' \<and> auth \<noteq> None \<and> expires \<noteq> None \<and> cap \<noteq> None \<and> capKey \<noteq> None \<and>
         ref \<noteq> None \<and> refKey \<noteq> None \<and> reason = None \<and> void = None \<and> voidKey = None))"

definition payments_check :: "PaymentRow \<Rightarrow> bool" where
  "payments_check r \<longleftrightarrow> payments_column_checks r \<and> payments_status_private_fields_check r"

definition idempotency_records_check :: "IdempotencyRow \<Rightarrow> bool" where
  "idempotency_records_check r \<longleftrightarrow>
     sql_nonblank (i_operation r) \<and> sql_nonblank (i_key r) \<and> sql_nonblank (i_request_fingerprint r) \<and>
     (case i_payment_id r of None \<Rightarrow> True | Some s \<Rightarrow> payment_id_matches s) \<and>
     i_status r \<in> {''in_progress'', ''completed''} \<and>
     (case i_failure_kind r of None \<Rightarrow> True | Some k \<Rightarrow> k = ''authorization_expired'') \<and>
     ((i_status r = ''in_progress'' \<and> i_failure_kind r = None \<and> i_payment_result r = None \<and>
         i_completed_at r = None) \<or>
      (i_status r = ''completed'' \<and> i_payment_result r \<noteq> None \<and> i_completed_at r \<noteq> None))"

subsection \<open>Statements and transactions\<close>

datatype stmt_outcome = StmtOk | StmtErr | StmtLostReply

record Database =
  db_payments :: "PaymentRow list"
  db_records :: "IdempotencyRow list"
  db_faults :: "stmt_outcome list"

definition next_outcome :: "Database \<Rightarrow> stmt_outcome \<times> Database" where
  "next_outcome d = (case db_faults d of [] \<Rightarrow> (StmtOk, d) | q # qs \<Rightarrow> (q, d\<lparr>db_faults := qs\<rparr>))"

definition sql_error :: go_error where
  "sql_error = OtherError ''sql: statement failed''"

definition sql_exec :: "(Database \<Rightarrow> ('a \<times> Database) option) \<Rightarrow> (Database, 'a) action" where
  "sql_exec stmt d =
   (case next_outcome d of
      (StmtErr, d1) \<Rightarrow> (Inl sql_error, d1)
    | (StmtOk, d1) \<Rightarrow> (case stmt d1 of None \<Rightarrow> (Inl sql_error, d1) | Some (x, d2) \<Rightarrow> (Inr x, d2))
    | (StmtLostReply, d1) \<Rightarrow> (case stmt d1 of None \<Rightarrow> (Inl sql_error, d1) | Some (x, d2) \<Rightarrow> (Inl sql_error, d2)))"

definition sql_query :: "(Database \<Rightarrow> 'a) \<Rightarrow> (Database, 'a) action" where
  "sql_query q = sql_exec (\<lambda>d. Some (q d, d))"

abbreviation internal_err :: "go_error \<Rightarrow> go_error" where
  "internal_err e \<equiv> NewInternalPaymentError (Some e)"

definition rollback :: "Database \<Rightarrow> Database \<Rightarrow> Database" where
  "rollback d0 d = d\<lparr>db_payments := db_payments d0, db_records := db_records d0\<rparr>"

definition tx_Commit :: "Database \<Rightarrow> 'a \<Rightarrow> (Database, 'a) action" where
  "tx_Commit d0 x d =
   (case next_outcome d of
      (StmtOk, d1) \<Rightarrow> (Inr x, d1)
    | (StmtErr, d1) \<Rightarrow> (Inl (internal_err sql_error), rollback d0 d1)
    | (StmtLostReply, d1) \<Rightarrow> (Inl (internal_err sql_error), d1))"

text \<open>\<^verbatim>\<open>BeginTx\<close>, the body, \<^verbatim>\<open>Commit\<close>; the deferred \<^verbatim>\<open>Rollback\<close> undoes a body that returned early.\<close>

definition in_tx :: "(Database, 'a) action \<Rightarrow> (Database, 'a) action" where
  "in_tx body =
   act_bind (act_map_err internal_err (sql_query (\<lambda>d. ()))) (\<lambda>_ d0.
     case body d0 of
       (Inl e, d) \<Rightarrow> (Inl e, rollback d0 d)
     | (Inr x, d) \<Rightarrow> tx_Commit d0 x d)"

subsection \<open>Rows and payments\<close>

definition nullableString :: "string \<Rightarrow> string option" where
  "nullableString val = (if val = [] then None else Some val)"

definition nullableTime :: "(time \<Rightarrow> time) \<Rightarrow> time \<Rightarrow> time option" where
  "nullableTime ts val = (if IsZero val then None else Some (ts val))"

definition nullStringValue :: "string option \<Rightarrow> string" where
  "nullStringValue val = (case val of None \<Rightarrow> [] | Some s \<Rightarrow> s)"

definition nullTimeValue :: "time option \<Rightarrow> time" where
  "nullTimeValue val = (case val of None \<Rightarrow> 0 | Some t \<Rightarrow> t)"

definition payment_row :: "(time \<Rightarrow> time) \<Rightarrow> Payment \<Rightarrow> PaymentRow" where
  "payment_row ts p =
     \<lparr>r_id = p_id p, r_order_id = orderID p, r_customer_id = customerID p,
      r_amount_cents = amountCents p, r_currency = currency p, r_status = status p,
      r_bank_authorization_id = nullableString (bankAuthorizationID p),
      r_authorization_expires_at = nullableTime ts (authorizationExpiresAt p),
      r_authorization_bank_operation_key = authorizationBankOperationKey p,
      r_authorization_card_fingerprint = authorizationCardFingerprint p,
      r_bank_capture_id = nullableString (bankCaptureID p),
      r_capture_bank_operation_key = nullableString (captureBankOperationKey p),
      r_bank_refund_id = nullableString (bankRefundID p),
      r_refund_bank_operation_key = nullableString (refundBankOperationKey p),
      r_bank_void_id = nullableString (bankVoidID p),
      r_void_bank_operation_key = nullableString (voidBankOperationKey p),
      r_decline_reason = nullableString (declineReason p),
      r_created_at = ts (createdAt p), r_updated_at = ts (updatedAt p)\<rparr>"

definition scanPayment :: "PaymentRow \<Rightarrow> domain_error + Payment" where
  "scanPayment r =
     LoadPayment (r_id r) (r_order_id r) (r_customer_id r) (r_amount_cents r) (r_currency r) (r_status r)
       (nullStringValue (r_bank_authorization_id r)) (nullTimeValue (r_authorization_expires_at r))
       (r_authorization_bank_operation_key r) (r_authorization_card_fingerprint r)
       (nullStringValue (r_bank_capture_id r)) (nullStringValue (r_capture_bank_operation_key r))
       (nullStringValue (r_bank_refund_id r)) (nullStringValue (r_refund_bank_operation_key r))
       (nullStringValue (r_bank_void_id r)) (nullStringValue (r_void_bank_operation_key r))
       (nullStringValue (r_decline_reason r)) (r_created_at r) (r_updated_at r)"

definition insertPayment :: "(time \<Rightarrow> time) \<Rightarrow> Payment \<Rightarrow> (Database, unit) action" where
  "insertPayment ts payment =
   sql_exec (\<lambda>d. let row = payment_row ts payment in
     if payments_check row \<and> lookup_row r_id (db_payments d) (r_id row) = None
     then Some ((), d\<lparr>db_payments := sql_insert row (db_payments d)\<rparr>) else None)"

text \<open>
  \<^verbatim>\<open>UPDATE payments SET ... WHERE ...\<close>: the number of rows changed, or a failure when a changed
  row violates a check.
\<close>

definition update_payments ::
  "(PaymentRow \<Rightarrow> bool) \<Rightarrow> (PaymentRow \<Rightarrow> PaymentRow) \<Rightarrow> (Database, nat) action" where
  "update_payments p f =
   sql_exec (\<lambda>d.
     if list_all (\<lambda>r. p r \<longrightarrow> payments_check (f r)) (db_payments d)
     then Some (sql_count p (db_payments d), d\<lparr>db_payments := sql_update p f (db_payments d)\<rparr>)
     else None)"

definition update_records ::
  "(IdempotencyRow \<Rightarrow> bool) \<Rightarrow> (IdempotencyRow \<Rightarrow> IdempotencyRow) \<Rightarrow> (Database, nat) action" where
  "update_records p f =
   sql_exec (\<lambda>d.
     if list_all (\<lambda>r. p r \<longrightarrow> idempotency_records_check (f r)) (db_records d)
     then Some (sql_count p (db_records d), d\<lparr>db_records := sql_update p f (db_records d)\<rparr>)
     else None)"

definition findPaymentByID :: "PaymentID \<Rightarrow> (Database, Payment) action" where
  "findPaymentByID pid =
   act_bind (act_map_err internal_err (sql_query (\<lambda>d. lookup_row r_id (db_payments d) pid))) (\<lambda>row.
     case row of
       None \<Rightarrow> act_fail (NewPaymentNotFoundError pid (Some ErrNoRows))
     | Some r \<Rightarrow> act_map_err internal_err (act_lift (domain_result (scanPayment r))))"

subsection \<open>Claims\<close>

datatype idempotencyClaimOutcome =
    idempotencyClaimAcquired | idempotencyClaimRecovered | idempotencyClaimReplayed
  | idempotencyClaimInProgress | idempotencyClaimConflict

record idempotencyRecord =
  ir_operation :: string
  ir_key :: string
  ir_requestFingerprint :: string
  ir_paymentID :: PaymentID
  ir_status :: string
  ir_claimedAt :: time
  ir_result :: PaymentCommandResult

definition stuck_claim ::
  "(time \<Rightarrow> time) \<Rightarrow> 'a PaymentCommandClaimRequest_scheme \<Rightarrow> time \<Rightarrow> IdempotencyRow \<Rightarrow> bool" where
  "stuck_claim ts request now r \<longleftrightarrow>
     i_operation r = cr_operation request \<and> i_key r = cr_key request \<and>
     i_request_fingerprint r = cr_requestFingerprint request \<and>
     i_status r = idempotencyRecordInProgress \<and>
     i_claimed_at r \<le> ts (now - cr_claimStuckAfter request)"

definition recoverIdempotencyClaim ::
  "(time \<Rightarrow> time) \<Rightarrow> 'a PaymentCommandClaimRequest_scheme \<Rightarrow> time \<Rightarrow> (Database, idempotencyRecord option) action" where
  "recoverIdempotencyClaim ts request now =
   act_bind
     (sql_exec (\<lambda>d.
        let stuck = stuck_claim ts request now; refresh = (\<lambda>r. r\<lparr>i_claimed_at := ts now\<rparr>) in
        if list_all (\<lambda>r. stuck r \<longrightarrow> idempotency_records_check (refresh r)) (db_records d)
        then Some (map_option i_payment_id (find stuck (db_records d)),
                   d\<lparr>db_records := sql_update stuck refresh (db_records d)\<rparr>)
        else None))
     (\<lambda>returned. case returned of
        None \<Rightarrow> act_return None
      | Some paymentID \<Rightarrow> act_return (Some
          \<lparr>ir_operation = cr_operation request, ir_key = cr_key request,
           ir_requestFingerprint = cr_requestFingerprint request,
           ir_paymentID = nullStringValue paymentID, ir_status = idempotencyRecordInProgress,
           ir_claimedAt = now, ir_result = zero_PaymentCommandResult\<rparr>))"

definition stored_result :: "IdempotencyRow \<Rightarrow> go_error + PaymentCommandResult" where
  "stored_result r =
   (if i_status r = idempotencyRecordCompleted then
      bind_result (decodePaymentResultSnapshot (i_payment_result r)) (\<lambda>paymentResult.
      let storedKind = nullStringValue (i_failure_kind r) in
      if storedKind \<noteq> [] \<and> \<not> IsTerminalFailureKind storedKind
        then Inl (OtherError (''stored idempotency failure kind is not terminal: '' @ storedKind))
      else Inr \<lparr>pcr_Payment = paymentResult, pcr_FailureKind = storedKind\<rparr>)
    else Inr zero_PaymentCommandResult)"

definition selectIdempotencyRecord :: "string \<Rightarrow> string \<Rightarrow> (Database, idempotencyRecord) action" where
  "selectIdempotencyRecord operation key =
   act_bind (sql_query (\<lambda>d. lookup_row i_pk (db_records d) (operation, key))) (\<lambda>row.
     case row of None \<Rightarrow> act_fail ErrNoRows | Some r \<Rightarrow>
     act_bind (act_lift (stored_result r)) (\<lambda>result.
     act_return \<lparr>ir_operation = operation, ir_key = key,
       ir_requestFingerprint = i_request_fingerprint r,
       ir_paymentID = nullStringValue (i_payment_id r), ir_status = i_status r,
       ir_claimedAt = i_claimed_at r, ir_result = result\<rparr>))"

definition claim_row ::
  "(time \<Rightarrow> time) \<Rightarrow> 'a PaymentCommandClaimRequest_scheme \<Rightarrow> PaymentID \<Rightarrow> IdempotencyRow" where
  "claim_row ts request paymentID =
     \<lparr>i_operation = cr_operation request, i_key = cr_key request,
      i_request_fingerprint = cr_requestFingerprint request, i_payment_id = nullableString paymentID,
      i_status = idempotencyRecordInProgress, i_failure_kind = None, i_payment_result = None,
      i_claimed_at = ts (cr_now request), i_completed_at = None\<rparr>"

text \<open>\<^verbatim>\<open>INSERT ... ON CONFLICT (operation, key) DO NOTHING\<close>: the number of rows inserted.\<close>

definition insert_claim ::
  "(time \<Rightarrow> time) \<Rightarrow> 'a PaymentCommandClaimRequest_scheme \<Rightarrow> PaymentID \<Rightarrow> (Database, nat) action" where
  "insert_claim ts request paymentID =
   sql_exec (\<lambda>d. let row = claim_row ts request paymentID in
     if \<not> idempotency_records_check row then None
     else if lookup_row i_pk (db_records d) (i_pk row) \<noteq> None then Some (0, d)
     else Some (1, d\<lparr>db_records := sql_insert row (db_records d)\<rparr>))"

definition classify_claim ::
  "'a PaymentCommandClaimRequest_scheme \<Rightarrow> idempotencyRecord \<Rightarrow>
   (Database, idempotencyRecord \<times> idempotencyClaimOutcome) action" where
  "classify_claim request record =
   (if ir_requestFingerprint record \<noteq> cr_requestFingerprint request
      then act_return (record, idempotencyClaimConflict)
    else if ir_status record = idempotencyRecordInProgress
      then act_return (record, idempotencyClaimInProgress)
    else if ir_status record = idempotencyRecordCompleted
      then act_return (record, idempotencyClaimReplayed)
    else act_fail (OtherError ''unknown idempotency record status''))"

definition acquired_record :: "'a PaymentCommandClaimRequest_scheme \<Rightarrow> PaymentID \<Rightarrow> idempotencyRecord" where
  "acquired_record request paymentID =
     \<lparr>ir_operation = cr_operation request, ir_key = cr_key request,
      ir_requestFingerprint = cr_requestFingerprint request, ir_paymentID = paymentID,
      ir_status = [], ir_claimedAt = 0, ir_result = zero_PaymentCommandResult\<rparr>"

definition claimIdempotency ::
  "(time \<Rightarrow> time) \<Rightarrow> 'a PaymentCommandClaimRequest_scheme \<Rightarrow> PaymentID \<Rightarrow>
   (Database, idempotencyRecord \<times> idempotencyClaimOutcome) action" where
  "claimIdempotency ts request paymentID =
   act_bind (recoverIdempotencyClaim ts request (cr_now request)) (\<lambda>recovered.
   case recovered of Some record \<Rightarrow> act_return (record, idempotencyClaimRecovered) | None \<Rightarrow>
   act_bind (insert_claim ts request paymentID) (\<lambda>rowsAffected.
   if rowsAffected = 1 then act_return (acquired_record request paymentID, idempotencyClaimAcquired)
   else act_bind (selectIdempotencyRecord (cr_operation request) (cr_key request)) (classify_claim request)))"

definition findRecoveredPayment :: "PaymentID \<Rightarrow> (Database, Payment) action" where
  "findRecoveredPayment pid =
   act_map_err (\<lambda>err.
     if HasPaymentErrorKind err PaymentErrorNotFound
     then NewIdempotencyRecoveryError ''unrecoverable'' (internal_err err) else err)
     (findPaymentByID pid)"

definition validateAcquiredPaymentCommand ::
  "ExistingPaymentCommandClaimRequest \<Rightarrow> Payment \<Rightarrow> go_error option" where
  "validateAcquiredPaymentCommand request payment =
   (if cr_expectedStatus request \<noteq> [] \<and> status payment \<noteq> cr_expectedStatus request
      then Some (NewPaymentStatusConflictError None)
    else if ecr_authorizationCardFingerprint request \<noteq> [] \<and>
            ecr_authorizationCardFingerprint request \<noteq> authorizationCardFingerprint payment
      then Some (NewPaymentStatusConflictError None)
    else None)"

definition validateRecoveredPaymentCommand ::
  "ExistingPaymentCommandClaimRequest \<Rightarrow> idempotencyRecord \<Rightarrow> Payment \<Rightarrow> go_error option" where
  "validateRecoveredPaymentCommand request record payment =
   (let missing = (\<lambda>key. if key = [] then
          Some (NewIdempotencyRecoveryError ''unrecoverable''
                  (internal_err (OtherError ''missing recovered bank operation key''))) else None)
    in
    if ecr_paymentID request \<noteq> ir_paymentID record
      then Some (NewIdempotencyRecoveryError ''conflict'' (NewPaymentIdempotencyConflictError None))
    else if cr_expectedStatus request \<noteq> [] \<and> status payment \<noteq> cr_expectedStatus request
      then Some (NewIdempotencyRecoveryError ''conflict'' (NewPaymentStatusConflictError None))
    else if ecr_authorizationCardFingerprint request \<noteq> [] \<and>
            ecr_authorizationCardFingerprint request \<noteq> authorizationCardFingerprint payment
      then Some (NewIdempotencyRecoveryError ''conflict'' (NewPaymentIdempotencyConflictError None))
    else if cr_operation request = RetryAuthorizationOperation then None
    else if cr_operation request = CapturePaymentOperation then missing (captureBankOperationKey payment)
    else if cr_operation request = VoidPaymentOperation then missing (voidBankOperationKey payment)
    else if cr_operation request = RefundPaymentOperation then missing (refundBankOperationKey payment)
    else Some (NewIdempotencyRecoveryError ''unrecoverable'' (internal_err (OtherError ''unknown bank operation''))))"

text \<open>
  \<^verbatim>\<open>UPDATE payments SET \<close>column\<^verbatim>\<open> = $2 WHERE id = $1 AND status = $3\<close>, with \<open>set\<close> the
  assignment to the column.
\<close>

definition persist_bank_operation_key ::
  "(string option \<Rightarrow> PaymentRow \<Rightarrow> PaymentRow) \<Rightarrow> Payment \<Rightarrow> string \<Rightarrow> (Database, Payment) action" where
  "persist_bank_operation_key set_column payment val =
   act_bind (act_map_err internal_err
     (update_payments (\<lambda>r. r_id r = p_id payment \<and> r_status r = status payment) (set_column (Some val))))
   (\<lambda>affected. if affected \<noteq> 1
      then act_fail (internal_err (OtherError ''bank operation key update did not affect payment''))
      else act_return payment)"

definition ensureBankOperationKey ::
  "Payment \<Rightarrow> ExistingPaymentCommandClaimRequest \<Rightarrow> (Database, Payment) action" where
  "ensureBankOperationKey payment request =
   (if cr_operation request = RetryAuthorizationOperation then act_return payment
    else if cr_operation request = CapturePaymentOperation then
      if captureBankOperationKey payment \<noteq> [] then act_return payment
      else act_bind (act_map_err internal_err (act_lift (domain_result
              (SetCaptureBankOperationKey (ecr_bankOperationKey request) payment)))) (\<lambda>payment.
           persist_bank_operation_key (\<lambda>v r. r\<lparr>r_capture_bank_operation_key := v\<rparr>) payment
             (captureBankOperationKey payment))
    else if cr_operation request = VoidPaymentOperation then
      if voidBankOperationKey payment \<noteq> [] then act_return payment
      else act_bind (act_map_err internal_err (act_lift (domain_result
              (SetVoidBankOperationKey (ecr_bankOperationKey request) payment)))) (\<lambda>payment.
           persist_bank_operation_key (\<lambda>v r. r\<lparr>r_void_bank_operation_key := v\<rparr>) payment
             (voidBankOperationKey payment))
    else if cr_operation request = RefundPaymentOperation then
      if refundBankOperationKey payment \<noteq> [] then act_return payment
      else act_bind (act_map_err internal_err (act_lift (domain_result
              (SetRefundBankOperationKey (ecr_bankOperationKey request) payment)))) (\<lambda>payment.
           persist_bank_operation_key (\<lambda>v r. r\<lparr>r_refund_bank_operation_key := v\<rparr>) payment
             (refundBankOperationKey payment))
    else act_fail (internal_err (OtherError ''unknown bank operation'')))"

subsection \<open>Completing and releasing\<close>

definition transition_row :: "(time \<Rightarrow> time) \<Rightarrow> Payment \<Rightarrow> PaymentRow \<Rightarrow> PaymentRow" where
  "transition_row ts p r =
     r\<lparr>r_status := status p,
       r_bank_authorization_id := nullableString (bankAuthorizationID p),
       r_authorization_expires_at := nullableTime ts (authorizationExpiresAt p),
       r_authorization_bank_operation_key := authorizationBankOperationKey p,
       r_authorization_card_fingerprint := authorizationCardFingerprint p,
       r_bank_capture_id := nullableString (bankCaptureID p),
       r_capture_bank_operation_key := nullableString (captureBankOperationKey p),
       r_bank_refund_id := nullableString (bankRefundID p),
       r_refund_bank_operation_key := nullableString (refundBankOperationKey p),
       r_bank_void_id := nullableString (bankVoidID p),
       r_void_bank_operation_key := nullableString (voidBankOperationKey p),
       r_decline_reason := nullableString (declineReason p),
       r_updated_at := ts (updatedAt p)\<rparr>"

definition persistPaymentTransition ::
  "(time \<Rightarrow> time) \<Rightarrow> Payment \<Rightarrow> PaymentStatus \<Rightarrow> (Database, unit) action" where
  "persistPaymentTransition ts payment expectedStatus =
   act_bind (act_map_err internal_err
     (update_payments (\<lambda>r. r_id r = p_id payment \<and> r_status r = expectedStatus) (transition_row ts payment)))
   (\<lambda>affected. if affected = 0 then
      act_bind (findPaymentByID (p_id payment)) (\<lambda>_. act_fail (NewPaymentStatusConflictError None))
    else act_return ())"

definition own_claim :: "PaymentCommandClaim \<Rightarrow> IdempotencyRow \<Rightarrow> bool" where
  "own_claim claim r \<longleftrightarrow>
     i_operation r = pcc_operation claim \<and> i_key r = pcc_key claim \<and>
     i_request_fingerprint r = pcc_requestFingerprint claim \<and> i_status r = idempotencyRecordInProgress"

definition completed_row ::
  "(time \<Rightarrow> time) \<Rightarrow> PaymentErrorKind \<Rightarrow> json_object \<Rightarrow> time \<Rightarrow> IdempotencyRow \<Rightarrow> IdempotencyRow" where
  "completed_row ts failureKind paymentResult completedAt r =
     r\<lparr>i_status := idempotencyRecordCompleted, i_failure_kind := nullableString failureKind,
       i_payment_result := Some paymentResult, i_completed_at := Some (ts completedAt)\<rparr>"

definition completeIdempotencyRecord ::
  "(time \<Rightarrow> time) \<Rightarrow> PaymentCommandClaim \<Rightarrow> PaymentErrorKind \<Rightarrow> json_object \<Rightarrow> time \<Rightarrow> (Database, unit) action" where
  "completeIdempotencyRecord ts claim failureKind paymentResult completedAt =
   (if failureKind \<noteq> [] \<and> \<not> IsTerminalFailureKind failureKind
      then act_fail (internal_err (OtherError (''payment command failure kind is not terminal: '' @ failureKind)))
    else
    act_bind (act_map_err internal_err
      (update_records (own_claim claim) (completed_row ts failureKind paymentResult completedAt)))
    (\<lambda>rowsAffected. if rowsAffected \<noteq> 1
       then act_fail (NewPaymentIdempotencyConflictError None)
       else act_return ()))"

subsection \<open>The operations of the store\<close>

definition business_time_required :: go_error where
  "business_time_required = internal_err (OtherError ''payment store business time is required'')"

text \<open>
  The body of a claim's transaction.  An idempotency conflict is an error the transaction commits
  with (\<open>Inr (Inl err)\<close>); every other error rolls it back.
\<close>

definition start_outcome ::
  "(time \<Rightarrow> time) \<Rightarrow> AuthorizationStartClaimRequest \<Rightarrow> Payment \<Rightarrow> idempotencyRecord \<times> idempotencyClaimOutcome \<Rightarrow>
   (Database, go_error + PaymentCommandClaim) action" where
  "start_outcome ts request payment = (\<lambda>(record, outcome). case outcome of
     idempotencyClaimReplayed \<Rightarrow> act_return (Inr (NewReplayedPaymentCommand request (ir_result record)))
   | idempotencyClaimInProgress \<Rightarrow> act_return (Inl (NewPaymentIdempotencyInProgressError None))
   | idempotencyClaimConflict \<Rightarrow> act_return (Inl (NewPaymentIdempotencyConflictError None))
   | idempotencyClaimAcquired \<Rightarrow>
       act_bind (act_map_err internal_err (insertPayment ts payment)) (\<lambda>_.
       act_return (Inr (NewClaimedPaymentCommand request payment)))
   | idempotencyClaimRecovered \<Rightarrow>
       act_bind (findRecoveredPayment (ir_paymentID record)) (\<lambda>payment.
       if status payment \<noteq> cr_expectedStatus request
         then act_fail (NewPaymentStatusConflictError None)
       else act_return (Inr (NewRecoveredPaymentCommand request payment))))"

definition pg_ClaimAuthorizationStart ::
  "(time \<Rightarrow> time) \<Rightarrow> AuthorizationStartClaimRequest \<Rightarrow> (Database, PaymentCommandClaim) action" where
  "pg_ClaimAuthorizationStart ts request =
   (if IsZero (cr_now request) then act_fail business_time_required
    else case asr_payment request of
      None \<Rightarrow> act_fail (internal_err (OtherError ''authorization start claim requires a payment''))
    | Some payment \<Rightarrow>
      act_bind (in_tx (act_bind (act_map_err internal_err (claimIdempotency ts request (p_id payment)))
                         (start_outcome ts request payment)))
        act_lift)"

definition existing_outcome ::
  "ExistingPaymentCommandClaimRequest \<Rightarrow> idempotencyRecord \<times> idempotencyClaimOutcome \<Rightarrow>
   (Database, go_error + PaymentCommandClaim) action" where
  "existing_outcome request = (\<lambda>(record, outcome). case outcome of
     idempotencyClaimReplayed \<Rightarrow> act_return (Inr (NewReplayedPaymentCommand request (ir_result record)))
   | idempotencyClaimInProgress \<Rightarrow> act_return (Inl (NewPaymentIdempotencyInProgressError None))
   | idempotencyClaimConflict \<Rightarrow> act_return (Inl (NewPaymentIdempotencyConflictError None))
   | idempotencyClaimAcquired \<Rightarrow>
       act_bind (findPaymentByID (ecr_paymentID request)) (\<lambda>payment.
       case validateAcquiredPaymentCommand request payment of Some err \<Rightarrow> act_fail err | None \<Rightarrow>
       act_bind (ensureBankOperationKey payment request) (\<lambda>payment.
       act_return (Inr (NewClaimedPaymentCommand request payment))))
   | idempotencyClaimRecovered \<Rightarrow>
       act_bind (findRecoveredPayment (ir_paymentID record)) (\<lambda>payment.
       case validateRecoveredPaymentCommand request record payment of Some err \<Rightarrow> act_fail err | None \<Rightarrow>
       act_return (Inr (NewRecoveredPaymentCommand request payment))))"

definition pg_ClaimExistingPaymentCommand ::
  "(time \<Rightarrow> time) \<Rightarrow> ExistingPaymentCommandClaimRequest \<Rightarrow> (Database, PaymentCommandClaim) action" where
  "pg_ClaimExistingPaymentCommand ts request =
   (if IsZero (cr_now request) then act_fail business_time_required
    else
      act_bind (in_tx (act_bind (act_map_err internal_err (claimIdempotency ts request (ecr_paymentID request)))
                         (existing_outcome request)))
        act_lift)"

text \<open>
  A claim that carries no payment (a replayed one) makes \<^verbatim>\<open>persistPaymentTransition\<close> panic; the
  service returns before completing such a claim.
\<close>

definition pg_CompletePaymentCommand ::
  "(time \<Rightarrow> time) \<Rightarrow> PaymentCommandClaim \<Rightarrow> PaymentCommandResult \<Rightarrow> time \<Rightarrow> (Database, unit) action" where
  "pg_CompletePaymentCommand ts claim result completedAt =
   (if IsZero completedAt then act_fail business_time_required
    else act_bind (act_map_err internal_err (act_lift (encodePaymentResultSnapshot (pcr_Payment result))))
    (\<lambda>paymentResult. in_tx (
      case pcc_payment claim of None \<Rightarrow> act_fail (OtherError ''panic: nil payment'') | Some payment \<Rightarrow>
      act_bind (persistPaymentTransition ts payment (pcc_expectedStatus claim)) (\<lambda>_.
      completeIdempotencyRecord ts claim (pcr_FailureKind result) paymentResult completedAt))))"

definition released_claim :: "PaymentCommandClaim \<Rightarrow> IdempotencyRow \<Rightarrow> bool" where
  "released_claim claim r \<longleftrightarrow>
     i_operation r = pcc_operation claim \<and> i_key r = pcc_key claim \<and> i_status r = idempotencyRecordInProgress"

definition pg_ReleasePaymentCommand :: "PaymentCommandClaim \<Rightarrow> (Database, unit) action" where
  "pg_ReleasePaymentCommand claim =
   act_map_err internal_err (sql_exec (\<lambda>d.
     Some ((), d\<lparr>db_records := sql_delete (released_claim claim) (db_records d)\<rparr>)))"

definition pg_FindByID :: "PaymentID \<Rightarrow> (Database, Payment) action" where
  "pg_FindByID pid = in_tx (findPaymentByID pid)"

definition search_match :: "SearchPaymentsQuery \<Rightarrow> PaymentRow \<Rightarrow> bool" where
  "search_match query r \<longleftrightarrow>
     (spq_orderID query = [] \<or> r_order_id r = spq_orderID query) \<and>
     (spq_customerID query = [] \<or> r_customer_id r = spq_customerID query) \<and>
     (spq_status query = [] \<or> r_status r = spq_status query)"

definition newest_first :: "(string \<Rightarrow> string \<Rightarrow> bool) \<Rightarrow> PaymentRow \<Rightarrow> PaymentRow \<Rightarrow> bool" where
  "newest_first text_le r q \<longleftrightarrow>
     r_created_at q < r_created_at r \<or> r_created_at r = r_created_at q \<and> text_le (r_id q) (r_id r)"

fun insert_by :: "('a \<Rightarrow> 'a \<Rightarrow> bool) \<Rightarrow> 'a \<Rightarrow> 'a list \<Rightarrow> 'a list" where
  "insert_by le x [] = [x]"
| "insert_by le x (y # ys) = (if le x y then x # y # ys else y # insert_by le x ys)"

definition sort_by :: "('a \<Rightarrow> 'a \<Rightarrow> bool) \<Rightarrow> 'a list \<Rightarrow> 'a list" where
  "sort_by le xs = foldr (insert_by le) xs []"

fun scan_all :: "PaymentRow list \<Rightarrow> domain_error + Payment list" where
  "scan_all [] = Inr []"
| "scan_all (r # rs) = bind_result (scanPayment r) (\<lambda>p. bind_result (scan_all rs) (\<lambda>ps. Inr (p # ps)))"

definition pg_Search ::
  "(string \<Rightarrow> string \<Rightarrow> bool) \<Rightarrow> SearchPaymentsQuery \<Rightarrow> (Database, Payment list) action" where
  "pg_Search text_le query =
   in_tx (act_map_err internal_err (
     act_bind (sql_query (\<lambda>d. take 100 (sort_by (newest_first text_le) (filter (search_match query) (db_payments d)))))
       (\<lambda>rows. act_lift (domain_result (scan_all rows)))))"

definition expired_record :: "(time \<Rightarrow> time) \<Rightarrow> time \<Rightarrow> IdempotencyRow \<Rightarrow> bool" where
  "expired_record ts completedBefore r \<longleftrightarrow>
     i_status r = idempotencyRecordCompleted \<and>
     (case i_completed_at r of None \<Rightarrow> False | Some t \<Rightarrow> t < ts completedBefore)"

definition pg_CleanupCompletedIdempotencyRecords ::
  "(time \<Rightarrow> time) \<Rightarrow> time \<Rightarrow> (Database, nat) action" where
  "pg_CleanupCompletedIdempotencyRecords ts completedBefore =
   (if IsZero completedBefore then act_fail business_time_required
    else act_map_err internal_err (sql_exec (\<lambda>d.
      Some (sql_count (expired_record ts completedBefore) (db_records d),
            d\<lparr>db_records := sql_delete (expired_record ts completedBefore) (db_records d)\<rparr>))))"

text \<open>The age is a duration here; the query converts it to seconds.\<close>

definition pg_PendingPaymentMetrics :: "time \<Rightarrow> (Database, nat \<times> duration) action" where
  "pg_PendingPaymentMetrics pg_now =
   act_map_err internal_err (sql_query (\<lambda>d.
     let created = map r_created_at (filter (\<lambda>r. r_status r = PaymentStatusPending) (db_payments d))
     in (length created, if created = [] then 0 else pg_now - Min (set created))))"

definition NewPaymentStore :: "(time \<Rightarrow> time) \<Rightarrow> (string \<Rightarrow> string \<Rightarrow> bool) \<Rightarrow> Database PaymentStore" where
  "NewPaymentStore ts text_le =
     \<lparr>FindByID = pg_FindByID, Search = pg_Search text_le,
      ClaimAuthorizationStart = pg_ClaimAuthorizationStart ts,
      ClaimExistingPaymentCommand = pg_ClaimExistingPaymentCommand ts,
      CompletePaymentCommand = pg_CompletePaymentCommand ts,
      ReleasePaymentCommand = pg_ReleasePaymentCommand,
      CleanupCompletedIdempotencyRecords = pg_CleanupCompletedIdempotencyRecords ts\<rparr>"

subsection \<open>The two tables as keyed tables\<close>

interpretation payments: keyed_table r_id "unique_keys r_id" "lookup_row r_id" sql_insert sql_update sql_delete sql_count
  by (rule list_keyed_table)

interpretation records: keyed_table i_pk "unique_keys i_pk" "lookup_row i_pk" sql_insert sql_update sql_delete sql_count
  by (rule list_keyed_table)

end
