(* ===== verification/Store_Rows.thy ===== *)
theory Store_Rows
  imports Payment_Store
begin

text \<open>
  Payments and their rows: what a well-formed payment looks like in the \<^verbatim>\<open>payments\<close> table.
  The lemmas show that the validation in Go and the constraints in SQL agree on payment ids, that
  the row of a well-formed payment satisfies every constraint of the schema, and that reading a
  row back gives the payment that was written, up to the rounding of its timestamps.
\<close>

subsection \<open>Payment ids: the Go check and the SQL pattern\<close>

definition uuid_class :: "nat \<Rightarrow> char \<Rightarrow> bool" where
  "uuid_class i = (if i \<in> {8, 13, 18, 23} then (=) (CHR ''-'') else isHexDigit)"

lemma payment_id_pattern_split:
  "payment_id_pattern = map (=) ''pay_'' @ map uuid_class [0..<36]"
proof -
  have "[0..<36] = [0..<8] @ [8..<9] @ [9..<13] @ [13..<14] @ [14..<18] @ [18..<19] @ [19..<23] @
                   [23..<24] @ [24..<36::nat]"
    by (simp add: upt_conv_Cons)
  moreover have "map uuid_class [0..<8] = replicate 8 isHexDigit"
    "map uuid_class [9..<13] = replicate 4 isHexDigit" "map uuid_class [14..<18] = replicate 4 isHexDigit"
    "map uuid_class [19..<23] = replicate 4 isHexDigit" "map uuid_class [24..<36] = replicate 12 isHexDigit"
    by (simp_all add: uuid_class_def upt_conv_Cons numeral_eq_Suc)
  moreover have "map uuid_class [8..<9] = [(=) (CHR ''-'')]" "map uuid_class [13..<14] = [(=) (CHR ''-'')]"
    "map uuid_class [18..<19] = [(=) (CHR ''-'')]" "map uuid_class [23..<24] = [(=) (CHR ''-'')]"
    by (simp_all add: uuid_class_def upt_conv_Cons)
  ultimately show ?thesis by (simp add: payment_id_pattern_def)
qed

lemma all2_classes:
  "list_all2 (\<lambda>p c. p c) (map f [0..<n]) v \<longleftrightarrow> length v = n \<and> (\<forall>i < n. f i (v ! i))"
  by (auto simp: list_all2_conv_all_nth)

lemma enumerate_classes:
  "list_all (\<lambda>(i, r). if i \<in> {8, 13, 18, 23} then r = CHR ''-'' else isHexDigit r) (enumerate 0 v) \<longleftrightarrow>
   (\<forall>i < length v. uuid_class i (v ! i))"
proof -
  have "(if i \<in> {8, 13, 18, 23} then r = CHR ''-'' else isHexDigit r) = uuid_class i r" for i r
    by (simp add: uuid_class_def eq_commute)
  then show ?thesis
    by (simp only: list_all_length length_enumerate) (simp add: nth_enumerate_eq)
qed

lemma isDashedUUID_classes:
  "isDashedUUID v \<longleftrightarrow> list_all2 (\<lambda>p c. p c) (map uuid_class [0..<36]) v"
  unfolding isDashedUUID_def all2_classes enumerate_classes by (rule conj_cong) simp_all

lemma payment_id_matches_iff: "payment_id_matches s \<longleftrightarrow> validatePaymentID s = None"
proof -
  have lit: "list_all2 (\<lambda>p c. p c) (map (=) w) u \<longleftrightarrow> u = w" for w u :: string
    by (auto simp: list_all2_conv_all_nth list_eq_iff_nth_eq)
  have "payment_id_matches s \<longleftrightarrow> (\<exists>b. s = ''pay_'' @ b \<and> isDashedUUID b)"
    unfolding payment_id_matches_def payment_id_pattern_split list_all2_append1 lit isDashedUUID_classes
    by (metis length_map list_all2_lengthD)
  also have "\<dots> \<longleftrightarrow> prefix ''pay_'' s \<and> isDashedUUID (drop 4 s)"
    by (auto simp: prefix_def)
  finally show ?thesis by (simp add: validatePaymentID_def)
qed

subsection \<open>Strings that are not blank\<close>

lemma strip_space: "strip_prefixes space_encodings (CHR '' '' # s) = strip_prefixes space_encodings s"
proof -
  have "find (\<lambda>w. w \<noteq> [] \<and> prefix w (CHR '' '' # s)) space_encodings = Some '' ''"
    by (simp add: space_encodings_def)
  then show ?thesis by (subst strip_prefixes.simps) simp
qed

lemma strip_Nil: "strip_prefixes ws [] = []"
  by (rule strip_prefixes_id) (auto simp: find_None_iff)

lemma TrimSpace_spaces:
  assumes "list_all (\<lambda>c. c = CHR '' '') s"
  shows "TrimSpace s = []"
proof -
  have "strip_prefixes space_encodings s = []"
    using assms by (induction s) (simp_all add: strip_space strip_Nil)
  then show ?thesis by (simp add: TrimSpace_def strip_Nil)
qed

lemma sql_nonblank_normalized: "normalized s \<Longrightarrow> s \<noteq> [] \<Longrightarrow> sql_nonblank s"
  using TrimSpace_spaces [of s] by (auto simp: normalized_def sql_nonblank_def list_all_iff list_ex_iff)

lemma sql_opt_nonblank_nullable: "normalized s \<Longrightarrow> sql_opt_nonblank (nullableString s)"
  by (simp add: sql_opt_nonblank_def nullableString_def sql_nonblank_normalized)

subsection \<open>Rows of well-formed payments\<close>

lemma nullable_roundtrip [simp]: "nullStringValue (nullableString s) = s"
  by (simp add: nullStringValue_def nullableString_def)

lemma nullableString_None_iff [simp]: "nullableString s = None \<longleftrightarrow> s = []"
  by (simp add: nullableString_def)

lemma case_nullableString: "(case nullableString s of None \<Rightarrow> a | Some x \<Rightarrow> f x) = (if s = [] then a else f s)"
  by (simp add: nullableString_def)

lemma nullableTime_None_iff [simp]: "nullableTime ts t = None \<longleftrightarrow> t = 0"
  by (simp add: nullableTime_def IsZero_def)

text \<open>The payment a row denotes after the driver rounded its timestamps.\<close>

definition round_times :: "(time \<Rightarrow> time) \<Rightarrow> Payment \<Rightarrow> Payment" where
  "round_times ts p =
     p\<lparr>authorizationExpiresAt := (if authorizationExpiresAt p = 0 then 0 else ts (authorizationExpiresAt p)),
       createdAt := ts (createdAt p), updatedAt := ts (updatedAt p)\<rparr>"

definition times_survive :: "(time \<Rightarrow> time) \<Rightarrow> Payment \<Rightarrow> bool" where
  "times_survive ts p \<longleftrightarrow>
     ts (createdAt p) \<noteq> 0 \<and> ts (updatedAt p) \<noteq> 0 \<and>
     (authorizationExpiresAt p = 0 \<or> ts (authorizationExpiresAt p) \<noteq> 0)"

lemma round_times_wf: "payment_wf p \<Longrightarrow> times_survive ts p \<Longrightarrow> payment_wf (round_times ts p)"
  by (auto simp: wf_defs round_times_def times_survive_def)

lemma payment_row_round: "times_survive ts p \<Longrightarrow> payment_row ts p = payment_row (\<lambda>t. t) (round_times ts p)"
  by (auto simp: payment_row_def round_times_def times_survive_def nullableTime_def IsZero_def)

lemma scan_payment_row: "payment_wf p \<Longrightarrow> scanPayment (payment_row (\<lambda>t. t) p) = Inr p"
proof -
  assume "payment_wf p"
  moreover have "nullTimeValue (nullableTime (\<lambda>t. t) t) = t" for t
    by (simp add: nullTimeValue_def nullableTime_def IsZero_def)
  then have "scanPayment (payment_row (\<lambda>t. t) p) = load_fields p"
    by (simp add: scanPayment_def payment_row_def load_fields_def)
  ultimately show ?thesis by (simp add: load_fields_wf)
qed

lemma wf_status_literal:
  "payment_wf p \<Longrightarrow>
   status p \<in> {''pending'', ''authorized'', ''expired'', ''declined'', ''captured'', ''voided'', ''refunded''}"
  by (cases rule: payment_wf_cases, assumption) (simp_all add: status_defs)

lemma wf_decline_literal:
  "payment_wf p \<Longrightarrow>
   (case nullableString (declineReason p) of None \<Rightarrow> True | Some s \<Rightarrow>
      s \<in> {''insufficient_funds'', ''invalid_card'', ''expired_card'', ''unknown''})"
  unfolding case_nullableString
  unfolding payment_wf_def payment_status_wf_def Let_def valid_decline_reason_def
    DeclineReasonInsufficientFunds_def DeclineReasonInvalidCard_def DeclineReasonExpiredCard_def
    DeclineReasonUnknown_def
  by (elim conjE disjE) simp_all

lemma wf_column_checks: "payment_wf p \<Longrightarrow> payments_column_checks (payment_row ts p)"
  using wf_status_literal [of p] wf_decline_literal [of p]
  by (simp add: payments_column_checks_def payment_row_def payment_wf_def payment_base_wf_def
      payment_id_matches_iff sql_nonblank_normalized sql_opt_nonblank_nullable CurrencyUSD_def)

lemma wf_status_check:
  assumes "payment_wf p"
  shows "payments_status_private_fields_check (payment_row ts p)"
proof -
  have "payment_status_wf p" and e: "bankAuthorizationID p = [] \<longleftrightarrow> authorizationExpiresAt p = 0"
    using assms by (simp_all add: payment_wf_def payment_base_wf_def)
  moreover have "valid_decline_reason r \<Longrightarrow> r \<noteq> []" for r by auto
  ultimately show ?thesis
    unfolding payments_status_private_fields_check_def payment_status_wf_def Let_def status_defs [symmetric]
    by (elim disjE conjE) (simp_all add: payment_row_def)
qed

lemma wf_payments_check: "payment_wf p \<Longrightarrow> payments_check (payment_row ts p)"
  by (simp add: payments_check_def wf_column_checks wf_status_check)

end
