(* ===== verification/Store_Effects.thy ===== *)
theory Store_Effects
  imports Store_Rows
begin

text \<open>
  What each statement and each helper of the store does to the two tables when it succeeds,
  whatever faults the database injects, and what a transaction leaves behind: the tables as
  they were, or the tables its body built.
\<close>

subsection \<open>Tables and statements\<close>

definition tables :: "Database \<Rightarrow> PaymentRow list \<times> IdempotencyRow list" where
  "tables d = (db_payments d, db_records d)"

lemma tables_eq_iff: "tables d = tables d' \<longleftrightarrow> db_payments d = db_payments d' \<and> db_records d = db_records d'"
  by (simp add: tables_def)

lemma tables_update [simp]:
  "tables (d\<lparr>db_payments := t\<rparr>) = (t, db_records d)" "tables (d\<lparr>db_records := u\<rparr>) = (db_payments d, u)"
  "tables (d\<lparr>db_faults := fs\<rparr>) = tables d" "tables (rollback d0 d) = tables d0"
  by (simp_all add: tables_def rollback_def)

lemma next_outcome_tables: "next_outcome d = (q, d1) \<Longrightarrow> tables d1 = tables d"
  by (auto simp: next_outcome_def tables_def split: list.splits)

lemma sql_exec_InrD:
  "sql_exec stmt d = (Inr x, d2) \<Longrightarrow> \<exists>d1. tables d1 = tables d \<and> stmt d1 = Some (x, d2)"
  by (auto simp: sql_exec_def dest: next_outcome_tables split: prod.splits stmt_outcome.splits option.splits)

text \<open>A failing statement changed nothing, or did its work and lost the reply.\<close>

lemma sql_exec_InlD:
  "sql_exec stmt d = (Inl e, d2) \<Longrightarrow>
     tables d2 = tables d \<or> (\<exists>d1 x. tables d1 = tables d \<and> stmt d1 = Some (x, d2))"
  by (auto simp: sql_exec_def dest: next_outcome_tables split: prod.splits stmt_outcome.splits option.splits)

lemma sql_query_InrD:
  "sql_query q d = (Inr x, d2) \<Longrightarrow> tables d2 = tables d \<and> x = q d2"
  by (auto simp: sql_query_def dest!: sql_exec_InrD)

lemma update_payments_InrD:
  assumes "update_payments p f d = (Inr n, d2)"
  shows "n = sql_count p (db_payments d)" "tables d2 = (sql_update p f (db_payments d), db_records d)"
    "list_all (\<lambda>r. p r \<longrightarrow> payments_check (f r)) (db_payments d)"
proof -
  from assms obtain d1 where t: "tables d1 = tables d" and
    l: "list_all (\<lambda>r. p r \<longrightarrow> payments_check (f r)) (db_payments d1)" and
    n: "n = sql_count p (db_payments d1)" and
    d2: "d2 = d1\<lparr>db_payments := sql_update p f (db_payments d1)\<rparr>"
    unfolding update_payments_def by (auto dest!: sql_exec_InrD split: if_splits)
  from t have e: "db_payments d1 = db_payments d" "db_records d1 = db_records d"
    by (simp_all add: tables_eq_iff)
  show "n = sql_count p (db_payments d)" "tables d2 = (sql_update p f (db_payments d), db_records d)"
    "list_all (\<lambda>r. p r \<longrightarrow> payments_check (f r)) (db_payments d)"
    using n l by (simp_all add: d2 e)
qed

lemma update_records_InrD:
  assumes "update_records p f d = (Inr n, d2)"
  shows "n = sql_count p (db_records d)" "tables d2 = (db_payments d, sql_update p f (db_records d))"
    "list_all (\<lambda>r. p r \<longrightarrow> idempotency_records_check (f r)) (db_records d)"
proof -
  from assms obtain d1 where t: "tables d1 = tables d" and
    l: "list_all (\<lambda>r. p r \<longrightarrow> idempotency_records_check (f r)) (db_records d1)" and
    n: "n = sql_count p (db_records d1)" and
    d2: "d2 = d1\<lparr>db_records := sql_update p f (db_records d1)\<rparr>"
    unfolding update_records_def by (auto dest!: sql_exec_InrD split: if_splits)
  from t have e: "db_payments d1 = db_payments d" "db_records d1 = db_records d"
    by (simp_all add: tables_eq_iff)
  show "n = sql_count p (db_records d)" "tables d2 = (db_payments d, sql_update p f (db_records d))"
    "list_all (\<lambda>r. p r \<longrightarrow> idempotency_records_check (f r)) (db_records d)"
    using n l by (simp_all add: d2 e)
qed

lemma insertPayment_InrD:
  "insertPayment ts p d = (Inr u, d2) \<Longrightarrow>
   tables d2 = (sql_insert (payment_row ts p) (db_payments d), db_records d) \<and>
   lookup_row r_id (db_payments d) (p_id p) = None \<and> payments_check (payment_row ts p)"
  unfolding insertPayment_def
  by (auto dest!: sql_exec_InrD simp: Let_def tables_eq_iff payment_row_def split: if_splits)

lemma findPaymentByID_InrD:
  "findPaymentByID pid d = (Inr p, d2) \<Longrightarrow>
   tables d2 = tables d \<and> (\<exists>r. lookup_row r_id (db_payments d) pid = Some r \<and> scanPayment r = Inr p)"
  unfolding findPaymentByID_def
  by (auto simp: act_bind_Inr_iff tables_eq_iff dest!: sql_query_InrD split: option.splits)
     (metis (no_types))

lemma findRecoveredPayment_Inr_iff [simp]:
  "findRecoveredPayment pid d = (Inr p, d2) \<longleftrightarrow> findPaymentByID pid d = (Inr p, d2)"
  by (simp add: findRecoveredPayment_def)

subsection \<open>Transactions\<close>

lemma tx_Commit_cases:
  "tx_Commit d0 x d = (r, d') \<Longrightarrow>
     (tables d' = tables d \<and> (r = Inr x \<or> r = Inl (internal_err sql_error))) \<or>
     (tables d' = tables d0 \<and> r = Inl (internal_err sql_error))"
  by (auto simp: tx_Commit_def dest: next_outcome_tables split: prod.splits stmt_outcome.splits)

lemma in_tx_cases:
  assumes "in_tx body d = (r, d')"
  obtains (unchanged) e where "r = Inl e" "tables d' = tables d"
    | (committed) d0 x d1 where "tables d0 = tables d" "body d0 = (Inr x, d1)" "tables d' = tables d1"
        "r = Inr x \<or> r = Inl (internal_err sql_error)"
proof -
  obtain b d0 where begin_tx: "sql_query (\<lambda>d. ()) d = (b, d0)" by fastforce
  show ?thesis
  proof (cases b)
    case (Inl e)
    with begin_tx have "tables d0 = tables d"
      by (auto simp: sql_query_def dest!: sql_exec_InlD)
    with Inl begin_tx assms show ?thesis by (intro unchanged) (auto simp: in_tx_def)
  next
    case (Inr u)
    then have t0: "tables d0 = tables d" using begin_tx by (auto dest: sql_query_InrD)
    obtain x d1 where bd: "body d0 = (x, d1)" by fastforce
    have run: "in_tx body d = (case x of Inl e \<Rightarrow> (Inl e, rollback d0 d1) | Inr y \<Rightarrow> tx_Commit d0 y d1)"
      using begin_tx Inr bd by (simp add: in_tx_def split: sum.split)
    show ?thesis
    proof (cases x)
      case (Inl e)
      with run assms t0 show ?thesis by (intro unchanged) auto
    next
      case (Inr y)
      with run assms have "tx_Commit d0 y d1 = (r, d')" by simp
      from tx_Commit_cases [OF this] t0 bd Inr show ?thesis
        using unchanged committed by auto
    qed
  qed
qed

lemma in_tx_InrD:
  "in_tx body d = (Inr x, d') \<Longrightarrow>
   \<exists>d0 d1. tables d0 = tables d \<and> body d0 = (Inr x, d1) \<and> tables d' = tables d1"
  by (erule in_tx_cases) auto

subsection \<open>Without faults\<close>

lemma next_outcome_reliable: "db_faults d = [] \<Longrightarrow> next_outcome d = (StmtOk, d)"
  by (simp add: next_outcome_def)

lemma sql_exec_reliable:
  "db_faults d = [] \<Longrightarrow>
   sql_exec stmt d = (case stmt d of None \<Rightarrow> (Inl sql_error, d) | Some (x, d2) \<Rightarrow> (Inr x, d2))"
  by (simp add: sql_exec_def next_outcome_reliable)

lemma sql_query_reliable: "db_faults d = [] \<Longrightarrow> sql_query q d = (Inr (q d), d)"
  by (simp add: sql_query_def sql_exec_reliable)

lemma in_tx_reliable:
  "db_faults d = [] \<Longrightarrow> body d = (Inr x, d1) \<Longrightarrow> db_faults d1 = [] \<Longrightarrow> in_tx body d = (Inr x, d1)"
  by (simp add: in_tx_def sql_query_reliable tx_Commit_def next_outcome_reliable)

end
