(* ===== verification/Store_Ledger.thy ===== *)
theory Store_Ledger
  imports Store_Effects Idempotency_Ledger
begin

text \<open>
  The store implements the idempotency ledger: \<open>ledger_of\<close> reads the ledger off the
  \<^verbatim>\<open>idempotency_records\<close> table, and every successful operation of the store is the ledger operation
  of the same name.
\<close>

subsection \<open>Reading the ledger off the table\<close>

definition entry_of :: "IdempotencyRow \<Rightarrow> ledger_entry" where
  "entry_of r =
   (if i_status r = idempotencyRecordCompleted
    then Closed (i_request_fingerprint r)
           (case stored_result r of Inr x \<Rightarrow> x | Inl _ \<Rightarrow> zero_PaymentCommandResult)
           (nullTimeValue (i_completed_at r))
    else Open (i_request_fingerprint r) (nullStringValue (i_payment_id r)) (i_claimed_at r))"

definition ledger_of :: "Database \<Rightarrow> ledger" where
  "ledger_of d k = map_option entry_of (lookup_row i_pk (db_records d) k)"

definition record_ok :: "IdempotencyRow \<Rightarrow> bool" where
  "record_ok r \<longleftrightarrow> idempotency_records_check r \<and> (case stored_result r of Inl _ \<Rightarrow> False | Inr _ \<Rightarrow> True)"

definition records_inv :: "Database \<Rightarrow> bool" where
  "records_inv d \<longleftrightarrow> unique_keys i_pk (db_records d) \<and> list_all record_ok (db_records d)"

fun outcome_of :: "idempotencyRecord \<times> idempotencyClaimOutcome \<Rightarrow> ledger_outcome" where
  "outcome_of (record, idempotencyClaimAcquired) = Acquired"
| "outcome_of (record, idempotencyClaimRecovered) = Recovered (ir_paymentID record)"
| "outcome_of (record, idempotencyClaimReplayed) = Replayed (ir_result record)"
| "outcome_of (record, idempotencyClaimInProgress) = InProgress"
| "outcome_of (record, idempotencyClaimConflict) = Conflict"

lemma ledger_of_tables: "tables d = tables d' \<Longrightarrow> ledger_of d = ledger_of d'"
  by (simp add: ledger_of_def tables_eq_iff fun_eq_iff)

lemma records_inv_tables: "tables d = tables d' \<Longrightarrow> records_inv d = records_inv d'"
  by (simp add: records_inv_def tables_eq_iff)

lemma stored_result_open:
  "i_status r = idempotencyRecordInProgress \<Longrightarrow> stored_result r = Inr zero_PaymentCommandResult"
  by (simp add: stored_result_def)

lemma record_status_cases:
  "record_ok r \<Longrightarrow> i_status r = idempotencyRecordInProgress \<or> i_status r = idempotencyRecordCompleted"
  by (auto simp: record_ok_def idempotency_records_check_def idempotencyRecordInProgress_def
      idempotencyRecordCompleted_def)

lemma lookup_record_ok: "records_inv d \<Longrightarrow> lookup_row i_pk (db_records d) k = Some r \<Longrightarrow> record_ok r"
  by (auto simp: records_inv_def list_all_iff dest: lookup_row_SomeD)

subsection \<open>Recovery and claim\<close>

lemma stuck_claim_pk: "stuck_claim ts request now r \<Longrightarrow> i_pk r = request_pk request"
  by (simp add: stuck_claim_def i_pk_def request_pk_def)

definition refresh_claim :: "(time \<Rightarrow> time) \<Rightarrow> time \<Rightarrow> IdempotencyRow \<Rightarrow> IdempotencyRow" where
  "refresh_claim ts now r = r\<lparr>i_claimed_at := ts now\<rparr>"

lemma refresh_claim_simps [simp]:
  "i_pk (refresh_claim ts now r) = i_pk r"
  "record_ok (refresh_claim ts now r) = record_ok r"
  by (simp_all add: refresh_claim_def i_pk_def record_ok_def idempotency_records_check_def stored_result_def)

lemma recoverIdempotencyClaim_InrD:
  assumes "records_inv d" "recoverIdempotencyClaim ts request now d = (Inr x, d')"
  shows "case x of
      None \<Rightarrow> tables d' = tables d \<and>
              (\<forall>r. lookup_row i_pk (db_records d) (request_pk request) = Some r \<longrightarrow> \<not> stuck_claim ts request now r)
    | Some record \<Rightarrow> \<exists>r. lookup_row i_pk (db_records d) (request_pk request) = Some r \<and>
        stuck_claim ts request now r \<and> ir_paymentID record = nullStringValue (i_payment_id r) \<and>
        tables d' = (db_payments d, sql_update (stuck_claim ts request now) (refresh_claim ts now) (db_records d))"
proof -
  let ?stuck = "stuck_claim ts request now"
  have f: "find ?stuck (db_records d) =
      (case lookup_row i_pk (db_records d) (request_pk request) of None \<Rightarrow> None
       | Some r \<Rightarrow> if ?stuck r then Some r else None)"
    using assms(1) by (intro find_keyed) (auto simp: records_inv_def stuck_claim_pk)
  have t: "tables d' = (db_payments d, sql_update ?stuck (refresh_claim ts now) (db_records d))"
    and x: "map_option ir_paymentID x = map_option (\<lambda>r. nullStringValue (i_payment_id r)) (find ?stuck (db_records d))"
    using assms(2) unfolding recoverIdempotencyClaim_def
    by (auto simp: act_bind_Inr_iff Let_def tables_eq_iff option.map_comp comp_def refresh_claim_def [abs_def]
          dest!: sql_exec_InrD split: if_splits option.splits)
  show ?thesis
  proof (cases x)
    case None
    with x have none: "find ?stuck (db_records d) = None" by simp
    then have "sql_update ?stuck (refresh_claim ts now) (db_records d) = db_records d"
      by (intro sql_update_none) (auto simp: find_None_iff)
    with t None none f show ?thesis by (auto simp: tables_def split: option.splits if_splits)
  next
    case (Some rc)
    with x f t show ?thesis by (auto split: option.splits if_splits)
  qed
qed

lemma selectIdempotencyRecord_InrD:
  "selectIdempotencyRecord op key d = (Inr record, d') \<Longrightarrow>
   tables d' = tables d \<and> (\<exists>r. lookup_row i_pk (db_records d) (op, key) = Some r \<and>
     ir_requestFingerprint record = i_request_fingerprint r \<and> ir_status record = i_status r \<and>
     stored_result r = Inr (ir_result record))"
  unfolding selectIdempotencyRecord_def
  by (auto simp: act_bind_Inr_iff tables_eq_iff dest!: sql_query_InrD split: option.splits)
     (metis (no_types))

lemma lookup_insert_claim:
  assumes "lookup_row i_pk t (i_pk row) = None"
  shows "lookup_row i_pk (sql_insert row t) k = (if k = i_pk row then Some row else lookup_row i_pk t k)"
  by (rule records.lookup_ins [OF assms])

lemma claim_row_simps [simp]:
  "i_pk (claim_row ts request pid) = request_pk request"
  "entry_of (claim_row ts request pid) = Open (cr_requestFingerprint request) pid (ts (cr_now request))"
  "stored_result (claim_row ts request pid) = Inr zero_PaymentCommandResult"
  by (simp_all add: claim_row_def i_pk_def request_pk_def entry_of_def stored_result_def)

lemma insert_claim_InrD:
  "insert_claim ts request pid d = (Inr n, d') \<Longrightarrow>
   (n = 1 \<and> lookup_row i_pk (db_records d) (request_pk request) = None \<and>
      idempotency_records_check (claim_row ts request pid) \<and>
      tables d' = (db_payments d, sql_insert (claim_row ts request pid) (db_records d))) \<or>
   (n = 0 \<and> tables d' = tables d)"
  unfolding insert_claim_def
  by (auto simp: Let_def tables_eq_iff dest!: sql_exec_InrD split: if_splits)

lemma claimIdempotency_InrD:
  assumes inv: "records_inv d" and run: "claimIdempotency ts request pid d = (Inr (record, out), d')"
  obtains
    (recovered) r where "out = idempotencyClaimRecovered"
      "lookup_row i_pk (db_records d) (request_pk request) = Some r"
      "stuck_claim ts request (cr_now request) r" "ir_paymentID record = nullStringValue (i_payment_id r)"
      "tables d' = (db_payments d, sql_update (stuck_claim ts request (cr_now request))
                      (refresh_claim ts (cr_now request)) (db_records d))"
  | (acquired) "out = idempotencyClaimAcquired" "ir_paymentID record = pid"
      "lookup_row i_pk (db_records d) (request_pk request) = None"
      "idempotency_records_check (claim_row ts request pid)"
      "tables d' = (db_payments d, sql_insert (claim_row ts request pid) (db_records d))"
  | (existing) r where "lookup_row i_pk (db_records d) (request_pk request) = Some r"
      "\<not> stuck_claim ts request (cr_now request) r" "tables d' = tables d"
      "stored_result r = Inr (ir_result record)"
      "out = (if i_request_fingerprint r \<noteq> cr_requestFingerprint request then idempotencyClaimConflict
              else if i_status r = idempotencyRecordInProgress then idempotencyClaimInProgress
              else idempotencyClaimReplayed)"
proof -
  let ?L = "\<lambda>d. lookup_row i_pk (db_records d) (request_pk request)"
  from run obtain x d1 where rec: "recoverIdempotencyClaim ts request (cr_now request) d = (Inr x, d1)"
    unfolding claimIdempotency_def by (auto simp: act_bind_Inr_iff)
  note R = recoverIdempotencyClaim_InrD [OF inv rec]
  show ?thesis
  proof (cases x)
    case (Some rc)
    with R rec run show ?thesis by (auto simp: claimIdempotency_def intro!: recovered)
  next
    case None
    with R have t1: "tables d1 = tables d"
      and ns: "\<And>r. ?L d = Some r \<Longrightarrow> \<not> stuck_claim ts request (cr_now request) r"
      by auto
    from run rec None obtain n d2 where ins: "insert_claim ts request pid d1 = (Inr n, d2)"
      by (auto simp: claimIdempotency_def act_bind_Inr_iff)
    note I = insert_claim_InrD [OF ins] t1 [unfolded tables_eq_iff]
    show ?thesis
    proof (cases "n = 1")
      case True
      with run rec None ins have "record = acquired_record request pid" "out = idempotencyClaimAcquired" "d' = d2"
        by (auto simp: claimIdempotency_def)
      with I True show ?thesis by (intro acquired) (auto simp: acquired_record_def)
    next
      case False
      with run rec None ins obtain rc d3 where
        sel: "selectIdempotencyRecord (cr_operation request) (cr_key request) d2 = (Inr rc, d3)"
        and cl: "classify_claim request rc d3 = (Inr (record, out), d')"
        by (auto simp: claimIdempotency_def act_bind_Inr_iff)
      from I False have t2: "tables d2 = tables d" by (auto simp: tables_eq_iff)
      from selectIdempotencyRecord_InrD [OF sel] t2 obtain r where r: "?L d = Some r" "tables d3 = tables d"
        "ir_requestFingerprint rc = i_request_fingerprint r" "ir_status rc = i_status r"
        "stored_result r = Inr (ir_result rc)"
        by (auto simp: request_pk_def tables_eq_iff)
      with cl ns show ?thesis
        by (intro existing [of r]) (auto simp: classify_claim_def split: if_splits)
    qed
  qed
qed

subsection \<open>Claiming refines the ledger\<close>

lemma ledger_of_update:
  assumes "db_records d' = sql_update p f (db_records d)" "\<And>r. i_pk (f r) = i_pk r" "\<And>r. p r \<Longrightarrow> i_pk r = k"
    and "lookup_row i_pk (db_records d) k = Some r" "p r"
  shows "ledger_of d' = (ledger_of d)(k \<mapsto> entry_of (f r))"
proof
  fix k'
  show "ledger_of d' k' = ((ledger_of d)(k \<mapsto> entry_of (f r))) k'"
  proof (cases "k' = k")
    case True
    with assms show ?thesis by (simp add: ledger_of_def records.lookup_upd)
  next
    case False
    with assms show ?thesis by (simp add: ledger_of_def records.upd_other [of f p k])
  qed
qed

lemma records_inv_update:
  assumes "records_inv d" "db_records d' = sql_update p f (db_records d)" "\<And>r. i_pk (f r) = i_pk r"
    and "\<And>r. r \<in> set (db_records d) \<Longrightarrow> p r \<Longrightarrow> record_ok (f r)"
  shows "records_inv d'"
  using assms
  by (auto simp: records_inv_def list_all_iff records.ok_upd) (auto simp: sql_update_def split: if_splits)

lemma claim_refines:
  assumes inv: "records_inv d" and run: "claimIdempotency ts request pid d = (Inr ro, d')"
  shows "ledger_claim (request_pk request) (cr_requestFingerprint request) pid (ts (cr_now request))
           (ts (cr_now request - cr_claimStuckAfter request)) (ledger_of d) = (outcome_of ro, ledger_of d')"
    and "records_inv d'" and "db_payments d' = db_payments d"
proof -
  obtain rc out where ro: "ro = (rc, out)" by fastforce
  let ?k = "request_pk request"
  from inv run [unfolded ro]
  have "(ledger_claim ?k (cr_requestFingerprint request) pid (ts (cr_now request))
           (ts (cr_now request - cr_claimStuckAfter request)) (ledger_of d) = (outcome_of ro, ledger_of d')) \<and>
        records_inv d' \<and> db_payments d' = db_payments d"
  proof (cases rule: claimIdempotency_InrD)
    case (recovered r)
    have "ledger_of d' = (ledger_of d)(?k \<mapsto> entry_of (refresh_claim ts (cr_now request) r))"
      using recovered
      by (intro ledger_of_update [of _ "stuck_claim ts request (cr_now request)"])
         (auto simp: tables_def stuck_claim_pk)
    moreover have "records_inv d'"
    proof (rule records_inv_update [OF inv])
      show "db_records d' = sql_update (stuck_claim ts request (cr_now request))
              (refresh_claim ts (cr_now request)) (db_records d)"
        using recovered by (simp add: tables_def)
    qed (use inv in \<open>simp_all add: records_inv_def list_all_iff\<close>)
    ultimately show ?thesis
      using recovered
      by (simp add: ledger_claim_def ledger_of_def [of d ?k] entry_of_def stuck_claim_def ro refresh_claim_def tables_def)
  next
    case acquired
    then have "ledger_of d' = (ledger_of d)(?k \<mapsto> entry_of (claim_row ts request pid))"
      by (auto simp: ledger_of_def tables_def lookup_insert_claim)
    moreover have "records_inv d'"
      using acquired inv
      by (auto simp: records_inv_def tables_def records.ok_ins) (simp add: sql_insert_def record_ok_def)
    ultimately show ?thesis
      using acquired by (simp add: ledger_claim_def ledger_of_def [of d ?k] ro tables_def)
  next
    case (existing r)
    have "record_ok r" by (rule lookup_record_ok [OF inv existing(1)])
    then have "i_status r = idempotencyRecordInProgress \<or> i_status r = idempotencyRecordCompleted"
      by (rule record_status_cases)
    moreover have "ledger_of d' = ledger_of d" "records_inv d'" "db_payments d' = db_payments d"
      using ledger_of_tables [OF existing(3)] records_inv_tables [OF existing(3)] inv existing(3)
      by (simp_all add: tables_eq_iff)
    moreover have "i_pk r = ?k" using lookup_row_SomeD [OF existing(1)] by simp
    moreover have "ledger_of d ?k = Some (entry_of r)" using existing(1) by (simp add: ledger_of_def)
    ultimately show ?thesis
      using existing(2,4,5)
      by (auto simp: ledger_claim_def entry_of_def stuck_claim_def ro i_pk_def request_pk_def)
  qed
  then show "ledger_claim ?k (cr_requestFingerprint request) pid (ts (cr_now request))
           (ts (cr_now request - cr_claimStuckAfter request)) (ledger_of d) = (outcome_of ro, ledger_of d')"
    "records_inv d'" "db_payments d' = db_payments d" by simp_all
qed

subsection \<open>Completing, releasing and sweeping refine the ledger\<close>

lemma own_claim_pk: "own_claim claim r \<Longrightarrow> i_pk r = claim_pk claim"
  by (simp add: own_claim_def i_pk_def claim_pk_def)

lemma completed_row_pk [simp]: "i_pk (completed_row ts fk doc t r) = i_pk r"
  by (simp add: completed_row_def i_pk_def)

lemma nonterminal_kind: "fk = [] \<or> IsTerminalFailureKind fk \<Longrightarrow>
   encodePaymentResultSnapshot pr = Inr doc \<Longrightarrow>
   stored_result (completed_row ts fk doc t r) = Inr \<lparr>pcr_Payment = coerced_result pr, pcr_FailureKind = fk\<rparr>"
  by (auto simp: stored_result_def completed_row_def Let_def snapshot_decodable)

lemma completeIdempotencyRecord_InrD:
  assumes inv: "records_inv d" and run: "completeIdempotencyRecord ts claim fk doc now d = (Inr u, d')"
  obtains r where "fk = [] \<or> IsTerminalFailureKind fk"
    "lookup_row i_pk (db_records d) (claim_pk claim) = Some r" "own_claim claim r"
    "tables d' = (db_payments d, sql_update (own_claim claim) (completed_row ts fk doc now) (db_records d))"
    "list_all (\<lambda>r. own_claim claim r \<longrightarrow> idempotency_records_check (completed_row ts fk doc now r)) (db_records d)"
proof -
  from run obtain n where upd: "update_records (own_claim claim) (completed_row ts fk doc now) d = (Inr n, d')"
    and n: "n = 1" and fk: "fk = [] \<or> IsTerminalFailureKind fk"
    unfolding completeIdempotencyRecord_def by (auto simp: act_bind_Inr_iff split: if_splits)
  note U = update_records_InrD [OF upd]
  have "0 < sql_count (own_claim claim) (db_records d)" using U(1) n by simp
  then obtain r where "lookup_row i_pk (db_records d) (claim_pk claim) = Some r" "own_claim claim r"
    using records.count_pos_iff [of "db_records d" "own_claim claim" "claim_pk claim"] inv own_claim_pk
    by (auto simp: records_inv_def)
  with fk U show ?thesis by (intro that)
qed

lemma complete_refines:
  assumes inv: "records_inv d" and run: "completeIdempotencyRecord ts claim fk doc now d = (Inr u, d')"
    and doc: "encodePaymentResultSnapshot pr = Inr doc"
  shows "ledger_complete (claim_pk claim) (pcc_requestFingerprint claim)
           \<lparr>pcr_Payment = coerced_result pr, pcr_FailureKind = fk\<rparr> (ts now) (ledger_of d) = Some (ledger_of d')"
    and "records_inv d'" and "db_payments d' = db_payments d"
proof -
  from inv run obtain r where r: "fk = [] \<or> IsTerminalFailureKind fk"
    "lookup_row i_pk (db_records d) (claim_pk claim) = Some r" "own_claim claim r"
    "tables d' = (db_payments d, sql_update (own_claim claim) (completed_row ts fk doc now) (db_records d))"
    "list_all (\<lambda>r. own_claim claim r \<longrightarrow> idempotency_records_check (completed_row ts fk doc now r)) (db_records d)"
    by (rule completeIdempotencyRecord_InrD)
  have st: "stored_result (completed_row ts fk doc now x) =
      Inr \<lparr>pcr_Payment = coerced_result pr, pcr_FailureKind = fk\<rparr>" for x
    by (rule nonterminal_kind [OF r(1) doc])
  have e: "entry_of (completed_row ts fk doc now r) =
      Closed (pcc_requestFingerprint claim) \<lparr>pcr_Payment = coerced_result pr, pcr_FailureKind = fk\<rparr> (ts now)"
    using st [of r] r(3) by (simp add: entry_of_def completed_row_def own_claim_def nullTimeValue_def)
  have L: "ledger_of d' = (ledger_of d)(claim_pk claim \<mapsto> entry_of (completed_row ts fk doc now r))"
    using r by (intro ledger_of_update [of _ "own_claim claim"]) (auto simp: tables_def own_claim_pk)
  show "ledger_complete (claim_pk claim) (pcc_requestFingerprint claim)
           \<lparr>pcr_Payment = coerced_result pr, pcr_FailureKind = fk\<rparr> (ts now) (ledger_of d) = Some (ledger_of d')"
    unfolding L e using r(2,3)
    by (simp add: ledger_complete_def ledger_of_def [of d "claim_pk claim"] entry_of_def own_claim_def)
  show "records_inv d'"
  proof (rule records_inv_update [OF inv])
    show "db_records d' = sql_update (own_claim claim) (completed_row ts fk doc now) (db_records d)"
      using r by (simp add: tables_def)
  qed (use r(5) in \<open>simp_all add: record_ok_def st list_all_iff\<close>)
  show "db_payments d' = db_payments d" using r by (simp add: tables_def)
qed

text \<open>Deleting rows by a condition that the ledger can see.\<close>

lemma delete_refines:
  assumes inv: "records_inv d" and t: "db_records d' = sql_delete p (db_records d)"
  shows "ledger_of d' k = (case lookup_row i_pk (db_records d) k of None \<Rightarrow> None
           | Some r \<Rightarrow> if p r then None else Some (entry_of r))"
    and "records_inv d'"
proof -
  show "ledger_of d' k = (case lookup_row i_pk (db_records d) k of None \<Rightarrow> None
           | Some r \<Rightarrow> if p r then None else Some (entry_of r))"
    using inv by (auto simp: ledger_of_def t records_inv_def records.lookup_del split: option.splits)
  show "records_inv d'"
    using inv by (auto simp: records_inv_def t records.ok_del list_all_iff) (simp add: sql_delete_def)
qed

lemma release_deletes:
  assumes inv: "records_inv d" and t: "db_records d' = sql_delete (released_claim claim) (db_records d)"
  shows "ledger_of d' = ledger_release (claim_pk claim) (ledger_of d)"
proof
  fix k
  show "ledger_of d' k = ledger_release (claim_pk claim) (ledger_of d) k"
  proof (cases "lookup_row i_pk (db_records d) k")
    case None
    then show ?thesis
      by (auto simp: delete_refines(1) [OF inv t] ledger_release_def ledger_of_def [of d] split: option.splits ledger_entry.splits)
  next
    case (Some r)
    then have "i_pk r = k" and "i_status r = idempotencyRecordInProgress \<or> i_status r = idempotencyRecordCompleted"
      using record_status_cases lookup_record_ok [OF inv Some] by (auto dest: lookup_row_SomeD)
    with Some show ?thesis
      by (cases "k = claim_pk claim")
         (auto simp: delete_refines(1) [OF inv t] ledger_release_def ledger_of_def [of d] entry_of_def
            released_claim_def i_pk_def claim_pk_def split: option.splits ledger_entry.splits)
  qed
qed

lemma sweep_deletes:
  assumes inv: "records_inv d" and t: "db_records d' = sql_delete (expired_record ts cutoff) (db_records d)"
  shows "ledger_of d' = ledger_sweep (ts cutoff) (ledger_of d)"
proof
  fix k
  show "ledger_of d' k = ledger_sweep (ts cutoff) (ledger_of d) k"
  proof (cases "lookup_row i_pk (db_records d) k")
    case None
    then show ?thesis by (simp add: delete_refines(1) [OF inv t] ledger_sweep_def ledger_of_def [of d])
  next
    case (Some r)
    have ok: "record_ok r" by (rule lookup_record_ok [OF inv Some])
    then have "i_status r = idempotencyRecordCompleted \<Longrightarrow> i_completed_at r \<noteq> None"
      by (auto simp: record_ok_def idempotency_records_check_def idempotencyRecordCompleted_def)
    with Some record_status_cases [OF ok] show ?thesis
      by (auto simp: delete_refines(1) [OF inv t] ledger_sweep_def ledger_of_def [of d] entry_of_def
            expired_record_def nullTimeValue_def)
  qed
qed

lemma pg_ReleasePaymentCommand_cases:
  assumes "pg_ReleasePaymentCommand claim d = (r, d')"
  shows "tables d' = tables d \<and> r \<noteq> Inr () \<or>
         tables d' = (db_payments d, sql_delete (released_claim claim) (db_records d))"
proof (cases r)
  case (Inl e)
  with assms obtain e' where "sql_exec (\<lambda>d. Some ((), d\<lparr>db_records := sql_delete (released_claim claim) (db_records d)\<rparr>)) d = (Inl e', d')"
    by (auto simp: pg_ReleasePaymentCommand_def act_map_err_Inl_iff)
  from sql_exec_InlD [OF this] Inl show ?thesis by (auto simp: tables_eq_iff)
next
  case (Inr u)
  with assms show ?thesis
    by (auto simp: pg_ReleasePaymentCommand_def tables_eq_iff dest!: sql_exec_InrD)
qed

lemma pg_Cleanup_InrD:
  "pg_CleanupCompletedIdempotencyRecords ts cutoff d = (Inr n, d') \<Longrightarrow>
   tables d' = (db_payments d, sql_delete (expired_record ts cutoff) (db_records d)) \<and>
   n = sql_count (expired_record ts cutoff) (db_records d)"
  by (auto simp: pg_CleanupCompletedIdempotencyRecords_def tables_eq_iff dest!: sql_exec_InrD split: if_splits)

lemma pg_Cleanup_cases:
  assumes "pg_CleanupCompletedIdempotencyRecords ts cutoff d = (r, d')"
  shows "tables d' = tables d \<or>
         tables d' = (db_payments d, sql_delete (expired_record ts cutoff) (db_records d))"
proof (cases r)
  case (Inl e)
  let ?stmt = "\<lambda>d. Some (sql_count (expired_record ts cutoff) (db_records d),
                          d\<lparr>db_records := sql_delete (expired_record ts cutoff) (db_records d)\<rparr>)"
  from Inl assms consider "d' = d" | e' where "sql_exec ?stmt d = (Inl e', d')"
    by (auto simp: pg_CleanupCompletedIdempotencyRecords_def act_map_err_Inl_iff split: if_splits)
  then show ?thesis
    by cases (use sql_exec_InlD [of ?stmt d _ d'] in \<open>auto simp: tables_eq_iff\<close>)
next
  case (Inr n)
  with assms show ?thesis by (auto dest: pg_Cleanup_InrD)
qed

end
