(* ===== verification/Store_Invariants.thy ===== *)
theory Store_Invariants
  imports Store_Ledger
begin

text \<open>
  The invariant of the database and what each store call does to it.  \<open>store_inv\<close> says that both
  tables have unique keys, every row of \<^verbatim>\<open>payments\<close> is the row of a well-formed payment and every
  completed idempotency record can be replayed.  The case lemmas list every way a call can end,
  with a statement failing, a transaction rolled back and a lost reply of \<^verbatim>\<open>COMMIT\<close> among them.
\<close>

subsection \<open>The invariant\<close>

definition row_ok :: "PaymentRow \<Rightarrow> bool" where
  "row_ok r \<longleftrightarrow> (case scanPayment r of Inl _ \<Rightarrow> False | Inr p \<Rightarrow> payment_wf p \<and> payment_row (\<lambda>t. t) p = r)"

definition payments_inv :: "Database \<Rightarrow> bool" where
  "payments_inv d \<longleftrightarrow> unique_keys r_id (db_payments d) \<and> list_all row_ok (db_payments d)"

definition store_inv :: "Database \<Rightarrow> bool" where
  "store_inv d \<longleftrightarrow> payments_inv d \<and> records_inv d"

abbreviation payment_at :: "Database \<Rightarrow> PaymentID \<Rightarrow> PaymentRow option" where
  "payment_at d pid \<equiv> lookup_row r_id (db_payments d) pid"

lemma store_inv_tables: "tables d = tables d' \<Longrightarrow> store_inv d = store_inv d'"
  by (simp add: store_inv_def payments_inv_def records_inv_def tables_eq_iff)

lemma row_okI: "payment_wf p \<Longrightarrow> row_ok (payment_row (\<lambda>t. t) p)"
  by (simp add: row_ok_def scan_payment_row)

lemma row_okD: "row_ok r \<Longrightarrow> scanPayment r = Inr p \<Longrightarrow> payment_wf p \<and> r = payment_row (\<lambda>t. t) p"
  by (auto simp: row_ok_def)

lemma payment_at_ok:
  "payments_inv d \<Longrightarrow> payment_at d pid = Some r \<Longrightarrow> row_ok r \<and> r_id r = pid"
  by (auto simp: payments_inv_def list_all_iff dest: lookup_row_SomeD)

lemma payment_at_scan:
  assumes "payments_inv d" "payment_at d pid = Some r" "scanPayment r = Inr p"
  shows "payment_wf p" "r = payment_row (\<lambda>t. t) p" "p_id p = pid"
proof -
  have "row_ok r" "r_id r = pid" using payment_at_ok [OF assms(1,2)] by auto
  then show w: "payment_wf p" and r: "r = payment_row (\<lambda>t. t) p" using row_okD assms(3) by blast+
  show "p_id p = pid" using r \<open>r_id r = pid\<close> by (simp add: payment_row_def)
qed

lemma payments_inv_update:
  assumes "payments_inv d" "db_payments d' = sql_update p f (db_payments d)" "\<And>r. r_id (f r) = r_id r"
    and "\<And>r. p r \<Longrightarrow> r_id r = pid" "\<And>r. payment_at d pid = Some r \<Longrightarrow> p r \<Longrightarrow> row_ok (f r)"
  shows "payments_inv d'"
proof -
  have u: "unique_keys r_id (db_payments d)" using assms(1) by (simp add: payments_inv_def)
  have "row_ok (f r)" if "r \<in> set (db_payments d)" "p r" for r
    using that assms(4,5) lookup_row_member [OF u, of r] by auto
  then show ?thesis
    using assms(1-3) by (auto simp: payments_inv_def list_all_iff payments.ok_upd) (auto simp: sql_update_def)
qed

lemma payments_inv_insert:
  "payments_inv d \<Longrightarrow> db_payments d' = sql_insert row (db_payments d) \<Longrightarrow>
   payment_at d (r_id row) = None \<Longrightarrow> row_ok row \<Longrightarrow> payments_inv d'"
  by (auto simp: payments_inv_def payments.ok_ins) (simp add: sql_insert_def)

subsection \<open>The bank operation key of an operation\<close>

definition op_key :: "string \<Rightarrow> Payment \<Rightarrow> string" where
  "op_key operation p =
   (if operation = CapturePaymentOperation then captureBankOperationKey p
    else if operation = VoidPaymentOperation then voidBankOperationKey p
    else if operation = RefundPaymentOperation then refundBankOperationKey p
    else authorizationBankOperationKey p)"

definition set_op_key :: "string \<Rightarrow> string \<Rightarrow> Payment \<Rightarrow> Payment" where
  "set_op_key operation k p =
   (if operation = CapturePaymentOperation then p\<lparr>captureBankOperationKey := k\<rparr>
    else if operation = VoidPaymentOperation then p\<lparr>voidBankOperationKey := k\<rparr>
    else if operation = RefundPaymentOperation then p\<lparr>refundBankOperationKey := k\<rparr>
    else p)"

definition row_key :: "string \<Rightarrow> PaymentRow \<Rightarrow> string option" where
  "row_key operation r =
   (if operation = CapturePaymentOperation then r_capture_bank_operation_key r
    else if operation = VoidPaymentOperation then r_void_bank_operation_key r
    else if operation = RefundPaymentOperation then r_refund_bank_operation_key r
    else Some (r_authorization_bank_operation_key r))"

definition set_row_key :: "string \<Rightarrow> string option \<Rightarrow> PaymentRow \<Rightarrow> PaymentRow" where
  "set_row_key operation v r =
   (if operation = CapturePaymentOperation then r\<lparr>r_capture_bank_operation_key := v\<rparr>
    else if operation = VoidPaymentOperation then r\<lparr>r_void_bank_operation_key := v\<rparr>
    else if operation = RefundPaymentOperation then r\<lparr>r_refund_bank_operation_key := v\<rparr>
    else r)"

lemmas key_defs = op_key_def set_op_key_def row_key_def set_row_key_def

definition keyed_operations :: "string list" where
  "keyed_operations = [CapturePaymentOperation, VoidPaymentOperation, RefundPaymentOperation]"

lemma set_row_key_frame [simp]:
  "r_id (set_row_key op v r) = r_id r" "r_status (set_row_key op v r) = r_status r"
  by (simp_all add: set_row_key_def)

lemma row_key_payment_row:
  "op \<in> set keyed_operations \<Longrightarrow> row_key op (payment_row ts p) = nullableString (op_key op p)"
  by (auto simp: keyed_operations_def key_defs payment_row_def)

lemma set_row_key_payment_row:
  "k \<noteq> [] \<Longrightarrow> set_row_key op (Some k) (payment_row ts p) = payment_row ts (set_op_key op k p)"
  by (simp add: key_defs payment_row_def nullableString_def)

lemma ensureBankOperationKey_InrD:
  assumes "ensureBankOperationKey p request d = (Inr p', d')"
  obtains (kept) "p' = p" "tables d' = tables d"
      "cr_operation request = RetryAuthorizationOperation \<or>
       cr_operation request \<in> set keyed_operations \<and> op_key (cr_operation request) p \<noteq> []"
    | (fresh) k where "cr_operation request \<in> set keyed_operations" "op_key (cr_operation request) p = []"
      "k \<noteq> []" "normalized k" "p' = set_op_key (cr_operation request) k p"
      "status p = (if cr_operation request = RefundPaymentOperation then PaymentStatusCaptured
                   else PaymentStatusAuthorized)"
      "tables d' = (sql_update (\<lambda>r. r_id r = p_id p \<and> r_status r = status p)
                      (set_row_key (cr_operation request) (Some k)) (db_payments d), db_records d)"
proof -
  have upd: "tables d' = (sql_update (\<lambda>r. r_id r = p_id q \<and> r_status r = status q) (g (Some v)) (db_payments d), db_records d) \<and> p' = q"
    if "persist_bank_operation_key g q v d = (Inr p', d')" for g q v
    using that unfolding persist_bank_operation_key_def
    by (auto simp: act_bind_Inr_iff split: if_splits dest: update_payments_InrD(2))
  from assms consider "cr_operation request = RetryAuthorizationOperation" "p' = p" "d' = d"
    | "cr_operation request = CapturePaymentOperation" "captureBankOperationKey p \<noteq> []" "p' = p" "d' = d"
    | "cr_operation request = VoidPaymentOperation" "voidBankOperationKey p \<noteq> []" "p' = p" "d' = d"
    | "cr_operation request = RefundPaymentOperation" "refundBankOperationKey p \<noteq> []" "p' = p" "d' = d"
    | q where "cr_operation request = CapturePaymentOperation" "captureBankOperationKey p = []"
        "SetCaptureBankOperationKey (ecr_bankOperationKey request) p = Inr q"
        "persist_bank_operation_key (\<lambda>v r. r\<lparr>r_capture_bank_operation_key := v\<rparr>) q (captureBankOperationKey q) d = (Inr p', d')"
    | q where "cr_operation request = VoidPaymentOperation" "voidBankOperationKey p = []"
        "SetVoidBankOperationKey (ecr_bankOperationKey request) p = Inr q"
        "persist_bank_operation_key (\<lambda>v r. r\<lparr>r_void_bank_operation_key := v\<rparr>) q (voidBankOperationKey q) d = (Inr p', d')"
    | q where "cr_operation request = RefundPaymentOperation" "refundBankOperationKey p = []"
        "SetRefundBankOperationKey (ecr_bankOperationKey request) p = Inr q"
        "persist_bank_operation_key (\<lambda>v r. r\<lparr>r_refund_bank_operation_key := v\<rparr>) q (refundBankOperationKey q) d = (Inr p', d')"
    unfolding ensureBankOperationKey_def by (auto simp: act_bind_Inr_iff split: if_splits)
  then show ?thesis
  proof cases
    case (5 q)
    then show ?thesis using upd [OF 5(4)]
      by (intro fresh [of "captureBankOperationKey q"])
         (auto simp: SetBankOperationKey_Inr_iff keyed_operations_def key_defs set_row_key_def [abs_def])
  next
    case (6 q)
    then show ?thesis using upd [OF 6(4)]
      by (intro fresh [of "voidBankOperationKey q"])
         (auto simp: SetBankOperationKey_Inr_iff keyed_operations_def key_defs set_row_key_def [abs_def])
  next
    case (7 q)
    then show ?thesis using upd [OF 7(4)]
      by (intro fresh [of "refundBankOperationKey q"])
         (auto simp: SetBankOperationKey_Inr_iff keyed_operations_def key_defs set_row_key_def [abs_def])
  qed (auto simp: keyed_operations_def op_key_def intro!: kept)
qed

subsection \<open>The outcomes of a claim\<close>

text \<open>
  How the database and the answer of a claim relate to the ledger: either nothing changed and the
  answer is an error or a replay of the ledger's closed entry, or the transaction was committed
  for the payment \<open>p\<close> (and its answer may still have been lost).
\<close>

definition claim_refused :: "'a PaymentCommandClaimRequest_scheme \<Rightarrow> Database \<Rightarrow> go_error + PaymentCommandClaim \<Rightarrow> bool" where
  "claim_refused request d r \<longleftrightarrow>
     (case r of
        Inl e \<Rightarrow> True
      | Inr c \<Rightarrow> \<exists>result t. c = NewReplayedPaymentCommand request result \<and>
                  ledger_of d (request_pk request) = Some (Closed (cr_requestFingerprint request) result t))"

definition claim_answered :: "PaymentCommandClaim \<Rightarrow> go_error + PaymentCommandClaim \<Rightarrow> bool" where
  "claim_answered c r \<longleftrightarrow> r = Inr c \<or> r = Inl (internal_err sql_error)"

lemma replay_refused:
  assumes "ledger_claim (request_pk request) (cr_requestFingerprint request) pid t1 t2 (ledger_of d) =
             (Replayed result, L)"
  shows "claim_refused request d (Inr (NewReplayedPaymentCommand request result))"
  using assms
  by (auto simp: claim_refused_def ledger_claim_def split: option.splits ledger_entry.splits if_splits)

lemma claim_tx_cases:
  assumes inv: "records_inv d"
    and run: "act_bind (in_tx (act_bind (act_map_err internal_err (claimIdempotency ts request pid)) rest_act)) act_lift d = (r, d')"
  obtains (failed) e where "r = Inl e" "tables d' = tables d"
    | (committed) d0 d1 d2 rc out x where "tables d0 = tables d" "records_inv d0"
        "claimIdempotency ts request pid d0 = (Inr (rc, out), d1)" "rest_act (rc, out) d1 = (Inr x, d2)"
        "tables d' = tables d2" "r = x \<or> r = Inl (internal_err sql_error)"
proof -
  obtain q d3 where tx: "in_tx (act_bind (act_map_err internal_err (claimIdempotency ts request pid)) rest_act) d = (q, d3)"
    by fastforce
  with run have r: "d' = d3" "r = (case q of Inl e \<Rightarrow> Inl e | Inr x \<Rightarrow> x)"
    by (auto simp: act_bind_def split: sum.splits)
  from tx show ?thesis
  proof (cases rule: in_tx_cases)
    case (unchanged e)
    with r show ?thesis by (intro failed) auto
  next
    case (committed d0 x d2)
    then obtain ro d1 where "claimIdempotency ts request pid d0 = (Inr ro, d1)" "rest_act ro d1 = (Inr x, d2)"
      by (auto simp: act_bind_Inr_iff)
    moreover have "records_inv d0" using inv records_inv_tables committed(1) by blast
    ultimately show ?thesis
      using committed r that(2) by (cases ro) auto
  qed
qed

text \<open>
  The last step of every claim's continuation is the same for a stored result, an open claim and
  a conflict: no change.
\<close>

lemma claim_no_change:
  assumes "records_inv d0" "claimIdempotency ts request pid d0 = (Inr (rc, out), d1)"
    and "out \<noteq> idempotencyClaimAcquired" "out \<noteq> idempotencyClaimRecovered"
  shows "tables d1 = tables d0"
  using assms(1,2) by (cases rule: claimIdempotency_InrD) (use assms(3,4) in auto)

lemma start_claim_cases:
  assumes inv: "records_inv d" and run: "pg_ClaimAuthorizationStart ts request d = (r, d')"
    and p: "asr_payment request = Some p"
  obtains (refused) "tables d' = tables d" "claim_refused request d r"
    | (acquired) "db_payments d' = sql_insert (payment_row ts p) (db_payments d)"
        "payment_at d (p_id p) = None" "records_inv d'" "claim_answered (NewClaimedPaymentCommand request p) r"
        "ledger_of d' = (ledger_of d)(request_pk request \<mapsto> Open (cr_requestFingerprint request) (p_id p) (ts (cr_now request)))"
        "ledger_of d (request_pk request) = None"
    | (recovered) q row pid where "db_payments d' = db_payments d" "records_inv d'"
        "payment_at d pid = Some row" "scanPayment row = Inr q" "status q = cr_expectedStatus request"
        "claim_answered (NewRecoveredPaymentCommand request q) r"
        "ledger_of d' = (ledger_of d)(request_pk request \<mapsto> Open (cr_requestFingerprint request) pid (ts (cr_now request)))"
        "\<exists>t. ledger_of d (request_pk request) = Some (Open (cr_requestFingerprint request) pid t)"
proof (cases "IsZero (cr_now request)")
  case True
  with run show ?thesis
    by (intro refused) (auto simp: pg_ClaimAuthorizationStart_def claim_refused_def)
next
  case False
  with run p have tx: "act_bind (in_tx (act_bind (act_map_err internal_err (claimIdempotency ts request (p_id p)))
      (start_outcome ts request p))) act_lift d = (r, d')"
    by (simp add: pg_ClaimAuthorizationStart_def)
  from inv tx show ?thesis
  proof (cases rule: claim_tx_cases)
    case (failed e)
    then show ?thesis by (intro refused) (simp_all add: claim_refused_def)
  next
    case (committed d0 d1 d2 rc out x)
    note R = claim_refines [OF committed(2,3)]
    have L0: "ledger_of d0 = ledger_of d" "db_payments d0 = db_payments d"
      using ledger_of_tables [OF committed(1)] committed(1) by (simp_all add: tables_eq_iff)
    have quiet: "\<lbrakk>out \<noteq> idempotencyClaimAcquired; out \<noteq> idempotencyClaimRecovered; tables d2 = tables d1\<rbrakk> \<Longrightarrow> tables d' = tables d"
      using claim_no_change [OF committed(2,3)] committed(1,5) by simp
    show ?thesis
    proof (cases out)
      case idempotencyClaimAcquired
      with committed(4) have ins: "insertPayment ts p d1 = (Inr (), d2)" "x = Inr (NewClaimedPaymentCommand request p)"
        by (auto simp: start_outcome_def act_bind_Inr_iff)
      note I = insertPayment_InrD [OF ins(1)]
      have "ledger_of d' = ledger_of d1" "records_inv d'"
        using I committed(5) R(2) by (simp_all add: ledger_of_def fun_eq_iff records_inv_def tables_def)
      with I R L0 committed ins(2) idempotencyClaimAcquired show ?thesis
        by (intro acquired) (auto simp: tables_def claim_answered_def dest: ledger_claim_Acquired)
    next
      case idempotencyClaimRecovered
      with committed(4) obtain q where f: "findPaymentByID (ir_paymentID rc) d1 = (Inr q, d2)"
        "status q = cr_expectedStatus request" "x = Inr (NewRecoveredPaymentCommand request q)"
        by (auto simp: start_outcome_def act_bind_Inr_iff split: if_splits)
      from findPaymentByID_InrD [OF f(1)] obtain row where F: "tables d2 = tables d1"
        "payment_at d1 (ir_paymentID rc) = Some row" "scanPayment row = Inr q" by blast
      have "ledger_of d' = ledger_of d1" "records_inv d'"
        using ledger_of_tables [of d' d1] records_inv_tables [of d' d1] F committed(5) R(2) by simp_all
      with F R L0 committed f idempotencyClaimRecovered show ?thesis
        by (intro recovered [of "ir_paymentID rc" row q])
           (auto simp: tables_def claim_answered_def dest: ledger_claim_Recovered)
    next
      case idempotencyClaimReplayed
      with committed(4) have "d2 = d1" "x = Inr (NewReplayedPaymentCommand request (ir_result rc))"
        by (auto simp: start_outcome_def)
      with quiet R(1) L0 committed(6) idempotencyClaimReplayed show ?thesis
        using replay_refused [of request "p_id p" _ _ d "ir_result rc"]
        by (intro refused) (auto simp: claim_refused_def)
    qed (use committed(4,6) quiet in \<open>auto simp: start_outcome_def claim_refused_def intro!: refused\<close>)
  qed
qed

lemma existing_claim_cases:
  assumes inv: "records_inv d" and run: "pg_ClaimExistingPaymentCommand ts request d = (r, d')"
  obtains (refused) "tables d' = tables d" "claim_refused request d r"
    | (acquired) q row p d1 d2 where
        "payment_at d (ecr_paymentID request) = Some row" "scanPayment row = Inr q"
        "validateAcquiredPaymentCommand request q = None"
        "db_payments d1 = db_payments d" "ensureBankOperationKey q request d1 = (Inr p, d2)"
        "db_payments d' = db_payments d2" "records_inv d'"
        "claim_answered (NewClaimedPaymentCommand request p) r"
        "ledger_of d (request_pk request) = None"
        "ledger_of d' = (ledger_of d)(request_pk request \<mapsto>
           Open (cr_requestFingerprint request) (ecr_paymentID request) (ts (cr_now request)))"
    | (recovered) q row rc where "db_payments d' = db_payments d" "records_inv d'"
        "payment_at d (ir_paymentID rc) = Some row" "scanPayment row = Inr q"
        "validateRecoveredPaymentCommand request rc q = None"
        "claim_answered (NewRecoveredPaymentCommand request q) r"
        "ledger_of d' = (ledger_of d)(request_pk request \<mapsto>
           Open (cr_requestFingerprint request) (ir_paymentID rc) (ts (cr_now request)))"
        "\<exists>t. ledger_of d (request_pk request) = Some (Open (cr_requestFingerprint request) (ir_paymentID rc) t)"
proof (cases "IsZero (cr_now request)")
  case True
  with run show ?thesis
    by (intro refused) (auto simp: pg_ClaimExistingPaymentCommand_def claim_refused_def)
next
  case False
  with run have tx: "act_bind (in_tx (act_bind (act_map_err internal_err (claimIdempotency ts request (ecr_paymentID request)))
      (existing_outcome request))) act_lift d = (r, d')"
    by (simp add: pg_ClaimExistingPaymentCommand_def)
  from inv tx show ?thesis
  proof (cases rule: claim_tx_cases)
    case (failed e)
    then show ?thesis by (intro refused) (simp_all add: claim_refused_def)
  next
    case (committed d0 d1 d2 rc out x)
    note R = claim_refines [OF committed(2,3)]
    have L0: "ledger_of d0 = ledger_of d" "db_payments d0 = db_payments d"
      using ledger_of_tables [OF committed(1)] committed(1) by (simp_all add: tables_eq_iff)
    have quiet: "\<lbrakk>out \<noteq> idempotencyClaimAcquired; out \<noteq> idempotencyClaimRecovered; tables d2 = tables d1\<rbrakk> \<Longrightarrow> tables d' = tables d"
      using claim_no_change [OF committed(2,3)] committed(1,5) by simp
    show ?thesis
    proof (cases out)
      case idempotencyClaimAcquired
      with committed(4) obtain q p d3 where f: "findPaymentByID (ecr_paymentID request) d1 = (Inr q, d3)"
        "validateAcquiredPaymentCommand request q = None" "ensureBankOperationKey q request d3 = (Inr p, d2)"
        "x = Inr (NewClaimedPaymentCommand request p)"
        by (auto simp: existing_outcome_def act_bind_Inr_iff split: option.splits)
      from findPaymentByID_InrD [OF f(1)] obtain row where F: "tables d3 = tables d1"
        "payment_at d1 (ecr_paymentID request) = Some row" "scanPayment row = Inr q" by blast
      have "db_records d2 = db_records d1"
        using f(3) F(1) by (cases rule: ensureBankOperationKey_InrD) (auto simp: tables_def)
      then have "ledger_of d' = ledger_of d1" "records_inv d'"
        using committed(5) R(2) by (simp_all add: ledger_of_def fun_eq_iff records_inv_def tables_def)
      with F R L0 committed f idempotencyClaimAcquired show ?thesis
        by (intro acquired [of row q d3 p d2])
           (auto simp: tables_def claim_answered_def dest: ledger_claim_Acquired)
    next
      case idempotencyClaimRecovered
      with committed(4) obtain q where f: "findPaymentByID (ir_paymentID rc) d1 = (Inr q, d2)"
        "validateRecoveredPaymentCommand request rc q = None" "x = Inr (NewRecoveredPaymentCommand request q)"
        by (auto simp: existing_outcome_def act_bind_Inr_iff split: option.splits)
      from findPaymentByID_InrD [OF f(1)] obtain row where F: "tables d2 = tables d1"
        "payment_at d1 (ir_paymentID rc) = Some row" "scanPayment row = Inr q" by blast
      have "ledger_of d' = ledger_of d1" "records_inv d'"
        using ledger_of_tables [of d' d1] records_inv_tables [of d' d1] F committed(5) R(2) by simp_all
      with F R L0 committed f idempotencyClaimRecovered show ?thesis
        by (intro recovered [of rc row q])
           (auto simp: tables_def claim_answered_def dest: ledger_claim_Recovered)
    next
      case idempotencyClaimReplayed
      with committed(4) have "d2 = d1" "x = Inr (NewReplayedPaymentCommand request (ir_result rc))"
        by (auto simp: existing_outcome_def)
      with quiet R(1) L0 committed(6) idempotencyClaimReplayed show ?thesis
        using replay_refused [of request "ecr_paymentID request" _ _ d "ir_result rc"]
        by (intro refused) (auto simp: claim_refused_def)
    qed (use committed(4,6) quiet in \<open>auto simp: existing_outcome_def claim_refused_def intro!: refused\<close>)
  qed
qed

subsection \<open>The outcomes of a completion\<close>

lemma persistPaymentTransition_InrD:
  assumes inv: "payments_inv d" and run: "persistPaymentTransition ts p expected d = (Inr u, d')"
  obtains row where "payment_at d (p_id p) = Some row" "r_status row = expected"
    "tables d' = (sql_update (\<lambda>r. r_id r = p_id p \<and> r_status r = expected) (transition_row ts p) (db_payments d),
                  db_records d)"
proof -
  let ?w = "\<lambda>r. r_id r = p_id p \<and> r_status r = expected"
  from run obtain n where u: "update_payments ?w (transition_row ts p) d = (Inr n, d')" "n \<noteq> 0"
    unfolding persistPaymentTransition_def by (auto simp: act_bind_Inr_iff split: if_splits)
  note U = update_payments_InrD [OF u(1)]
  have "0 < sql_count ?w (db_payments d)" using U(1) u(2) by simp
  then obtain row where "payment_at d (p_id p) = Some row" "?w row"
    using payments.count_pos_iff [of "db_payments d" ?w "p_id p"] inv by (auto simp: payments_inv_def)
  with U(2) show ?thesis by (intro that) auto
qed

lemma complete_cases:
  assumes inv: "store_inv d" and run: "pg_CompletePaymentCommand ts claim result now d = (r, d')"
    and q: "pcc_payment claim = Some q"
  obtains (failed) e where "r = Inl e" "tables d' = tables d"
    | (committed) row where "r = Inr () \<or> r = Inl (internal_err sql_error)"
        "payment_at d (p_id q) = Some row" "r_status row = pcc_expectedStatus claim"
        "db_payments d' = sql_update (\<lambda>r. r_id r = p_id q \<and> r_status r = pcc_expectedStatus claim)
                            (transition_row ts q) (db_payments d)"
        "records_inv d'"
        "ledger_complete (claim_pk claim) (pcc_requestFingerprint claim)
           \<lparr>pcr_Payment = coerced_result (pcr_Payment result), pcr_FailureKind = pcr_FailureKind result\<rparr>
           (ts now) (ledger_of d) = Some (ledger_of d')"
        "year_in_range (pr_AuthorizationExpiresAt (pcr_Payment result))"
proof -
  let ?body = "\<lambda>doc. act_bind (persistPaymentTransition ts q (pcc_expectedStatus claim)) (\<lambda>_.
      completeIdempotencyRecord ts claim (pcr_FailureKind result) doc now)"
  have early: thesis if "r = Inl e" "d' = d" for e using that failed by simp
  show ?thesis
  proof (cases "IsZero now \<or> (\<exists>e. encodePaymentResultSnapshot (pcr_Payment result) = Inl e)")
    case True
    with run have "d' = d" "\<exists>e. r = Inl e" by (auto simp: pg_CompletePaymentCommand_def split: if_splits)
    then show ?thesis using early by blast
  next
    case False
    then obtain doc where doc: "encodePaymentResultSnapshot (pcr_Payment result) = Inr doc"
      by (cases "encodePaymentResultSnapshot (pcr_Payment result)") auto
    with False run q have "in_tx (?body doc) d = (r, d')"
      by (simp add: pg_CompletePaymentCommand_def)
    then show ?thesis
    proof (cases rule: in_tx_cases)
      case (unchanged e)
      then show ?thesis by (intro failed)
    next
      case (committed d0 x d2)
      then obtain d1 where pt: "persistPaymentTransition ts q (pcc_expectedStatus claim) d0 = (Inr (), d1)"
        and cr: "completeIdempotencyRecord ts claim (pcr_FailureKind result) doc now d1 = (Inr (), d2)"
        by (auto simp: act_bind_Inr_iff)
      have inv0: "payments_inv d0" "records_inv d0"
        using inv store_inv_tables [OF committed(1)] by (simp_all add: store_inv_def)
      from inv0(1) pt obtain row where P: "payment_at d0 (p_id q) = Some row" "r_status row = pcc_expectedStatus claim"
        "tables d1 = (sql_update (\<lambda>r. r_id r = p_id q \<and> r_status r = pcc_expectedStatus claim)
                        (transition_row ts q) (db_payments d0), db_records d0)"
        by (rule persistPaymentTransition_InrD)
      have e: "db_records d1 = db_records d" "db_payments d0 = db_payments d"
        using P(3) committed(1) by (simp_all add: tables_def)
      have "records_inv d1" "ledger_of d1 = ledger_of d"
        using inv e by (simp_all add: store_inv_def records_inv_def ledger_of_def fun_eq_iff)
      note C = complete_refines [OF this(1) cr doc]
      have "ledger_of d' = ledger_of d2" "records_inv d'" "db_payments d' = db_payments d1"
        using ledger_of_tables [OF committed(3)] records_inv_tables [OF committed(3)] C(2,3) committed(3)
        by (simp_all add: tables_eq_iff)
      with C P e \<open>ledger_of d1 = ledger_of d\<close> committed(4) doc show ?thesis
        by (intro that(2) [of row])
           (auto simp: tables_def encodePaymentResultSnapshot_def split: if_splits)
    qed
  qed
qed

subsection \<open>Row updates keep rows well formed\<close>

definition same_identity :: "Payment \<Rightarrow> PaymentRow \<Rightarrow> bool" where
  "same_identity p r \<longleftrightarrow>
     r_id r = p_id p \<and> r_order_id r = orderID p \<and> r_customer_id r = customerID p \<and>
     r_amount_cents r = amountCents p \<and> r_currency r = currency p \<and>
     r_authorization_bank_operation_key r = authorizationBankOperationKey p \<and>
     r_authorization_card_fingerprint r = authorizationCardFingerprint p"

lemma created_at_wf:
  assumes "t \<noteq> 0" "payment_wf p"
  shows "payment_wf (p\<lparr>createdAt := t\<rparr>)"
proof -
  have "payment_status_wf (p\<lparr>createdAt := t\<rparr>) = payment_status_wf p" by (simp add: payment_status_wf_def)
  with assms show ?thesis by (simp add: payment_wf_def payment_base_wf_def)
qed

lemma transition_row_ok:
  assumes "payment_wf q" "times_survive ts q" "same_identity q row" "row_ok row"
  shows "row_ok (transition_row ts q row)"
proof -
  let ?q = "(round_times ts q)\<lparr>createdAt := r_created_at row\<rparr>"
  obtain p where "payment_wf p" "row = payment_row (\<lambda>t. t) p"
    using assms(4) by (auto simp: row_ok_def split: sum.splits)
  then have "r_created_at row \<noteq> 0" by (simp add: payment_row_def payment_wf_def payment_base_wf_def)
  then have wf: "payment_wf ?q"
    using round_times_wf [OF assms(1,2)] by (rule created_at_wf)
  have "transition_row ts q row = payment_row (\<lambda>t. t) ?q"
    using assms(2,3)
    by (auto simp: transition_row_def payment_row_def same_identity_def round_times_def times_survive_def
          nullableTime_def IsZero_def)
  with row_okI [OF wf] show ?thesis by simp
qed

lemma set_op_key_wf:
  assumes "payment_wf p" "op \<in> set keyed_operations" "k \<noteq> []" "normalized k"
    "status p = (if op = RefundPaymentOperation then PaymentStatusCaptured else PaymentStatusAuthorized)"
  shows "payment_wf (set_op_key op k p)"
proof -
  have "payment_base_wf (set_op_key op k p)"
    using assms(1,4) unfolding payment_wf_def payment_base_wf_def set_op_key_def by simp
  moreover have "payment_status_wf (set_op_key op k p)"
    using assms(1,2,3,5) by (auto simp: payment_wf_def payment_status_wf_def keyed_operations_def set_op_key_def Let_def)
  ultimately show ?thesis by (simp add: payment_wf_def)
qed

lemma set_row_key_ok:
  assumes "row_ok row" "scanPayment row = Inr p" "op \<in> set keyed_operations" "k \<noteq> []" "normalized k"
    "status p = (if op = RefundPaymentOperation then PaymentStatusCaptured else PaymentStatusAuthorized)"
  shows "row_ok (set_row_key op (Some k) row)"
proof -
  have "payment_wf p" "row = payment_row (\<lambda>t. t) p" using row_okD [OF assms(1,2)] by auto
  then show ?thesis
    using row_okI [OF set_op_key_wf [OF _ assms(3-6)]] by (simp add: set_row_key_payment_row assms(4))
qed

end
