(* ===== verification/Store_Contract.thy ===== *)
theory Store_Contract
  imports Service_Contract Store_Invariants
begin

text \<open>
  The PostgreSQL store provides the interface the service relies on: every call has the effect on
  the ledger the locale \<open>ledger_store\<close> asks for, whatever faults occur, and without faults a claim
  on a taken key is answered from the ledger.  The properties of the service over this store are
  the instances of the locale's lemmas.
\<close>

subsection \<open>Effects\<close>

lemma refused_effect:
  "claim_refused request d r \<Longrightarrow> claim_effect request (ledger_of d) r (ledger_of d)"
  by (auto simp: claim_refused_def claim_effect_def split: sum.splits)

lemma answered_effect:
  assumes "claim_answered c r" "claim_of request c"
    and "\<And>fp result t. L (request_pk request) \<noteq> Some (Closed fp result t)"
    and "L' = L(request_pk request \<mapsto> Open (cr_requestFingerprint request) pid t)"
  shows "claim_effect request L r L'"
  using assms by (auto simp: claim_answered_def claim_effect_def)

lemma claim_of_new [simp]:
  "claim_of request (NewClaimedPaymentCommand request p)" "claim_of request (NewRecoveredPaymentCommand request p)"
  by (simp_all add: claim_of_def claim_defs)

lemma start_claim_effect:
  assumes inv: "records_inv d" and p: "asr_payment request = Some p"
    and run: "pg_ClaimAuthorizationStart ts request d = (r, d')"
  shows "records_inv d' \<and> claim_effect request (ledger_of d) r (ledger_of d')"
  using inv run p
proof (cases rule: start_claim_cases)
  case refused
  then show ?thesis
    using inv records_inv_tables [OF refused(1)] ledger_of_tables [OF refused(1)] refused_effect by simp
next
  case acquired
  then show ?thesis using answered_effect [OF acquired(4), of request "ledger_of d"] by simp
next
  case (recovered q row pid)
  then show ?thesis using answered_effect [OF recovered(6), of request "ledger_of d"] by auto
qed

lemma existing_claim_effect:
  assumes inv: "records_inv d" and run: "pg_ClaimExistingPaymentCommand ts request d = (r, d')"
  shows "records_inv d' \<and> claim_effect request (ledger_of d) r (ledger_of d')"
  using inv run
proof (cases rule: existing_claim_cases)
  case refused
  then show ?thesis
    using inv records_inv_tables [OF refused(1)] ledger_of_tables [OF refused(1)] refused_effect by simp
next
  case (acquired q row p d1 d2)
  then show ?thesis using answered_effect [OF acquired(8), of request "ledger_of d"] by simp
next
  case (recovered q row rc)
  then show ?thesis using answered_effect [OF recovered(6), of request "ledger_of d"] by auto
qed

lemma complete_tx_effect:
  assumes inv: "records_inv d" and doc: "encodePaymentResultSnapshot (pcr_Payment result) = Inr doc"
    and run: "in_tx (act_bind (persistPaymentTransition ts q st) (\<lambda>_.
        completeIdempotencyRecord ts claim (pcr_FailureKind result) doc now)) d = (r, d')"
  shows "records_inv d' \<and> complete_effect claim result (ledger_of d) r (ledger_of d')"
  using run
proof (cases rule: in_tx_cases)
  case (unchanged e)
  then show ?thesis
    using inv records_inv_tables [OF unchanged(2)] ledger_of_tables [OF unchanged(2)] by (simp add: complete_effect_def)
next
  case (committed d0 x d2)
  then obtain u d1 where pt: "persistPaymentTransition ts q st d0 = (Inr u, d1)"
    and cr: "completeIdempotencyRecord ts claim (pcr_FailureKind result) doc now d1 = (Inr x, d2)"
    by (auto simp: act_bind_Inr_iff)
  have "db_records d1 = db_records d"
    using pt committed(1) unfolding persistPaymentTransition_def
    by (auto simp: act_bind_Inr_iff tables_def split: if_splits dest!: update_payments_InrD(2))
  then have "records_inv d1" "ledger_of d1 = ledger_of d"
    using inv by (simp_all add: records_inv_def ledger_of_def fun_eq_iff)
  note C = complete_refines [OF this(1) cr doc]
  have "records_inv d'" "ledger_of d' = ledger_of d2"
    using C(2) records_inv_tables [OF committed(3)] ledger_of_tables [OF committed(3)] by simp_all
  then show ?thesis
    using C(1) \<open>ledger_of d1 = ledger_of d\<close> by (auto simp: complete_effect_def stored_as_def)
qed

lemma complete_claim_effect:
  assumes inv: "records_inv d" and run: "pg_CompletePaymentCommand ts claim result now d = (r, d')"
  shows "records_inv d' \<and> complete_effect claim result (ledger_of d) r (ledger_of d')"
proof (cases "encodePaymentResultSnapshot (pcr_Payment result)")
  case (Inl e)
  with inv run show ?thesis by (auto simp: pg_CompletePaymentCommand_def complete_effect_def split: if_splits)
next
  case (Inr doc)
  show ?thesis
  proof (cases "pcc_payment claim")
    case None
    have "records_inv d' \<and> ledger_of d' = ledger_of d \<and> r \<noteq> Inr ()" if "in_tx (act_fail e) d = (r, d')" for e
      using that
    proof (cases rule: in_tx_cases)
      case (unchanged e)
      then show ?thesis using inv records_inv_tables [OF unchanged(2)] ledger_of_tables [OF unchanged(2)] by simp
    qed simp
    with None Inr run inv show ?thesis
      by (auto simp: pg_CompletePaymentCommand_def complete_effect_def split: if_splits)
  next
    case (Some q)
    with Inr run inv complete_tx_effect [OF inv Inr] show ?thesis
      by (auto simp: pg_CompletePaymentCommand_def complete_effect_def split: if_splits)
  qed
qed

lemma release_claim_effect:
  assumes inv: "records_inv d" and run: "pg_ReleasePaymentCommand claim d = (r, d')"
  shows "records_inv d' \<and> release_effect claim (ledger_of d) r (ledger_of d')"
  using pg_ReleasePaymentCommand_cases [OF run]
proof
  assume *: "tables d' = tables d \<and> r \<noteq> Inr ()"
  then show ?thesis
    using inv records_inv_tables [of d' d] ledger_of_tables [of d' d] by (simp add: release_effect_def)
next
  assume "tables d' = (db_payments d, sql_delete (released_claim claim) (db_records d))"
  then have "db_records d' = sql_delete (released_claim claim) (db_records d)" by (simp add: tables_def)
  then show ?thesis using delete_refines(2) [OF inv] release_deletes [OF inv] by (simp add: release_effect_def)
qed

subsection \<open>Answers without faults\<close>

lemma recover_reliable:
  assumes inv: "records_inv d" and ok: "db_faults d = []"
    and r: "lookup_row i_pk (db_records d) (request_pk request) = Some r" "\<not> stuck_claim ts request now r"
  shows "recoverIdempotencyClaim ts request now d = (Inr None, d)"
proof -
  have none: "\<not> stuck_claim ts request now x" if "x \<in> set (db_records d)" for x
  proof
    assume st: "stuck_claim ts request now x"
    then have "i_pk x = request_pk request" by (rule stuck_claim_pk)
    then have "x = r" using that r(1) lookup_row_member [of i_pk "db_records d" x] inv by (simp add: records_inv_def)
    then show False using st r(2) by simp
  qed
  then have "find (stuck_claim ts request now) (db_records d) = None" by (auto simp: find_None_iff)
  then show ?thesis
    using none sql_update_none [of "db_records d" "stuck_claim ts request now" "\<lambda>r. r\<lparr>i_claimed_at := ts now\<rparr>"] ok
    by (simp add: recoverIdempotencyClaim_def sql_exec_reliable list_all_iff Let_def)
qed

lemma claim_reliable:
  assumes inv: "records_inv d" and ok: "db_faults d = []"
    and r: "lookup_row i_pk (db_records d) (request_pk request) = Some r" "\<not> stuck_claim ts request (cr_now request) r"
    and check: "idempotency_records_check (claim_row ts request pid)"
  obtains rc out where "claimIdempotency ts request pid d = (Inr (rc, out), d)"
proof -
  note rec = recover_reliable [OF inv ok r]
  have ins: "insert_claim ts request pid d = (Inr 0, d)"
    using r(1) check ok by (simp add: insert_claim_def sql_exec_reliable Let_def)
  have rok: "record_ok r" by (rule lookup_record_ok [OF inv r(1)])
  then obtain result where res: "stored_result r = Inr result" by (auto simp: record_ok_def split: sum.splits)
  have sel: "\<exists>rc. selectIdempotencyRecord (cr_operation request) (cr_key request) d = (Inr rc, d) \<and> ir_status rc = i_status r"
    using r(1) res ok by (auto simp: selectIdempotencyRecord_def sql_query_reliable request_pk_def act_bind_def)
  then obtain rc where rc: "selectIdempotencyRecord (cr_operation request) (cr_key request) d = (Inr rc, d)"
    "ir_status rc = i_status r" by blast
  have "\<exists>ro. classify_claim request rc d = (Inr ro, d)"
    using record_status_cases [OF rok] rc(2) by (auto simp: classify_claim_def)
  then obtain ro where "classify_claim request rc d = (Inr ro, d)" by blast
  then have "claimIdempotency ts request pid d = (Inr ro, d)"
    using rec ins rc(1) by (simp add: claimIdempotency_def)
  then show ?thesis using that by (cases ro) auto
qed

lemma admissible_check:
  "claim_admissible request pid \<Longrightarrow> idempotency_records_check (claim_row ts request pid)"
  by (auto simp: claim_admissible_def idempotency_records_check_def claim_row_def sql_nonblank_normalized
      payment_id_matches_iff idempotencyRecordInProgress_def nullableString_def)

lemma taken_claim:
  assumes inv: "records_inv d" and ok: "db_faults d = []" and adm: "claim_admissible request pid"
    and e: "ledger_of d (request_pk request) = Some e" "taken ts request e"
  obtains rc out where "claimIdempotency ts request pid d = (Inr (rc, out), d)"
    "(out = idempotencyClaimReplayed \<and> taken_answer request e = Inr (NewReplayedPaymentCommand request (ir_result rc))) \<or>
     (out = idempotencyClaimInProgress \<and> taken_answer request e = Inl (NewPaymentIdempotencyInProgressError None)) \<or>
     (out = idempotencyClaimConflict \<and> taken_answer request e = Inl (NewPaymentIdempotencyConflictError None))"
proof -
  from e(1) obtain r where r: "lookup_row i_pk (db_records d) (request_pk request) = Some r" "e = entry_of r"
    by (auto simp: ledger_of_def)
  have "\<not> stuck_claim ts request (cr_now request) r"
    using e(2) r(2)
    by (auto simp: taken_def entry_of_def stuck_claim_def idempotencyRecordCompleted_def idempotencyRecordInProgress_def
        split: if_splits)
  from claim_reliable [OF inv ok r(1) this admissible_check [OF adm]]
  obtain rc out where run: "claimIdempotency ts request pid d = (Inr (rc, out), d)" .
  note R = claim_refines(1) [OF inv run]
  show ?thesis
    by (rule that [OF run])
       (use R e in \<open>cases out; auto simp: ledger_claim_def taken_answer_def taken_def split: ledger_entry.splits if_splits\<close>)
qed

lemma start_claim_taken:
  assumes inv: "records_inv d" and ok: "db_faults d = []"
    and p: "asr_payment request = Some p" and adm: "claim_admissible request (p_id p)"
    and e: "ledger_of d (request_pk request) = Some e" "taken ts request e"
  shows "pg_ClaimAuthorizationStart ts request d = (taken_answer request e, d)"
proof -
  from taken_claim [OF inv ok adm e] obtain rc out where c: "claimIdempotency ts request (p_id p) d = (Inr (rc, out), d)"
    "(out = idempotencyClaimReplayed \<and> taken_answer request e = Inr (NewReplayedPaymentCommand request (ir_result rc))) \<or>
     (out = idempotencyClaimInProgress \<and> taken_answer request e = Inl (NewPaymentIdempotencyInProgressError None)) \<or>
     (out = idempotencyClaimConflict \<and> taken_answer request e = Inl (NewPaymentIdempotencyConflictError None))" .
  then have "in_tx (act_bind (act_map_err internal_err (claimIdempotency ts request (p_id p)))
      (start_outcome ts request p)) d = (Inr (taken_answer request e), d)"
    by (intro in_tx_reliable) (use ok in \<open>auto simp: start_outcome_def\<close>)
  then show ?thesis using p adm by (simp add: pg_ClaimAuthorizationStart_def claim_admissible_def IsZero_def)
qed

lemma existing_claim_taken:
  assumes inv: "records_inv d" and ok: "db_faults d = []" and adm: "claim_admissible request (ecr_paymentID request)"
    and e: "ledger_of d (request_pk request) = Some e" "taken ts request e"
  shows "pg_ClaimExistingPaymentCommand ts request d = (taken_answer request e, d)"
proof -
  from taken_claim [OF inv ok adm e] obtain rc out where c: "claimIdempotency ts request (ecr_paymentID request) d = (Inr (rc, out), d)"
    "(out = idempotencyClaimReplayed \<and> taken_answer request e = Inr (NewReplayedPaymentCommand request (ir_result rc))) \<or>
     (out = idempotencyClaimInProgress \<and> taken_answer request e = Inl (NewPaymentIdempotencyInProgressError None)) \<or>
     (out = idempotencyClaimConflict \<and> taken_answer request e = Inl (NewPaymentIdempotencyConflictError None))" .
  then have "in_tx (act_bind (act_map_err internal_err (claimIdempotency ts request (ecr_paymentID request)))
      (existing_outcome request)) d = (Inr (taken_answer request e), d)"
    by (intro in_tx_reliable) (use ok in \<open>auto simp: existing_outcome_def\<close>)
  then show ?thesis using adm by (simp add: pg_ClaimExistingPaymentCommand_def claim_admissible_def IsZero_def)
qed

interpretation pg: ledger_store "NewPaymentStore ts text_le" records_inv "\<lambda>d. db_faults d = []" ledger_of ts
proof (unfold_locales, goal_cases)
  case 1
  then show ?case using start_claim_effect by (simp add: NewPaymentStore_def)
next
  case 2
  then show ?case using existing_claim_effect by (simp add: NewPaymentStore_def)
next
  case 3
  then show ?case using complete_claim_effect by (simp add: NewPaymentStore_def)
next
  case 4
  then show ?case using release_claim_effect by (simp add: NewPaymentStore_def)
next
  case 5
  then show ?case using start_claim_taken by (simp add: NewPaymentStore_def)
next
  case 6
  then show ?case using existing_claim_taken by (simp add: NewPaymentStore_def)
next
  case (7 d c)
  then show ?case
    using release_deletes [OF 7(1), of "d\<lparr>db_records := sql_delete (released_claim c) (db_records d)\<rparr>" c]
    by (simp add: NewPaymentStore_def pg_ReleasePaymentCommand_def act_map_err_def sql_exec_reliable)
qed

subsection \<open>A service and a recorded capture, for the witnesses\<close>

definition unreachable_bank :: "unit BankClient" where
  "unreachable_bank =
     \<lparr>bank_AuthorizePayment = (\<lambda>_. act_fail (NewPaymentBankUnavailableError None)),
      bank_CapturePayment = (\<lambda>_. act_fail (NewPaymentBankUnavailableError None)),
      bank_VoidPayment = (\<lambda>_. act_fail (NewPaymentBankUnavailableError None)),
      bank_RefundPayment = (\<lambda>_. act_fail (NewPaymentBankUnavailableError None))\<rparr>"

definition example_service :: "(Database, unit) PaymentService" where
  "example_service =
     \<lparr>svc_store = NewPaymentStore (\<lambda>t. t) (\<lambda>a b. True), svc_bank = unreachable_bank,
      svc_uuid = (\<lambda>_. ''123e4567-e89b-12d3-a456-426614174000''), svc_clock = (\<lambda>n. 1000000 + int n),
      svc_fingerprintSecret = ''secret'', svc_claimStuckAfter = 60000\<rparr>"

definition example_capture :: CapturePaymentCommand where
  "example_capture = \<lparr>cpc_paymentID = example_id, cpc_idempotencyKey = ''key-1''\<rparr>"

definition example_outcome :: PaymentCommandResult where
  "example_outcome = \<lparr>pcr_Payment = newPaymentResult example_authorized, pcr_FailureKind = []\<rparr>"

definition capture_row :: "string \<Rightarrow> IdempotencyRow" where
  "capture_row fp =
     \<lparr>i_operation = CapturePaymentOperation, i_key = ''key-1'', i_request_fingerprint = fp,
      i_payment_id = Some example_id, i_status = idempotencyRecordInProgress, i_failure_kind = None,
      i_payment_result = None, i_claimed_at = 5000, i_completed_at = None\<rparr>"

definition state_with :: "IdempotencyRow list \<Rightarrow> (Database, unit) ServiceState" where
  "state_with rows = \<lparr>ss_db = \<lparr>db_payments = [], db_records = rows, db_faults = []\<rparr>, ss_bank = (),
     ss_ticks = 0, ss_ids = 0, ss_metrics = []\<rparr>"

abbreviation capture_fp :: string where
  "capture_fp \<equiv> command_fingerprint ''secret'' (Capture example_capture)"

definition recorded_row :: IdempotencyRow where
  "recorded_row = completed_row (\<lambda>t. t) []
     (case encodePaymentResultSnapshot (pcr_Payment example_outcome) of Inr doc \<Rightarrow> doc | Inl _ \<Rightarrow> []) 7000
     (capture_row capture_fp)"

lemma example_service_ok:
  "svc_store example_service = NewPaymentStore (\<lambda>t. t) (\<lambda>a b. True)" "generators_ok example_service"
  "command_valid (Capture example_capture)" "svc_fingerprintSecret example_service = ''secret''"
proof -
  have "validatePaymentID (''pay_'' @ ''123e4567-e89b-12d3-a456-426614174000'') = None"
    "TrimSpace (''bok_'' @ ''123e4567-e89b-12d3-a456-426614174000'') \<noteq> []"
    "TrimSpace ''key-1'' = ''key-1''" by code_simp+
  then show "generators_ok example_service" "command_valid (Capture example_capture)"
    by (simp_all add: generators_ok_def example_service_def NewPaymentID_def NewBankOperationKey_def
        example_capture_def normalized_def)
qed (simp_all add: example_service_def)

lemma capture_row_ok:
  assumes "normalized fp" "fp \<noteq> []"
  shows "records_inv (ss_db (state_with [capture_row fp]))"
    "ledger_of (ss_db (state_with [capture_row fp])) (command_pk (Capture example_capture)) = Some (Open fp example_id 5000)"
proof -
  have "sql_nonblank CapturePaymentOperation" "sql_nonblank ''key-1''" "payment_id_matches example_id"
    by code_simp (code_simp, simp add: payment_id_matches_iff)
  then show "records_inv (ss_db (state_with [capture_row fp]))"
    using assms
    by (simp add: state_with_def records_inv_def unique_keys_def record_ok_def idempotency_records_check_def
        capture_row_def sql_nonblank_normalized stored_result_def idempotencyRecordInProgress_def
        idempotencyRecordCompleted_def)
  show "ledger_of (ss_db (state_with [capture_row fp])) (command_pk (Capture example_capture)) = Some (Open fp example_id 5000)"
    by (simp add: state_with_def ledger_of_def lookup_row_def i_pk_def capture_row_def example_capture_def
        entry_of_def nullStringValue_def idempotencyRecordInProgress_def idempotencyRecordCompleted_def)
qed

lemma recorded_row_ok:
  "records_inv (ss_db (state_with [recorded_row]))"
  "ledger_of (ss_db (state_with [recorded_row])) (command_pk (Capture example_capture)) =
     Some (Closed capture_fp (stored_as example_outcome) 7000)"
proof -
  have "\<exists>doc. encodePaymentResultSnapshot (pcr_Payment example_outcome) = Inr doc"
    by (simp add: encodePaymentResultSnapshot_def example_outcome_def newPaymentResult_def example_authorized_def
        example_pending_def year_in_range_def)
  then obtain doc where doc: "encodePaymentResultSnapshot (pcr_Payment example_outcome) = Inr doc" ..
  have st: "stored_result recorded_row = Inr (stored_as example_outcome)"
    using nonterminal_kind [OF _ doc, of "[]" "\<lambda>t. t" 7000 "capture_row capture_fp"]
    unfolding recorded_row_def doc sum.case by (simp add: stored_as_def example_outcome_def)
  have "record_ok (capture_row capture_fp)"
    using capture_row_ok(1) [of capture_fp] by (simp add: state_with_def records_inv_def)
  then have "idempotency_records_check recorded_row"
    by (simp add: record_ok_def idempotency_records_check_def recorded_row_def completed_row_def capture_row_def
        nullableString_def idempotencyRecordInProgress_def idempotencyRecordCompleted_def)
  then show "records_inv (ss_db (state_with [recorded_row]))"
    using st by (simp add: state_with_def records_inv_def unique_keys_def record_ok_def)
  show "ledger_of (ss_db (state_with [recorded_row])) (command_pk (Capture example_capture)) =
     Some (Closed capture_fp (stored_as example_outcome) 7000)"
    using st
    by (simp add: state_with_def ledger_of_def lookup_row_def entry_of_def)
       (simp add: recorded_row_def completed_row_def capture_row_def i_pk_def example_capture_def nullTimeValue_def)
qed

subsection \<open>Properties\<close>


lemma example_replay:
  "\<exists>s'. run_command example_service (Capture example_capture) (state_with [recorded_row]) = (Inr (stored_as example_outcome), s') \<and>
     ss_db s' = ss_db (state_with [recorded_row])"
proof -
  obtain r s' where run: "run_command example_service (Capture example_capture) (state_with [recorded_row]) = (r, s')"
    by fastforce
  show ?thesis
    using pg.run_command_taken [OF example_service_ok(1-3) recorded_row_ok(1) _ recorded_row_ok(2) _ run] run
    by (simp add: example_service_ok(4) state_with_def replayPaymentCommand_def stored_as_def example_outcome_def)
qed



lemma other_request: "normalized ''other''" "''other'' \<noteq> capture_fp"
proof -
  show "normalized ''other''" by code_simp
  have "length capture_fp = 64" by (simp add: fingerprint_defs)
  moreover have "length ''other'' = 5" by simp
  ultimately show "''other'' \<noteq> capture_fp" by (metis numeral_eq_iff semiring_norm(86,87,88))
qed


text \<open>C21: every error a command returns carries a kind, so the HTTP layer can always classify it.\<close>

theorem command_errors_have_kinds:
  assumes "svc_store svc = NewPaymentStore ts text_le" "records_inv (ss_db s)" "run_command svc cmd s = (Inl e, s')"
  shows "\<exists>k. PaymentErrorKindOf e = Some k"
proof -
  have "handler_effect (command_pk cmd) (command_fingerprint (svc_fingerprintSecret svc) cmd) (ledger_of (ss_db s')) (Inl e)"
    using pg.run_command_effect [OF assms] by simp
  then show ?thesis
    using ensurePaymentError_kind
    by (auto simp: handler_effect_def outcome_recorded_def replayPaymentCommand_def NewPaymentErrorOfKind_def
        error_constructor_defs split: if_splits)
qed

lemma command_errors_have_kinds_witness:
  "\<exists>e s'. run_command example_service (Capture example_capture) (state_with [capture_row ''other'']) = (Inl e, s') \<and>
     PaymentErrorKindOf e = Some PaymentErrorIdempotencyConflict \<and> (\<exists>k. PaymentErrorKindOf e = Some k)"
proof -
  obtain r s' where run: "run_command example_service (Capture example_capture) (state_with [capture_row ''other'']) = (r, s')"
    by fastforce
  have r: "r = Inl (NewPaymentIdempotencyConflictError None)"
    using pg.run_command_taken [OF example_service_ok(1-3) capture_row_ok(1) [OF other_request(1)] _
        capture_row_ok(2) [OF other_request(1)] _ run] other_request(2)
    by (simp add: example_service_ok(4) state_with_def)
  show ?thesis
    using command_errors_have_kinds [OF example_service_ok(1) capture_row_ok(1) [OF other_request(1)] run [unfolded r]] run r
    by (simp add: error_constructor_defs)
qed



end
