(* ===== verification/Gateway_System.thy ===== *)
theory Gateway_System
  imports Store_Invariants Payment_Service
begin

text \<open>
  Any number of gateway processes on one database, as a transition system.  Its steps are the
  store calls of the service, each atomic, and the bank requests between them, in any order: two
  commands on one payment, a command taken over by a recovery, a handler that dies between its
  bank request and its completion, statements that fail and replies of \<^verbatim>\<open>COMMIT\<close> that get lost
  are all sequences of steps.  The invariant says that the database stays well formed and that
  all requests the processes ever send to the bank for one operation on one payment carry one
  bank operation key.
\<close>

subsection \<open>States and steps\<close>

record Gateway =
  gw_db :: Database
  gw_claims :: "PaymentCommandClaim list" \<comment> \<open>claims whose handlers are still running\<close>
  gw_log :: "(string \<times> PaymentID \<times> string) list" \<comment> \<open>bank operation, payment and key of every request sent\<close>

definition bank_operation :: "string \<Rightarrow> string" where
  "bank_operation operation =
   (if operation = RetryAuthorizationOperation then AuthorizePaymentOperation else operation)"

definition granted :: "go_error + PaymentCommandClaim \<Rightarrow> PaymentCommandClaim list" where
  "granted r = (case r of Inl _ \<Rightarrow> [] | Inr c \<Rightarrow> if pcc_replayed c then [] else [c])"

text \<open>The payment a command completes with, from the payment of its claim.\<close>

inductive command_outcome :: "string \<Rightarrow> Payment \<Rightarrow> Payment \<Rightarrow> bool" where
  outcome_unknown: "command_outcome AuthorizePaymentOperation p p"
| outcome_authorization: "operation \<in> {AuthorizePaymentOperation, RetryAuthorizationOperation} \<Longrightarrow>
    applyAuthorizationOutcome p result now = Inr q \<Longrightarrow> command_outcome operation p q"
| outcome_expired: "operation \<in> {CapturePaymentOperation, VoidPaymentOperation} \<Longrightarrow>
    MarkExpired now p = Inr q \<Longrightarrow> command_outcome operation p q"
| outcome_captured: "MarkCaptured cid now p = Inr q \<Longrightarrow> command_outcome CapturePaymentOperation p q"
| outcome_voided: "MarkVoided vid now p = Inr q \<Longrightarrow> command_outcome VoidPaymentOperation p q"
| outcome_refunded: "MarkRefunded rid now p = Inr q \<Longrightarrow> command_outcome RefundPaymentOperation p q"

inductive gateway_step :: "(time \<Rightarrow> time) \<Rightarrow> Gateway \<Rightarrow> Gateway \<Rightarrow> bool" for ts :: "time \<Rightarrow> time" where
  step_start: "NewPendingPayment pid order customer amount authKey cardFp created = Inr p \<Longrightarrow>
    times_survive ts p \<Longrightarrow>
    pg_ClaimAuthorizationStart ts (NewAuthorizationStartClaimRequest key fp p now stuck) (gw_db g) = (r, d) \<Longrightarrow>
    gateway_step ts g (g\<lparr>gw_db := d, gw_claims := granted r @ gw_claims g\<rparr>)"
| step_existing: "service_operation (cr_operation request) (cr_expectedStatus request) \<Longrightarrow>
    pg_ClaimExistingPaymentCommand ts request (gw_db g) = (r, d) \<Longrightarrow>
    gateway_step ts g (g\<lparr>gw_db := d, gw_claims := granted r @ gw_claims g\<rparr>)"
| step_bank: "c \<in> set (gw_claims g) \<Longrightarrow> pcc_payment c = Some p \<Longrightarrow>
    gateway_step ts g (g\<lparr>gw_log := (bank_operation (pcc_operation c), p_id p, op_key (pcc_operation c) p) # gw_log g\<rparr>)"
| step_complete: "c \<in> set (gw_claims g) \<Longrightarrow> pcc_payment c = Some p \<Longrightarrow>
    command_outcome (pcc_operation c) p q \<Longrightarrow> times_survive ts q \<Longrightarrow>
    pg_CompletePaymentCommand ts (c\<lparr>pcc_payment := Some q\<rparr>) result now (gw_db g) = (r, d) \<Longrightarrow>
    gateway_step ts g (g\<lparr>gw_db := d, gw_claims := remove1 c (gw_claims g)\<rparr>)"
| step_release: "c \<in> set (gw_claims g) \<Longrightarrow> pg_ReleasePaymentCommand c (gw_db g) = (r, d) \<Longrightarrow>
    gateway_step ts g (g\<lparr>gw_db := d, gw_claims := remove1 c (gw_claims g)\<rparr>)"
| step_crash: "gateway_step ts g (g\<lparr>gw_claims := remove1 c (gw_claims g)\<rparr>)"
| step_cleanup: "pg_CleanupCompletedIdempotencyRecords ts cutoff (gw_db g) = (r, d) \<Longrightarrow>
    gateway_step ts g (g\<lparr>gw_db := d\<rparr>)"
| step_network: "gateway_step ts g (g\<lparr>gw_db := (gw_db g)\<lparr>db_faults := faults\<rparr>\<rparr>)"

definition gateway_start :: "Gateway \<Rightarrow> bool" where
  "gateway_start g \<longleftrightarrow> db_payments (gw_db g) = [] \<and> db_records (gw_db g) = [] \<and> gw_claims g = [] \<and> gw_log g = []"

subsection \<open>The invariant\<close>

definition possible_statuses :: "string \<Rightarrow> PaymentStatus list" where
  "possible_statuses kind =
   (if kind = CapturePaymentOperation \<or> kind = VoidPaymentOperation
      then [PaymentStatusAuthorized, PaymentStatusCaptured, PaymentStatusRefunded, PaymentStatusVoided, PaymentStatusExpired]
    else if kind = RefundPaymentOperation then [PaymentStatusCaptured, PaymentStatusRefunded]
    else [PaymentStatusPending, PaymentStatusAuthorized, PaymentStatusExpired, PaymentStatusDeclined,
          PaymentStatusCaptured, PaymentStatusVoided, PaymentStatusRefunded])"

text \<open>The statuses in which the row still holds the key.\<close>

definition live_statuses :: "string \<Rightarrow> PaymentStatus list" where
  "live_statuses kind =
   (if kind = CapturePaymentOperation then [PaymentStatusAuthorized, PaymentStatusCaptured, PaymentStatusRefunded]
    else if kind = VoidPaymentOperation then [PaymentStatusAuthorized, PaymentStatusVoided]
    else possible_statuses kind)"

lemmas key_statuses = possible_statuses_def live_statuses_def

definition row_holds :: "string \<Rightarrow> string \<Rightarrow> PaymentRow \<Rightarrow> bool" where
  "row_holds kind k row \<longleftrightarrow>
     r_status row \<in> set (possible_statuses kind) \<and>
     (r_status row \<in> set (live_statuses kind) \<longrightarrow> row_key kind row = Some k)"

definition key_inv :: "Database \<Rightarrow> string \<times> PaymentID \<times> string \<Rightarrow> bool" where
  "key_inv d = (\<lambda>(kind, pid, k). \<exists>row. payment_at d pid = Some row \<and> row_holds kind k row)"

definition claim_inv :: "Database \<Rightarrow> PaymentCommandClaim \<Rightarrow> bool" where
  "claim_inv d c \<longleftrightarrow>
     (\<exists>p row. pcc_payment c = Some p \<and> payment_wf p \<and> status p = pcc_expectedStatus c \<and>
        (pcc_operation c = AuthorizePaymentOperation \<and> pcc_expectedStatus c = PaymentStatusPending \<or>
         service_operation (pcc_operation c) (pcc_expectedStatus c)) \<and>
        op_key (pcc_operation c) p \<noteq> [] \<and> payment_at d (p_id p) = Some row \<and> same_identity p row \<and>
        (status p = PaymentStatusCaptured \<longrightarrow> r_status row = PaymentStatusCaptured \<longrightarrow>
           r_capture_bank_operation_key row = Some (captureBankOperationKey p)))"

definition claim_use :: "PaymentCommandClaim \<Rightarrow> string \<times> PaymentID \<times> string" where
  "claim_use c = (case pcc_payment c of
      None \<Rightarrow> ([], [], [])
    | Some p \<Rightarrow> (bank_operation (pcc_operation c), p_id p, op_key (pcc_operation c) p))"

definition used_keys :: "Gateway \<Rightarrow> (string \<times> PaymentID \<times> string) set" where
  "used_keys g = set (gw_log g) \<union> claim_use ` set (gw_claims g)"

definition keys_agree :: "(string \<times> PaymentID \<times> string) set \<Rightarrow> bool" where
  "keys_agree U \<longleftrightarrow> (\<forall>kind pid k k'. (kind, pid, k) \<in> U \<longrightarrow> (kind, pid, k') \<in> U \<longrightarrow> k = k')"

definition gateway_inv :: "Gateway \<Rightarrow> bool" where
  "gateway_inv g \<longleftrightarrow>
     store_inv (gw_db g) \<and> (\<forall>c \<in> set (gw_claims g). claim_inv (gw_db g) c) \<and>
     (\<forall>u \<in> used_keys g. key_inv (gw_db g) u) \<and> keys_agree (used_keys g)"

subsection \<open>How a row evolves\<close>

definition row_evolves :: "PaymentRow \<Rightarrow> PaymentRow \<Rightarrow> bool" where
  "row_evolves row row' \<longleftrightarrow>
     (r_status row' = r_status row \<or> (r_status row, r_status row') \<in> set lifecycle_edges) \<and>
     (\<forall>p. same_identity p row \<longrightarrow> same_identity p row') \<and>
     (r_status row \<in> {PaymentStatusCaptured, PaymentStatusRefunded} \<longrightarrow> r_status row' = PaymentStatusCaptured \<longrightarrow>
        r_status row = PaymentStatusCaptured \<and> r_capture_bank_operation_key row' = r_capture_bank_operation_key row)"

definition key_states :: "Gateway \<Rightarrow> PaymentID \<Rightarrow> PaymentRow \<Rightarrow> PaymentRow \<Rightarrow> bool" where
  "key_states g pid row row' \<longleftrightarrow>
     row_evolves row row' \<and> (\<forall>kind k. (kind, pid, k) \<in> used_keys g \<longrightarrow> row_holds kind k row \<longrightarrow> row_holds kind k row')"

definition rows_advance :: "Gateway \<Rightarrow> Database \<Rightarrow> Database \<Rightarrow> bool" where
  "rows_advance g d d' \<longleftrightarrow>
     (\<forall>pid row. payment_at d pid = Some row \<longrightarrow> (\<exists>row'. payment_at d' pid = Some row' \<and> key_states g pid row row'))"

definition step_ok :: "Gateway \<Rightarrow> Gateway \<Rightarrow> bool" where
  "step_ok g g' \<longleftrightarrow> gateway_inv g' \<and> rows_advance g (gw_db g) (gw_db g')"

definition key_live :: "Database \<Rightarrow> string \<times> PaymentID \<times> string \<Rightarrow> bool" where
  "key_live d = (\<lambda>(kind, pid, k).
     \<exists>row. payment_at d pid = Some row \<and> r_status row \<in> set (live_statuses kind) \<and> row_key kind row = Some k)"

lemma live_possible: "x \<in> set (live_statuses kind) \<Longrightarrow> x \<in> set (possible_statuses kind)"
  by (auto simp: key_statuses split: if_splits)

lemma key_live_inv: "key_live d u \<Longrightarrow> key_inv d u"
  by (auto simp: key_live_def key_inv_def row_holds_def live_possible split: prod.splits)

lemma key_live_unique: "key_live d (kind, pid, k) \<Longrightarrow> key_inv d (kind, pid, k') \<Longrightarrow> k' = k"
  by (auto simp: key_live_def key_inv_def row_holds_def)

lemma key_states_refl [simp]: "key_states g pid row row"
  by (simp add: key_states_def row_evolves_def)

lemma set_row_key_states:
  assumes "op \<in> set keyed_operations" "row_key op row = None"
    "r_status row = (if op = RefundPaymentOperation then PaymentStatusCaptured else PaymentStatusAuthorized)"
  shows "key_states g pid row (set_row_key op (Some v) row)"
proof -
  have "row_holds kind k (set_row_key op (Some v) row)" if "row_holds kind k row" for kind k
    using assms that
    by (auto simp: row_holds_def key_statuses keyed_operations_def row_key_def set_row_key_def split: if_splits)
  moreover have "row_evolves row (set_row_key op (Some v) row)"
    using assms(1,3) by (auto simp: row_evolves_def same_identity_def set_row_key_def keyed_operations_def)
  ultimately show ?thesis by (simp add: key_states_def)
qed

text \<open>What each outcome does to the status and the keys of the payment.\<close>

lemma applyAuthorizationOutcome_InrD:
  "applyAuthorizationOutcome p result now = Inr q \<Longrightarrow>
   lifecycle_call p q \<and> status p = PaymentStatusPending \<and> status q \<in> {PaymentStatusAuthorized, PaymentStatusDeclined}"
  unfolding applyAuthorizationOutcome_def
  by (auto simp: MarkAuthorized_Inr_iff MarkDeclined_Inr_iff split: if_splits
           intro: call_MarkAuthorized [unfolded MarkAuthorized_Inr_iff] call_MarkDeclined [unfolded MarkDeclined_Inr_iff])

lemma command_outcome_cases:
  assumes "command_outcome op p q" "op = AuthorizePaymentOperation \<Longrightarrow> status p = PaymentStatusPending"
  obtains (pending) "op \<in> {AuthorizePaymentOperation, RetryAuthorizationOperation}"
      "status q \<in> {PaymentStatusPending, PaymentStatusAuthorized, PaymentStatusDeclined}"
      "status p = PaymentStatusPending"
    | (expired) "op \<in> {CapturePaymentOperation, VoidPaymentOperation}" "status p = PaymentStatusAuthorized"
      "status q = PaymentStatusExpired"
    | (captured) "op = CapturePaymentOperation" "status p = PaymentStatusAuthorized" "status q = PaymentStatusCaptured"
      "captureBankOperationKey q = captureBankOperationKey p"
    | (voided) "op = VoidPaymentOperation" "status p = PaymentStatusAuthorized" "status q = PaymentStatusVoided"
      "voidBankOperationKey q = voidBankOperationKey p"
    | (refunded) "op = RefundPaymentOperation" "status p = PaymentStatusCaptured" "status q = PaymentStatusRefunded"
      "captureBankOperationKey q = captureBankOperationKey p" "refundBankOperationKey q = refundBankOperationKey p"
  using assms(1)
proof cases
  case outcome_unknown
  then show ?thesis using pending assms(2) by auto
next
  case outcome_authorization
  then show ?thesis using pending by (auto dest: applyAuthorizationOutcome_InrD)
next
  case outcome_expired
  then show ?thesis using expired by (auto simp: MarkExpired_Inr_iff)
next
  case outcome_captured
  then show ?thesis using captured by (auto simp: MarkCaptured_Inr_iff)
next
  case outcome_voided
  then show ?thesis using voided by (auto simp: MarkVoided_Inr_iff)
next
  case outcome_refunded
  then show ?thesis using refunded by (auto simp: MarkRefunded_Inr_iff)
qed

lemma command_outcome_step:
  assumes "command_outcome op p q" "op_key op p \<noteq> []"
  shows "q = p \<or> lifecycle_step p q"
  using assms(1)
proof cases
  case outcome_authorization
  then show ?thesis by (auto simp: lifecycle_step_def bank_key_claimed_def dest: applyAuthorizationOutcome_InrD)
next
  case outcome_expired
  then show ?thesis using call_MarkExpired
    by (auto simp: lifecycle_step_def bank_key_claimed_def MarkExpired_Inr_iff)
next
  case outcome_captured
  then show ?thesis using assms(2) call_MarkCaptured
    by (auto simp: lifecycle_step_def bank_key_claimed_def MarkCaptured_Inr_iff op_key_def)
next
  case outcome_voided
  then show ?thesis using assms(2) call_MarkVoided
    by (auto simp: lifecycle_step_def bank_key_claimed_def MarkVoided_Inr_iff op_key_def)
next
  case outcome_refunded
  then show ?thesis using assms(2) call_MarkRefunded
    by (auto simp: lifecycle_step_def bank_key_claimed_def MarkRefunded_Inr_iff op_key_def)
qed simp

lemma command_outcome_wf:
  "payment_wf p \<Longrightarrow> command_outcome op p q \<Longrightarrow> op_key op p \<noteq> [] \<Longrightarrow> payment_wf q"
  using command_outcome_step lifecycle_step_wf by blast

lemma command_outcome_identity:
  assumes "command_outcome op p q" "op_key op p \<noteq> []"
  shows "same_identity q row = same_identity p row" "p_id q = p_id p"
proof -
  have "q = p \<or> lifecycle_call p q" using command_outcome_step [OF assms] by (auto simp: lifecycle_step_def)
  then show "same_identity q row = same_identity p row" "p_id q = p_id p"
    by (auto simp: same_identity_def dest: lifecycle_call_frame)
qed

lemma transition_row_status [simp]: "r_status (transition_row ts q row) = status q"
  by (simp add: transition_row_def)

lemma transition_row_key:
  assumes "same_identity q row" "kind \<notin> set keyed_operations"
  shows "row_key kind (transition_row ts q row) = row_key kind row"
  using assms by (simp add: row_key_def transition_row_def same_identity_def keyed_operations_def)

lemma transition_row_keyed:
  assumes "kind \<in> set keyed_operations"
  shows "row_key kind (transition_row ts q row) = nullableString (op_key kind q)"
  using assms by (auto simp: row_key_def op_key_def transition_row_def keyed_operations_def)

text \<open>The kinds of operation a row of a status may have been used for, and those it holds the key of.\<close>

lemma row_holds_iff:
  "row_holds CapturePaymentOperation k row \<longleftrightarrow>
     r_status row \<in> {PaymentStatusVoided, PaymentStatusExpired} \<or>
     r_status row \<in> {PaymentStatusAuthorized, PaymentStatusCaptured, PaymentStatusRefunded} \<and>
     row_key CapturePaymentOperation row = Some k"
  "row_holds VoidPaymentOperation k row \<longleftrightarrow>
     r_status row \<in> {PaymentStatusCaptured, PaymentStatusRefunded, PaymentStatusExpired} \<or>
     r_status row \<in> {PaymentStatusAuthorized, PaymentStatusVoided} \<and> row_key VoidPaymentOperation row = Some k"
  "row_holds RefundPaymentOperation k row \<longleftrightarrow>
     r_status row \<in> {PaymentStatusCaptured, PaymentStatusRefunded} \<and> row_key RefundPaymentOperation row = Some k"
  "kind \<notin> set keyed_operations \<Longrightarrow>
     row_holds kind k row \<longleftrightarrow> r_status row \<in> set (possible_statuses kind) \<and> row_key kind row = Some k"
  by (auto simp: row_holds_def key_statuses keyed_operations_def)

lemma possible_any:
  "kind \<notin> set keyed_operations \<Longrightarrow>
   set (possible_statuses kind) = {PaymentStatusPending, PaymentStatusAuthorized, PaymentStatusExpired,
     PaymentStatusDeclined, PaymentStatusCaptured, PaymentStatusVoided, PaymentStatusRefunded}"
  by (auto simp: possible_statuses_def keyed_operations_def)

lemma transition_row_holds:
  assumes out: "command_outcome op p q" and p: "op = AuthorizePaymentOperation \<Longrightarrow> status p = PaymentStatusPending"
    "status p = r_status row" "same_identity q row"
    "status p = PaymentStatusCaptured \<Longrightarrow> r_capture_bank_operation_key row = nullableString (captureBankOperationKey p)"
    and holds: "row_holds kind k row" "kind = bank_operation op \<Longrightarrow> k = op_key op p" "op_key op p \<noteq> []"
  shows "row_holds kind k (transition_row ts q row)"
proof -
  consider "kind = CapturePaymentOperation" | "kind = VoidPaymentOperation" | "kind = RefundPaymentOperation"
    | "kind \<notin> set keyed_operations" by (auto simp: keyed_operations_def)
  then show ?thesis
  proof cases
    case 1
    have key: "row_key kind (transition_row ts q row) = nullableString (captureBankOperationKey q)"
      by (simp add: 1 transition_row_keyed keyed_operations_def op_key_def)
    show ?thesis using out p(1)
      by (cases rule: command_outcome_cases)
         (use 1 key p(2,4) holds in \<open>auto simp: row_holds_iff bank_operation_def op_key_def row_key_def nullableString_def split: if_splits\<close>)
  next
    case 2
    have key: "row_key kind (transition_row ts q row) = nullableString (voidBankOperationKey q)"
      by (simp add: 2 transition_row_keyed keyed_operations_def op_key_def)
    show ?thesis using out p(1)
      by (cases rule: command_outcome_cases)
         (use 2 key p(2,4) holds in \<open>auto simp: row_holds_iff bank_operation_def op_key_def row_key_def nullableString_def split: if_splits\<close>)
  next
    case 3
    have key: "row_key kind (transition_row ts q row) = nullableString (refundBankOperationKey q)"
      by (simp add: 3 transition_row_keyed keyed_operations_def op_key_def)
    show ?thesis using out p(1)
      by (cases rule: command_outcome_cases)
         (use 3 key p(2,4) holds in \<open>auto simp: row_holds_iff bank_operation_def op_key_def row_key_def nullableString_def split: if_splits\<close>)
  next
    case 4
    have "status q \<in> set (possible_statuses kind)"
      using out p(1) by (cases rule: command_outcome_cases) (auto simp: possible_any [OF 4])
    then show ?thesis using holds(1) by (simp add: row_holds_iff(4) [OF 4] transition_row_key [OF p(3) 4])
  qed
qed

lemma transition_row_evolves:
  assumes "command_outcome op p q" "op = AuthorizePaymentOperation \<Longrightarrow> status p = PaymentStatusPending"
    "status p = r_status row" "same_identity q row"
  shows "row_evolves row (transition_row ts q row)"
proof -
  have "same_identity p' row \<Longrightarrow> same_identity p' (transition_row ts q row)" for p'
    using assms(4) by (simp add: same_identity_def transition_row_def)
  moreover have "status q = r_status row \<or> (r_status row, status q) \<in> set lifecycle_edges"
    using assms(1,2) by (cases rule: command_outcome_cases; use assms(3) in \<open>auto simp: lifecycle_edges_def\<close>)
  moreover have "r_status row = PaymentStatusCaptured \<longrightarrow> status q \<noteq> PaymentStatusCaptured"
    "r_status row \<noteq> PaymentStatusRefunded"
    using assms(1,2) by (cases rule: command_outcome_cases; use assms(3) in auto)+
  ultimately show ?thesis by (auto simp: row_evolves_def transition_row_def)
qed

subsection \<open>The steps keep the invariant\<close>

lemma claim_inv_evolve:
  assumes "claim_inv d c" "key_inv d (claim_use c)"
    and "\<And>pid row. payment_at d pid = Some row \<Longrightarrow> \<exists>row'. payment_at d' pid = Some row' \<and> row_evolves row row'"
  shows "claim_inv d' c"
proof -
  from assms(1) obtain p row where c: "pcc_payment c = Some p" "payment_at d (p_id p) = Some row" "same_identity p row"
    "status p = pcc_expectedStatus c"
    "status p = PaymentStatusCaptured \<longrightarrow> r_status row = PaymentStatusCaptured \<longrightarrow>
       r_capture_bank_operation_key row = Some (captureBankOperationKey p)"
    and rest: "payment_wf p" "op_key (pcc_operation c) p \<noteq> []"
      "pcc_operation c = AuthorizePaymentOperation \<and> pcc_expectedStatus c = PaymentStatusPending \<or>
         service_operation (pcc_operation c) (pcc_expectedStatus c)"
    unfolding claim_inv_def by blast
  from assms(3) [OF c(2)] obtain row' where r: "payment_at d' (p_id p) = Some row'" "row_evolves row row'" by blast
  have "r_status row \<in> {PaymentStatusCaptured, PaymentStatusRefunded}" if "status p = PaymentStatusCaptured"
    using that assms(2) c rest(3)
    by (auto simp: key_inv_def claim_use_def row_holds_def key_statuses bank_operation_def service_operation_def)
  with c r rest show ?thesis unfolding claim_inv_def
    by (intro exI [of _ p] exI [of _ row']) (auto simp: row_evolves_def)
qed

lemma gateway_inv_change:
  assumes inv: "gateway_inv g" and d: "store_inv d'" and sub: "set cs \<subseteq> set (gw_claims g)"
    and rows: "\<And>pid row. payment_at (gw_db g) pid = Some row \<Longrightarrow>
                 \<exists>row'. payment_at d' pid = Some row' \<and> key_states g pid row row'"
    and new: "\<And>c. c \<in> set new \<Longrightarrow> claim_inv d' c \<and> key_live d' (claim_use c)"
  shows "step_ok g (g\<lparr>gw_db := d', gw_claims := new @ cs\<rparr>)"
proof -
  let ?g = "g\<lparr>gw_db := d', gw_claims := new @ cs\<rparr>"
  have used: "used_keys ?g \<subseteq> used_keys g \<union> claim_use ` set new" using sub by (auto simp: used_keys_def)
  have old: "key_inv d' u" if "u \<in> used_keys g" for u
  proof -
    obtain kind pid k where u: "u = (kind, pid, k)" by (cases u)
    from inv that u obtain row where "payment_at (gw_db g) pid = Some row" "row_holds kind k row"
      by (auto simp: gateway_inv_def key_inv_def)
    with rows [of pid row] that u show ?thesis by (auto simp: key_inv_def key_states_def)
  qed
  have live: "key_live d' u" if "u \<in> claim_use ` set new" for u using that new by auto
  have keys: "key_inv d' u" if "u \<in> used_keys ?g" for u
  proof -
    from that used consider "u \<in> used_keys g" | "u \<in> claim_use ` set new" by auto
    then show ?thesis by cases (use old key_live_inv [OF live] in simp_all)
  qed
  have "claim_inv d' c" if "c \<in> set cs" for c
  proof (rule claim_inv_evolve)
    show "claim_inv (gw_db g) c" "key_inv (gw_db g) (claim_use c)"
      using inv that sub by (auto simp: gateway_inv_def used_keys_def)
    show "\<exists>row'. payment_at d' pid = Some row' \<and> row_evolves row row'"
      if "payment_at (gw_db g) pid = Some row" for pid row
      using rows [OF that] by (auto simp: key_states_def)
  qed
  moreover have "keys_agree (used_keys ?g)"
    unfolding keys_agree_def
  proof (intro allI impI)
    fix kind pid k k' assume *: "(kind, pid, k) \<in> used_keys ?g" "(kind, pid, k') \<in> used_keys ?g"
    show "k = k'"
    proof (cases "(kind, pid, k) \<in> used_keys g \<and> (kind, pid, k') \<in> used_keys g")
      case True then show ?thesis using inv by (auto simp: gateway_inv_def keys_agree_def)
    next
      case False
      with * used have "(kind, pid, k) \<in> claim_use ` set new \<or> (kind, pid, k') \<in> claim_use ` set new" by auto
      then have "key_live d' (kind, pid, k) \<or> key_live d' (kind, pid, k')" using live by auto
      then show ?thesis using key_live_unique [of d' kind pid] keys [OF *(1)] keys [OF *(2)] by auto
    qed
  qed
  moreover have "claim_inv d' c" if "c \<in> set new" for c using new [OF that] by simp
  ultimately have "gateway_inv ?g" using d keys unfolding gateway_inv_def by auto
  then show ?thesis using rows by (simp add: step_ok_def rows_advance_def)
qed

definition claim_operation :: "string \<Rightarrow> PaymentStatus \<Rightarrow> bool" where
  "claim_operation operation expected \<longleftrightarrow>
     operation = AuthorizePaymentOperation \<and> expected = PaymentStatusPending \<or> service_operation operation expected"

lemma claim_at_row:
  assumes "payment_wf p" "payment_at d (p_id p) = Some (payment_row ts p)" "pcc_payment c = Some p"
    "status p = pcc_expectedStatus c" "claim_operation (pcc_operation c) (pcc_expectedStatus c)"
    "op_key (pcc_operation c) p \<noteq> []"
  shows "claim_inv d c \<and> key_live d (claim_use c)"
proof -
  have [simp]: "r_status (payment_row ts p) = status p" by (simp add: payment_row_def)
  have "same_identity p (payment_row ts p)" by (simp add: same_identity_def payment_row_def)
  moreover have "r_capture_bank_operation_key (payment_row ts p) = Some (captureBankOperationKey p)"
    if "status p = PaymentStatusCaptured"
    using wf_CapturedD [OF assms(1) that] by (simp add: payment_row_def nullableString_def)
  ultimately have "claim_inv d c"
    using assms unfolding claim_inv_def claim_operation_def
    by (intro exI [of _ p] exI [of _ "payment_row ts p"]) auto
  moreover have "row_key (bank_operation (pcc_operation c)) (payment_row ts p) = Some (op_key (pcc_operation c) p)"
    using assms(5,6)
    by (auto simp: claim_operation_def service_operation_def bank_operation_def row_key_def op_key_def
          payment_row_def nullableString_def)
  moreover have "status p \<in> set (live_statuses (bank_operation (pcc_operation c)))"
    using assms(4,5)
    by (auto simp: claim_operation_def service_operation_def bank_operation_def key_statuses)
  ultimately show ?thesis using assms(2,3) by (simp add: key_live_def claim_use_def)
qed

lemma gateway_inv_store:
  "gateway_inv g \<Longrightarrow> store_inv (gw_db g)" "gateway_inv g \<Longrightarrow> payments_inv (gw_db g)"
  "gateway_inv g \<Longrightarrow> records_inv (gw_db g)"
  by (simp_all add: gateway_inv_def store_inv_def)

text \<open>Steps that leave the payments alone and grant at most a claim on a stored payment.\<close>

lemma gateway_inv_payments_kept:
  assumes inv: "gateway_inv g" and d: "records_inv d" "db_payments d = db_payments (gw_db g)"
    and sub: "set cs \<subseteq> set (gw_claims g)"
    and new: "\<And>c. c \<in> set new \<Longrightarrow> claim_inv d c \<and> key_live d (claim_use c)"
  shows "step_ok g (g\<lparr>gw_db := d, gw_claims := new @ cs\<rparr>)"
proof (rule gateway_inv_change [OF inv _ sub _ new])
  show "store_inv d" using inv d by (simp add: gateway_inv_def store_inv_def payments_inv_def)
qed (use d in simp_all)

lemma gateway_inv_tables:
  assumes "gateway_inv g" "tables d = tables (gw_db g)" "set cs \<subseteq> set (gw_claims g)"
  shows "step_ok g (g\<lparr>gw_db := d, gw_claims := cs\<rparr>)"
proof -
  have "records_inv d"
    using gateway_inv_store(1) [OF assms(1)] records_inv_tables [OF assms(2)] by (simp add: store_inv_def)
  then show ?thesis
    using gateway_inv_payments_kept [of g d cs "[]"] assms by (simp add: tables_eq_iff)
qed

lemma refused_granted: "claim_refused request d r \<Longrightarrow> granted r = []"
  by (auto simp: claim_refused_def granted_def NewReplayedPaymentCommand_def split: sum.splits)

lemma answered_granted: "claim_answered c r \<Longrightarrow> x \<in> set (granted r) \<Longrightarrow> x = c"
  by (auto simp: claim_answered_def granted_def split: if_splits)

lemma start_step_inv:
  assumes inv: "gateway_inv g"
    and p: "NewPendingPayment pid order customer amount authKey cardFp created = Inr p" "times_survive ts p"
    and run: "pg_ClaimAuthorizationStart ts (NewAuthorizationStartClaimRequest key fp p now stuck) (gw_db g) = (r, d)"
      (is "pg_ClaimAuthorizationStart ts ?req _ = _")
  shows "step_ok g (g\<lparr>gw_db := d, gw_claims := granted r @ gw_claims g\<rparr>)"
proof -
  note S = gateway_inv_store [OF inv]
  have wf: "payment_wf p" "status p = PaymentStatusPending" using NewPendingPayment_wf [OF p(1)] by auto
  have auth: "authorizationBankOperationKey p \<noteq> []" if "payment_wf p" for p
    using that by (simp add: payment_wf_def payment_base_wf_def)
  have req: "asr_payment ?req = Some p" "cr_operation ?req = AuthorizePaymentOperation"
    "cr_expectedStatus ?req = PaymentStatusPending"
    by (simp_all add: NewAuthorizationStartClaimRequest_def)
  from S(3) run req(1) show ?thesis
  proof (cases rule: start_claim_cases)
    case refused
    show ?thesis
      unfolding refused_granted [OF refused(2)] append_Nil by (rule gateway_inv_tables [OF inv refused(1) subset_refl])
  next
    case acquired
    have row: "payment_at d (p_id p) = Some (payment_row ts p)"
      using acquired(1,2) payments.lookup_ins [of "db_payments (gw_db g)" "payment_row ts p" "p_id p"]
      by (simp add: payment_row_def)
    have ok: "row_ok (payment_row ts p)"
      using payment_row_round [OF p(2)] row_okI [OF round_times_wf [OF wf(1) p(2)]] by simp
    have "payments_inv d"
      by (rule payments_inv_insert [OF S(2) acquired(1) _ ok]) (use acquired(2) in \<open>simp add: payment_row_def\<close>)
    then have st: "store_inv d" using acquired(3) by (simp add: store_inv_def)
    have kept: "\<exists>row'. payment_at d pid = Some row' \<and> key_states g pid row row'"
      if "payment_at (gw_db g) pid = Some row" for pid row
      using that acquired(1,2) payments.lookup_ins [of "db_payments (gw_db g)" "payment_row ts p" pid]
      by (auto simp: payment_row_def)
    show ?thesis
    proof (rule gateway_inv_change [OF inv st subset_refl kept])
      fix c assume "c \<in> set (granted r)"
      then have c: "c = NewClaimedPaymentCommand ?req p" using answered_granted acquired(4) by blast
      show "claim_inv d c \<and> key_live d (claim_use c)"
        by (rule claim_at_row [OF wf(1) row])
           (simp_all add: c NewClaimedPaymentCommand_def req wf(2) claim_operation_def op_key_def auth [OF wf(1)])
    qed
  next
    case (recovered q row pid')
    note Q = payment_at_scan [OF S(2) recovered(3,4)]
    have at: "payment_at d (p_id q) = Some (payment_row (\<lambda>t. t) q)" using recovered(1,3) Q by simp
    show ?thesis
    proof (rule gateway_inv_payments_kept [OF inv recovered(2,1) subset_refl])
      fix c assume "c \<in> set (granted r)"
      then have c: "c = NewRecoveredPaymentCommand ?req q" using answered_granted recovered(6) by blast
      show "claim_inv d c \<and> key_live d (claim_use c)"
        using recovered(5) by (intro claim_at_row [OF Q(1) at])
           (simp_all add: c NewRecoveredPaymentCommand_def NewClaimedPaymentCommand_def req claim_operation_def
             op_key_def auth [OF Q(1)])
    qed
  qed
qed

text \<open>The key an operation on an existing payment is claimed with is the one its row holds afterwards.\<close>

lemma rows_advance_update:
  assumes inv: "payments_inv d" and row: "payment_at d pid = Some row"
    and upd: "db_payments d' = sql_update w f (db_payments d)" "\<And>r. r_id (f r) = r_id r" "\<And>r. w r \<Longrightarrow> r_id r = pid"
    and states: "w row" "key_states g pid row (f row)"
  shows "rows_advance g d d'" "payment_at d' pid = Some (f row)"
proof -
  have at: "payment_at d' x = map_option (\<lambda>r. if w r then f r else r) (payment_at d x)" for x
    unfolding upd(1) by (rule payments.lookup_upd) (rule upd(2))
  then show "payment_at d' pid = Some (f row)" using row states(1) by simp
  have "\<exists>row'. payment_at d' x = Some row' \<and> key_states g x r row'" if "payment_at d x = Some r" for x r
  proof (cases "w r")
    case True
    then have "x = pid" using upd(3) [OF True] payment_at_ok [OF inv that] by simp
    then have "r = row" using that row by simp
    then show ?thesis using \<open>x = pid\<close> at [of x] that True states(2) by simp
  next
    case False
    then show ?thesis using at [of x] that by simp
  qed
  then show "rows_advance g d d'" by (simp add: rows_advance_def)
qed

definition claimed_row :: "Gateway \<Rightarrow> Database \<Rightarrow> Database \<Rightarrow> string \<Rightarrow> PaymentID \<Rightarrow> PaymentStatus \<Rightarrow> Payment \<Rightarrow> bool" where
  "claimed_row g d d' op pid st p \<longleftrightarrow>
     payments_inv d' \<and> payment_wf p \<and> p_id p = pid \<and> status p = st \<and>
     payment_at d' pid = Some (payment_row (\<lambda>t. t) p) \<and> rows_advance g d d' \<and>
     (op = RetryAuthorizationOperation \<or> op_key op p \<noteq> [])"

lemma acquired_key_states:
  assumes inv: "payments_inv d" and row: "payment_at d pid = Some row" "scanPayment row = Inr q"
    and d1: "db_payments d1 = db_payments d" "ensureBankOperationKey q request d1 = (Inr p, d2)"
    and d': "db_payments d' = db_payments d2"
  shows "claimed_row g d d' (cr_operation request) pid (status q) p"
proof -
  note Q = payment_at_scan [OF inv row]
  let ?op = "cr_operation request" and ?w = "\<lambda>r. r_id r = p_id q \<and> r_status r = status q"
  show ?thesis using d1(2)
  proof (cases rule: ensureBankOperationKey_InrD)
    case kept
    then have same: "db_payments d' = db_payments d" using d1(1) d' by (simp add: tables_eq_iff)
    then have "payments_inv d'" using inv by (simp add: payments_inv_def)
    moreover have "?op = RetryAuthorizationOperation \<or> op_key ?op q \<noteq> []" using kept(3) by blast
    ultimately show ?thesis using same row(1) Q kept(1) by (simp add: claimed_row_def rows_advance_def)
  next
    case (fresh k)
    have pay: "db_payments d' = sql_update ?w (set_row_key ?op (Some k)) (db_payments d)"
      using fresh(7) d1(1) d' by (simp add: tables_def)
    have stat: "r_status row = status q" using Q(2) by (simp add: payment_row_def)
    have w: "?w row" using stat Q(3) payment_at_ok [OF inv row(1)] by simp
    have none: "row_key ?op row = None" using fresh(1,2) by (simp add: Q(2) row_key_payment_row)
    have ok: "row_ok (set_row_key ?op (Some k) row)"
      using payment_at_ok [OF inv row(1)] fresh row(2) by (intro set_row_key_ok) auto
    have states: "key_states g pid row (set_row_key ?op (Some k) row)"
      using set_row_key_states [OF fresh(1) none] fresh(6) stat by simp
    have A: "rows_advance g d d'" "payment_at d' pid = Some (set_row_key ?op (Some k) row)"
      using rows_advance_update [OF inv row(1) pay _ _ w states] Q(3) by simp_all
    have "payments_inv d'"
      by (rule payments_inv_update [OF inv pay, of pid]) (use row(1) ok Q(3) in auto)
    moreover have "payment_wf p" unfolding fresh(5) by (rule set_op_key_wf) (use fresh Q in auto)
    moreover have "p_id p = pid" "status p = status q" "op_key ?op p \<noteq> []"
      using fresh(1,3) Q(3) by (auto simp: fresh(5) key_defs keyed_operations_def)
    moreover have "payment_at d' pid = Some (payment_row (\<lambda>t. t) p)"
      using A(2) Q(2) fresh(3,5) by (simp add: set_row_key_payment_row)
    ultimately show ?thesis using A(1) by (simp add: claimed_row_def)
  qed
qed

lemma service_operation_status: "service_operation op st \<Longrightarrow> st \<noteq> []"
  by (auto simp: service_operation_def status_defs)

lemma validateAcquired_status:
  "validateAcquiredPaymentCommand request q = None \<Longrightarrow> cr_expectedStatus request \<noteq> [] \<Longrightarrow>
   status q = cr_expectedStatus request"
  by (auto simp: validateAcquiredPaymentCommand_def split: if_splits)

lemma validateRecovered_status:
  assumes "validateRecoveredPaymentCommand request rc q = None" "cr_expectedStatus request \<noteq> []"
  shows "status q = cr_expectedStatus request"
    "cr_operation request = RetryAuthorizationOperation \<or> op_key (cr_operation request) q \<noteq> []"
  using assms by (auto simp: validateRecoveredPaymentCommand_def op_key_def Let_def split: if_splits)

lemma existing_step_inv:
  assumes inv: "gateway_inv g" and op: "service_operation (cr_operation request) (cr_expectedStatus request)"
    and run: "pg_ClaimExistingPaymentCommand ts request (gw_db g) = (r, d)"
  shows "step_ok g (g\<lparr>gw_db := d, gw_claims := granted r @ gw_claims g\<rparr>)"
proof -
  note S = gateway_inv_store [OF inv] and st = service_operation_status [OF op]
  have key: "op_key (cr_operation request) p \<noteq> []"
    if "payment_wf p" "cr_operation request = RetryAuthorizationOperation \<or> op_key (cr_operation request) p \<noteq> []" for p
    using that by (auto simp: op_key_def payment_wf_def payment_base_wf_def)
  from S(3) run show ?thesis
  proof (cases rule: existing_claim_cases)
    case refused
    show ?thesis
      unfolding refused_granted [OF refused(2)] append_Nil by (rule gateway_inv_tables [OF inv refused(1) subset_refl])
  next
    case (acquired q row p d1 d2)
    note K = acquired_key_states [OF S(2) acquired(1,2,4,5,6), of g, unfolded claimed_row_def]
    have wf: "payment_wf p" and key': "cr_operation request = RetryAuthorizationOperation \<or> op_key (cr_operation request) p \<noteq> []"
      and stat: "status p = status q" and adv: "rows_advance g (gw_db g) d"
      and at: "payment_at d (p_id p) = Some (payment_row (\<lambda>t. t) p)" using K by auto
    have inv': "store_inv d" using K acquired(7) by (simp add: store_inv_def)
    show ?thesis
    proof (rule gateway_inv_change [OF inv inv' subset_refl])
      show "\<exists>row'. payment_at d pid = Some row' \<and> key_states g pid row row'"
        if "payment_at (gw_db g) pid = Some row" for pid row
        using adv that by (simp add: rows_advance_def)
    next
      fix c assume "c \<in> set (granted r)"
      then have c: "c = NewClaimedPaymentCommand request p" using answered_granted acquired(8) by blast
      show "claim_inv d c \<and> key_live d (claim_use c)"
        using stat validateAcquired_status [OF acquired(3) st] op key [OF wf key']
        by (intro claim_at_row [OF wf at]) (simp_all add: c NewClaimedPaymentCommand_def claim_operation_def)
    qed
  next
    case (recovered q row rc)
    note Q = payment_at_scan [OF S(2) recovered(3,4)] and V = validateRecovered_status [OF recovered(5) st]
    have at: "payment_at d (p_id q) = Some (payment_row (\<lambda>t. t) q)" using recovered(1,3) Q by simp
    show ?thesis
    proof (rule gateway_inv_payments_kept [OF inv recovered(2,1) subset_refl])
      fix c assume "c \<in> set (granted r)"
      then have c: "c = NewRecoveredPaymentCommand request q" using answered_granted recovered(6) by blast
      show "claim_inv d c \<and> key_live d (claim_use c)"
        using V(1) op key [OF Q(1) V(2)]
        by (intro claim_at_row [OF Q(1) at])
           (simp_all add: c NewRecoveredPaymentCommand_def NewClaimedPaymentCommand_def claim_operation_def)
    qed
  qed
qed

lemma claim_invE:
  assumes "gateway_inv g" "c \<in> set (gw_claims g)" "pcc_payment c = Some p"
  obtains row where "payment_wf p" "status p = pcc_expectedStatus c" "op_key (pcc_operation c) p \<noteq> []"
    "pcc_operation c = AuthorizePaymentOperation \<Longrightarrow> status p = PaymentStatusPending"
    "payment_at (gw_db g) (p_id p) = Some row" "same_identity p row"
    "status p = PaymentStatusCaptured \<Longrightarrow> r_status row = PaymentStatusCaptured \<Longrightarrow>
       r_capture_bank_operation_key row = nullableString (captureBankOperationKey p)"
proof -
  have "claim_inv (gw_db g) c" using assms by (simp add: gateway_inv_def)
  then obtain row where "payment_wf p" "status p = pcc_expectedStatus c" "op_key (pcc_operation c) p \<noteq> []"
    "pcc_operation c = AuthorizePaymentOperation \<Longrightarrow> status p = PaymentStatusPending"
    "payment_at (gw_db g) (p_id p) = Some row" "same_identity p row"
    "status p = PaymentStatusCaptured \<Longrightarrow> r_status row = PaymentStatusCaptured \<Longrightarrow>
       r_capture_bank_operation_key row = Some (captureBankOperationKey p)"
    using assms(3) by (auto simp: claim_inv_def service_operation_def)
  with that [of row] wf_CapturedD [of p] show ?thesis by (simp add: nullableString_def)
qed

lemma transition_key_states:
  assumes inv: "gateway_inv g" and c: "c \<in> set (gw_claims g)" "pcc_payment c = Some p"
    and q: "command_outcome (pcc_operation c) p q"
    and row: "payment_at (gw_db g) (p_id p) = Some row" "r_status row = status p"
  shows "key_states g (p_id p) row (transition_row ts q row)" "payment_wf q" "same_identity q row" "p_id q = p_id p"
proof -
  obtain row0 where "payment_at (gw_db g) (p_id p) = Some row0" and ci: "payment_wf p" "op_key (pcc_operation c) p \<noteq> []"
    "pcc_operation c = AuthorizePaymentOperation \<Longrightarrow> status p = PaymentStatusPending" "same_identity p row0"
    "status p = PaymentStatusCaptured \<Longrightarrow> r_status row0 = PaymentStatusCaptured \<Longrightarrow>
       r_capture_bank_operation_key row0 = nullableString (captureBankOperationKey p)"
    using claim_invE [OF inv c] by blast
  then have r: "row0 = row" using row by simp
  show id: "same_identity q row" "p_id q = p_id p"
    using command_outcome_identity [OF q ci(2)] ci(4) r by simp_all
  show "payment_wf q" using command_outcome_wf [OF ci(1) q ci(2)] .
  have agree: "keys_agree (used_keys g)" using inv by (simp add: gateway_inv_def)
  have "claim_use c \<in> used_keys g" using c(1) by (simp add: used_keys_def)
  then have "k = op_key (pcc_operation c) p" if "(bank_operation (pcc_operation c), p_id p, k) \<in> used_keys g" for k
    using that c(2) agree unfolding keys_agree_def claim_use_def by simp
  then have "row_holds kind k (transition_row ts q row)"
    if "(kind, p_id p, k) \<in> used_keys g" "row_holds kind k row" for kind k
    using transition_row_holds [OF q ci(3) _ id(1) _ that(2) _ ci(2)] ci(5) that(1) row(2) r by auto
  then show "key_states g (p_id p) row (transition_row ts q row)"
    using transition_row_evolves [OF q ci(3) _ id(1)] row(2) by (simp add: key_states_def)
qed

lemma complete_step_inv:
  assumes inv: "gateway_inv g" and c: "c \<in> set (gw_claims g)" "pcc_payment c = Some p"
    and q: "command_outcome (pcc_operation c) p q" "times_survive ts q"
    and run: "pg_CompletePaymentCommand ts (c\<lparr>pcc_payment := Some q\<rparr>) result now (gw_db g) = (r, d)"
  shows "step_ok g (g\<lparr>gw_db := d, gw_claims := remove1 c (gw_claims g)\<rparr>)"
proof -
  note S = gateway_inv_store [OF inv]
  have sub: "set (remove1 c (gw_claims g)) \<subseteq> set (gw_claims g)" by (rule set_remove1_subset)
  from claim_invE [OF inv c] obtain row where ci: "status p = pcc_expectedStatus c"
    "payment_at (gw_db g) (p_id p) = Some row" by blast
  have pay: "pcc_payment (c\<lparr>pcc_payment := Some q\<rparr>) = Some q" by simp
  from S(1) run pay show ?thesis
  proof (cases rule: complete_cases)
    case (failed e)
    show ?thesis by (rule gateway_inv_tables [OF inv failed(2) sub])
  next
    case (committed row')
    let ?w = "\<lambda>r. r_id r = p_id q \<and> r_status r = pcc_expectedStatus c"
    have pq: "p_id q = p_id p" using q(1) command_outcome_identity(2) claim_invE [OF inv c] by blast
    then have row: "r_status row = status p" "?w row"
      using committed(2,3) ci payment_at_ok [OF S(2) ci(2)] by simp_all
    note T = transition_key_states [OF inv c q(1) ci(2) row(1)]
    have upd: "db_payments d = sql_update ?w (transition_row ts q) (db_payments (gw_db g))" using committed(4) by simp
    have ok: "row_ok (transition_row ts q row)"
      using transition_row_ok [OF T(2) q(2) T(3)] payment_at_ok [OF S(2) ci(2)] by simp
    have tid: "r_id (transition_row ts q r) = r_id r" for r by (simp add: transition_row_def)
    have "payments_inv d"
      by (rule payments_inv_update [OF S(2) upd, of "p_id p"]) (use tid pq ok ci(2) in auto)
    then have st: "store_inv d" using committed(5) by (simp add: store_inv_def)
    have adv: "rows_advance g (gw_db g) d"
      using rows_advance_update(1) [OF S(2) ci(2) upd tid _ row(2) T(1)] pq by simp
    have "step_ok g (g\<lparr>gw_db := d, gw_claims := [] @ remove1 c (gw_claims g)\<rparr>)"
      by (rule gateway_inv_change [OF inv st sub]) (use adv in \<open>simp_all add: rows_advance_def\<close>)
    then show ?thesis by simp
  qed
qed

lemma records_deleted_inv:
  assumes "gateway_inv g" "set cs \<subseteq> set (gw_claims g)"
    and "tables d = tables (gw_db g) \<or> tables d = (db_payments (gw_db g), sql_delete w (db_records (gw_db g)))"
  shows "step_ok g (g\<lparr>gw_db := d, gw_claims := cs\<rparr>)"
  using assms(3)
proof
  assume "tables d = tables (gw_db g)"
  then show ?thesis by (rule gateway_inv_tables [OF assms(1) _ assms(2)])
next
  assume t: "tables d = (db_payments (gw_db g), sql_delete w (db_records (gw_db g)))"
  have "records_inv d"
    by (rule delete_refines(2) [of "gw_db g" _ w])
       (use t gateway_inv_store(1) [OF assms(1)] in \<open>simp_all add: tables_def store_inv_def\<close>)
  then show ?thesis
    using gateway_inv_payments_kept [of g d cs "[]"] assms(1,2) t by (simp add: tables_def)
qed

lemma log_step_inv:
  assumes "gateway_inv g" "c \<in> set (gw_claims g)"
  shows "step_ok g (g\<lparr>gw_log := claim_use c # gw_log g\<rparr>)"
proof -
  have "used_keys (g\<lparr>gw_log := claim_use c # gw_log g\<rparr>) = used_keys g" using assms(2) by (auto simp: used_keys_def)
  then show ?thesis using assms(1) by (simp add: step_ok_def gateway_inv_def rows_advance_def)
qed

lemma gateway_step_ok: "gateway_step ts g g' \<Longrightarrow> gateway_inv g \<Longrightarrow> step_ok g g'"
proof (induction rule: gateway_step.induct)
  case (step_start pid order customer amount authKey cardFp created p key fp now stuck g r d)
  then show ?case by (intro start_step_inv)
next
  case (step_existing request g r d)
  then show ?case by (intro existing_step_inv)
next
  case (step_bank c g p)
  then show ?case using log_step_inv [of g c] by (simp add: claim_use_def)
next
  case (step_complete c g p q result now r d)
  then show ?case by (intro complete_step_inv)
next
  case (step_release c g r d)
  then show ?case
    using pg_ReleasePaymentCommand_cases [OF step_release(2)] records_deleted_inv [OF _ set_remove1_subset] by blast
next
  case (step_crash g c)
  then show ?case using gateway_inv_tables [OF _ refl set_remove1_subset] by simp
next
  case (step_cleanup cutoff g r d)
  then show ?case
    using records_deleted_inv [OF _ subset_refl, of g d] pg_Cleanup_cases [OF step_cleanup(1)] by simp
next
  case (step_network g faults)
  have t: "tables ((gw_db g)\<lparr>db_faults := faults\<rparr>) = tables (gw_db g)" by (simp add: tables_def)
  show ?case using gateway_inv_tables [OF step_network t subset_refl] by simp
qed

interpretation gateway: invariant_system gateway_start "gateway_step ts" gateway_inv
proof unfold_locales
  show "gateway_start g \<Longrightarrow> gateway_inv g" for g
    by (simp add: gateway_start_def gateway_inv_def used_keys_def keys_agree_def store_inv_def payments_inv_def
        records_inv_def unique_keys_def)
  show "gateway_inv g \<Longrightarrow> gateway_step ts g g' \<Longrightarrow> gateway_inv g'" for g g'
    using gateway_step_ok by (auto simp: step_ok_def)
qed

subsection \<open>A run\<close>

text \<open>
  The run the witnesses use: one process claims an authorization on an empty database, asks the
  bank twice and completes the command.  \<open>microseconds\<close> is the rounding of a \<^verbatim>\<open>timestamptz\<close> column.
\<close>

definition microseconds :: "time \<Rightarrow> time" where
  "microseconds t = t - t mod 1000"

definition example_request :: AuthorizationStartClaimRequest where
  "example_request = NewAuthorizationStartClaimRequest ''key-1'' ''fp-1'' example_pending 1000 60000"

definition example_claim :: PaymentCommandClaim where
  "example_claim = NewClaimedPaymentCommand example_request example_pending"

definition empty_gateway :: Gateway where
  "empty_gateway = \<lparr>gw_db = \<lparr>db_payments = [], db_records = [], db_faults = []\<rparr>, gw_claims = [], gw_log = []\<rparr>"

definition claimed_gateway :: Gateway where
  "claimed_gateway = empty_gateway\<lparr>
     gw_db := snd (pg_ClaimAuthorizationStart microseconds example_request (gw_db empty_gateway)),
     gw_claims := [example_claim]\<rparr>"

definition asked_gateway :: Gateway where
  "asked_gateway = claimed_gateway\<lparr>gw_log := replicate 2 (AuthorizePaymentOperation, example_id, ''op-auth'')\<rparr>"

definition example_result :: PaymentCommandResult where
  "example_result = \<lparr>pcr_Payment = newPaymentResult example_authorized, pcr_FailureKind = []\<rparr>"

definition completed_gateway :: Gateway where
  "completed_gateway = asked_gateway\<lparr>
     gw_db := snd (pg_CompletePaymentCommand microseconds (example_claim\<lparr>pcc_payment := Some example_authorized\<rparr>)
                     example_result 3000 (gw_db asked_gateway)),
     gw_claims := []\<rparr>"

lemma example_run_claim:
  "fst (pg_ClaimAuthorizationStart microseconds example_request (gw_db empty_gateway)) = Inr example_claim"
  by code_simp

lemma example_run_rows:
  "map (\<lambda>r. (r_id r, r_status r)) (db_payments (gw_db completed_gateway)) = [(example_id, PaymentStatusAuthorized)]"
  "map (\<lambda>r. (r_id r, r_status r)) (db_payments (gw_db asked_gateway)) = [(example_id, PaymentStatusPending)]"
  by code_simp+

lemma example_run_steps:
  "gateway_start empty_gateway"
  "gateway_step microseconds empty_gateway claimed_gateway"
  "(gateway_step microseconds)\<^sup>*\<^sup>* claimed_gateway asked_gateway"
  "gateway_step microseconds asked_gateway completed_gateway"
proof -
  show "gateway_start empty_gateway" by (simp add: gateway_start_def empty_gateway_def)
  obtain d where d: "pg_ClaimAuthorizationStart microseconds example_request (gw_db empty_gateway) = (Inr example_claim, d)"
    using example_run_claim by (metis prod.collapse)
  have gr: "granted (Inr example_claim) = [example_claim]"
    by (simp add: granted_def example_claim_def NewClaimedPaymentCommand_def)
  have pend: "NewPendingPayment example_id ''order-1'' ''customer-1'' 5000 ''op-auth'' ''fp'' 1000 = Inr example_pending"
    by (simp add: NewPendingPayment_Inr_iff example_pending_def)
  have "times_survive microseconds example_pending"
    by (simp add: times_survive_def microseconds_def example_pending_def)
  from step_start [OF pend this d [unfolded example_request_def]]
  show "gateway_step microseconds empty_gateway claimed_gateway"
    using d gr by (simp add: claimed_gateway_def empty_gateway_def)
  let ?entry = "(AuthorizePaymentOperation, example_id, ''op-auth'')"
  have claim: "example_claim \<in> set (gw_claims claimed_gateway)" "pcc_payment example_claim = Some example_pending"
    "pcc_operation example_claim = AuthorizePaymentOperation"
    by (simp_all add: claimed_gateway_def example_claim_def NewClaimedPaymentCommand_def example_request_def
        NewAuthorizationStartClaimRequest_def)
  have ask: "gateway_step microseconds g (g\<lparr>gw_log := ?entry # gw_log g\<rparr>)" if "gw_claims g = gw_claims claimed_gateway" for g
    using step_bank [of example_claim g example_pending microseconds] that claim
    by (simp add: bank_operation_def op_key_def example_pending_def)
  have "asked_gateway = (claimed_gateway\<lparr>gw_log := ?entry # gw_log claimed_gateway\<rparr>)
      \<lparr>gw_log := ?entry # gw_log (claimed_gateway\<lparr>gw_log := ?entry # gw_log claimed_gateway\<rparr>)\<rparr>"
    by (simp add: asked_gateway_def claimed_gateway_def empty_gateway_def numeral_2_eq_2)
  then show "(gateway_step microseconds)\<^sup>*\<^sup>* claimed_gateway asked_gateway"
    using ask [of claimed_gateway] ask [of "claimed_gateway\<lparr>gw_log := ?entry # gw_log claimed_gateway\<rparr>"] by simp
  have "command_outcome AuthorizePaymentOperation example_pending example_authorized"
    by (rule outcome_authorization [of _ _ "\<lparr>bas_BankAuthorizationID = ''auth-1'', bas_AuthorizationExpiresAt = 9000,
          bas_DeclineReason = []\<rparr>" 2000])
       (simp_all add: applyAuthorizationOutcome_def MarkAuthorized_Inr_iff example_pending_def example_authorized_def)
  moreover have "times_survive microseconds example_authorized"
    by (simp add: times_survive_def microseconds_def example_pending_def example_authorized_def)
  moreover obtain r d where "pg_CompletePaymentCommand microseconds (example_claim\<lparr>pcc_payment := Some example_authorized\<rparr>)
      example_result 3000 (gw_db asked_gateway) = (r, d)" by fastforce
  ultimately show "gateway_step microseconds asked_gateway completed_gateway"
    using step_complete [of example_claim asked_gateway example_pending example_authorized microseconds example_result 3000 r d] claim
    by (simp add: completed_gateway_def asked_gateway_def claimed_gateway_def)
qed

lemma example_run_reachable:
  "reachable gateway_start (gateway_step microseconds) asked_gateway"
  "reachable gateway_start (gateway_step microseconds) completed_gateway"
proof -
  have claimed: "reachable gateway_start (gateway_step microseconds) claimed_gateway"
    by (rule reachable_step [OF reachable_init]) (rule example_run_steps)+
  show asked: "reachable gateway_start (gateway_step microseconds) asked_gateway"
    using example_run_steps(3) claimed by (induction rule: rtranclp_induct) (auto intro: reachable_step)
  then show "reachable gateway_start (gateway_step microseconds) completed_gateway"
    by (rule reachable_step) (rule example_run_steps)
qed

lemma logged_key_unique:
  "reachable gateway_start (gateway_step ts) g \<Longrightarrow>
   (kind, pid, k) \<in> set (gw_log g) \<Longrightarrow> (kind, pid, k') \<in> set (gw_log g) \<Longrightarrow> k = k'"
  using gateway.reachable_inv [of ts g] unfolding gateway_inv_def keys_agree_def used_keys_def by blast

subsection \<open>Properties\<close>

text \<open>C2: whatever the processes of the gateway do, and whenever they fail, all requests they send
  to the bank for one operation on one payment carry the same bank operation key, so that the bank
  can treat them as one.  The operation of a retried authorization is the authorization.\<close>

theorem bank_requests_one_key:
  "reachable gateway_start (gateway_step ts) g \<Longrightarrow>
   (kind, pid, k) \<in> set (gw_log g) \<Longrightarrow> (kind, pid, k') \<in> set (gw_log g) \<Longrightarrow> k = k'"
  by (rule logged_key_unique)

lemma bank_requests_one_key_witness:
  "length (gw_log asked_gateway) = 2 \<and> gw_log asked_gateway ! 0 = (AuthorizePaymentOperation, example_id, ''op-auth'') \<and>
   ((AuthorizePaymentOperation, example_id, ''op-other'') \<in> set (gw_log asked_gateway) \<longleftrightarrow> False)"
proof -
  have log: "(AuthorizePaymentOperation, example_id, ''op-auth'') \<in> set (gw_log asked_gateway)"
    by (simp add: asked_gateway_def)
  from bank_requests_one_key [OF example_run_reachable(1) log, of "''op-other''"]
  show ?thesis by (auto simp: asked_gateway_def)
qed

text \<open>C9: in every reachable state the identifiers of the payments are unique, each row of the table
  loads as a well-formed payment, and each row satisfies the check constraints of the schema.\<close>

theorem stored_payments_wf:
  "reachable gateway_start (gateway_step ts) g \<Longrightarrow>
   distinct (map r_id (db_payments (gw_db g))) \<and>
   (\<forall>row \<in> set (db_payments (gw_db g)). \<exists>p. scanPayment row = Inr p \<and> payment_wf p \<and> payments_check row)"
proof -
  assume "reachable gateway_start (gateway_step ts) g"
  then have "payments_inv (gw_db g)" using gateway.reachable_inv gateway_inv_store(2) by blast
  moreover have "\<exists>p. scanPayment row = Inr p \<and> payment_wf p \<and> payments_check row" if "row_ok row" for row
    using that wf_payments_check by (fastforce simp: row_ok_def split: sum.splits)
  ultimately show ?thesis by (simp add: payments_inv_def unique_keys_def list_all_iff)
qed

lemma stored_payments_wf_witness:
  "length (db_payments (gw_db completed_gateway)) = 1 \<and>
   (\<exists>p. scanPayment (hd (db_payments (gw_db completed_gateway))) = Inr p \<and> payment_wf p)"
proof -
  have one: "length (db_payments (gw_db completed_gateway)) = 1"
    using example_run_rows(1) by (metis One_nat_def length_Cons length_map list.size(3))
  then have "hd (db_payments (gw_db completed_gateway)) \<in> set (db_payments (gw_db completed_gateway))"
    by (intro hd_in_set) auto
  with stored_payments_wf [OF example_run_reachable(2)] one show ?thesis by blast
qed

text \<open>C5: one step of any process moves the status of a stored payment along an edge of the lifecycle
  or not at all, and never changes its order, customer, amount, currency or authorization key; in
  particular a payment is never deleted and never leaves a terminal status.\<close>

theorem stored_payments_follow_lifecycle:
  assumes "reachable gateway_start (gateway_step ts) g" "gateway_step ts g g'" "payment_at (gw_db g) pid = Some row"
  shows "\<exists>row'. payment_at (gw_db g') pid = Some row' \<and>
     (r_status row' = r_status row \<or> (r_status row, r_status row') \<in> set lifecycle_edges) \<and>
     r_order_id row' = r_order_id row \<and> r_customer_id row' = r_customer_id row \<and>
     r_amount_cents row' = r_amount_cents row \<and> r_currency row' = r_currency row \<and>
     r_authorization_bank_operation_key row' = r_authorization_bank_operation_key row"
proof -
  have inv: "gateway_inv g" using gateway.reachable_inv [OF assms(1)] .
  obtain row' where "payment_at (gw_db g') pid = Some row'" and ev: "row_evolves row row'"
    using gateway_step_ok [OF assms(2) inv] assms(3) by (meson step_ok_def rows_advance_def key_states_def)
  moreover have "\<exists>p. same_identity p row"
    using payment_at_ok [OF gateway_inv_store(2) [OF inv] assms(3)]
    by (auto simp: row_ok_def same_identity_def payment_row_def split: sum.splits)
  ultimately show ?thesis by (auto simp: row_evolves_def same_identity_def)
qed

lemma stored_payments_follow_lifecycle_witness:
  "\<exists>row row'. payment_at (gw_db asked_gateway) example_id = Some row \<and> r_status row = PaymentStatusPending \<and>
     payment_at (gw_db completed_gateway) example_id = Some row' \<and> r_status row' = PaymentStatusAuthorized \<and>
     r_amount_cents row' = r_amount_cents row"
proof -
  have one: "\<exists>row. payment_at (gw_db g) example_id = Some row \<and> r_status row = st"
    if "map (\<lambda>r. (r_id r, r_status r)) (db_payments (gw_db g)) = [(example_id, st)]" for g st
    using that by (auto simp: lookup_row_def)
  obtain row row' where "payment_at (gw_db asked_gateway) example_id = Some row" "r_status row = PaymentStatusPending"
    "payment_at (gw_db completed_gateway) example_id = Some row'" "r_status row' = PaymentStatusAuthorized"
    using one [OF example_run_rows(1)] one [OF example_run_rows(2)] by blast
  with stored_payments_follow_lifecycle [OF example_run_reachable(1) example_run_steps(4), of example_id row]
  show ?thesis by auto
qed

end
