(* ===== verification/Service_Simulation.thy ===== *)
theory Service_Simulation
  imports Store_Contract Gateway_System
begin

text \<open>
  The service is an instance of the transition system: every run of a handler over the PostgreSQL
  store is a sequence of gateway steps, one per store call and bank request, and the requests the bank client sends
  are among those the system logs, so what the invariants of the system say holds for the service.  The database rounds times once: rounding
  twice changes nothing, and neither the clock nor the bank gives a time that rounds to the zero
  time.
\<close>

subsection \<open>Rounded rows\<close>

definition rounded_row :: "(time \<Rightarrow> time) \<Rightarrow> PaymentRow \<Rightarrow> bool" where
  "rounded_row ts r \<longleftrightarrow>
     ts (r_created_at r) = r_created_at r \<and> ts (r_updated_at r) = r_updated_at r \<and>
     (case r_authorization_expires_at r of None \<Rightarrow> True | Some t \<Rightarrow> ts t = t)"

definition rounded :: "(time \<Rightarrow> time) \<Rightarrow> Database \<Rightarrow> bool" where
  "rounded ts d \<longleftrightarrow> list_all (rounded_row ts) (db_payments d)"

definition rounding :: "(time \<Rightarrow> time) \<Rightarrow> bool" where
  "rounding ts \<longleftrightarrow> (\<forall>t. ts (ts t) = ts t)"

lemma rounded_payment_row: "rounding ts \<Longrightarrow> rounded_row ts (payment_row ts p)"
  by (simp add: rounding_def rounded_row_def payment_row_def nullableTime_def)

lemma rounded_transition_row: "rounding ts \<Longrightarrow> rounded_row ts r \<Longrightarrow> rounded_row ts (transition_row ts q r)"
  by (simp add: rounding_def rounded_row_def transition_row_def nullableTime_def)

lemma rounded_set_row_key: "rounded_row ts r \<Longrightarrow> rounded_row ts (set_row_key op v r)"
  by (simp add: rounded_row_def set_row_key_def)

lemma rounded_survives:
  assumes "payments_inv d" "rounded ts d" "payment_at d pid = Some row" "scanPayment row = Inr p"
  shows "times_survive ts p"
proof -
  have p: "payment_wf p" "row = payment_row (\<lambda>t. t) p" using payment_at_scan [OF assms(1,3,4)] by auto
  have "rounded_row ts row" using assms(2,3) by (auto simp: rounded_def list_all_iff dest: lookup_row_SomeD)
  then show ?thesis
    using p by (auto simp: rounded_row_def payment_row_def times_survive_def nullableTime_def IsZero_def
        payment_wf_def payment_base_wf_def split: if_splits)
qed

lemma rounded_update:
  "rounded ts d \<Longrightarrow> db_payments d' = sql_update w f (db_payments d) \<Longrightarrow>
   (\<And>r. rounded_row ts r \<Longrightarrow> rounded_row ts (f r)) \<Longrightarrow> rounded ts d'"
  by (auto simp: rounded_def list_all_iff sql_update_def)

subsection \<open>What the bodies do after the bank answered\<close>

definition times_given :: "(time \<Rightarrow> time) \<Rightarrow> ('db, 'bk) PaymentService \<Rightarrow> bool" where
  "times_given ts svc \<longleftrightarrow>
     (\<forall>n. ts (svc_clock svc n) \<noteq> 0) \<and>
     (\<forall>q b res b'. bank_AuthorizePayment (svc_bank svc) q b = (Inr res, b') \<longrightarrow> bas_DeclineReason res = [] \<longrightarrow>
        ts (bas_AuthorizationExpiresAt res) \<noteq> 0)"

lemma outcome_survives:
  assumes "times_survive ts p"
  shows "\<lbrakk>applyAuthorizationOutcome p res now = Inr q; ts now \<noteq> 0;
          bas_DeclineReason res = [] \<longrightarrow> ts (bas_AuthorizationExpiresAt res) \<noteq> 0\<rbrakk> \<Longrightarrow> times_survive ts q"
    and "\<lbrakk>MarkExpired now p = Inr q; ts now \<noteq> 0\<rbrakk> \<Longrightarrow> times_survive ts q"
    and "\<lbrakk>MarkCaptured i now p = Inr q; ts now \<noteq> 0\<rbrakk> \<Longrightarrow> times_survive ts q"
    and "\<lbrakk>MarkVoided i now p = Inr q; ts now \<noteq> 0\<rbrakk> \<Longrightarrow> times_survive ts q"
    and "\<lbrakk>MarkRefunded i now p = Inr q; ts now \<noteq> 0\<rbrakk> \<Longrightarrow> times_survive ts q"
  using assms
  by (auto simp: times_survive_def lifecycle_iffs applyAuthorizationOutcome_def split: if_splits)

lemma mark_and_complete_outcomes:
  assumes "mark_and_complete svc op c mark fk s = (r, s')" "\<And>n. P (svc_clock svc n)"
    and "\<And>now q. mark now = Inr q \<Longrightarrow> P now \<Longrightarrow> Q q"
  obtains (completed) q s1 where "complete_command svc op c q fk s1 = (r, s')" "ss_db s1 = ss_db s" "Q q"
    | (abandoned) e s1 where "abandon_command svc c e s1 = (r, s')" "ss_db s1 = ss_db s"
proof (cases "mark (svc_clock svc (ss_ticks s))")
  case (Inl e)
  with assms(1) have "abandon_command svc c (DomainError e) (s\<lparr>ss_ticks := Suc (ss_ticks s)\<rparr>) = (r, s')"
    by (simp add: mark_and_complete_def clock_Now_def)
  then show ?thesis by (rule abandoned) simp
next
  case (Inr q)
  with assms(1) have "complete_command svc op c q fk (s\<lparr>ss_ticks := Suc (ss_ticks s)\<rparr>) = (r, s')"
    by (simp add: mark_and_complete_def clock_Now_def)
  then show ?thesis by (rule completed) (use assms(2) assms(3) [OF Inr] in simp_all)
qed

lemma operation_body_outcomes:
  assumes body: "operation_body svc op body" "body c p s = (r, s')"
    and t: "times_given ts svc" "times_survive ts p"
  obtains (completed) q fk s1 where "complete_command svc op c q fk s1 = (r, s')" "ss_db s1 = ss_db s"
      "command_outcome op p q" "times_survive ts q"
    | (abandoned) e s1 where "abandon_command svc c e s1 = (r, s')" "ss_db s1 = ss_db s"
proof -
  have marked: thesis if "mark_and_complete svc op c mark fk s1 = (r, s')" "ss_db s1 = ss_db s"
      "\<And>now q. mark now = Inr q \<Longrightarrow> ts now \<noteq> 0 \<Longrightarrow> command_outcome op p q \<and> times_survive ts q" for mark fk s1
    using that(1) _ that(3)
  proof (rule mark_and_complete_outcomes)
    show "ts (svc_clock svc n) \<noteq> 0" for n using t(1) by (simp add: times_given_def)
  qed (use that(2) in \<open>auto intro: completed abandoned\<close>)
  have expired: thesis if "mark_and_complete svc op c (\<lambda>now. MarkExpired now p) fk s1 = (r, s')" "ss_db s1 = ss_db s"
      "op \<in> {CapturePaymentOperation, VoidPaymentOperation}" for fk s1
    using that(1,2) by (rule marked) (use that(3) outcome_survives(2) [OF t(2)] in \<open>auto intro: outcome_expired\<close>)
  have finished: thesis if "mark_and_complete svc op c (\<lambda>now. mark now p) fk s1 = (r, s')" "ss_db s1 = ss_db s"
      "op = CapturePaymentOperation \<and> mark = MarkCaptured i \<or> op = VoidPaymentOperation \<and> mark = MarkVoided i \<or>
       op = RefundPaymentOperation \<and> mark = MarkRefunded i" for mark i fk s1
    using that(1,2)
    by (rule marked) (use that(3) outcome_survives(3-5) [OF t(2)] in
        \<open>auto intro: outcome_captured outcome_voided outcome_refunded\<close>)
  have kinds: "(\<exists>crd keep. op \<in> {AuthorizePaymentOperation, RetryAuthorizationOperation} \<and>
        body = authorize_body svc op crd keep \<and> (keep \<longrightarrow> op = AuthorizePaymentOperation)) \<or>
      op = CapturePaymentOperation \<and> body = capture_body svc \<or>
      op = VoidPaymentOperation \<and> body = void_body svc \<or> op = RefundPaymentOperation \<and> body = refund_body svc"
    using body(1) unfolding operation_body_def by blast
  then consider
      (auth) crd keep where "op \<in> {AuthorizePaymentOperation, RetryAuthorizationOperation}"
        "body = authorize_body svc op crd keep" "keep \<longrightarrow> op = AuthorizePaymentOperation"
    | (cap) "op = CapturePaymentOperation" "body = capture_body svc"
    | (void) "op = VoidPaymentOperation" "body = void_body svc"
    | (ref) "op = RefundPaymentOperation" "body = refund_body svc" by blast
  then show ?thesis
  proof cases
    case auth
    obtain b s1 where call: "call_bank (bank_AuthorizePayment (svc_bank svc) (bank_authorization_request crd p)) s = (b, s1)"
      by fastforce
    have db: "ss_db s1 = ss_db s" by (rule call_bank_db [OF call])
    show ?thesis
    proof (cases b)
      case (Inl e)
      with body(2) auth call db t(2) show ?thesis
        by (auto simp: authorize_body_def split: if_splits intro: completed abandoned outcome_unknown)
    next
      case (Inr res)
      have res: "bas_DeclineReason res = [] \<longrightarrow> ts (bas_AuthorizationExpiresAt res) \<noteq> 0"
        using t(1) call Inr unfolding times_given_def call_bank_def by (auto split: prod.splits) metis
      have "mark_and_complete svc op c (applyAuthorizationOutcome p res) [] s1 = (r, s')"
        using body(2) auth call Inr by (simp add: authorize_body_def)
      then show ?thesis
        by (rule marked) (use db auth(1) outcome_survives(1) [OF t(2) _ _ res] in \<open>auto intro: outcome_authorization\<close>)
    qed
  next
    case cap
    with body(2) show ?thesis
      by (auto simp: capture_body_def split: prod.splits sum.splits if_splits dest!: call_bank_db
          intro: abandoned expired finished [where mark = "MarkCaptured i" and i = i for i])
  next
    case void
    with body(2) show ?thesis
      by (auto simp: void_body_def split: prod.splits sum.splits if_splits dest!: call_bank_db
          intro: abandoned expired finished [where mark = "MarkVoided i" and i = i for i])
  next
    case ref
    with body(2) show ?thesis
      by (auto simp: refund_body_def split: prod.splits sum.splits if_splits dest!: call_bank_db
          intro: abandoned finished [where mark = "MarkRefunded i" and i = i for i])
  qed
qed

subsection \<open>The steps of a handler\<close>

lemma complete_command_run:
  assumes "svc_store svc = NewPaymentStore ts text_le" "complete_command svc op c q fk s = (r, s')"
  obtains result now u where
    "pg_CompletePaymentCommand ts (c\<lparr>pcc_payment := Some q\<rparr>) result now (ss_db s) = (u, ss_db s')"
proof -
  let ?result = "\<lparr>pcr_Payment = newPaymentResult q, pcr_FailureKind = fk\<rparr>"
  obtain u d where run: "pg_CompletePaymentCommand ts (c\<lparr>pcc_payment := Some q\<rparr>) ?result
      (svc_clock svc (ss_ticks s)) (ss_db s) = (u, d)" by fastforce
  moreover have "ss_db s' = d"
    using assms run
    by (cases u) (auto simp: complete_command_def clock_Now_def call_store_def NewPaymentStore_def Let_def split: if_splits)
  ultimately show ?thesis using that by blast
qed

lemma abandon_command_run:
  assumes "svc_store svc = NewPaymentStore ts text_le" "abandon_command svc c e s = (r, s')"
  obtains u where "pg_ReleasePaymentCommand c (ss_db s) = (u, ss_db s')"
proof -
  obtain u d where run: "pg_ReleasePaymentCommand c (ss_db s) = (u, d)" by fastforce
  moreover have "ss_db s' = d"
    using assms run
    by (cases u) (auto simp: abandon_command_def releasePaymentCommand_def call_store_def NewPaymentStore_def)
  ultimately show ?thesis using that by blast
qed

text \<open>The operations and keys of the requests the system has logged.\<close>

definition logged :: "Gateway \<Rightarrow> (string \<times> string) set" where
  "logged g = (\<lambda>(kind, pid, k). (kind, k)) ` set (gw_log g)"

definition reaches ::
  "(time \<Rightarrow> time) \<Rightarrow> Gateway \<Rightarrow> Database \<Rightarrow> PaymentCommandClaim list \<Rightarrow> (string \<times> string) set \<Rightarrow> bool" where
  "reaches ts g d cs requests \<longleftrightarrow>
     (\<exists>g'. (gateway_step ts)\<^sup>*\<^sup>* g g' \<and> gw_db g' = d \<and> gw_claims g' = cs \<and> requests \<subseteq> logged g')"

lemma reaches_one: "gateway_step ts g g' \<Longrightarrow> requests \<subseteq> logged g' \<Longrightarrow> reaches ts g (gw_db g') (gw_claims g') requests"
  by (auto simp: reaches_def)

lemma reaches_step: "gateway_step ts g g' \<Longrightarrow> reaches ts g' d cs requests \<Longrightarrow> reaches ts g d cs requests"
  by (auto simp: reaches_def intro: converse_rtranclp_into_rtranclp)

lemma logged_frame [simp]:
  "logged (g\<lparr>gw_db := d\<rparr>) = logged g" "logged (g\<lparr>gw_claims := cs\<rparr>) = logged g"
  "logged (g\<lparr>gw_log := (kind, pid, k) # gw_log g\<rparr>) = insert (kind, k) (logged g)"
  by (auto simp: logged_def)

lemma completion_keeps_bank:
  "complete_command svc op c q fk s = (r, s') \<Longrightarrow> ss_bank s' = ss_bank s"
  "abandon_command svc c e s = (r, s') \<Longrightarrow> ss_bank s' = ss_bank s"
  "mark_and_complete svc op c mark fk s = (r, s') \<Longrightarrow> ss_bank s' = ss_bank s"
proof -
  show c: "complete_command svc op c q fk s = (r, s') \<Longrightarrow> ss_bank s' = ss_bank s" for q s
    by (auto simp: complete_command_def clock_Now_def call_store_def Let_def split: prod.splits sum.splits if_splits)
  show a: "abandon_command svc c e s = (r, s') \<Longrightarrow> ss_bank s' = ss_bank s" for e s
    by (auto simp: abandon_command_def releasePaymentCommand_def call_store_def split: prod.splits sum.splits)
  show "mark_and_complete svc op c mark fk s = (r, s') \<Longrightarrow> ss_bank s' = ss_bank s"
    by (auto simp: mark_and_complete_def clock_Now_def split: sum.splits dest: c a)
qed

lemma call_bank_state: "call_bank m s = (r, s') \<Longrightarrow> ss_bank s' = snd (m (ss_bank s))"
  by (auto simp: call_bank_def split: prod.splits)

context bank_observer
begin

lemma body_sends:
  assumes "svc_bank svc = bank" "operation_body svc op body" "body c p s = (r, s')"
  shows "sent (ss_bank s') \<subseteq> insert (bank_operation op, op_key op p) (sent (ss_bank s))"
proof -
  note kept = completion_keeps_bank call_bank_state
  from assms(2) consider
      (auth) crd keep where "op \<in> {AuthorizePaymentOperation, RetryAuthorizationOperation}" "body = authorize_body svc op crd keep"
    | (cap) "op = CapturePaymentOperation" "body = capture_body svc"
    | (void) "op = VoidPaymentOperation" "body = void_body svc"
    | (ref) "op = RefundPaymentOperation" "body = refund_body svc"
    unfolding operation_body_def by blast
  then show ?thesis
  proof cases
    case auth
    then have "ss_bank s' = snd (bank_AuthorizePayment bank (bank_authorization_request crd p) (ss_bank s))"
      using assms(1,3) by (auto simp: authorize_body_def split: prod.splits sum.splits if_splits dest!: kept)
    with auth(1) authorize_sends [of "bank_authorization_request crd p" "ss_bank s"] show ?thesis
      by (auto simp: bank_authorization_request_def op_key_def bank_operation_def)
  next
    case cap
    then have "\<exists>q. ss_bank s' = snd (bank_CapturePayment bank q (ss_bank s)) \<and> bcr_OperationKey q = captureBankOperationKey p"
      using assms(1,3) by (fastforce simp: capture_body_def split: prod.splits sum.splits if_splits dest!: kept)
    with cap(1) capture_sends [of _ "ss_bank s"] show ?thesis by (fastforce simp: op_key_def bank_operation_def)
  next
    case void
    then have "\<exists>q. ss_bank s' = snd (bank_VoidPayment bank q (ss_bank s)) \<and> bvr_OperationKey q = voidBankOperationKey p"
      using assms(1,3) by (fastforce simp: void_body_def split: prod.splits sum.splits if_splits dest!: kept)
    with void(1) void_sends [of _ "ss_bank s"] show ?thesis by (fastforce simp: op_key_def bank_operation_def)
  next
    case ref
    then have "\<exists>q. ss_bank s' = snd (bank_RefundPayment bank q (ss_bank s)) \<and> brr_OperationKey q = refundBankOperationKey p"
      using assms(1,3) by (fastforce simp: refund_body_def split: prod.splits sum.splits dest!: kept)
    with ref(1) refund_sends [of _ "ss_bank s"] show ?thesis by (fastforce simp: op_key_def bank_operation_def)
  qed
qed

end

lemma body_simulated:
  assumes svc: "svc_store svc = NewPaymentStore ts text_le" "times_given ts svc"
    and body: "operation_body svc (pcc_operation c) body" "body c p s = (r, s')"
    and p: "pcc_payment c = Some p" "times_survive ts p"
    and g: "gw_db g = ss_db s" "gw_claims g = c # cs"
    and obs: "bank_observer (svc_bank svc) sent" "sent (ss_bank s) \<subseteq> logged g"
  shows "reaches ts g (ss_db s') cs (sent (ss_bank s'))"
proof -
  let ?g1 = "g\<lparr>gw_log := (bank_operation (pcc_operation c), p_id p, op_key (pcc_operation c) p) # gw_log g\<rparr>"
  have ask: "gateway_step ts g ?g1" by (rule step_bank) (use g p in auto)
  have c: "c \<in> set (gw_claims ?g1)" using g by simp
  have sent: "sent (ss_bank s') \<subseteq> logged ?g1"
    using bank_observer.body_sends [OF obs(1) refl body] obs(2) by auto
  have "reaches ts ?g1 (ss_db s') cs (sent (ss_bank s'))"
    using body svc(2) p(2)
  proof (cases rule: operation_body_outcomes)
    case (completed q fk s1)
    from svc(1) completed(1) obtain result now u where
      "pg_CompletePaymentCommand ts (c\<lparr>pcc_payment := Some q\<rparr>) result now (ss_db s1) = (u, ss_db s')"
      by (rule complete_command_run)
    then have "pg_CompletePaymentCommand ts (c\<lparr>pcc_payment := Some q\<rparr>) result now (gw_db ?g1) = (u, ss_db s')"
      using completed(2) g by simp
    from reaches_one [OF step_complete [OF c p(1) completed(3,4) this], of "sent (ss_bank s')"] sent g show ?thesis by simp
  next
    case (abandoned e s1)
    from svc(1) abandoned(1) obtain u where "pg_ReleasePaymentCommand c (ss_db s1) = (u, ss_db s')"
      by (rule abandon_command_run)
    then have "pg_ReleasePaymentCommand c (gw_db ?g1) = (u, ss_db s')" using abandoned(2) g by simp
    from reaches_one [OF step_release [OF c this, of ts], of "sent (ss_bank s')"] sent g show ?thesis by simp
  qed
  then show ?thesis by (rule reaches_step [OF ask])
qed

text \<open>The payment of a granted claim has times that survive rounding.\<close>

lemma start_claim_survives:
  assumes inv: "store_inv d" "rounded ts d" and p: "asr_payment areq = Some p" "times_survive ts p"
    and run: "pg_ClaimAuthorizationStart ts areq d = (Inr c, d')" "\<not> pcc_replayed c"
  shows "\<exists>q. pcc_payment c = Some q \<and> times_survive ts q \<and> pcc_operation c = cr_operation areq"
proof -
  have pinv: "payments_inv d" and rinv: "records_inv d" using inv(1) by (simp_all add: store_inv_def)
  from rinv run(1) p(1) show ?thesis
  proof (cases rule: start_claim_cases)
    case refused
    then show ?thesis using run(2) by (auto simp: claim_refused_def NewReplayedPaymentCommand_def)
  next
    case acquired
    then show ?thesis using p(2) by (simp add: claim_answered_def NewClaimedPaymentCommand_def)
  next
    case (recovered q row pid)
    then show ?thesis
      using rounded_survives [OF pinv inv(2) recovered(3,4)] by (simp add: claim_answered_def claim_defs)
  qed
qed

lemma ensure_key_times:
  assumes "ensureBankOperationKey q request d1 = (Inr p, d2)"
  shows "times_survive ts p = times_survive ts q"
  using assms
proof (cases rule: ensureBankOperationKey_InrD)
  case kept
  then show ?thesis by simp
next
  case (fresh k)
  then show ?thesis by (simp add: times_survive_def set_op_key_def)
qed

lemma existing_claim_survives:
  assumes inv: "store_inv d" "rounded ts d"
    and run: "pg_ClaimExistingPaymentCommand ts ereq d = (Inr c, d')" "\<not> pcc_replayed c"
  shows "\<exists>q. pcc_payment c = Some q \<and> times_survive ts q \<and> pcc_operation c = cr_operation ereq"
proof -
  have pinv: "payments_inv d" and rinv: "records_inv d" using inv(1) by (simp_all add: store_inv_def)
  from rinv run(1) show ?thesis
  proof (cases rule: existing_claim_cases)
    case refused
    then show ?thesis using run(2) by (auto simp: claim_refused_def NewReplayedPaymentCommand_def)
  next
    case (acquired q row p d1 d2)
    have "times_survive ts p"
      using rounded_survives [OF pinv inv(2) acquired(1,2)] ensure_key_times [OF acquired(5)] by simp
    then show ?thesis using acquired(8) by (simp add: claim_answered_def NewClaimedPaymentCommand_def)
  next
    case (recovered q row rc)
    then show ?thesis
      using rounded_survives [OF pinv inv(2) recovered(3,4)] by (simp add: claim_answered_def claim_defs)
  qed
qed

lemma claimed_command_simulated:
  assumes svc: "svc_store svc = NewPaymentStore ts text_le" "times_given ts svc"
    and body: "operation_body svc op body" "claimed_command op act body s = (r, s')"
    and claim: "\<And>q d. act (ss_db s) = (q, d) \<Longrightarrow>
        gateway_step ts g (g\<lparr>gw_db := d, gw_claims := granted q @ gw_claims g\<rparr>)"
      "\<And>c d. act (ss_db s) = (Inr c, d) \<Longrightarrow> \<not> pcc_replayed c \<Longrightarrow>
        \<exists>p. pcc_payment c = Some p \<and> times_survive ts p \<and> pcc_operation c = op"
    and obs: "bank_observer (svc_bank svc) sent" "sent (ss_bank s) \<subseteq> logged g"
  shows "reaches ts g (ss_db s') (gw_claims g) (sent (ss_bank s'))"
  using body(2)
proof (cases rule: claimed_command_cases)
  case (refused e d)
  from reaches_one [OF claim(1) [OF refused(1)], of "sent (ss_bank s')"] obs(2) refused(3,4) show ?thesis by (simp add: granted_def)
next
  case (replayed c d)
  from reaches_one [OF claim(1) [OF replayed(1)], of "sent (ss_bank s')"] obs(2) replayed(2,4,5) show ?thesis by (simp add: granted_def)
next
  case (panic c d)
  then show ?thesis using claim(2) by fastforce
next
  case (ran c d p s1 s2)
  let ?g1 = "g\<lparr>gw_db := d, gw_claims := c # gw_claims g\<rparr>"
  have p: "times_survive ts p" "pcc_operation c = op" using claim(2) [OF ran(1,2)] ran(3) by auto
  have first: "gateway_step ts g ?g1" using claim(1) [OF ran(1)] ran(2) by (simp add: granted_def)
  have "reaches ts ?g1 (ss_db s2) (gw_claims g) (sent (ss_bank s2))"
    using body_simulated [of svc ts text_le c body p s1 r s2 ?g1 "gw_claims g" sent] svc body(1) p ran(3-6) obs by simp
  then show ?thesis unfolding ran(7,8) by (rule reaches_step [OF first])
qed

lemma run_command_simulated:
  assumes svc: "svc_store svc = NewPaymentStore ts text_le" "times_given ts svc"
    and inv: "store_inv (ss_db s)" "rounded ts (ss_db s)"
    and g: "gw_db g = ss_db s" and run: "run_command svc cmd s = (r, s')"
    and obs: "bank_observer (svc_bank svc) sent" "sent (ss_bank s) \<subseteq> logged g"
  shows "reaches ts g (ss_db s') (gw_claims g) (sent (ss_bank s'))"
  using run
proof (cases rule: run_command_cases)
  case (rejected e)
  then show ?thesis using g obs(2) by (auto simp: reaches_def)
next
  case (start areq p op body s1)
  from start(1) obtain key fp n pid order customer amount authKey cardFp where
    areq: "areq = NewAuthorizationStartClaimRequest key fp p (svc_clock svc n) (svc_claimStuckAfter svc)"
    and p: "NewPendingPayment pid order customer amount authKey cardFp (svc_clock svc n) = Inr p"
    unfolding start_request_def by blast
  have surv: "times_survive ts p"
    using p svc(2) by (simp add: NewPendingPayment_Inr_iff times_survive_def times_given_def)
  show ?thesis
  proof (rule claimed_command_simulated [OF svc start(3,6) _ _ obs(1)])
    fix q d assume "ClaimAuthorizationStart (svc_store svc) areq (ss_db s1) = (q, d)"
    then have "pg_ClaimAuthorizationStart ts areq (gw_db g) = (q, d)" using svc(1) start(4) g by (simp add: NewPaymentStore_def)
    then show "gateway_step ts g (g\<lparr>gw_db := d, gw_claims := granted q @ gw_claims g\<rparr>)"
      unfolding areq by (rule step_start [OF p surv])
  next
    fix c d assume "ClaimAuthorizationStart (svc_store svc) areq (ss_db s1) = (Inr c, d)" "\<not> pcc_replayed c"
    then show "\<exists>q. pcc_payment c = Some q \<and> times_survive ts q \<and> pcc_operation c = op"
      using start_claim_survives [OF inv start_request_payment [OF start(1)] surv, of c d] svc(1) start(4,8)
      by (simp add: NewPaymentStore_def)
  qed (use obs(2) start(5) in simp)
next
  case (existing ereq op body s1)
  show ?thesis
  proof (rule claimed_command_simulated [OF svc existing(2,5) _ _ obs(1)])
    fix q d assume "ClaimExistingPaymentCommand (svc_store svc) ereq (ss_db s1) = (q, d)"
    then have "pg_ClaimExistingPaymentCommand ts ereq (gw_db g) = (q, d)"
      using svc(1) existing(3) g by (simp add: NewPaymentStore_def)
    then show "gateway_step ts g (g\<lparr>gw_db := d, gw_claims := granted q @ gw_claims g\<rparr>)"
      by (rule step_existing [rotated]) (use existing(7,8) in simp)
  next
    fix c d assume "ClaimExistingPaymentCommand (svc_store svc) ereq (ss_db s1) = (Inr c, d)" "\<not> pcc_replayed c"
    then show "\<exists>q. pcc_payment c = Some q \<and> times_survive ts q \<and> pcc_operation c = op"
      using existing_claim_survives [OF inv, of ereq c d] svc(1) existing(3,7) by (simp add: NewPaymentStore_def)
  qed (use obs(2) existing(4) in simp)
qed

subsection \<open>Rounding is an invariant\<close>

lemma rounded_tables: "db_payments d' = db_payments d \<Longrightarrow> rounded ts d' = rounded ts d"
  by (simp add: rounded_def)

lemma rounded_start:
  assumes "rounding ts" "rounded ts d" "records_inv d" "asr_payment areq = Some p"
    and "pg_ClaimAuthorizationStart ts areq d = (r, d')"
  shows "rounded ts d'"
  using assms(3,5,4)
proof (cases rule: start_claim_cases)
  case acquired
  then show ?thesis
    using assms(2) rounded_payment_row [OF assms(1), of p] by (simp add: rounded_def sql_insert_def)
qed (use assms(2) in \<open>simp_all add: rounded_def tables_eq_iff\<close>)

lemma rounded_existing:
  assumes "rounded ts d" "records_inv d" "pg_ClaimExistingPaymentCommand ts ereq d = (r, d')"
  shows "rounded ts d'"
  using assms(2,3)
proof (cases rule: existing_claim_cases)
  case (acquired q row p d1 d2)
  from acquired(5) show ?thesis
  proof (cases rule: ensureBankOperationKey_InrD)
    case kept
    then show ?thesis using assms(1) acquired(4,6) by (simp add: rounded_def tables_eq_iff)
  next
    case (fresh k)
    then have "db_payments d' = sql_update (\<lambda>r. r_id r = p_id q \<and> r_status r = status q)
        (set_row_key (cr_operation ereq) (Some k)) (db_payments d)"
      using acquired(4,6) by (simp add: tables_def)
    from rounded_update [OF assms(1) this] show ?thesis using rounded_set_row_key by blast
  qed
qed (use assms(1) in \<open>simp_all add: rounded_def tables_eq_iff\<close>)

lemma rounded_complete:
  assumes "rounding ts" "rounded ts d" "store_inv d" "pcc_payment c = Some q"
    and "pg_CompletePaymentCommand ts c result now d = (r, d')"
  shows "rounded ts d'"
  using assms(3,5,4)
proof (cases rule: complete_cases)
  case (failed e)
  then show ?thesis using assms(2) by (simp add: rounded_def tables_eq_iff)
next
  case (committed row)
  from rounded_update [OF assms(2) committed(4)] show ?thesis using rounded_transition_row [OF assms(1)] by blast
qed

definition rounded_gateway :: "(time \<Rightarrow> time) \<Rightarrow> Gateway \<Rightarrow> bool" where
  "rounded_gateway ts g \<longleftrightarrow> gateway_inv g \<and> (rounding ts \<longrightarrow> rounded ts (gw_db g))"

lemma rounded_step:
  assumes "gateway_step ts g g'" "gateway_inv g" "rounding ts" "rounded ts (gw_db g)"
  shows "rounded ts (gw_db g')"
  using assms
proof (induction rule: gateway_step.induct)
  case (step_start pid order customer amount authKey cardFp created p key fp now stuck g r d)
  then show ?case
    using rounded_start [OF _ _ gateway_inv_store(3) _ step_start(3)] by (simp add: claim_request_defs)
next
  case (step_existing request g r d)
  then show ?case using rounded_existing [OF _ gateway_inv_store(3) step_existing(2)] by simp
next
  case (step_complete c g p q result now r d)
  then show ?case using rounded_complete [OF _ _ gateway_inv_store(1) _ step_complete(5)] by simp
next
  case (step_release c g r d)
  then show ?case
    using pg_ReleasePaymentCommand_cases [OF step_release(2)] rounded_tables [of d "gw_db g"] by (auto simp: tables_def)
next
  case (step_cleanup cutoff g r d)
  then show ?case
    using pg_Cleanup_cases [OF step_cleanup(1)] rounded_tables [of d "gw_db g"] by (auto simp: tables_def)
qed (simp_all add: rounded_def)

interpretation rounded_gateway: invariant_system gateway_start "gateway_step ts" "rounded_gateway ts"
proof unfold_locales
  show "gateway_start g \<Longrightarrow> rounded_gateway ts g" for g
    using gateway.init_inv [of g] by (simp add: rounded_gateway_def rounded_def gateway_start_def)
  show "rounded_gateway ts g \<Longrightarrow> gateway_step ts g g' \<Longrightarrow> rounded_gateway ts g'" for g g'
    using gateway.step_inv [of g ts g'] rounded_step [of ts g g'] by (simp add: rounded_gateway_def)
qed

lemma reachable_steps:
  "(step)\<^sup>*\<^sup>* s t \<Longrightarrow> reachable init step s \<Longrightarrow> reachable init step t"
  by (induction rule: rtranclp_induct) (auto intro: reachable_step)

lemma run_command_reachable:
  assumes "rounding ts" "times_given ts svc" "svc_store svc = NewPaymentStore ts text_le" "bank_observer (svc_bank svc) sent"
    and "reachable gateway_start (gateway_step ts) g" "ss_db s = gw_db g" "sent (ss_bank s) \<subseteq> logged g"
    and "run_command svc cmd s = (r, s')"
  shows "\<exists>g'. reachable gateway_start (gateway_step ts) g' \<and> gw_db g' = ss_db s' \<and> gw_claims g' = gw_claims g \<and>
    sent (ss_bank s') \<subseteq> logged g'"
proof -
  have "rounded_gateway ts g" by (rule rounded_gateway.reachable_inv [OF assms(5)])
  then have inv: "store_inv (ss_db s)" "rounded ts (ss_db s)"
    using assms(1,6) gateway_inv_store(1) by (simp_all add: rounded_gateway_def)
  from run_command_simulated [OF assms(3,2) inv assms(6) [symmetric] assms(8,4,7)]
  obtain g' where "(gateway_step ts)\<^sup>*\<^sup>* g g'" "gw_db g' = ss_db s'" "gw_claims g' = gw_claims g" "sent (ss_bank s') \<subseteq> logged g'"
    by (auto simp: reaches_def)
  then show ?thesis using reachable_steps [OF _ assms(5)] by blast
qed

subsection \<open>Properties\<close>

text \<open>C11: every run of a command handler over the PostgreSQL store is a run of the gateway system: from
  a database the system can reach, with any claims of other handlers in flight, it leads to one
  the system can reach, with the same claims in flight, and every request the bank client has sent is one the system
  has logged, with its operation and key.  So the invariants of the system (one bank operation key per operation,
  well-formed rows, the lifecycle) hold of the service.\<close>

theorem commands_refine_gateway:
  assumes "rounding ts" "times_given ts svc" "svc_store svc = NewPaymentStore ts text_le" "bank_observer (svc_bank svc) sent"
    and "reachable gateway_start (gateway_step ts) g" "ss_db s = gw_db g" "sent (ss_bank s) \<subseteq> logged g"
    and "run_command svc cmd s = (r, s')"
  shows "\<exists>g'. reachable gateway_start (gateway_step ts) g' \<and> gw_db g' = ss_db s' \<and> gw_claims g' = gw_claims g \<and>
    sent (ss_bank s') \<subseteq> logged g'"
  by (rule run_command_reachable [OF assms])

lemma commands_refine_gateway_witness:
  "\<exists>g' r s'. run_command example_service (Capture example_capture) (state_with []) = (r, s') \<and>
     reachable gateway_start (gateway_step (\<lambda>t. t)) g' \<and> gw_db g' = ss_db s'"
proof -
  let ?g = "\<lparr>gw_db = ss_db (state_with []), gw_claims = [], gw_log = []\<rparr>"
  obtain r s' where run: "run_command example_service (Capture example_capture) (state_with []) = (r, s')" by fastforce
  have "times_given (\<lambda>t. t) example_service"
    by (simp add: times_given_def example_service_def unreachable_bank_def)
  moreover have "bank_observer (svc_bank example_service) (\<lambda>_. {})" by unfold_locales simp_all
  moreover have "reachable gateway_start (gateway_step (\<lambda>t. t)) ?g"
    by (rule reachable_init) (simp add: gateway_start_def state_with_def)
  ultimately show ?thesis
    using commands_refine_gateway [OF _ _ example_service_ok(1) _ _ _ _ run, of "\<lambda>_. {}" ?g] run by (auto simp: rounding_def)
qed

end
