(* ===== verification/Mock_Bank_Store.thy ===== *)
theory Mock_Bank_Store
  imports Payment_Snapshot
begin

text \<open>
  The mock bank's models, validators and repositories
  (\<^verbatim>\<open>mock-bank/bank/internal/models\<close>, \<^verbatim>\<open>service\<close>, \<^verbatim>\<open>repository\<close>).  Its database is two tables of
  rows and the cache of idempotent responses; a service call is one transaction on it.  Every
  statement takes its fate from a list of faults: done, failed, or done with the reply lost.  The
  clock, the UUID source and the calendar of the process are parameters.  The text a driver error
  appends to some messages is left out, and so is the metadata column, which no service sets.
\<close>

subsection \<open>Models\<close>

datatype TransactionType =
  TransactionTypeAuthHold | TransactionTypeCapture | TransactionTypeVoid | TransactionTypeRefund

datatype TransactionStatus =
  TransactionStatusActive | TransactionStatusCompleted | TransactionStatusExpired

type_synonym uuid = string

record Account =
  acc_ID :: uuid
  acc_AccountNumber :: string
  acc_CVV :: string
  acc_ExpiryMonth :: int
  acc_ExpiryYear :: int
  acc_BalanceCents :: int
  acc_AvailableBalanceCents :: int
  acc_CreatedAt :: time
  acc_UpdatedAt :: time

record Transaction =
  txn_ID :: uuid
  txn_AccountID :: uuid
  txn_Type :: TransactionType
  txn_AmountCents :: int
  txn_Currency :: string
  txn_ReferenceID :: "uuid option"
  txn_Status :: TransactionStatus
  txn_ExpiresAt :: "time option"
  txn_CreatedAt :: time

record IdempotencyKey =
  idk_Key :: string
  idk_RequestPath :: string
  idk_ResponseStatus :: int
  idk_ResponseBody :: "go_error + json_object" \<comment> \<open>the text, as what a client reads in it\<close>
  idk_CreatedAt :: time

datatype bank_error =
    ServiceError string string \<comment> \<open>code, message\<close>
  | ErrDuplicateTransaction
  | PlainError string

definition ErrCodeInvalidCard :: string where "ErrCodeInvalidCard = ''invalid_card''"
definition ErrCodeInvalidCVV :: string where "ErrCodeInvalidCVV = ''invalid_cvv''"
definition ErrCodeInvalidAmount :: string where "ErrCodeInvalidAmount = ''invalid_amount''"
definition ErrCodeCardExpired :: string where "ErrCodeCardExpired = ''card_expired''"
definition ErrCodeInsufficientFunds :: string where "ErrCodeInsufficientFunds = ''insufficient_funds''"
definition ErrCodeAccountNotFound :: string where "ErrCodeAccountNotFound = ''account_not_found''"
definition ErrCodeAuthNotFound :: string where "ErrCodeAuthNotFound = ''authorization_not_found''"
definition ErrCodeAuthExpired :: string where "ErrCodeAuthExpired = ''authorization_expired''"
definition ErrCodeAuthAlreadyUsed :: string where "ErrCodeAuthAlreadyUsed = ''authorization_already_used''"
definition ErrCodeAlreadyCaptured :: string where "ErrCodeAlreadyCaptured = ''already_captured''"
definition ErrCodeAlreadyVoided :: string where "ErrCodeAlreadyVoided = ''already_voided''"
definition ErrCodeAlreadyRefunded :: string where "ErrCodeAlreadyRefunded = ''already_refunded''"
definition ErrCodeAmountMismatch :: string where "ErrCodeAmountMismatch = ''amount_mismatch''"
definition ErrCodeCaptureNotFound :: string where "ErrCodeCaptureNotFound = ''capture_not_found''"
definition ErrCodeInternalError :: string where "ErrCodeInternalError = ''internal_error''"

lemmas bank_code_defs =
  ErrCodeInvalidCard_def ErrCodeInvalidCVV_def ErrCodeInvalidAmount_def ErrCodeCardExpired_def
  ErrCodeInsufficientFunds_def ErrCodeAccountNotFound_def ErrCodeAuthNotFound_def ErrCodeAuthExpired_def ErrCodeAuthAlreadyUsed_def
  ErrCodeAlreadyCaptured_def ErrCodeAlreadyVoided_def ErrCodeAlreadyRefunded_def ErrCodeAmountMismatch_def
  ErrCodeCaptureNotFound_def ErrCodeInternalError_def

subsection \<open>Validators\<close>

definition digit_value :: "char \<Rightarrow> int" where
  "digit_value c = of_char c - 48"

definition luhn_double :: "int \<Rightarrow> int" where
  "luhn_double d = (let digit = d * 2 in if digit > 9 then digit - 9 else digit)"

text \<open>The loop, from the last digit to the first, with its running total and \<^verbatim>\<open>isSecond\<close>.\<close>

fun luhn_loop :: "int \<Rightarrow> bool \<Rightarrow> int list \<Rightarrow> int" where
  "luhn_loop tot isSecond [] = tot"
| "luhn_loop tot isSecond (digit # rest) =
     luhn_loop (tot + (if isSecond then luhn_double digit else digit)) (\<not> isSecond) rest"

definition ValidateLuhn :: "string \<Rightarrow> string option" where
  "ValidateLuhn cardNumber =
   (let digits = map digit_value (filter digit_char cardNumber) in
    if length digits < 13 \<or> 19 < length digits then Some ''invalid card number length: must be 13-19 digits''
    else if luhn_loop 0 False (rev digits) mod 10 \<noteq> 0 then Some ''invalid card number: failed Luhn check''
    else None)"

text \<open>
  The weighted sum is additive, so changing one digit, or swapping two neighbours, changes it by
  the difference of two weights.
\<close>

lemma luhn_loop_shift: "luhn_loop (t + k) b xs = luhn_loop t b xs + k"
proof (induction xs arbitrary: t b)
  case (Cons x xs)
  show ?case
    using Cons.IH [of "t + (if b then luhn_double x else x)" "\<not> b"] by (simp add: algebra_simps)
qed simp

lemma luhn_loop_append:
  "luhn_loop t b (xs @ ys) = luhn_loop (luhn_loop t b xs) (b \<noteq> odd (length xs)) ys"
  by (induction t b xs rule: luhn_loop.induct) auto

lemma luhn_loop_Cons:
  "luhn_loop t b (x # xs) = luhn_loop t (\<not> b) xs + (if b then luhn_double x else x)"
  by (simp add: luhn_loop_shift)

lemma luhn_double_eq: "0 \<le> d \<Longrightarrow> d \<le> 9 \<Longrightarrow> luhn_double d = (if d < 5 then 2 * d else 2 * d - 9)"
  by (auto simp: luhn_double_def)

lemma mod_ten_close:
  assumes "(t + x) mod 10 = 0" "(t + y) mod 10 = (0::int)" "x - y < 10" "y - x < 10"
  shows "x = y"
proof -
  have "10 dvd (t + x) - (t + y)"
    using assms(1,2) by (intro dvd_diff) (auto simp: dvd_eq_mod_eq_0)
  then have "10 dvd x - y" by simp
  then obtain k where "x - y = 10 * k" by (auto simp: dvd_def)
  moreover from this assms(3,4) have "k < 1" "- 1 < k" by linarith+
  ultimately show ?thesis by simp
qed

lemma luhn_double_range: "0 \<le> d \<Longrightarrow> d \<le> 9 \<Longrightarrow> 0 \<le> luhn_double d \<and> luhn_double d \<le> 9"
  by (simp add: luhn_double_eq)

lemma luhn_double_inject:
  assumes "0 \<le> c" "c \<le> 9" "0 \<le> d" "d \<le> 9" "luhn_double c = luhn_double d"
  shows "c = d"
proof -
  have "2 * c \<noteq> 2 * d - 9" "2 * c - 9 \<noteq> 2 * d" by presburger+
  then show ?thesis using assms by (auto simp: luhn_double_eq split: if_splits)
qed

lemma luhn_weight_inj:
  assumes "0 \<le> c" "c \<le> 9" "0 \<le> d" "d \<le> 9"
    "(t + (if b then luhn_double c else c)) mod 10 = 0" "(t + (if b then luhn_double d else d)) mod 10 = (0::int)"
  shows "c = d"
proof -
  have "(if b then luhn_double c else c) = (if b then luhn_double d else d)"
    using assms(1-4) luhn_double_range [of c] luhn_double_range [of d]
    by (intro mod_ten_close [OF assms(5,6)]) (auto split: if_splits)
  then show ?thesis using assms(1-4) by (auto intro: luhn_double_inject split: if_splits)
qed

lemma luhn_swap_weight:
  assumes "0 \<le> c" "c \<le> 9" "0 \<le> d" "d \<le> 9"
    "(t + (luhn_double c + d)) mod 10 = 0" "(t + (luhn_double d + c)) mod 10 = (0::int)"
  shows "c = d \<or> {c, d} = {0, 9}"
proof -
  have "luhn_double c + d = luhn_double d + c"
    using assms(1-4) by (intro mod_ten_close [OF assms(5,6)]) (auto simp: luhn_double_eq)
  then have "c = d \<or> c = 0 \<and> d = 9 \<or> c = 9 \<and> d = 0"
    using assms(1-4) by (auto simp: luhn_double_eq split: if_splits)
  then show ?thesis by auto
qed

lemma digit_value_range: "digit_char c \<Longrightarrow> 0 \<le> digit_value c \<and> digit_value c \<le> 9"
  by (auto simp: digit_value_def digit_char_def char_between_def)
     (metis of_nat_of_char of_nat_le_iff of_nat_numeral)+

lemma digit_value_inject: "digit_value c = digit_value d \<longleftrightarrow> c = d"
  by (simp add: digit_value_def)

definition ValidateCVV :: "string \<Rightarrow> string option" where
  "ValidateCVV cvv =
   (if length cvv < 3 \<or> 4 < length cvv then Some ''invalid CVV: must be 3 or 4 digits''
    else if \<not> list_all digit_char cvv then Some ''invalid CVV: must contain only digits''
    else None)"

definition ValidateAmount :: "int \<Rightarrow> string option" where
  "ValidateAmount amount = (if amount \<le> 0 then Some ''invalid amount: must be greater than 0'' else None)"

subsection \<open>Statements and transactions\<close>

datatype bank_fault = FaultNone | FaultError | FaultLostReply

record BankState =
  bk_accounts :: "Account list"
  bk_txns :: "Transaction list"
  bk_keys :: "IdempotencyKey list"
  bk_faults :: "bank_fault list"
  bk_ticks :: nat
  bk_uuids :: nat
  bk_draws :: nat

record BankEnv =
  be_clock :: "nat \<Rightarrow> time"
  be_uuid :: "nat \<Rightarrow> uuid"
  be_calendar :: "time \<Rightarrow> int \<times> int"
  be_stored :: "time \<Rightarrow> time" \<comment> \<open>a time written to a \<^verbatim>\<open>TIMESTAMP\<close> column and read back\<close>
  be_pgNow :: "nat \<Rightarrow> time" \<comment> \<open>\<^verbatim>\<open>NOW()\<close> of the database\<close>
  be_fits :: "nat \<Rightarrow> string \<Rightarrow> bool" \<comment> \<open>text of at most so many characters in the database's encoding\<close>
  be_parse :: "string \<Rightarrow> uuid option" \<comment> \<open>\<^verbatim>\<open>uuid.Parse\<close>\<close>
  be_bind_header :: "string \<Rightarrow> string + string" \<comment> \<open>\<^verbatim>\<open>runtime.BindStyledParameterWithOptions\<close>\<close>
  be_bind_path :: "string \<Rightarrow> string + string"
  be_draw :: "nat \<Rightarrow> int \<Rightarrow> int option" \<comment> \<open>\<^verbatim>\<open>rand.Int\<close> below a bound\<close>
  be_authExpiryHours :: int

type_synonym 'a bank_action = "(bank_error, BankState, 'a) fallible"

definition next_fault :: "BankState \<Rightarrow> bank_fault \<times> BankState" where
  "next_fault s = (case bk_faults s of [] \<Rightarrow> (FaultNone, s) | f # fs \<Rightarrow> (f, s\<lparr>bk_faults := fs\<rparr>))"

definition bank_exec :: "string \<Rightarrow> (BankState \<Rightarrow> bank_error + 'a \<times> BankState) \<Rightarrow> 'a bank_action" where
  "bank_exec failure stmt s =
   (case next_fault s of
      (FaultError, s1) \<Rightarrow> (Inl (PlainError failure), s1)
    | (FaultNone, s1) \<Rightarrow> (case stmt s1 of Inl e \<Rightarrow> (Inl e, s1) | Inr (x, s2) \<Rightarrow> (Inr x, s2))
    | (FaultLostReply, s1) \<Rightarrow>
        (case stmt s1 of Inl e \<Rightarrow> (Inl e, s1) | Inr (x, s2) \<Rightarrow> (Inl (PlainError failure), s2)))"

definition bank_rollback :: "BankState \<Rightarrow> BankState \<Rightarrow> BankState" where
  "bank_rollback s0 s = s\<lparr>bk_accounts := bk_accounts s0, bk_txns := bk_txns s0, bk_keys := bk_keys s0\<rparr>"

text \<open>\<^verbatim>\<open>BeginTx\<close>, the body, \<^verbatim>\<open>Commit\<close>, with the deferred \<^verbatim>\<open>Rollback\<close> on every early return.\<close>

definition bank_tx :: "'a bank_action \<Rightarrow> 'a bank_action" where
  "bank_tx body s =
   (case next_fault s of
      (FaultNone, s0) \<Rightarrow>
        (case body s0 of
           (Inl e, s1) \<Rightarrow> (Inl e, bank_rollback s0 s1)
         | (Inr x, s1) \<Rightarrow>
             (case next_fault s1 of
                (FaultNone, s2) \<Rightarrow> (Inr x, s2)
              | (FaultError, s2) \<Rightarrow>
                  (Inl (ServiceError ErrCodeInternalError ''failed to commit transaction''), bank_rollback s0 s2)
              | (FaultLostReply, s2) \<Rightarrow>
                  (Inl (ServiceError ErrCodeInternalError ''failed to commit transaction''), s2)))
    | (_, s0) \<Rightarrow> (Inl (ServiceError ErrCodeInternalError ''failed to start transaction''), s0))"

definition bank_now :: "BankEnv \<Rightarrow> time bank_action" where
  "bank_now env s = (Inr (be_clock env (bk_ticks s)), s\<lparr>bk_ticks := bk_ticks s + 1\<rparr>)"

definition uuid_New :: "BankEnv \<Rightarrow> uuid bank_action" where
  "uuid_New env s = (Inr (be_uuid env (bk_uuids s)), s\<lparr>bk_uuids := bk_uuids s + 1\<rparr>)"

text \<open>What an accepted number says of its digits.\<close>

definition luhn_sum :: "string \<Rightarrow> int" where
  "luhn_sum number = luhn_loop 0 False (rev (map digit_value (filter digit_char number)))"

lemma ValidateLuhn_None_iff:
  "ValidateLuhn number = None \<longleftrightarrow>
     13 \<le> length (filter digit_char number) \<and> length (filter digit_char number) \<le> 19 \<and> luhn_sum number mod 10 = 0"
  by (auto simp: ValidateLuhn_def Let_def luhn_sum_def)

lemma luhn_sum_digit:
  obtains t b where "\<And>c. digit_char c \<Longrightarrow>
    luhn_sum (xs @ c # ys) = t + (if b then luhn_double (digit_value c) else digit_value c)"
proof
  define Y where "Y = rev (map digit_value (filter digit_char ys))"
  fix c assume "digit_char c"
  then show "luhn_sum (xs @ c # ys) =
      luhn_loop (luhn_loop 0 False Y) (\<not> odd (length Y)) (rev (map digit_value (filter digit_char xs))) +
      (if odd (length Y) then luhn_double (digit_value c) else digit_value c)"
    by (simp add: luhn_sum_def luhn_loop_append luhn_loop_Cons Y_def del: luhn_loop.simps)
qed

lemma luhn_sum_pair:
  obtains t b where "\<And>c d. digit_char c \<Longrightarrow> digit_char d \<Longrightarrow> luhn_sum (xs @ c # d # ys) =
    t + (if b then luhn_double (digit_value c) + digit_value d else luhn_double (digit_value d) + digit_value c)"
proof
  define Y where "Y = rev (map digit_value (filter digit_char ys))"
  fix c d assume "digit_char c" "digit_char d"
  then show "luhn_sum (xs @ c # d # ys) =
      luhn_loop (luhn_loop 0 False Y) (odd (length Y)) (rev (map digit_value (filter digit_char xs))) +
      (if even (length Y) then luhn_double (digit_value c) + digit_value d
       else luhn_double (digit_value d) + digit_value c)"
    by (simp add: luhn_sum_def luhn_loop_append luhn_loop_Cons Y_def del: luhn_loop.simps)
qed

text \<open>C38: an accepted card number with one digit mistyped, wherever it stands and whatever separators
  the number has, is refused.\<close>

theorem luhn_detects_wrong_digit:
  assumes "ValidateLuhn (xs @ c # ys) = None" "digit_char c" "digit_char d" "c \<noteq> d"
  shows "ValidateLuhn (xs @ d # ys) = Some ''invalid card number: failed Luhn check''"
proof -
  obtain t b where s: "\<And>c. digit_char c \<Longrightarrow>
      luhn_sum (xs @ c # ys) = t + (if b then luhn_double (digit_value c) else digit_value c)"
    by (rule luhn_sum_digit [of xs ys]) blast
  have "luhn_sum (xs @ d # ys) mod 10 \<noteq> 0"
    using luhn_weight_inj [of "digit_value c" "digit_value d" t b] assms digit_value_range [of c]
      digit_value_range [of d] by (auto simp: s ValidateLuhn_None_iff digit_value_inject)
  then show ?thesis
    using assms by (auto simp: ValidateLuhn_None_iff ValidateLuhn_def Let_def luhn_sum_def)
qed

theorem luhn_detects_wrong_digit_witness:
  "ValidateLuhn ''4111111111111111'' = None \<and> ValidateLuhn ''4111111111111117'' \<noteq> None"
proof -
  have "ValidateLuhn ''4111111111111111'' = None" by code_simp
  moreover have "digit_char CHR ''1''" "digit_char CHR ''7''" by code_simp+
  ultimately show ?thesis
    using luhn_detects_wrong_digit [of "''411111111111111''" "CHR ''1''" "[]" "CHR ''7''"] by simp
qed

text \<open>Swapping two neighbouring digits of an accepted number is noticed too, unless they are 0 and 9.\<close>

theorem luhn_detects_swap:
  assumes "ValidateLuhn (xs @ c # d # ys) = None" "digit_char c" "digit_char d" "c \<noteq> d"
    "{c, d} \<noteq> {CHR ''0'', CHR ''9''}"
  shows "ValidateLuhn (xs @ d # c # ys) = Some ''invalid card number: failed Luhn check''"
proof -
  obtain t b where s: "\<And>c d. digit_char c \<Longrightarrow> digit_char d \<Longrightarrow> luhn_sum (xs @ c # d # ys) =
      t + (if b then luhn_double (digit_value c) + digit_value d else luhn_double (digit_value d) + digit_value c)"
    by (rule luhn_sum_pair [of xs ys]) blast
  have r: "digit_value CHR ''0'' = 0" "digit_value CHR ''9'' = 9" by code_simp+
  have n: "{digit_value c, digit_value d} \<noteq> {0, 9}"
    using assms(5) by (metis (no_types) r digit_value_inject doubleton_eq_iff)
  have "luhn_sum (xs @ d # c # ys) mod 10 \<noteq> 0"
    using luhn_swap_weight [of "digit_value c" "digit_value d" t] luhn_swap_weight [of "digit_value d" "digit_value c" t]
      assms(1-4) n digit_value_range [of c] digit_value_range [of d]
    by (auto simp: s ValidateLuhn_None_iff digit_value_inject insert_commute split: if_splits)
  then show ?thesis
    using assms by (auto simp: ValidateLuhn_None_iff ValidateLuhn_def Let_def luhn_sum_def)
qed

theorem luhn_detects_swap_witness:
  "ValidateLuhn ''4111111111111111'' = None \<and> ValidateLuhn ''1411111111111111'' \<noteq> None"
proof -
  have "ValidateLuhn ''4111111111111111'' = None" by code_simp
  moreover have "digit_char CHR ''4''" "digit_char CHR ''1''" by code_simp+
  ultimately show ?thesis
    using luhn_detects_swap [of "[]" "CHR ''4''" "CHR ''1''" "''11111111111111''"]
    by (simp add: doubleton_eq_iff)
qed

text \<open>The clock is read after the check of the month; the messages leave out the formatted date.\<close>

definition ValidateExpiry :: "BankEnv \<Rightarrow> int \<Rightarrow> int \<Rightarrow> string option bank_action" where
  "ValidateExpiry env expiryMonth expiryYear =
   (if expiryMonth < 1 \<or> 12 < expiryMonth then act_return (Some ''invalid month: must be between 1 and 12'')
    else act_bind (bank_now env) (\<lambda>now.
      let (currentYear, currentMonth) = be_calendar env now in
      if expiryYear < currentYear then act_return (Some ''card expired'')
      else if expiryYear = currentYear \<and> expiryMonth < currentMonth then act_return (Some ''card expired'')
      else act_return None))"

subsection \<open>Repositories\<close>

text \<open>The primary key and the partial unique index on reference and type.\<close>

definition unique_violation :: "Transaction \<Rightarrow> Transaction list \<Rightarrow> bool" where
  "unique_violation t ts \<longleftrightarrow>
     list_ex (\<lambda>u. txn_ID u = txn_ID t \<or>
        txn_ReferenceID t \<noteq> None \<and> txn_ReferenceID u = txn_ReferenceID t \<and> txn_Type u = txn_Type t \<and>
        txn_Type t \<noteq> TransactionTypeAuthHold) ts"

definition txn_stored :: "BankEnv \<Rightarrow> Transaction \<Rightarrow> Transaction" where
  "txn_stored env t = t\<lparr>txn_ExpiresAt := map_option (be_stored env) (txn_ExpiresAt t),
                        txn_CreatedAt := be_stored env (txn_CreatedAt t)\<rparr>"

definition uuid_Nil :: uuid where
  "uuid_Nil = ''00000000-0000-0000-0000-000000000000''"

definition txn_insert :: "BankEnv \<Rightarrow> Transaction \<Rightarrow> Transaction bank_action" where
  "txn_insert env t =
   bank_exec ''failed to create transaction'' (\<lambda>s.
     if unique_violation t (bk_txns s) then Inl ErrDuplicateTransaction
     else if lookup_row acc_ID (bk_accounts s) (txn_AccountID t) = None
       then Inl (PlainError ''failed to create transaction'')
     else Inr (t, s\<lparr>bk_txns := sql_insert (txn_stored env t) (bk_txns s)\<rparr>))"

text \<open>\<^verbatim>\<open>Create\<close> fills in a missing identifier through its pointer; here it returns the transaction.\<close>

definition txn_Create :: "BankEnv \<Rightarrow> Transaction \<Rightarrow> Transaction bank_action" where
  "txn_Create env t =
   (if txn_ID t = uuid_Nil then act_bind (uuid_New env) (\<lambda>tid. txn_insert env (t\<lparr>txn_ID := tid\<rparr>))
    else txn_insert env t)"

definition txn_FindByID :: "uuid \<Rightarrow> Transaction bank_action" where
  "txn_FindByID tid =
   bank_exec ''failed to find transaction'' (\<lambda>s.
     case lookup_row txn_ID (bk_txns s) tid of
       None \<Rightarrow> Inl (PlainError ''transaction not found'') | Some t \<Rightarrow> Inr (t, s))"

text \<open>The row lock of \<^verbatim>\<open>FOR UPDATE\<close> is what lets a transaction be one step here.\<close>

definition txn_FindByIDForUpdate :: "uuid \<Rightarrow> Transaction bank_action" where
  "txn_FindByIDForUpdate tid =
   bank_exec ''failed to find transaction'' (\<lambda>s.
     case lookup_row txn_ID (bk_txns s) tid of
       None \<Rightarrow> Inl (PlainError ''transaction not found'') | Some t \<Rightarrow> Inr (t, s))"

definition txn_FindByReferenceID :: "uuid \<Rightarrow> TransactionType \<Rightarrow> Transaction option bank_action" where
  "txn_FindByReferenceID refID txnType =
   bank_exec ''failed to find transaction by reference'' (\<lambda>s.
     Inr (find (\<lambda>t. txn_ReferenceID t = Some refID \<and> txn_Type t = txnType) (bk_txns s), s))"

definition txn_UpdateStatus :: "uuid \<Rightarrow> TransactionStatus \<Rightarrow> unit bank_action" where
  "txn_UpdateStatus tid st =
   act_bind (bank_exec ''failed to update transaction status'' (\<lambda>s.
     Inr (sql_count (\<lambda>t. txn_ID t = tid) (bk_txns s),
          s\<lparr>bk_txns := sql_update (\<lambda>t. txn_ID t = tid) (txn_Status_update (\<lambda>_. st)) (bk_txns s)\<rparr>)))
   (\<lambda>rows. if rows = 0 then act_fail (PlainError ''transaction not found'') else act_return ())"

definition acc_FindByID :: "uuid \<Rightarrow> Account bank_action" where
  "acc_FindByID aid =
   bank_exec ''failed to find account by id'' (\<lambda>s.
     case lookup_row acc_ID (bk_accounts s) aid of
       None \<Rightarrow> Inl (PlainError ''account not found'') | Some a \<Rightarrow> Inr (a, s))"

definition acc_FindByAccountNumber :: "string \<Rightarrow> Account bank_action" where
  "acc_FindByAccountNumber number =
   bank_exec ''failed to find account by account number'' (\<lambda>s.
     case lookup_row acc_AccountNumber (bk_accounts s) number of
       None \<Rightarrow> Inl (PlainError ''account not found'') | Some a \<Rightarrow> Inr (a, s))"

definition acc_FindByAccountNumberForUpdate :: "string \<Rightarrow> Account bank_action" where
  "acc_FindByAccountNumberForUpdate number =
   bank_exec ''failed to find and lock account'' (\<lambda>s.
     case lookup_row acc_AccountNumber (bk_accounts s) number of
       None \<Rightarrow> Inl (PlainError ''account not found'') | Some a \<Rightarrow> Inr (a, s))"

definition adjusted :: "int \<Rightarrow> int \<Rightarrow> time \<Rightarrow> Account \<Rightarrow> Account" where
  "adjusted balanceDelta availableDelta now a =
     a\<lparr>acc_BalanceCents := acc_BalanceCents a + balanceDelta,
       acc_AvailableBalanceCents := acc_AvailableBalanceCents a + availableDelta, acc_UpdatedAt := now\<rparr>"

definition balances_fit :: "Account \<Rightarrow> bool" where
  "balances_fit a \<longleftrightarrow> int64 (acc_BalanceCents a) \<and> int64 (acc_AvailableBalanceCents a)"

text \<open>\<^verbatim>\<open>UPDATE accounts\<close>: a \<^verbatim>\<open>BIGINT\<close> out of range is an error of the statement.\<close>

definition acc_AdjustBalances :: "BankEnv \<Rightarrow> uuid \<Rightarrow> int \<Rightarrow> int \<Rightarrow> unit bank_action" where
  "acc_AdjustBalances env accountID balanceDelta availableDelta =
   act_bind (bank_exec ''failed to adjust account balances'' (\<lambda>s.
     let hit = (\<lambda>a. acc_ID a = accountID);
         new = adjusted balanceDelta availableDelta (be_pgNow env (bk_ticks s)) in
     if list_ex (\<lambda>a. hit a \<and> \<not> balances_fit (new a)) (bk_accounts s)
     then Inl (PlainError ''failed to adjust account balances'')
     else Inr (sql_count hit (bk_accounts s), s\<lparr>bk_accounts := sql_update hit new (bk_accounts s)\<rparr>)))
   (\<lambda>rows. if rows = 0 then act_fail (PlainError ''account not found'') else act_return ())"

text \<open>The cache of idempotent responses.\<close>

definition idem_Get :: "string \<Rightarrow> string \<Rightarrow> IdempotencyKey option bank_action" where
  "idem_Get key path =
   bank_exec ''failed to get idempotency key'' (\<lambda>s.
     Inr (lookup_row (\<lambda>k. (idk_Key k, idk_RequestPath k)) (bk_keys s) (key, path), s))"

text \<open>\<^verbatim>\<open>VARCHAR(255)\<close> and \<^verbatim>\<open>VARCHAR(100)\<close> bound what the insert accepts.\<close>

definition idem_Store :: "BankEnv \<Rightarrow> IdempotencyKey \<Rightarrow> unit bank_action" where
  "idem_Store env k =
   bank_exec ''failed to store idempotency key'' (\<lambda>s.
     if \<not> be_fits env 255 (idk_Key k) \<or> \<not> be_fits env 100 (idk_RequestPath k)
     then Inl (PlainError ''failed to store idempotency key'')
     else Inr ((), case lookup_row (\<lambda>k. (idk_Key k, idk_RequestPath k)) (bk_keys s) (idk_Key k, idk_RequestPath k) of
       None \<Rightarrow> s\<lparr>bk_keys := sql_insert (k\<lparr>idk_CreatedAt := be_stored env (idk_CreatedAt k)\<rparr>) (bk_keys s)\<rparr>
     | Some _ \<Rightarrow> s))"

definition idem_DeleteOlderThan :: "BankEnv \<Rightarrow> time \<Rightarrow> nat bank_action" where
  "idem_DeleteOlderThan env before =
   bank_exec ''failed to delete old idempotency keys'' (\<lambda>s.
     let old = (\<lambda>k. idk_CreatedAt k < be_stored env before) in
     Inr (sql_count old (bk_keys s), s\<lparr>bk_keys := sql_delete old (bk_keys s)\<rparr>))"

end
