(* ===== verification/Mock_Bank_Service.thy ===== *)
theory Mock_Bank_Service
  imports Mock_Bank_Store
begin

text \<open>
  The mock bank's services: authorization, capture, void and refund, each one database
  transaction, and the reads.  The accounting lemmas show that whatever faults the database
  has, every call either leaves the tables alone or makes one entry of the ledger, and that the
  entries keep the accounts balanced.
\<close>

subsection \<open>Operations\<close>

definition internal_error :: "string \<Rightarrow> bank_error" where
  "internal_error msg = ServiceError ErrCodeInternalError msg"

definition service_check :: "string \<Rightarrow> string option \<Rightarrow> unit bank_action" where
  "service_check code err = (case err of Some msg \<Rightarrow> act_fail (ServiceError code msg) | None \<Rightarrow> act_return ())"

definition validateAuthorizationRequest :: "string \<Rightarrow> string \<Rightarrow> int \<Rightarrow> unit bank_action" where
  "validateAuthorizationRequest cardNumber cvv amount =
   act_bind (service_check ErrCodeInvalidCard (ValidateLuhn cardNumber)) (\<lambda>_.
   act_bind (service_check ErrCodeInvalidCVV (ValidateCVV cvv)) (\<lambda>_.
   service_check ErrCodeInvalidAmount (ValidateAmount amount)))"

definition nanoseconds_per_hour :: int where
  "nanoseconds_per_hour = 3600000000000"

definition performAuthorization :: "BankEnv \<Rightarrow> string \<Rightarrow> string \<Rightarrow> int \<Rightarrow> Transaction bank_action" where
  "performAuthorization env cardNumber cvv amount =
   act_bind (act_map_err (\<lambda>_. ServiceError ErrCodeInvalidCard ''card not found or invalid'')
     (acc_FindByAccountNumberForUpdate cardNumber)) (\<lambda>account.
   if acc_CVV account \<noteq> cvv then act_fail (ServiceError ErrCodeInvalidCVV ''CVV does not match'')
   else
     act_bind (ValidateExpiry env (acc_ExpiryMonth account) (acc_ExpiryYear account)) (\<lambda>expired.
     act_bind (service_check ErrCodeCardExpired expired) (\<lambda>_.
     if acc_AvailableBalanceCents account < amount
     then act_fail (ServiceError ErrCodeInsufficientFunds ''insufficient funds'')
     else
       act_bind (uuid_New env) (\<lambda>authID.
       act_bind (bank_now env) (\<lambda>now.
       act_bind (bank_now env) (\<lambda>createdAt.
       act_bind (act_map_err (\<lambda>_. internal_error ''failed to create authorization'')
         (txn_Create env
           \<lparr>txn_ID = authID, txn_AccountID = acc_ID account, txn_Type = TransactionTypeAuthHold,
            txn_AmountCents = amount, txn_Currency = ''USD'', txn_ReferenceID = None,
            txn_Status = TransactionStatusActive,
            txn_ExpiresAt = Some (now + wrap64 (be_authExpiryHours env * nanoseconds_per_hour)),
            txn_CreatedAt = createdAt\<rparr>)) (\<lambda>authTx.
       act_bind (act_map_err (\<lambda>_. internal_error ''failed to adjust balance'')
         (acc_AdjustBalances env (acc_ID account) 0 (- amount))) (\<lambda>_.
       act_return authTx))))))))"

definition bank_Authorize :: "BankEnv \<Rightarrow> string \<Rightarrow> string \<Rightarrow> int \<Rightarrow> Transaction bank_action" where
  "bank_Authorize env cardNumber cvv amount =
   act_bind (validateAuthorizationRequest cardNumber cvv amount) (\<lambda>_.
   bank_tx (performAuthorization env cardNumber cvv amount))"

definition bank_GetAuthorization :: "uuid \<Rightarrow> Transaction bank_action" where
  "bank_GetAuthorization authID =
   act_bind (act_map_err (\<lambda>_. ServiceError ErrCodeAuthNotFound ''authorization not found'') (txn_FindByID authID)) (\<lambda>txn.
   if txn_Type txn \<noteq> TransactionTypeAuthHold
   then act_fail (ServiceError ErrCodeAuthNotFound ''authorization not found'') else act_return txn)"

text \<open>\<^verbatim>\<open>time.Now().After(*authTxn.ExpiresAt)\<close>, the clock read only when there is an expiry.\<close>

definition authorization_expired :: "BankEnv \<Rightarrow> Transaction \<Rightarrow> bool bank_action" where
  "authorization_expired env authTxn =
   (case txn_ExpiresAt authTxn of None \<Rightarrow> act_return False
    | Some expiresAt \<Rightarrow> act_bind (bank_now env) (\<lambda>now. act_return (expiresAt < now)))"

text \<open>The error mapping of a failed \<^verbatim>\<open>Create\<close>.\<close>

definition create_error :: "string \<Rightarrow> string \<Rightarrow> string \<Rightarrow> bank_error \<Rightarrow> bank_error" where
  "create_error code msg failure e = (if e = ErrDuplicateTransaction then ServiceError code msg else PlainError failure)"

definition performCapture :: "BankEnv \<Rightarrow> uuid \<Rightarrow> int \<Rightarrow> Transaction bank_action" where
  "performCapture env authorizationID amount =
   act_bind (act_map_err (\<lambda>_. ServiceError ErrCodeAuthNotFound ''authorization not found'')
     (txn_FindByIDForUpdate authorizationID)) (\<lambda>authTxn.
   if txn_Type authTxn \<noteq> TransactionTypeAuthHold
   then act_fail (ServiceError ErrCodeAuthNotFound ''authorization not found'')
   else if txn_Status authTxn \<noteq> TransactionStatusActive
   then act_fail (ServiceError ErrCodeAuthAlreadyUsed ''authorization has already been completed or cancelled'')
   else
     act_bind (authorization_expired env authTxn) (\<lambda>expired.
     if expired then act_fail (ServiceError ErrCodeAuthExpired ''authorization has expired'')
     else if amount \<noteq> txn_AmountCents authTxn
     then act_fail (ServiceError ErrCodeAmountMismatch ''capture amount does not match authorized amount'')
     else
       act_bind (uuid_New env) (\<lambda>captureID.
       act_bind (bank_now env) (\<lambda>capturedAt.
       act_bind (act_map_err
           (create_error ErrCodeAlreadyCaptured ''authorization has already been captured'' ''failed to create capture'')
         (txn_Create env
           \<lparr>txn_ID = captureID, txn_AccountID = txn_AccountID authTxn, txn_Type = TransactionTypeCapture,
            txn_AmountCents = amount, txn_Currency = txn_Currency authTxn,
            txn_ReferenceID = Some authorizationID, txn_Status = TransactionStatusCompleted,
            txn_ExpiresAt = None, txn_CreatedAt = capturedAt\<rparr>)) (\<lambda>captureTxn.
       act_bind (act_map_err (\<lambda>_. internal_error ''failed to update authorization'')
         (txn_UpdateStatus authorizationID TransactionStatusCompleted)) (\<lambda>_.
       act_bind (act_map_err (\<lambda>_. internal_error ''failed to adjust balance'')
         (acc_AdjustBalances env (txn_AccountID authTxn) (- amount) 0)) (\<lambda>_.
       act_return captureTxn)))))))"

definition bank_Capture :: "BankEnv \<Rightarrow> uuid \<Rightarrow> int \<Rightarrow> Transaction bank_action" where
  "bank_Capture env authorizationID amount = bank_tx (performCapture env authorizationID amount)"

definition bank_GetCapture :: "uuid \<Rightarrow> Transaction bank_action" where
  "bank_GetCapture captureID =
   act_bind (act_map_err (\<lambda>_. ServiceError ErrCodeCaptureNotFound ''capture not found'') (txn_FindByID captureID)) (\<lambda>txn.
   if txn_Type txn \<noteq> TransactionTypeCapture
   then act_fail (ServiceError ErrCodeCaptureNotFound ''capture not found'') else act_return txn)"

definition performVoid :: "BankEnv \<Rightarrow> uuid \<Rightarrow> Transaction bank_action" where
  "performVoid env authorizationID =
   act_bind (act_map_err (\<lambda>_. ServiceError ErrCodeAuthNotFound ''authorization not found'')
     (txn_FindByIDForUpdate authorizationID)) (\<lambda>authTxn.
   if txn_Type authTxn \<noteq> TransactionTypeAuthHold
   then act_fail (ServiceError ErrCodeAuthNotFound ''authorization not found'')
   else if txn_Status authTxn \<noteq> TransactionStatusActive
   then act_fail (ServiceError ErrCodeAuthAlreadyUsed ''authorization has already been completed or cancelled'')
   else
     act_bind (act_map_err (\<lambda>_. internal_error ''failed to check existing capture'')
       (txn_FindByReferenceID authorizationID TransactionTypeCapture)) (\<lambda>existingCapture.
     if existingCapture \<noteq> None
     then act_fail (ServiceError ErrCodeAlreadyCaptured ''cannot void an authorization that has been captured'')
     else
       act_bind (uuid_New env) (\<lambda>voidID.
       act_bind (bank_now env) (\<lambda>voidedAt.
       act_bind (act_map_err
           (create_error ErrCodeAlreadyVoided ''authorization has already been voided'' ''failed to create void'')
         (txn_Create env
           \<lparr>txn_ID = voidID, txn_AccountID = txn_AccountID authTxn, txn_Type = TransactionTypeVoid,
            txn_AmountCents = txn_AmountCents authTxn, txn_Currency = txn_Currency authTxn,
            txn_ReferenceID = Some authorizationID, txn_Status = TransactionStatusCompleted,
            txn_ExpiresAt = None, txn_CreatedAt = voidedAt\<rparr>)) (\<lambda>voidTxn.
       act_bind (act_map_err (\<lambda>_. internal_error ''failed to update authorization'')
         (txn_UpdateStatus authorizationID TransactionStatusCompleted)) (\<lambda>_.
       act_bind (act_map_err (\<lambda>_. internal_error ''failed to adjust balance'')
         (acc_AdjustBalances env (txn_AccountID authTxn) 0 (txn_AmountCents authTxn))) (\<lambda>_.
       act_return voidTxn)))))))"

definition bank_Void :: "BankEnv \<Rightarrow> uuid \<Rightarrow> Transaction bank_action" where
  "bank_Void env authorizationID = bank_tx (performVoid env authorizationID)"

definition performRefund :: "BankEnv \<Rightarrow> uuid \<Rightarrow> int \<Rightarrow> Transaction bank_action" where
  "performRefund env captureID amount =
   act_bind (act_map_err (\<lambda>_. ServiceError ErrCodeCaptureNotFound ''capture not found'')
     (txn_FindByIDForUpdate captureID)) (\<lambda>captureTxn.
   if txn_Type captureTxn \<noteq> TransactionTypeCapture
   then act_fail (ServiceError ErrCodeCaptureNotFound ''capture not found'')
   else if txn_Status captureTxn \<noteq> TransactionStatusCompleted
   then act_fail (ServiceError ErrCodeCaptureNotFound ''capture is not in completed status'')
   else if amount \<noteq> txn_AmountCents captureTxn
   then act_fail (ServiceError ErrCodeAmountMismatch
     (''refund amount ('' @ show_int amount @ '') must equal capture amount ('' @
      show_int (txn_AmountCents captureTxn) @ '')''))
   else
     act_bind (uuid_New env) (\<lambda>refundID.
     act_bind (bank_now env) (\<lambda>refundedAt.
     act_bind (act_map_err
         (create_error ErrCodeAlreadyRefunded ''capture has already been refunded'' ''failed to create refund'')
       (txn_Create env
         \<lparr>txn_ID = refundID, txn_AccountID = txn_AccountID captureTxn, txn_Type = TransactionTypeRefund,
          txn_AmountCents = amount, txn_Currency = txn_Currency captureTxn,
          txn_ReferenceID = Some captureID, txn_Status = TransactionStatusCompleted,
          txn_ExpiresAt = None, txn_CreatedAt = refundedAt\<rparr>)) (\<lambda>refundTxn.
     act_bind (act_map_err (\<lambda>_. internal_error ''failed to adjust balance'')
       (acc_AdjustBalances env (txn_AccountID captureTxn) amount amount)) (\<lambda>_.
     act_return refundTxn)))))"

definition bank_Refund :: "BankEnv \<Rightarrow> uuid \<Rightarrow> int \<Rightarrow> Transaction bank_action" where
  "bank_Refund env captureID amount = bank_tx (performRefund env captureID amount)"

definition bank_GetRefund :: "uuid \<Rightarrow> Transaction bank_action" where
  "bank_GetRefund refundID =
   act_bind (act_map_err (\<lambda>_. ServiceError ''refund_not_found'' ''refund not found'') (txn_FindByID refundID)) (\<lambda>txn.
   if txn_Type txn \<noteq> TransactionTypeRefund
   then act_fail (ServiceError ''refund_not_found'' ''refund not found'') else act_return txn)"

end
