(* ===== verification/Mock_Bank_Ledger.thy ===== *)
theory Mock_Bank_Ledger
  imports Mock_Bank_Service
begin

text \<open>
  The accounting of the mock bank.  \<open>bank_entry\<close> lists the four entries its services may make in
  the tables; every service call, with whatever faults of the database, makes one of them or
  none.  The entries keep the books: an account's balance is its opening balance less what was
  captured plus what was refunded, its available balance is the balance less the active holds
  and never negative, an authorization is settled at most once, and a capture is refunded at
  most once and in full.
\<close>

type_synonym bank_tables = "Account list \<times> Transaction list"

definition tables_of :: "BankState \<Rightarrow> bank_tables" where
  "tables_of s = (bk_accounts s, bk_txns s)"

subsection \<open>What a statement that succeeded did\<close>

lemma next_fault_tables [simp]: "tables_of (snd (next_fault s)) = tables_of s"
  by (simp add: next_fault_def tables_of_def split: list.split)

lemma bank_exec_Inr:
  assumes "bank_exec f stmt s = (Inr x, u)"
  obtains s1 where "tables_of s1 = tables_of s" "stmt s1 = Inr (x, u)"
proof (cases "next_fault s")
  case (Pair f s1)
  with assms have "stmt s1 = Inr (x, u)"
    by (auto simp: bank_exec_def split: bank_fault.splits sum.splits)
  with Pair next_fault_tables [of s] show thesis by (intro that) simp_all
qed

lemma bank_now_tables: "bank_now env s = (Inr x, u) \<Longrightarrow> tables_of u = tables_of s"
  by (auto simp: bank_now_def tables_of_def)

lemma uuid_New_tables: "uuid_New env s = (Inr x, u) \<Longrightarrow> tables_of u = tables_of s"
  by (auto simp: uuid_New_def tables_of_def)

lemma txn_FindByIDForUpdate_Inr:
  "txn_FindByIDForUpdate tid s = (Inr t, u) \<Longrightarrow>
     lookup_row txn_ID (bk_txns s) tid = Some t \<and> tables_of u = tables_of s"
  by (auto simp: txn_FindByIDForUpdate_def tables_of_def elim!: bank_exec_Inr split: option.splits)

lemma acc_FindByAccountNumberForUpdate_Inr:
  "acc_FindByAccountNumberForUpdate number s = (Inr a, u) \<Longrightarrow>
     lookup_row acc_AccountNumber (bk_accounts s) number = Some a \<and> tables_of u = tables_of s"
  by (auto simp: acc_FindByAccountNumberForUpdate_def tables_of_def elim!: bank_exec_Inr split: option.splits)

lemma txn_FindByReferenceID_Inr:
  "txn_FindByReferenceID refID ty s = (Inr r, u) \<Longrightarrow>
     r = find (\<lambda>t. txn_ReferenceID t = Some refID \<and> txn_Type t = ty) (bk_txns s) \<and> tables_of u = tables_of s"
  by (auto simp: txn_FindByReferenceID_def tables_of_def elim!: bank_exec_Inr)

lemma txn_Create_Inr:
  assumes "txn_Create env t s = (Inr t', u)"
  shows "\<exists>tid. t' = t\<lparr>txn_ID := tid\<rparr> \<and> \<not> unique_violation t' (bk_txns s) \<and>
    tables_of u = (bk_accounts s, bk_txns s @ [txn_stored env t'])"
proof -
  have ins: "t2 = t1 \<and> \<not> unique_violation t1 (bk_txns s1) \<and>
      tables_of u1 = (bk_accounts s1, bk_txns s1 @ [txn_stored env t1])"
    if "txn_insert env t1 s1 = (Inr t2, u1)" for t1 t2 s1 u1
    using that by (auto simp: txn_insert_def tables_of_def sql_insert_def elim!: bank_exec_Inr split: if_splits)
  show ?thesis
  proof (cases "txn_ID t = uuid_Nil")
    case True
    with assms show ?thesis
      by (fastforce simp: txn_Create_def act_bind_Inr_iff dest: ins uuid_New_tables simp: tables_of_def)
  next
    case False
    with assms show ?thesis
      by (intro exI [of _ "txn_ID t"]) (auto simp: txn_Create_def dest: ins)
  qed
qed

lemma txn_UpdateStatus_Inr:
  "txn_UpdateStatus tid st s = (Inr x, u) \<Longrightarrow>
     tables_of u = (bk_accounts s, sql_update (\<lambda>t. txn_ID t = tid) (txn_Status_update (\<lambda>_. st)) (bk_txns s))"
  by (auto simp: txn_UpdateStatus_def act_bind_Inr_iff tables_of_def elim!: bank_exec_Inr split: if_splits)

lemma acc_AdjustBalances_Inr:
  assumes "acc_AdjustBalances env aid db da s = (Inr x, u)"
  shows "\<exists>now. tables_of u = (sql_update (\<lambda>a. acc_ID a = aid) (adjusted db da now) (bk_accounts s), bk_txns s) \<and>
    (\<forall>a\<in>set (bk_accounts s). acc_ID a = aid \<longrightarrow> balances_fit (adjusted db da now a))"
proof -
  obtain s1 where "tables_of s1 = tables_of s"
    "tables_of u = (sql_update (\<lambda>a. acc_ID a = aid) (adjusted db da (be_pgNow env (bk_ticks s1))) (bk_accounts s1), bk_txns s1)"
    "\<forall>a\<in>set (bk_accounts s1). acc_ID a = aid \<longrightarrow> balances_fit (adjusted db da (be_pgNow env (bk_ticks s1)) a)"
    using assms
    by (auto simp: acc_AdjustBalances_def act_bind_Inr_iff tables_of_def Let_def list_ex_iff
        elim!: bank_exec_Inr split: if_splits)
  then show ?thesis by (intro exI [of _ "be_pgNow env (bk_ticks s1)"]) (simp add: tables_of_def)
qed

text \<open>A transaction changes the tables only by what its body did before a successful return.\<close>

lemma bank_tx_cases:
  assumes "bank_tx body s = (r, u)"
  obtains (unchanged) e where "r = Inl e" "tables_of u = tables_of s"
  | (entered) x s0 s1 where "tables_of s0 = tables_of s" "body s0 = (Inr x, s1)" "tables_of u = tables_of s1"
      "r = Inr x \<or> r = Inl (internal_error ''failed to commit transaction'')"
proof -
  have t: "tables_of (bank_rollback a b) = tables_of a" for a b
    by (simp add: bank_rollback_def tables_of_def)
  show thesis
  proof (cases "next_fault s")
    case (Pair f s0)
    then have s0: "tables_of s0 = tables_of s" using next_fault_tables [of s] by simp
    show thesis
    proof (cases "body s0")
      case body: (Pair r1 s1)
      have "tables_of (snd (next_fault s1)) = tables_of s1" by simp
      with assms Pair s0 body t that show thesis
        by (cases f; cases r1; cases "next_fault s1"; cases "fst (next_fault s1)")
           (auto simp: bank_tx_def internal_error_def)
    qed
  qed
qed

subsection \<open>Entries\<close>

definition adjust_account :: "uuid \<Rightarrow> int \<Rightarrow> int \<Rightarrow> time \<Rightarrow> Account list \<Rightarrow> Account list" where
  "adjust_account aid db da now A = sql_update (\<lambda>a. acc_ID a = aid) (adjusted db da now) A"

definition adjust_fits :: "uuid \<Rightarrow> int \<Rightarrow> int \<Rightarrow> time \<Rightarrow> Account list \<Rightarrow> bool" where
  "adjust_fits aid db da now A \<longleftrightarrow> (\<forall>a\<in>set A. acc_ID a = aid \<longrightarrow> balances_fit (adjusted db da now a))"

definition complete_txn :: "uuid \<Rightarrow> Transaction list \<Rightarrow> Transaction list" where
  "complete_txn tid T = sql_update (\<lambda>t. txn_ID t = tid) (txn_Status_update (\<lambda>_. TransactionStatusCompleted)) T"

text \<open>\<open>t\<close> follows up \<open>orig\<close>: it refers to it, on the same account and over the same amount.\<close>

definition follows :: "Transaction \<Rightarrow> Transaction \<Rightarrow> bool" where
  "follows t orig \<longleftrightarrow> txn_ReferenceID t = Some (txn_ID orig) \<and> txn_AccountID t = txn_AccountID orig \<and>
     txn_AmountCents t = txn_AmountCents orig \<and> txn_Currency t = txn_Currency orig \<and>
     txn_Status t = TransactionStatusCompleted"

inductive bank_entry :: "bank_tables \<Rightarrow> Transaction \<Rightarrow> bank_tables \<Rightarrow> bool" where
  hold: "a \<in> set A \<Longrightarrow> txn_AccountID t = acc_ID a \<Longrightarrow> 0 < txn_AmountCents t \<Longrightarrow>
    txn_AmountCents t \<le> acc_AvailableBalanceCents a \<Longrightarrow> txn_Type t = TransactionTypeAuthHold \<Longrightarrow>
    txn_Status t = TransactionStatusActive \<Longrightarrow> txn_ReferenceID t = None \<Longrightarrow> \<not> unique_violation t T \<Longrightarrow>
    adjust_fits (acc_ID a) 0 (- txn_AmountCents t) now A \<Longrightarrow>
    bank_entry (A, T) t (adjust_account (acc_ID a) 0 (- txn_AmountCents t) now A, T @ [t])"
| capture: "orig \<in> set T \<Longrightarrow> txn_Type orig = TransactionTypeAuthHold \<Longrightarrow> txn_Status orig = TransactionStatusActive \<Longrightarrow>
    follows t orig \<Longrightarrow> txn_Type t = TransactionTypeCapture \<Longrightarrow> \<not> unique_violation t T \<Longrightarrow>
    adjust_fits (txn_AccountID t) (- txn_AmountCents t) 0 now A \<Longrightarrow>
    bank_entry (A, T) t (adjust_account (txn_AccountID t) (- txn_AmountCents t) 0 now A,
      complete_txn (txn_ID orig) (T @ [t]))"
| void: "orig \<in> set T \<Longrightarrow> txn_Type orig = TransactionTypeAuthHold \<Longrightarrow> txn_Status orig = TransactionStatusActive \<Longrightarrow>
    follows t orig \<Longrightarrow> txn_Type t = TransactionTypeVoid \<Longrightarrow> \<not> unique_violation t T \<Longrightarrow>
    adjust_fits (txn_AccountID t) 0 (txn_AmountCents t) now A \<Longrightarrow>
    bank_entry (A, T) t (adjust_account (txn_AccountID t) 0 (txn_AmountCents t) now A,
      complete_txn (txn_ID orig) (T @ [t]))"
| refund: "orig \<in> set T \<Longrightarrow> txn_Type orig = TransactionTypeCapture \<Longrightarrow>
    follows t orig \<Longrightarrow> txn_Type t = TransactionTypeRefund \<Longrightarrow> \<not> unique_violation t T \<Longrightarrow>
    adjust_fits (txn_AccountID t) (txn_AmountCents t) (txn_AmountCents t) now A \<Longrightarrow>
    bank_entry (A, T) t (adjust_account (txn_AccountID t) (txn_AmountCents t) (txn_AmountCents t) now A, T @ [t])"

lemma txn_stored_simps [simp]:
  "txn_ID (txn_stored env t) = txn_ID t" "txn_AccountID (txn_stored env t) = txn_AccountID t"
  "txn_Type (txn_stored env t) = txn_Type t" "txn_AmountCents (txn_stored env t) = txn_AmountCents t"
  "txn_Currency (txn_stored env t) = txn_Currency t" "txn_ReferenceID (txn_stored env t) = txn_ReferenceID t"
  "txn_Status (txn_stored env t) = txn_Status t"
  by (simp_all add: txn_stored_def)

lemma unique_violation_stored [simp]: "unique_violation (txn_stored env t) T = unique_violation t T"
  by (simp add: unique_violation_def)

lemma tables_ofD:
  assumes "tables_of s = (A, T)"
  shows "bk_accounts s = A" "bk_txns s = T"
  using assms by (simp_all add: tables_of_def)

lemma ValidateExpiry_tables: "ValidateExpiry env m y s = (Inr r, u) \<Longrightarrow> tables_of u = tables_of s"
  by (auto simp: ValidateExpiry_def act_bind_Inr_iff Let_def case_prod_beta dest!: bank_now_tables split: if_splits)

lemma authorization_expired_tables: "authorization_expired env t s = (Inr r, u) \<Longrightarrow> tables_of u = tables_of s"
  by (auto simp: authorization_expired_def act_bind_Inr_iff dest!: bank_now_tables split: option.splits)

lemma service_check_Inr [simp]: "service_check code err s = (Inr x, u) \<longleftrightarrow> err = None \<and> u = s"
  by (auto simp: service_check_def split: option.splits)

lemma performAuthorization_entry:
  assumes "performAuthorization env number cvv amount s = (Inr t, u)" "0 < amount"
  shows "bank_entry (tables_of s) (txn_stored env t) (tables_of u)"
proof -
  obtain a s1 s2 s3 s4 where a: "lookup_row acc_AccountNumber (bk_accounts s) number = Some a"
    and t1: "tables_of s1 = tables_of s" and av: "amount \<le> acc_AvailableBalanceCents a"
    and c: "txn_Create env s2 s1 = (Inr t, s3)"
    and t0: "txn_AccountID s2 = acc_ID a" "txn_Type s2 = TransactionTypeAuthHold" "txn_AmountCents s2 = amount"
      "txn_ReferenceID s2 = None" "txn_Status s2 = TransactionStatusActive"
    and adj: "acc_AdjustBalances env (acc_ID a) 0 (- amount) s3 = (Inr s4, u)"
    using assms(1)
    by (fastforce simp: performAuthorization_def act_bind_Inr_iff not_less
        dest!: acc_FindByAccountNumberForUpdate_Inr ValidateExpiry_tables uuid_New_tables bank_now_tables
        split: if_splits)
  obtain tid where tid: "t = s2\<lparr>txn_ID := tid\<rparr>" "\<not> unique_violation t (bk_txns s1)"
    and t3: "tables_of s3 = (bk_accounts s1, bk_txns s1 @ [txn_stored env t])"
    using txn_Create_Inr [OF c] by blast
  obtain now where now: "tables_of u = (adjust_account (acc_ID a) 0 (- amount) now (bk_accounts s3), bk_txns s3)"
    and fits: "adjust_fits (acc_ID a) 0 (- amount) now (bk_accounts s3)"
    using acc_AdjustBalances_Inr [OF adj] by (auto simp: adjust_account_def adjust_fits_def)
  have "a \<in> set (bk_accounts s)" using a by (auto dest: lookup_row_SomeD)
  then show ?thesis
    using bank_entry.hold [of a "bk_accounts s" "txn_stored env t" "bk_txns s" now]
      tables_ofD [OF t3] t1 now fits tid t0 av assms(2)
    by (simp add: tables_of_def)
qed

lemma performCapture_entry:
  assumes "performCapture env authorizationID amount s = (Inr t, u)"
  shows "bank_entry (tables_of s) (txn_stored env t) (tables_of u)"
proof -
  obtain orig s1 t0 s2 x s3 s4 where o: "lookup_row txn_ID (bk_txns s) authorizationID = Some orig"
    and ty: "txn_Type orig = TransactionTypeAuthHold" "txn_Status orig = TransactionStatusActive"
    and t1: "tables_of s1 = tables_of s" and c: "txn_Create env t0 s1 = (Inr t, s2)"
    and t0: "txn_AccountID t0 = txn_AccountID orig" "txn_Type t0 = TransactionTypeCapture"
      "txn_AmountCents t0 = txn_AmountCents orig" "txn_Currency t0 = txn_Currency orig"
      "txn_ReferenceID t0 = Some authorizationID" "txn_Status t0 = TransactionStatusCompleted"
    and up: "txn_UpdateStatus authorizationID TransactionStatusCompleted s2 = (Inr x, s3)"
    and adj: "acc_AdjustBalances env (txn_AccountID orig) (- txn_AmountCents orig) (0) s3 = (Inr s4, u)"
    using assms
    by (fastforce simp: performCapture_def act_bind_Inr_iff
        dest!: txn_FindByIDForUpdate_Inr txn_FindByReferenceID_Inr authorization_expired_tables uuid_New_tables bank_now_tables
        split: if_splits)
  obtain tid where tid: "t = t0\<lparr>txn_ID := tid\<rparr>" "\<not> unique_violation t (bk_txns s1)"
    and t2: "tables_of s2 = (bk_accounts s1, bk_txns s1 @ [txn_stored env t])"
    using txn_Create_Inr [OF c] by blast
  obtain now where now: "tables_of u = (adjust_account (txn_AccountID orig) (- txn_AmountCents orig) (0) now (bk_accounts s3), bk_txns s3)"
    and fits: "adjust_fits (txn_AccountID orig) (- txn_AmountCents orig) (0) now (bk_accounts s3)"
    using acc_AdjustBalances_Inr [OF adj] by (auto simp: adjust_account_def adjust_fits_def)
  have t3: "tables_of s3 = (bk_accounts s2, complete_txn authorizationID (bk_txns s2))"
    using txn_UpdateStatus_Inr [OF up] by (simp add: complete_txn_def)
  have "orig \<in> set (bk_txns s)" "txn_ID orig = authorizationID" using o by (auto dest: lookup_row_SomeD)
  then show ?thesis
    using bank_entry.capture [of orig "bk_txns s" "txn_stored env t" now "bk_accounts s"]
      tables_ofD [OF t2] tables_ofD [OF t3] t1 now fits tid t0 ty
    by (simp add: tables_of_def follows_def)
qed

lemma performVoid_entry:
  assumes "performVoid env authorizationID s = (Inr t, u)"
  shows "bank_entry (tables_of s) (txn_stored env t) (tables_of u)"
proof -
  obtain orig s1 t0 s2 x s3 s4 where o: "lookup_row txn_ID (bk_txns s) authorizationID = Some orig"
    and ty: "txn_Type orig = TransactionTypeAuthHold" "txn_Status orig = TransactionStatusActive"
    and t1: "tables_of s1 = tables_of s" and c: "txn_Create env t0 s1 = (Inr t, s2)"
    and t0: "txn_AccountID t0 = txn_AccountID orig" "txn_Type t0 = TransactionTypeVoid"
      "txn_AmountCents t0 = txn_AmountCents orig" "txn_Currency t0 = txn_Currency orig"
      "txn_ReferenceID t0 = Some authorizationID" "txn_Status t0 = TransactionStatusCompleted"
    and up: "txn_UpdateStatus authorizationID TransactionStatusCompleted s2 = (Inr x, s3)"
    and adj: "acc_AdjustBalances env (txn_AccountID orig) (0) (txn_AmountCents orig) s3 = (Inr s4, u)"
    using assms
    by (fastforce simp: performVoid_def act_bind_Inr_iff
        dest!: txn_FindByIDForUpdate_Inr txn_FindByReferenceID_Inr authorization_expired_tables uuid_New_tables bank_now_tables
        split: if_splits)
  obtain tid where tid: "t = t0\<lparr>txn_ID := tid\<rparr>" "\<not> unique_violation t (bk_txns s1)"
    and t2: "tables_of s2 = (bk_accounts s1, bk_txns s1 @ [txn_stored env t])"
    using txn_Create_Inr [OF c] by blast
  obtain now where now: "tables_of u = (adjust_account (txn_AccountID orig) (0) (txn_AmountCents orig) now (bk_accounts s3), bk_txns s3)"
    and fits: "adjust_fits (txn_AccountID orig) (0) (txn_AmountCents orig) now (bk_accounts s3)"
    using acc_AdjustBalances_Inr [OF adj] by (auto simp: adjust_account_def adjust_fits_def)
  have t3: "tables_of s3 = (bk_accounts s2, complete_txn authorizationID (bk_txns s2))"
    using txn_UpdateStatus_Inr [OF up] by (simp add: complete_txn_def)
  have "orig \<in> set (bk_txns s)" "txn_ID orig = authorizationID" using o by (auto dest: lookup_row_SomeD)
  then show ?thesis
    using bank_entry.void [of orig "bk_txns s" "txn_stored env t" now "bk_accounts s"]
      tables_ofD [OF t2] tables_ofD [OF t3] t1 now fits tid t0 ty
    by (simp add: tables_of_def follows_def)
qed

lemma performRefund_entry:
  assumes "performRefund env captureID amount s = (Inr t, u)"
  shows "bank_entry (tables_of s) (txn_stored env t) (tables_of u)"
proof -
  obtain orig s1 t0 s2 s4 where o: "lookup_row txn_ID (bk_txns s) captureID = Some orig"
    and ty: "txn_Type orig = TransactionTypeCapture" 
    and t1: "tables_of s1 = tables_of s" and c: "txn_Create env t0 s1 = (Inr t, s2)"
    and t0: "txn_AccountID t0 = txn_AccountID orig" "txn_Type t0 = TransactionTypeRefund"
      "txn_AmountCents t0 = txn_AmountCents orig" "txn_Currency t0 = txn_Currency orig"
      "txn_ReferenceID t0 = Some captureID" "txn_Status t0 = TransactionStatusCompleted"
    and adj: "acc_AdjustBalances env (txn_AccountID orig) (txn_AmountCents orig) (txn_AmountCents orig) s2 = (Inr s4, u)"
    using assms
    by (fastforce simp: performRefund_def act_bind_Inr_iff
        dest!: txn_FindByIDForUpdate_Inr txn_FindByReferenceID_Inr authorization_expired_tables uuid_New_tables bank_now_tables
        split: if_splits)
  obtain tid where tid: "t = t0\<lparr>txn_ID := tid\<rparr>" "\<not> unique_violation t (bk_txns s1)"
    and t2: "tables_of s2 = (bk_accounts s1, bk_txns s1 @ [txn_stored env t])"
    using txn_Create_Inr [OF c] by blast
  obtain now where now: "tables_of u = (adjust_account (txn_AccountID orig) (txn_AmountCents orig) (txn_AmountCents orig) now (bk_accounts s2), bk_txns s2)"
    and fits: "adjust_fits (txn_AccountID orig) (txn_AmountCents orig) (txn_AmountCents orig) now (bk_accounts s2)"
    using acc_AdjustBalances_Inr [OF adj] by (auto simp: adjust_account_def adjust_fits_def)
  have "orig \<in> set (bk_txns s)" "txn_ID orig = captureID" using o by (auto dest: lookup_row_SomeD)
  then show ?thesis
    using bank_entry.refund [of orig "bk_txns s" "txn_stored env t" now "bk_accounts s"]
      tables_ofD [OF t2] t1 now fits tid t0 ty
    by (simp add: tables_of_def follows_def)
qed

subsection \<open>The books\<close>

definition txn_sum :: "(Transaction \<Rightarrow> int) \<Rightarrow> Transaction list \<Rightarrow> int" where
  "txn_sum w T = sum_list (map w T)"

definition hold_weight :: "uuid \<Rightarrow> Transaction \<Rightarrow> int" where
  "hold_weight aid t =
   (if txn_AccountID t = aid \<and> txn_Type t = TransactionTypeAuthHold \<and> txn_Status t = TransactionStatusActive
    then txn_AmountCents t else 0)"

definition type_weight :: "TransactionType \<Rightarrow> uuid \<Rightarrow> Transaction \<Rightarrow> int" where
  "type_weight ty aid t = (if txn_AccountID t = aid \<and> txn_Type t = ty then txn_AmountCents t else 0)"

definition settles :: "uuid \<Rightarrow> Transaction \<Rightarrow> int" where
  "settles tid t =
   of_bool (txn_ReferenceID t = Some tid \<and> txn_Type t \<in> {TransactionTypeCapture, TransactionTypeVoid})"

definition refunds :: "uuid \<Rightarrow> Transaction \<Rightarrow> int" where
  "refunds tid t = of_bool (txn_ReferenceID t = Some tid \<and> txn_Type t = TransactionTypeRefund)"

definition held :: "Transaction list \<Rightarrow> uuid \<Rightarrow> int" where
  "held T aid = txn_sum (hold_weight aid) T"

definition captured_total :: "Transaction list \<Rightarrow> uuid \<Rightarrow> int" where
  "captured_total T aid = txn_sum (type_weight TransactionTypeCapture aid) T"

definition refunded_total :: "Transaction list \<Rightarrow> uuid \<Rightarrow> int" where
  "refunded_total T aid = txn_sum (type_weight TransactionTypeRefund aid) T"

lemmas txn_weight_defs = hold_weight_def type_weight_def settles_def refunds_def
lemmas txn_total_defs = held_def captured_total_def refunded_total_def

definition account_ok :: "(uuid \<Rightarrow> int) \<Rightarrow> Transaction list \<Rightarrow> Account \<Rightarrow> bool" where
  "account_ok opened T a \<longleftrightarrow>
     acc_BalanceCents a = opened (acc_ID a) - captured_total T (acc_ID a) + refunded_total T (acc_ID a) \<and>
     acc_AvailableBalanceCents a = acc_BalanceCents a - held T (acc_ID a) \<and>
     0 \<le> acc_AvailableBalanceCents a \<and> balances_fit a"

definition follow_up_ok :: "Transaction list \<Rightarrow> Transaction \<Rightarrow> bool" where
  "follow_up_ok T t \<longleftrightarrow> 0 < txn_AmountCents t \<and>
     (if txn_Type t = TransactionTypeAuthHold
      then txn_sum (settles (txn_ID t)) T = of_bool (txn_Status t \<noteq> TransactionStatusActive)
      else \<exists>orig\<in>set T. follows t orig \<and>
        txn_Type orig = (if txn_Type t = TransactionTypeRefund then TransactionTypeCapture else TransactionTypeAuthHold))"

definition books_ok :: "(uuid \<Rightarrow> int) \<Rightarrow> bank_tables \<Rightarrow> bool" where
  "books_ok opened = (\<lambda>(A, T). unique_keys acc_ID A \<and> unique_keys txn_ID T \<and>
     txn_AccountID ` set T \<subseteq> acc_ID ` set A \<and>
     (\<forall>a\<in>set A. account_ok opened T a) \<and> (\<forall>t\<in>set T. follow_up_ok T t) \<and>
     (\<forall>tid. txn_sum (refunds tid) T \<le> 1))"

lemma txn_sum_simps [simp]:
  "txn_sum w [] = 0" "txn_sum w (t # T) = w t + txn_sum w T" "txn_sum w (T @ U) = txn_sum w T + txn_sum w U"
  by (simp_all add: txn_sum_def)

lemma txn_sum_zero: "(\<And>t. t \<in> set T \<Longrightarrow> w t = 0) \<Longrightarrow> txn_sum w T = 0"
  by (induction T) auto

lemma txn_sum_nonneg: "(\<And>u. u \<in> set T \<Longrightarrow> 0 \<le> w u) \<Longrightarrow> 0 \<le> txn_sum w T"
  by (induction T) (simp_all add: add_nonneg_nonneg)

lemma txn_sum_member:
  "t \<in> set T \<Longrightarrow> (\<And>u. u \<in> set T \<Longrightarrow> 0 \<le> w u) \<Longrightarrow> w t \<le> txn_sum w T"
proof (induction T)
  case (Cons x T)
  have "0 \<le> txn_sum w T" using Cons.prems(2) by (intro txn_sum_nonneg) simp
  with Cons show ?case by (cases "t = x") (auto simp: add_increasing)
qed simp

lemma txn_sum_complete:
  assumes "unique_keys txn_ID T" "t \<in> set T"
  shows "txn_sum w (complete_txn (txn_ID t) T) =
    txn_sum w T - w t + w (t\<lparr>txn_Status := TransactionStatusCompleted\<rparr>)"
  using assms
proof (induction T)
  case (Cons x T)
  have same: "complete_txn k T = T" if "k \<notin> txn_ID ` set T" for k
    using that by (auto simp: complete_txn_def intro!: sql_update_none)
  show ?case
  proof (cases "t = x")
    case True
    with Cons.prems same show ?thesis by (simp add: unique_keys_def complete_txn_def sql_update_def)
  next
    case False
    with Cons.prems have "txn_ID x \<noteq> txn_ID t" "t \<in> set T" by (auto simp: unique_keys_def)
    with Cons show ?thesis by (simp add: unique_keys_def complete_txn_def sql_update_def)
  qed
qed simp

lemma txn_sum_complete_same:
  "(\<And>t. w (t\<lparr>txn_Status := TransactionStatusCompleted\<rparr>) = w t) \<Longrightarrow> txn_sum w (complete_txn k T) = txn_sum w T"
  by (induction T) (simp_all add: complete_txn_def sql_update_def)

lemma weights_ignore_status [simp]:
  "type_weight ty aid (t\<lparr>txn_Status := st\<rparr>) = type_weight ty aid t"
  "settles k (t\<lparr>txn_Status := st\<rparr>) = settles k t" "refunds k (t\<lparr>txn_Status := st\<rparr>) = refunds k t"
  by (simp_all add: txn_weight_defs)

lemma complete_txn_ids [simp]: "map txn_ID (complete_txn k T) = map txn_ID T"
  by (induction T) (simp_all add: complete_txn_def sql_update_def)

lemma adjust_account_ids [simp]: "map acc_ID (adjust_account aid db da now A) = map acc_ID A"
  by (induction A) (simp_all add: adjust_account_def sql_update_def adjusted_def)

lemma complete_txn_accounts [simp]: "txn_AccountID ` set (complete_txn k T) = txn_AccountID ` set T"
proof -
  have "map txn_AccountID (complete_txn k T) = map txn_AccountID T"
    by (simp add: complete_txn_def sql_update_def)
  then show ?thesis by (metis set_map)
qed

lemma adjust_account_set [simp]: "acc_ID ` set (adjust_account aid db da now A) = acc_ID ` set A"
  by (metis adjust_account_ids set_map)

lemma unique_keys_complete [simp]: "unique_keys txn_ID (complete_txn k T) = unique_keys txn_ID T"
  by (simp add: unique_keys_def)

lemma not_violation_fresh: "\<not> unique_violation t T \<Longrightarrow> txn_ID t \<notin> txn_ID ` set T"
  by (auto simp: unique_violation_def list_ex_iff)

lemma unique_keys_post:
  "unique_keys txn_ID T \<Longrightarrow> \<not> unique_violation t T \<Longrightarrow> unique_keys txn_ID (T @ [t])"
  by (auto simp: unique_keys_def dest: not_violation_fresh)

subsection \<open>Every entry keeps the books\<close>

lemma accounts_step:
  assumes "\<forall>a\<in>set A. account_ok opened T a" "adjust_fits aid db da now A"
    and "\<And>k. captured_total T' k - refunded_total T' k =
      captured_total T k - refunded_total T k - (if k = aid then db else 0)"
    and "\<And>k. held T' k = held T k + (if k = aid then db - da else 0)"
    and "\<And>a. a \<in> set A \<Longrightarrow> acc_ID a = aid \<Longrightarrow> 0 \<le> acc_AvailableBalanceCents a + da"
  shows "\<forall>a\<in>set (adjust_account aid db da now A). account_ok opened T' a"
proof
  fix a' assume "a' \<in> set (adjust_account aid db da now A)"
  then obtain a where a: "a \<in> set A" "a' = (if acc_ID a = aid then adjusted db da now a else a)"
    by (auto simp: adjust_account_def sql_update_def)
  have ok: "account_ok opened T a" using assms(1) a(1) by blast
  show "account_ok opened T' a'"
  proof (cases "acc_ID a = aid")
    case True
    have "balances_fit a'" using assms(2) a True by (simp add: adjust_fits_def)
    with ok a True assms(3) [of aid] assms(4) [of aid] assms(5) [OF a(1) True] show ?thesis
      by (simp add: account_ok_def adjusted_def)
  next
    case False
    with ok a assms(3) [of "acc_ID a"] assms(4) [of "acc_ID a"] show ?thesis
      by (simp add: account_ok_def)
  qed
qed

lemma fresh_not_settled:
  assumes "\<forall>u\<in>set T. follow_up_ok T u" "k \<notin> txn_ID ` set T"
  shows "txn_sum (settles k) T = 0"
  using assms by (intro txn_sum_zero) (fastforce simp: settles_def follow_up_ok_def follows_def split: if_splits)

lemma fresh_not_refunded:
  assumes "\<not> unique_violation t T" "txn_ReferenceID t = Some k" "txn_Type t = TransactionTypeRefund"
  shows "txn_sum (refunds k) T = 0"
  using assms by (intro txn_sum_zero) (auto simp: refunds_def unique_violation_def list_ex_iff)

text \<open>The follow-ups of the other transactions after an entry \<open>t\<close>.\<close>

lemma follow_up_post:
  assumes "follow_up_ok T u" "settles (txn_ID u) t = 0"
  shows "follow_up_ok (T @ [t]) u"
  using assms by (auto simp: follow_up_ok_def)

lemma follow_up_complete:
  assumes "follow_up_ok T u" "txn_ID u \<noteq> k"
  shows "follow_up_ok (complete_txn k T) u"
proof (cases "txn_Type u = TransactionTypeAuthHold")
  case True
  with assms show ?thesis by (simp add: follow_up_ok_def txn_sum_complete_same)
next
  case False
  with assms(1) obtain orig where o: "orig \<in> set T" "follows u orig"
    "txn_Type orig = (if txn_Type u = TransactionTypeRefund then TransactionTypeCapture else TransactionTypeAuthHold)"
    by (auto simp: follow_up_ok_def)
  let ?o = "if txn_ID orig = k then orig\<lparr>txn_Status := TransactionStatusCompleted\<rparr> else orig"
  have "?o \<in> set (complete_txn k T)" using o(1) by (auto simp: complete_txn_def sql_update_def)
  moreover have "follows u ?o" "txn_Type ?o = txn_Type orig" using o(2) by (auto simp: follows_def)
  ultimately show ?thesis using assms(1) o(3) False by (auto simp: follow_up_ok_def)
qed

lemma settle_follow_ups:
  assumes ok: "\<forall>u\<in>set T. follow_up_ok T u" and uq: "unique_keys txn_ID T"
    and o: "orig \<in> set T" "txn_Type orig = TransactionTypeAuthHold" "txn_Status orig = TransactionStatusActive"
    and t: "follows t orig" "txn_Type t \<in> {TransactionTypeCapture, TransactionTypeVoid}" "\<not> unique_violation t T"
  shows "\<forall>u\<in>set (complete_txn (txn_ID orig) (T @ [t])). follow_up_ok (complete_txn (txn_ID orig) (T @ [t])) u"
proof
  let ?T = "complete_txn (txn_ID orig) (T @ [t])"
  fix u' assume "u' \<in> set ?T"
  then obtain u where u: "u \<in> set (T @ [t])"
    "u' = (if txn_ID u = txn_ID orig then u\<lparr>txn_Status := TransactionStatusCompleted\<rparr> else u)"
    unfolding complete_txn_def sql_update_def set_map by blast
  have fresh: "txn_ID t \<notin> txn_ID ` set T" using t(3) by (rule not_violation_fresh)
  have set: "txn_sum (settles k) ?T = txn_sum (settles k) T + of_bool (k = txn_ID orig)" for k
    using t(1,2) by (auto simp: txn_sum_complete_same settles_def follows_def)
  have amt: "0 < txn_AmountCents orig" "txn_sum (settles (txn_ID orig)) T = 0"
    using ok o by (auto simp: follow_up_ok_def)
  show "follow_up_ok ?T u'"
  proof (cases "txn_ID u = txn_ID orig")
    case True
    with u(1) fresh o(1) uq have "u = orig" by (auto simp: unique_keys_def inj_on_def distinct_map)
    with u(2) amt o(2) set [of "txn_ID orig"] show ?thesis by (simp add: follow_up_ok_def)
  next
    case False
    have "follow_up_ok (T @ [t]) u"
    proof (cases "u = t")
      case True
      with t(1,2) o amt(1) show ?thesis by (auto simp: follow_up_ok_def follows_def)
    next
      case other: False
      with u(1) ok have "follow_up_ok T u" by auto
      moreover have "settles (txn_ID u) t = 0" using False t(1) by (simp add: settles_def follows_def)
      ultimately show ?thesis by (rule follow_up_post)
    qed
    with False u(2) show ?thesis by (simp add: follow_up_complete)
  qed
qed

lemma hold_follow_ups:
  assumes "\<forall>u\<in>set T. follow_up_ok T u" "\<not> unique_violation t T" "0 < txn_AmountCents t"
    "txn_Type t = TransactionTypeAuthHold" "txn_Status t = TransactionStatusActive" "txn_ReferenceID t = None"
  shows "\<forall>u\<in>set (T @ [t]). follow_up_ok (T @ [t]) u"
proof -
  have "settles k t = 0" for k using assms(6) by (simp add: settles_def)
  with assms fresh_not_settled [OF assms(1) not_violation_fresh [OF assms(2)]] show ?thesis
    by (auto simp: follow_up_post) (simp add: follow_up_ok_def)
qed

lemma refund_follow_ups:
  assumes "\<forall>u\<in>set T. follow_up_ok T u" "orig \<in> set T" "txn_Type orig = TransactionTypeCapture"
    "follows t orig" "txn_Type t = TransactionTypeRefund"
  shows "\<forall>u\<in>set (T @ [t]). follow_up_ok (T @ [t]) u"
proof -
  have "settles k t = 0" for k using assms(5) by (simp add: settles_def)
  moreover have "0 < txn_AmountCents orig" using assms(1,2) by (auto simp: follow_up_ok_def)
  moreover have "follow_up_ok (T @ [t]) t"
    using assms calculation(2) by (auto simp: follow_up_ok_def follows_def)
  ultimately show ?thesis using assms(1) by (auto simp: follow_up_post)
qed

lemma hold_books:
  assumes "books_ok opened (A, T)" and a: "a \<in> set A" "txn_AccountID t = acc_ID a"
    "txn_AmountCents t \<le> acc_AvailableBalanceCents a" "adjust_fits (acc_ID a) 0 (- txn_AmountCents t) now A"
    and t: "0 < txn_AmountCents t" "txn_Type t = TransactionTypeAuthHold" "txn_Status t = TransactionStatusActive"
      "txn_ReferenceID t = None" "\<not> unique_violation t T"
  shows "books_ok opened (adjust_account (acc_ID a) 0 (- txn_AmountCents t) now A, T @ [t])"
proof -
  note I = assms(1) [unfolded books_ok_def, simplified]
  have one: "b = a" if "b \<in> set A" "acc_ID b = acc_ID a" for b
    using that I a(1) by (auto simp: unique_keys_def inj_on_def distinct_map)
  have "\<forall>b\<in>set (adjust_account (acc_ID a) 0 (- txn_AmountCents t) now A). account_ok opened (T @ [t]) b"
    using I a t one by (intro accounts_step [of A opened T]) (auto simp: txn_total_defs txn_weight_defs)
  moreover have "\<forall>u\<in>set (T @ [t]). follow_up_ok (T @ [t]) u"
    using I t by (intro hold_follow_ups) auto
  moreover have "txn_sum (refunds k) (T @ [t]) \<le> 1" for k
    using I t by (simp add: refunds_def)
  ultimately show ?thesis
    using I a t unique_keys_post [of T t] by (auto simp: books_ok_def unique_keys_def)
qed

lemma settle_books:
  assumes "books_ok opened (A, T)"
    and o: "orig \<in> set T" "txn_Type orig = TransactionTypeAuthHold" "txn_Status orig = TransactionStatusActive"
    and t: "follows t orig" "\<not> unique_violation t T"
      "txn_Type t = TransactionTypeCapture \<and> db = - txn_AmountCents t \<and> da = 0 \<or>
       txn_Type t = TransactionTypeVoid \<and> db = 0 \<and> da = txn_AmountCents t"
    and fits: "adjust_fits (txn_AccountID t) db da now A"
  shows "books_ok opened (adjust_account (txn_AccountID t) db da now A, complete_txn (txn_ID orig) (T @ [t]))"
proof -
  note I = assms(1) [unfolded books_ok_def, simplified]
  have uq: "unique_keys txn_ID (T @ [t])" using I t by (intro unique_keys_post) auto
  have "0 < txn_AmountCents t" using I o t by (auto simp: follow_up_ok_def follows_def)
  then have "\<forall>b\<in>set (adjust_account (txn_AccountID t) db da now A).
      account_ok opened (complete_txn (txn_ID orig) (T @ [t])) b"
    using I o t fits uq by (intro accounts_step [of A opened T])
      (auto simp: txn_total_defs txn_sum_complete txn_sum_complete_same hold_weight_def type_weight_def
        follows_def account_ok_def)
  moreover have "\<forall>u\<in>set (complete_txn (txn_ID orig) (T @ [t])). follow_up_ok (complete_txn (txn_ID orig) (T @ [t])) u"
    using I o t by (intro settle_follow_ups) auto
  moreover have "txn_sum (refunds k) (complete_txn (txn_ID orig) (T @ [t])) \<le> 1" for k
    using I t by (auto simp: txn_sum_complete_same refunds_def [of k t])
  ultimately show ?thesis
    using I uq o t(1) by (auto simp: books_ok_def unique_keys_def follows_def)
qed

lemma refund_books:
  assumes "books_ok opened (A, T)" and o: "orig \<in> set T" "txn_Type orig = TransactionTypeCapture"
    and t: "follows t orig" "txn_Type t = TransactionTypeRefund" "\<not> unique_violation t T"
    and fits: "adjust_fits (txn_AccountID t) (txn_AmountCents t) (txn_AmountCents t) now A"
  shows "books_ok opened (adjust_account (txn_AccountID t) (txn_AmountCents t) (txn_AmountCents t) now A, T @ [t])"
proof -
  note I = assms(1) [unfolded books_ok_def, simplified]
  have "0 < txn_AmountCents t" using I o t by (auto simp: follow_up_ok_def follows_def)
  then have "\<forall>b\<in>set (adjust_account (txn_AccountID t) (txn_AmountCents t) (txn_AmountCents t) now A).
      account_ok opened (T @ [t]) b"
    using I t fits by (intro accounts_step [of A opened T])
      (auto simp: txn_total_defs hold_weight_def type_weight_def account_ok_def)
  moreover have "\<forall>u\<in>set (T @ [t]). follow_up_ok (T @ [t]) u"
    using I o t by (intro refund_follow_ups) auto
  moreover have "txn_sum (refunds k) (T @ [t]) \<le> 1" for k
    using I t fresh_not_refunded [of t T k] by (auto simp: refunds_def [of k t])
  ultimately show ?thesis
    using I o t unique_keys_post [of T t] by (auto simp: books_ok_def unique_keys_def follows_def)
qed

lemma books_ok_step: "bank_entry X t Y \<Longrightarrow> books_ok opened X \<Longrightarrow> books_ok opened Y"
  by (induction rule: bank_entry.induct) (auto intro: hold_books settle_books refund_books)

subsection \<open>Calls\<close>

datatype bank_call =
    CallAuthorize string string int
  | CallCapture uuid int
  | CallVoid uuid
  | CallRefund uuid int

primrec run_call :: "BankEnv \<Rightarrow> bank_call \<Rightarrow> Transaction bank_action" where
  "run_call env (CallAuthorize number cvv amount) = bank_Authorize env number cvv amount"
| "run_call env (CallCapture tid amount) = bank_Capture env tid amount"
| "run_call env (CallVoid tid) = bank_Void env tid"
| "run_call env (CallRefund tid amount) = bank_Refund env tid amount"

lemma bank_tx_entry:
  assumes "bank_tx body s = (r, u)"
    and "\<And>x s0 s1. body s0 = (Inr x, s1) \<Longrightarrow> bank_entry (tables_of s0) (txn_stored env x) (tables_of s1)"
  shows "(\<exists>e. r = Inl e \<and> tables_of u = tables_of s) \<or>
    (\<exists>t. (r = Inr t \<or> r = Inl (internal_error ''failed to commit transaction'')) \<and>
      bank_entry (tables_of s) (txn_stored env t) (tables_of u))"
  using assms(1)
proof (cases rule: bank_tx_cases)
  case (entered x s0 s1)
  then show ?thesis using assms(2) [of s0 x s1] by auto
qed auto

text \<open>A call makes one entry or none, and none when it reports any error but a failed commit.\<close>

lemma run_call_entry:
  assumes "run_call env c s = (r, u)"
  shows "(\<exists>e. r = Inl e \<and> tables_of u = tables_of s) \<or>
    (\<exists>t. (r = Inr t \<or> r = Inl (internal_error ''failed to commit transaction'')) \<and>
      bank_entry (tables_of s) (txn_stored env t) (tables_of u))"
proof (cases c)
  case (CallAuthorize number cvv amount)
  show ?thesis
  proof (cases "validateAuthorizationRequest number cvv amount s")
    case (Pair v s1)
    have keep: "s1 = s" using Pair
      by (auto simp: validateAuthorizationRequest_def service_check_def act_bind_def split: option.splits)
    show ?thesis
    proof (cases v)
      case (Inl e)
      with assms CallAuthorize Pair keep show ?thesis by (auto simp: bank_Authorize_def)
    next
      case (Inr x)
      with Pair have "0 < amount"
        by (auto simp: validateAuthorizationRequest_def act_bind_Inr_iff ValidateAmount_def split: if_splits)
      then have "bank_entry (tables_of s0) (txn_stored env x) (tables_of s1)"
        if "performAuthorization env number cvv amount s0 = (Inr x, s1)" for x s0 s1
        using that by (rule performAuthorization_entry [rotated])
      with assms CallAuthorize Pair keep Inr bank_tx_entry [of _ s r u env] show ?thesis
        by (simp add: bank_Authorize_def)
    qed
  qed
qed (use assms bank_tx_entry [of _ s r u env] performCapture_entry performVoid_entry performRefund_entry in
  \<open>simp_all add: bank_Capture_def bank_Void_def bank_Refund_def\<close>)

lemma run_call_books: "books_ok opened (tables_of s) \<Longrightarrow> books_ok opened (tables_of (snd (run_call env c s)))"
  using run_call_entry [of env c s "fst (run_call env c s)" "snd (run_call env c s)"]
  by (auto dest: books_ok_step)

subsection \<open>The running bank\<close>

text \<open>
  Any sequence of service calls, of accesses to the response cache and of its cleanup, on a
  database whose faults are not known in advance, while time passes and random numbers are drawn.
\<close>

inductive bank_step :: "BankEnv \<Rightarrow> BankState \<Rightarrow> BankState \<Rightarrow> bool" for env :: BankEnv where
  step_call: "bank_step env s (snd (run_call env c s))"
| step_cache: "bank_step env s (snd (idem_Store env k s))"
| step_cleanup: "bank_step env s (snd (idem_DeleteOlderThan env before s))"
| step_environment: "bank_step env s (s\<lparr>bk_faults := fs, bk_ticks := n, bk_draws := m\<rparr>)"

definition bank_start :: "(uuid \<Rightarrow> int) \<Rightarrow> BankState \<Rightarrow> bool" where
  "bank_start opened s \<longleftrightarrow> bk_txns s = [] \<and> unique_keys acc_ID (bk_accounts s) \<and>
     list_all (\<lambda>a. acc_BalanceCents a = opened (acc_ID a) \<and> acc_AvailableBalanceCents a = opened (acc_ID a) \<and>
       0 \<le> opened (acc_ID a) \<and> balances_fit a) (bk_accounts s)"

lemma bank_exec_tables:
  assumes "\<And>s x u. stmt s = Inr (x, u) \<Longrightarrow> tables_of u = tables_of s"
  shows "tables_of (snd (bank_exec f stmt s)) = tables_of s"
proof (cases "next_fault s")
  case (Pair d s1)
  with next_fault_tables [of s] have "tables_of s1 = tables_of s" by simp
  with Pair assms [of s1] show ?thesis
    by (auto simp: bank_exec_def split: bank_fault.splits sum.splits)
qed

lemma cache_tables:
  "tables_of (snd (idem_Store env k s)) = tables_of s"
  "tables_of (snd (idem_DeleteOlderThan env before s)) = tables_of s"
  unfolding idem_Store_def idem_DeleteOlderThan_def
  by (rule bank_exec_tables; auto simp: tables_of_def Let_def split: if_splits option.splits)+

interpretation bank: invariant_system "bank_start opened" "bank_step env" "\<lambda>s. books_ok opened (tables_of s)"
  for opened env
proof
  show "books_ok opened (tables_of s)" if "bank_start opened s" for s
    using that by (auto simp: bank_start_def books_ok_def tables_of_def account_ok_def txn_total_defs list_all_iff unique_keys_def)
  show "books_ok opened (tables_of u)" if "books_ok opened (tables_of s)" "bank_step env s u" for s u
    using that(2,1)
  proof induction
    case (step_call s c) then show ?case by (rule run_call_books)
  next
    case (step_environment s fs n m) then show ?case by (simp add: tables_of_def)
  qed (simp_all add: cache_tables)
qed

text \<open>An example: the first seeded account, an authorization, its capture and the refund.\<close>

definition example_env :: BankEnv where
  "example_env = \<lparr>be_clock = (\<lambda>n. int (min n 1000)), be_uuid = (\<lambda>n. CHR ''u'' # show_nat n), be_calendar = (\<lambda>_. (2025, 1)),
     be_stored = (\<lambda>t. t), be_pgNow = int, be_fits = (\<lambda>n x. length x \<le> n), be_parse = Some,
     be_bind_header = Inr, be_bind_path = Inr, be_draw = (\<lambda>_ _. None), be_authExpiryHours = 168\<rparr>"

definition seed_account :: Account where
  "seed_account = \<lparr>acc_ID = ''a1'', acc_AccountNumber = ''4111111111111111'', acc_CVV = ''123'',
     acc_ExpiryMonth = 12, acc_ExpiryYear = 2030, acc_BalanceCents = 1000000,
     acc_AvailableBalanceCents = 1000000, acc_CreatedAt = 0, acc_UpdatedAt = 0\<rparr>"

definition seeded_bank :: BankState where
  "seeded_bank = \<lparr>bk_accounts = [seed_account], bk_txns = [], bk_keys = [], bk_faults = [], bk_ticks = 0, bk_uuids = 0, bk_draws = 0\<rparr>"

definition example_calls :: "bank_call list" where
  "example_calls = [CallAuthorize ''4111111111111111'' ''123'' 700, CallAuthorize ''4111111111111111'' ''123'' 50,
     CallCapture ''u0'' 700, CallRefund ''u2'' 700]"

definition bank_run :: "BankEnv \<Rightarrow> bank_call list \<Rightarrow> BankState \<Rightarrow> BankState" where
  "bank_run env calls s = fold (\<lambda>c s. snd (run_call env c s)) calls s"

lemma bank_run_reachable:
  "reachable (bank_start opened) (bank_step env) s \<Longrightarrow>
   reachable (bank_start opened) (bank_step env) (bank_run env calls s)"
  by (induction calls arbitrary: s) (auto simp: bank_run_def intro: reachable_step step_call)

definition example_bank :: BankState where
  "example_bank = bank_run example_env example_calls seeded_bank"

lemma example_bank_reachable: "reachable (bank_start (\<lambda>_. 1000000)) (bank_step example_env) example_bank"
proof -
  have "bank_start (\<lambda>_. 1000000) seeded_bank"
    by (simp add: bank_start_def seeded_bank_def seed_account_def unique_keys_def balances_fit_def int64_def)
  then show ?thesis unfolding example_bank_def by (intro bank_run_reachable reachable_init)
qed

lemma example_bank_rows:
  "map (\<lambda>t. (txn_ID t, txn_Type t, txn_Status t)) (bk_txns example_bank) =
     [(''u0'', TransactionTypeAuthHold, TransactionStatusCompleted),
      (''u1'', TransactionTypeAuthHold, TransactionStatusActive),
      (''u2'', TransactionTypeCapture, TransactionStatusCompleted),
      (''u3'', TransactionTypeRefund, TransactionStatusCompleted)]"
  by code_simp

definition example_account :: Account where
  "example_account = seed_account\<lparr>acc_AvailableBalanceCents := 999950, acc_UpdatedAt := 9\<rparr>"

lemma example_bank_account: "bk_accounts example_bank = [example_account]"
  by code_simp

text \<open>C6: at every moment each account of the bank has its opening balance less the captures plus the
  refunds as balance, has that less the active holds available, and is never overdrawn, whatever calls
  were made and whichever statements, commits and replies were lost.\<close>

theorem bank_books_balance:
  assumes "reachable (bank_start opened) (bank_step env) s" "a \<in> set (bk_accounts s)"
  shows "acc_BalanceCents a =
      opened (acc_ID a) - captured_total (bk_txns s) (acc_ID a) + refunded_total (bk_txns s) (acc_ID a) \<and>
    acc_AvailableBalanceCents a = acc_BalanceCents a - held (bk_txns s) (acc_ID a) \<and>
    0 \<le> acc_AvailableBalanceCents a"
  using bank.reachable_inv [OF assms(1)] assms(2)
  by (auto simp: books_ok_def tables_of_def account_ok_def)

theorem bank_books_balance_witness:
  "held (bk_txns example_bank) ''a1'' = 50 \<and>
   captured_total (bk_txns example_bank) ''a1'' = refunded_total (bk_txns example_bank) ''a1''"
  using bank_books_balance [OF example_bank_reachable, of example_account]
  by (simp add: example_bank_account) (simp add: example_account_def seed_account_def)

text \<open>C16: an authorization is settled once at most: as long as it is active no capture and no void
  refers to it, and afterwards exactly one of the two does, once.\<close>

theorem authorization_settled_once:
  assumes "reachable (bank_start opened) (bank_step env) s" "t \<in> set (bk_txns s)"
    "txn_Type t = TransactionTypeAuthHold"
  shows "length (filter (\<lambda>u. txn_ReferenceID u = Some (txn_ID t) \<and>
      (txn_Type u = TransactionTypeCapture \<or> txn_Type u = TransactionTypeVoid)) (bk_txns s)) =
    (if txn_Status t = TransactionStatusActive then 0 else 1)"
proof -
  have "txn_sum (settles k) T = int (length (filter (\<lambda>u. txn_ReferenceID u = Some k \<and>
      (txn_Type u = TransactionTypeCapture \<or> txn_Type u = TransactionTypeVoid)) T))" for k T
    by (induction T) (auto simp: settles_def)
  then show ?thesis
    using bank.reachable_inv [OF assms(1)] assms(2,3)
    by (auto simp: books_ok_def tables_of_def follow_up_ok_def split: if_splits)
qed

theorem authorization_settled_once_witness:
  "\<exists>t\<in>set (bk_txns example_bank). txn_ID t = ''u0'' \<and>
     length (filter (\<lambda>u. txn_ReferenceID u = Some ''u0'' \<and>
       (txn_Type u = TransactionTypeCapture \<or> txn_Type u = TransactionTypeVoid)) (bk_txns example_bank)) = 1"
proof -
  have "\<exists>t\<in>set (bk_txns example_bank). txn_ID t = ''u0'' \<and> txn_Type t = TransactionTypeAuthHold \<and>
      txn_Status t = TransactionStatusCompleted"
    by code_simp
  then show ?thesis
    using authorization_settled_once [OF example_bank_reachable] by fastforce
qed

text \<open>C17: money goes back at most once per capture: a refund refers to a capture of the same account,
  amount and currency, and no two refunds refer to the same one.\<close>

theorem refund_once_in_full:
  assumes "reachable (bank_start opened) (bank_step env) s" "t \<in> set (bk_txns s)"
    "txn_Type t = TransactionTypeRefund"
  shows "\<exists>orig\<in>set (bk_txns s). txn_Type orig = TransactionTypeCapture \<and>
    txn_ReferenceID t = Some (txn_ID orig) \<and> txn_AccountID t = txn_AccountID orig \<and>
    txn_AmountCents t = txn_AmountCents orig \<and> txn_Currency t = txn_Currency orig \<and>
    length (filter (\<lambda>u. txn_ReferenceID u = Some (txn_ID orig) \<and> txn_Type u = TransactionTypeRefund) (bk_txns s)) = 1"
proof -
  have sum: "txn_sum (refunds k) T = int (length (filter (\<lambda>u. txn_ReferenceID u = Some k \<and>
      txn_Type u = TransactionTypeRefund) T))" for k T
    by (induction T) (auto simp: refunds_def)
  have I: "follow_up_ok (bk_txns s) t" "txn_sum (refunds k) (bk_txns s) \<le> 1" for k
    using bank.reachable_inv [OF assms(1)] assms(2) by (auto simp: books_ok_def tables_of_def)
  from I(1) assms(3) obtain orig where o: "orig \<in> set (bk_txns s)" "follows t orig" "txn_Type orig = TransactionTypeCapture"
    by (auto simp: follow_up_ok_def)
  then have "t \<in> set (filter (\<lambda>u. txn_ReferenceID u = Some (txn_ID orig) \<and> txn_Type u = TransactionTypeRefund) (bk_txns s))"
    using assms(2,3) by (simp add: follows_def)
  then have "0 < length (filter (\<lambda>u. txn_ReferenceID u = Some (txn_ID orig) \<and> txn_Type u = TransactionTypeRefund) (bk_txns s))"
    by (rule length_pos_if_in_set)
  then have "length (filter (\<lambda>u. txn_ReferenceID u = Some (txn_ID orig) \<and> txn_Type u = TransactionTypeRefund) (bk_txns s)) = 1"
    using I(2) [of "txn_ID orig", unfolded sum] by linarith
  with o show ?thesis by (intro bexI [of _ orig]) (simp_all add: follows_def)
qed

theorem refund_once_in_full_witness:
  "\<exists>orig\<in>set (bk_txns example_bank). txn_Type orig = TransactionTypeCapture \<and>
     length (filter (\<lambda>u. txn_ReferenceID u = Some (txn_ID orig) \<and> txn_Type u = TransactionTypeRefund)
       (bk_txns example_bank)) = 1"
proof -
  have "\<exists>t\<in>set (bk_txns example_bank). txn_Type t = TransactionTypeRefund" by code_simp
  then show ?thesis
    using refund_once_in_full [OF example_bank_reachable] by blast
qed

subsection \<open>Captures and voids go through\<close>

lemma bank_exec_no_fault:
  "bk_faults s = [] \<Longrightarrow> bank_exec f stmt s = (case stmt s of Inl e \<Rightarrow> (Inl e, s) | Inr (x, u) \<Rightarrow> (Inr x, u))"
  by (simp add: bank_exec_def next_fault_def split: sum.split)

lemma active_hold_covered:
  assumes "books_ok opened (A, T)" "t \<in> set T" "txn_Type t = TransactionTypeAuthHold"
    "txn_Status t = TransactionStatusActive" "a \<in> set A" "acc_ID a = txn_AccountID t"
  shows "txn_AmountCents t \<le> acc_BalanceCents a - acc_AvailableBalanceCents a" "account_ok opened T a"
proof -
  show ok: "account_ok opened T a" using assms by (auto simp: books_ok_def)
  have "hold_weight (acc_ID a) t \<le> held T (acc_ID a)"
    unfolding held_def using assms
    by (intro txn_sum_member) (auto simp: books_ok_def hold_weight_def follow_up_ok_def intro: less_imp_le)
  with ok assms show "txn_AmountCents t \<le> acc_BalanceCents a - acc_AvailableBalanceCents a"
    by (simp add: hold_weight_def account_ok_def)
qed

lemma active_hold_unsettled:
  assumes "books_ok opened (A, T)" "t \<in> set T" "txn_Type t = TransactionTypeAuthHold"
    "txn_Status t = TransactionStatusActive" "u \<in> set T" "txn_ReferenceID u = Some (txn_ID t)"
  shows "txn_Type u \<noteq> TransactionTypeCapture \<and> txn_Type u \<noteq> TransactionTypeVoid"
proof -
  have "settles (txn_ID t) u \<le> txn_sum (settles (txn_ID t)) T"
    using assms(5) by (rule txn_sum_member) (simp add: settles_def)
  with assms show ?thesis by (auto simp: books_ok_def follow_up_ok_def settles_def split: if_splits)
qed

text \<open>The hypotheses of a settlement that finds no obstacle.\<close>

definition settleable :: "BankEnv \<Rightarrow> BankState \<Rightarrow> Transaction \<Rightarrow> bool" where
  "settleable env s t \<longleftrightarrow> bk_faults s = [] \<and> t \<in> set (bk_txns s) \<and>
     txn_Type t = TransactionTypeAuthHold \<and> txn_Status t = TransactionStatusActive \<and>
     be_uuid env (bk_uuids s) \<notin> txn_ID ` set (bk_txns s) \<and> be_uuid env (bk_uuids s) \<noteq> uuid_Nil"

lemma sql_count_pos: "r \<in> set T \<Longrightarrow> p r \<Longrightarrow> sql_count p T \<noteq> 0"
  by (auto simp: sql_count_def filter_empty_conv)

lemma settle_facts:
  assumes "books_ok opened (tables_of s)" "settleable env s t"
  shows "lookup_row txn_ID (bk_txns s) (txn_ID t) = Some t"
    and "lookup_row acc_ID (bk_accounts s) (txn_AccountID t) \<noteq> None"
    and "sql_count (\<lambda>a. acc_ID a = txn_AccountID t) (bk_accounts s) \<noteq> 0"
    and "a \<in> set (bk_accounts s) \<Longrightarrow> acc_ID a = txn_AccountID t \<Longrightarrow> balances_fit (adjusted (- txn_AmountCents t) 0 now a)"
    and "a \<in> set (bk_accounts s) \<Longrightarrow> acc_ID a = txn_AccountID t \<Longrightarrow> balances_fit (adjusted 0 (txn_AmountCents t) now a)"
proof -
  have t: "t \<in> set (bk_txns s)" "0 < txn_AmountCents t"
    and acc: "txn_AccountID t \<in> acc_ID ` set (bk_accounts s)" "unique_keys txn_ID (bk_txns s)"
    using assms by (auto simp: settleable_def books_ok_def tables_of_def follow_up_ok_def)
  show "lookup_row txn_ID (bk_txns s) (txn_ID t) = Some t" using t acc by (simp add: lookup_row_member)
  show "lookup_row acc_ID (bk_accounts s) (txn_AccountID t) \<noteq> None"
    using acc by (simp add: lookup_row_None_iff)
  show "sql_count (\<lambda>a. acc_ID a = txn_AccountID t) (bk_accounts s) \<noteq> 0"
    using acc(1) sql_count_pos by fastforce
  have cover: "0 \<le> acc_AvailableBalanceCents a \<and> balances_fit a \<and>
      txn_AmountCents t \<le> acc_BalanceCents a - acc_AvailableBalanceCents a"
    if "a \<in> set (bk_accounts s)" "acc_ID a = txn_AccountID t" for a
    using active_hold_covered [of opened "bk_accounts s" "bk_txns s" t a] assms that
    by (simp add: settleable_def tables_of_def account_ok_def)
  show "balances_fit (adjusted (- txn_AmountCents t) 0 now a)"
    if "a \<in> set (bk_accounts s)" "acc_ID a = txn_AccountID t"
    using cover [OF that] t(2) by (simp add: balances_fit_def adjusted_def int64_def)
  show "balances_fit (adjusted 0 (txn_AmountCents t) now a)"
    if "a \<in> set (bk_accounts s)" "acc_ID a = txn_AccountID t"
    using cover [OF that] t(2) by (simp add: balances_fit_def adjusted_def int64_def)
qed

lemma settle_not_violation:
  assumes "books_ok opened (tables_of s)" "settleable env s t"
    "txn_ID c = be_uuid env (bk_uuids s)" "txn_ReferenceID c = Some (txn_ID t)"
    "txn_Type c = TransactionTypeCapture \<or> txn_Type c = TransactionTypeVoid"
  shows "\<not> unique_violation c (bk_txns s)"
proof -
  have "\<forall>u\<in>set (bk_txns s). txn_ID u \<noteq> txn_ID c"
    using assms(2,3) by (force simp: settleable_def)
  then show ?thesis
    using active_hold_unsettled [of opened "bk_accounts s" "bk_txns s" t] assms
    by (auto simp: unique_violation_def list_ex_iff settleable_def tables_of_def)
qed

lemmas bank_eval = bank_tx_def next_fault_def bank_now_def uuid_New_def act_bind_def act_map_err_def
  bank_exec_no_fault txn_FindByIDForUpdate_def txn_FindByReferenceID_def txn_Create_def txn_insert_def
  txn_UpdateStatus_def acc_AdjustBalances_def

lemma capture_goes_through:
  assumes "books_ok opened (tables_of s)" "settleable env s t"
    "case txn_ExpiresAt t of None \<Rightarrow> True | Some e \<Rightarrow> be_clock env (bk_ticks s) \<le> e"
  obtains c u n where "bank_Capture env (txn_ID t) (txn_AmountCents t) s = (Inr c, u)"
    "txn_ID c = be_uuid env (bk_uuids s)" "follows c t" "txn_Type c = TransactionTypeCapture"
    "txn_CreatedAt c = be_clock env n" "bk_txns u = complete_txn (txn_ID t) (bk_txns s @ [txn_stored env c])"
proof -
  note f = settle_facts [OF assms(1,2)]
  define n where "n = bk_ticks s + (if txn_ExpiresAt t = None then 0 else 1)"
  define c where "c = \<lparr>txn_ID = be_uuid env (bk_uuids s), txn_AccountID = txn_AccountID t,
    txn_Type = TransactionTypeCapture, txn_AmountCents = txn_AmountCents t, txn_Currency = txn_Currency t,
    txn_ReferenceID = Some (txn_ID t), txn_Status = TransactionStatusCompleted, txn_ExpiresAt = None,
    txn_CreatedAt = be_clock env n\<rparr>"
  have nv: "\<not> unique_violation c (bk_txns s)"
    using assms(1,2) by (rule settle_not_violation) (simp_all add: c_def)
  have cnt: "sql_count (\<lambda>u. txn_ID u = txn_ID t) (T @ X) \<noteq> 0" if "t \<in> set T" for T X
    using that by (intro sql_count_pos) auto
  have fit: "\<not> list_ex (\<lambda>a. acc_ID a = txn_AccountID t \<and> \<not> balances_fit (adjusted (- txn_AmountCents t) 0 n a)) (bk_accounts s)" for n
    using f(4) by (auto simp: list_ex_iff)
  have "\<exists>u. bank_Capture env (txn_ID t) (txn_AmountCents t) s = (Inr c, u) \<and>
      bk_txns u = complete_txn (txn_ID t) (bk_txns s @ [txn_stored env c])"
    using f(1,2,3) assms(2,3) nv cnt [of "bk_txns s"] fit
    by (auto simp: bank_Capture_def performCapture_def bank_eval authorization_expired_def settleable_def c_def n_def
        Let_def sql_insert_def complete_txn_def split: option.splits)
  then show thesis by (auto simp: c_def follows_def intro: that)
qed

text \<open>C19: an active authorization that has not expired can be captured for its amount: no state the
  bank gets into stands in the way (the money is on the account, no earlier capture or void refers to
  it), and the capture completes the authorization.\<close>

theorem active_authorization_captured:
  assumes "reachable (bank_start opened) (bank_step env) s" "settleable env s t"
    "case txn_ExpiresAt t of None \<Rightarrow> True | Some e \<Rightarrow> be_clock env (bk_ticks s) \<le> e"
  shows "\<exists>c u. bank_Capture env (txn_ID t) (txn_AmountCents t) s = (Inr c, u) \<and>
    txn_ReferenceID c = Some (txn_ID t) \<and> txn_AmountCents c = txn_AmountCents t \<and>
    txn_Type c = TransactionTypeCapture \<and> t\<lparr>txn_Status := TransactionStatusCompleted\<rparr> \<in> set (bk_txns u)"
proof (rule capture_goes_through [OF bank.reachable_inv [OF assms(1)] assms(2,3)])
  fix c u n
  assume "bank_Capture env (txn_ID t) (txn_AmountCents t) s = (Inr c, u)" "follows c t"
    "txn_Type c = TransactionTypeCapture" "bk_txns u = complete_txn (txn_ID t) (bk_txns s @ [txn_stored env c])"
  then show ?thesis
    using assms(2) by (auto simp: follows_def complete_txn_def sql_update_def settleable_def)
qed

definition example_hold :: Transaction where
  "example_hold = bk_txns example_bank ! 1"

lemma example_hold_settleable:
  "settleable example_env example_bank example_hold"
  "case txn_ExpiresAt example_hold of None \<Rightarrow> True | Some e \<Rightarrow> be_clock example_env (bk_ticks example_bank) \<le> e"
  "txn_ID example_hold = ''u1''" "txn_AmountCents example_hold = 50"
  by code_simp+

theorem active_authorization_captured_witness:
  "\<exists>c u. bank_Capture example_env ''u1'' 50 example_bank = (Inr c, u) \<and> txn_ReferenceID c = Some ''u1''"
  using active_authorization_captured [OF example_bank_reachable example_hold_settleable(1,2)]
  by (auto simp: example_hold_settleable(3,4))

text \<open>An active authorization can be voided, expired or not, and the void gives the held money back
  to the account's available balance.\<close>

theorem active_authorization_voided:
  assumes "reachable (bank_start opened) (bank_step env) s" "settleable env s t"
  shows "\<exists>v u. bank_Void env (txn_ID t) s = (Inr v, u) \<and>
    txn_ReferenceID v = Some (txn_ID t) \<and> txn_Type v = TransactionTypeVoid \<and>
    t\<lparr>txn_Status := TransactionStatusCompleted\<rparr> \<in> set (bk_txns u) \<and>
    (\<forall>a\<in>set (bk_accounts s). acc_ID a = txn_AccountID t \<longrightarrow>
      (\<exists>b\<in>set (bk_accounts u). acc_ID b = acc_ID a \<and> acc_BalanceCents b = acc_BalanceCents a \<and>
        acc_AvailableBalanceCents b = acc_AvailableBalanceCents a + txn_AmountCents t))"
proof -
  note books = bank.reachable_inv [OF assms(1)]
  note f = settle_facts [OF books assms(2)]
  define v where "v = \<lparr>txn_ID = be_uuid env (bk_uuids s), txn_AccountID = txn_AccountID t,
    txn_Type = TransactionTypeVoid, txn_AmountCents = txn_AmountCents t, txn_Currency = txn_Currency t,
    txn_ReferenceID = Some (txn_ID t), txn_Status = TransactionStatusCompleted, txn_ExpiresAt = None,
    txn_CreatedAt = be_clock env (bk_ticks s)\<rparr>"
  have nv: "\<not> unique_violation v (bk_txns s)"
    using books assms(2) by (rule settle_not_violation) (simp_all add: v_def)
  have none: "find (\<lambda>u. txn_ReferenceID u = Some (txn_ID t) \<and> txn_Type u = TransactionTypeCapture) (bk_txns s) = None"
    using active_hold_unsettled [of opened "bk_accounts s" "bk_txns s" t] books assms(2)
    by (auto simp: find_None_iff settleable_def tables_of_def)
  have cnt: "sql_count (\<lambda>u. txn_ID u = txn_ID t) (T @ X) \<noteq> 0" if "t \<in> set T" for T X
    using that by (intro sql_count_pos) auto
  have fit: "\<not> list_ex (\<lambda>a. acc_ID a = txn_AccountID t \<and> \<not> balances_fit (adjusted 0 (txn_AmountCents t) n a)) (bk_accounts s)" for n
    using f(5) by (auto simp: list_ex_iff)
  obtain u now where v: "bank_Void env (txn_ID t) s = (Inr v, u)"
    and u: "tables_of u = (adjust_account (txn_AccountID t) 0 (txn_AmountCents t) now (bk_accounts s),
        complete_txn (txn_ID t) (bk_txns s @ [txn_stored env v]))"
    using f(1,2,3) assms(2) nv none cnt [of "bk_txns s"] fit
    by (simp add: bank_Void_def performVoid_def bank_eval settleable_def v_def
        Let_def sql_insert_def complete_txn_def adjust_account_def tables_of_def)
  have t: "t \<in> set (bk_txns s)" using assms(2) by (simp add: settleable_def)
  have "t\<lparr>txn_Status := TransactionStatusCompleted\<rparr> \<in> set (bk_txns u)"
    using t by (simp add: tables_ofD [OF u] complete_txn_def sql_update_def)
  moreover have "\<exists>b\<in>set (bk_accounts u). acc_ID b = acc_ID a \<and> acc_BalanceCents b = acc_BalanceCents a \<and>
      acc_AvailableBalanceCents b = acc_AvailableBalanceCents a + txn_AmountCents t"
    if "a \<in> set (bk_accounts s)" "acc_ID a = txn_AccountID t" for a
  proof -
    have "adjusted 0 (txn_AmountCents t) now a \<in> set (bk_accounts u)"
      using that by (force simp: tables_ofD [OF u] adjust_account_def sql_update_def)
    then show ?thesis by (rule bexI [rotated]) (simp add: adjusted_def)
  qed
  moreover have "txn_ReferenceID v = Some (txn_ID t)" "txn_Type v = TransactionTypeVoid"
    by (simp_all add: v_def)
  ultimately show ?thesis using v by blast
qed

theorem active_authorization_voided_witness:
  "\<exists>v u. bank_Void example_env ''u1'' example_bank = (Inr v, u) \<and>
     (\<exists>b\<in>set (bk_accounts u). acc_AvailableBalanceCents b = 1000000)"
proof -
  have "txn_AccountID example_hold = ''a1''" by code_simp
  then show ?thesis
    using active_authorization_voided [OF example_bank_reachable example_hold_settleable(1)]
    by (fastforce simp: example_hold_settleable(3,4) example_bank_account example_account_def seed_account_def)
qed

end
