(* ===== verification/Bank_Client.thy ===== *)
theory Bank_Client
  imports Payment_Snapshot
begin

text \<open>
  The HTTP client of the bank, \<^verbatim>\<open>gateway/internal/mockbank/client.go\<close>.  The network and the
  bank behind it are the parameter \<open>env\<close>: \<open>http_Do\<close> is \<^verbatim>\<open>http.Client.Do\<close> under the attempt's
  timeout, \<open>ctx_wait\<close> the race of \<^verbatim>\<open>ctx.Done()\<close> against the retry timer, and
  \<open>endpoint_error\<close> the error, if any, of parsing the endpoint's URL; each acts on a world
  of its own.  The state of the client adds the requests it handed to \<open>http_Do\<close>, in order, and
  the metrics it recorded (without their durations).

  The lemmas show the contract the payment service relies on, stated as the locale
  \<open>bank_contract\<close> and interpreted for this client, and the retry policy.
\<close>

subsection \<open>Requests, responses and the state of the client\<close>

record http_request =
  rq_path :: string
  rq_body :: json_object
  rq_idempotency_key :: string

record http_response =
  rs_StatusCode :: int
  rs_body :: "go_error + json_object" \<comment> \<open>\<open>Inl\<close> when reading or parsing the body fails\<close>

datatype bank_metric = MockBankRequest string string | MockBankRetry string string

record 'w bank_env =
  endpoint_error :: "string \<Rightarrow> go_error option"
  http_Do :: "duration \<Rightarrow> http_request \<Rightarrow> ('w, http_response) action"
  ctx_wait :: "duration \<Rightarrow> 'w \<Rightarrow> go_error option \<times> 'w"

record 'w client_state =
  cs_world :: 'w
  cs_sent :: "http_request list"
  cs_metrics :: "bank_metric list"

record ClientConfig =
  cfg_Scheme :: string
  cfg_Host :: string
  cfg_InitialAttemptTimeout :: duration
  cfg_RetryDelay :: duration
  cfg_RetryAttemptTimeout :: duration
  cfg_ConnectTimeout :: duration
  cfg_TLSHandshakeTimeout :: duration
  cfg_ResponseHeaderTimeout :: duration
  cfg_IdleConnectionTimeout :: duration

definition config_validate :: "ClientConfig \<Rightarrow> go_error option" where
  "config_validate config =
   (if cfg_Scheme config = [] \<or> cfg_Host config = []
      then Some (OtherError ''mock bank base URL must be absolute'')
    else if cfg_InitialAttemptTimeout config \<le> 0
      then Some (OtherError ''mock bank initial attempt timeout must be positive'')
    else if cfg_RetryDelay config \<le> 0
      then Some (OtherError ''mock bank retry delay must be positive'')
    else if cfg_RetryAttemptTimeout config \<le> 0
      then Some (OtherError ''mock bank retry attempt timeout must be positive'')
    else if cfg_ConnectTimeout config \<le> 0
      then Some (OtherError ''mock bank connect timeout must be positive'')
    else if cfg_TLSHandshakeTimeout config \<le> 0
      then Some (OtherError ''mock bank TLS handshake timeout must be positive'')
    else if cfg_ResponseHeaderTimeout config \<le> 0
      then Some (OtherError ''mock bank response header timeout must be positive'')
    else if cfg_IdleConnectionTimeout config \<le> 0
      then Some (OtherError ''mock bank idle connection timeout must be positive'')
    else None)"

subsection \<open>Helpers\<close>

text \<open>\<^verbatim>\<open>errors.Is(err, context.DeadlineExceeded)\<close>, or a \<^verbatim>\<open>net.Error\<close> in the chain that timed out.\<close>

fun isTimeout :: "go_error \<Rightarrow> bool" where
  "isTimeout DeadlineExceeded = True"
| "isTimeout (TransportError deadline timeout) = (deadline \<or> timeout)"
| "isTimeout (PaymentError kind message (Some cause)) = isTimeout cause"
| "isTimeout (IdempotencyRecoveryError result cause) = isTimeout cause"
| "isTimeout _ = False"

fun is_deadline :: "go_error \<Rightarrow> bool" where
  "is_deadline DeadlineExceeded = True"
| "is_deadline (TransportError deadline timeout) = deadline"
| "is_deadline (PaymentError kind message (Some cause)) = is_deadline cause"
| "is_deadline (IdempotencyRecoveryError result cause) = is_deadline cause"
| "is_deadline _ = False"

definition isRetryablePaymentError :: "go_error \<Rightarrow> bool" where
  "isRetryablePaymentError err \<longleftrightarrow>
     HasPaymentErrorKind err PaymentErrorBankTimeout \<or> HasPaymentErrorKind err PaymentErrorBankUnavailable"

definition decodeBadRequestCode :: "http_response \<Rightarrow> go_error + string" where
  "decodeBadRequestCode response =
   bind_result (rs_body response) (\<lambda>doc.
   bind_result (json_string_member doc ''error'') (\<lambda>e. Inr (ToLower (TrimSpace e))))"

definition newHTTPRequest ::
  "'w bank_env \<Rightarrow> string \<Rightarrow> json_object \<Rightarrow> string \<Rightarrow> go_error + http_request" where
  "newHTTPRequest env endpointPath body operationKey =
   (case endpoint_error env endpointPath of
      Some err \<Rightarrow> Inl err
    | None \<Rightarrow> Inr \<lparr>rq_path = endpointPath, rq_body = body, rq_idempotency_key = operationKey\<rparr>)"

definition record_metric :: "bank_metric \<Rightarrow> 'w client_state \<Rightarrow> 'w client_state" where
  "record_metric m s = s\<lparr>cs_metrics := cs_metrics s @ [m]\<rparr>"

definition client_Do :: "'w bank_env \<Rightarrow> duration \<Rightarrow> http_request \<Rightarrow> ('w client_state, http_response) action" where
  "client_Do env timeout request s =
   (case http_Do env timeout request (cs_world s) of
      (r, w) \<Rightarrow> (r, s\<lparr>cs_world := w, cs_sent := cs_sent s @ [request]\<rparr>))"

text \<open>
  What the four \<^verbatim>\<open>...Attempt\<close> methods have in common: build the request, send it, classify a
  transport failure, let \<open>classify\<close> read the response into a result and its metric label, and
  record the label when the method returns.
\<close>

definition bank_attempt ::
  "'w bank_env \<Rightarrow> string \<Rightarrow> string \<Rightarrow> json_object \<Rightarrow> string \<Rightarrow>
   (http_response \<Rightarrow> (go_error + 'a) \<times> string) \<Rightarrow> duration \<Rightarrow> ('w client_state, 'a) action" where
  "bank_attempt env operation path body key classify timeout s =
   (case newHTTPRequest env path body key of
      Inl err \<Rightarrow> (Inl (NewInternalPaymentError (Some err)), record_metric (MockBankRequest operation ''internal'') s)
    | Inr request \<Rightarrow>
      (case client_Do env timeout request s of
         (Inl err, s1) \<Rightarrow>
           if isTimeout err
           then (Inl (NewPaymentBankTimeoutError (Some err)), record_metric (MockBankRequest operation ''timeout'') s1)
           else (Inl (NewPaymentBankUnavailableError (Some err)),
                 record_metric (MockBankRequest operation ''unavailable'') s1)
       | (Inr response, s1) \<Rightarrow>
           (case classify response of (r, label) \<Rightarrow> (r, record_metric (MockBankRequest operation label) s1))))"

definition unavailable :: "go_error \<Rightarrow> (go_error + 'a) \<times> string" where
  "unavailable err = (Inl (NewPaymentBankUnavailableError (Some err)), ''unavailable'')"

definition invalid_input :: "string \<Rightarrow> (go_error + 'a) \<times> string" where
  "invalid_input message = (Inl (NewInvalidPaymentInputError message None), ''invalid_input'')"

definition status_failure :: "string \<Rightarrow> http_response \<Rightarrow> (go_error + 'a) \<times> string" where
  "status_failure prefix_text response =
     unavailable (OtherError (prefix_text @ '' failed: status '' @ show_int (rs_StatusCode response)))"

subsection \<open>Authorization\<close>

definition authorizationRequest :: "BankAuthorizationRequest \<Rightarrow> json_object" where
  "authorizationRequest request =
     [(''card_number'', JString (json_coerce (bar_CardNumber request))),
      (''cvv'', JString (json_coerce (bar_CardCVV request))),
      (''expiry_month'', JNumber (bar_CardExpiryMonth request)),
      (''expiry_year'', JNumber (bar_CardExpiryYear request)),
      (''amount'', JNumber (bar_AmountCents request))]"

definition authorizationResponse :: "http_response \<Rightarrow> go_error + string \<times> time" where
  "authorizationResponse response =
   bind_result (rs_body response) (\<lambda>doc.
   bind_result (json_string_member doc ''authorization_id'') (\<lambda>authID.
   bind_result (json_time_member doc ''expires_at'') (\<lambda>expiresAt. Inr (authID, expiresAt))))"

definition declined :: "DeclineReason \<Rightarrow> (go_error + BankAuthorizationResult) \<times> string" where
  "declined reason =
     (Inr \<lparr>bas_BankAuthorizationID = [], bas_AuthorizationExpiresAt = 0, bas_DeclineReason = reason\<rparr>, ''declined'')"

definition authorize_classify :: "http_response \<Rightarrow> (go_error + BankAuthorizationResult) \<times> string" where
  "authorize_classify response =
   (if rs_StatusCode response = 200 then
      (case authorizationResponse response of
         Inl err \<Rightarrow> unavailable err
       | Inr (authID, expiresAt) \<Rightarrow>
           if TrimSpace authID = []
             then unavailable (OtherError ''mock bank authorization response missing authorization id'')
           else if IsZero expiresAt
             then unavailable (OtherError ''mock bank authorization response missing expires_at'')
           else (Inr \<lparr>bas_BankAuthorizationID = authID, bas_AuthorizationExpiresAt = expiresAt,
                      bas_DeclineReason = []\<rparr>, ''success''))
    else if rs_StatusCode response = 400 then
      (case decodeBadRequestCode response of
         Inl err \<Rightarrow> unavailable err
       | Inr code \<Rightarrow>
           if code = ''card_expired'' then declined DeclineReasonExpiredCard
           else if code \<in> {''invalid_card'', ''invalid_card_number'', ''invalid_cvv''}
             then invalid_input ''card details are invalid''
           else if code = ''invalid_amount'' then invalid_input ''amount must be greater than zero''
           else if code = ''amount_mismatch'' then invalid_input ''amount does not match bank authorization''
           else if code = ''authorization_not_found'' then invalid_input ''bank authorization cannot be captured''
           else if code = ''capture_not_found'' then invalid_input ''bank capture cannot be refunded''
           else status_failure ''mock bank authorization'' response)
    else if rs_StatusCode response = 402 then declined DeclineReasonInsufficientFunds
    else status_failure ''mock bank authorization'' response)"

definition authorizePaymentAttempt ::
  "'w bank_env \<Rightarrow> BankAuthorizationRequest \<Rightarrow> duration \<Rightarrow> ('w client_state, BankAuthorizationResult) action" where
  "authorizePaymentAttempt env request =
     bank_attempt env ''authorize'' ''/api/v1/authorizations'' (authorizationRequest request)
       (bar_OperationKey request) authorize_classify"

subsection \<open>Capture, void and refund\<close>

text \<open>
  The answers to the three operations on an authorization or a capture are read alike: the id
  member of a 200, the code of a 400.  A refund has no expiry case.
\<close>

definition existing_classify ::
  "string \<Rightarrow> string \<Rightarrow> string \<Rightarrow> bool \<Rightarrow> (string \<Rightarrow> 'a) \<Rightarrow> http_response \<Rightarrow> (go_error + 'a) \<times> string" where
  "existing_classify prefix_text member missing can_expire mk response =
   (if rs_StatusCode response = 200 then
      (case bind_result (rs_body response) (\<lambda>doc. json_string_member doc member) of
         Inl err \<Rightarrow> unavailable err
       | Inr i \<Rightarrow> if TrimSpace i = [] then unavailable (OtherError missing) else (Inr (mk i), ''success''))
    else if rs_StatusCode response = 400 then
      (case decodeBadRequestCode response of
         Inl err \<Rightarrow> unavailable err
       | Inr code \<Rightarrow>
           if can_expire \<and> code = ''authorization_expired''
             then (Inl (NewPaymentAuthorizationExpiredError None), ''expired'')
           else if code \<in> {''invalid_card'', ''invalid_card_number'', ''invalid_cvv''}
             then invalid_input ''card details are invalid''
           else if code = ''invalid_amount'' then invalid_input ''amount must be greater than zero''
           else if code \<in> {''authorization_not_found'', ''capture_not_found'', ''amount_mismatch'',
                           ''authorization_already_used'', ''already_captured'', ''already_voided'',
                           ''already_refunded''}
             then (Inl (NewPaymentBankStateConflictError None), ''state_conflict'')
           else status_failure prefix_text response)
    else status_failure prefix_text response)"

definition captureRequest :: "BankCaptureRequest \<Rightarrow> json_object" where
  "captureRequest request =
     [(''authorization_id'', JString (json_coerce (bcr_BankAuthorizationID request))),
      (''amount'', JNumber (bcr_AmountCents request))]"

definition capturePaymentAttempt ::
  "'w bank_env \<Rightarrow> BankCaptureRequest \<Rightarrow> duration \<Rightarrow> ('w client_state, BankCaptureResult) action" where
  "capturePaymentAttempt env request =
     bank_attempt env ''capture'' ''/api/v1/captures'' (captureRequest request) (bcr_OperationKey request)
       (existing_classify ''mock bank capture'' ''capture_id'' ''mock bank capture response missing capture id''
          True (\<lambda>i. \<lparr>bcs_BankCaptureID = i\<rparr>))"

definition voidRequest :: "BankVoidRequest \<Rightarrow> json_object" where
  "voidRequest request = [(''authorization_id'', JString (json_coerce (bvr_BankAuthorizationID request)))]"

definition voidPaymentAttempt ::
  "'w bank_env \<Rightarrow> BankVoidRequest \<Rightarrow> duration \<Rightarrow> ('w client_state, BankVoidResult) action" where
  "voidPaymentAttempt env request =
     bank_attempt env ''void'' ''/api/v1/voids'' (voidRequest request) (bvr_OperationKey request)
       (existing_classify ''mock bank void'' ''void_id'' ''mock bank void response missing void id''
          True (\<lambda>i. \<lparr>bvs_BankVoidID = i\<rparr>))"

definition refundRequest :: "BankRefundRequest \<Rightarrow> json_object" where
  "refundRequest request =
     [(''capture_id'', JString (json_coerce (brr_BankCaptureID request))),
      (''amount'', JNumber (brr_AmountCents request))]"

definition refundPaymentAttempt ::
  "'w bank_env \<Rightarrow> BankRefundRequest \<Rightarrow> duration \<Rightarrow> ('w client_state, BankRefundResult) action" where
  "refundPaymentAttempt env request =
     bank_attempt env ''refund'' ''/api/v1/refunds'' (refundRequest request) (brr_OperationKey request)
       (existing_classify ''mock bank refund'' ''refund_id'' ''mock bank refund response missing refund id''
          False (\<lambda>i. \<lparr>brs_BankRefundID = i\<rparr>))"

subsection \<open>Retries and the client\<close>

definition waitForRetry :: "'w bank_env \<Rightarrow> duration \<Rightarrow> 'w client_state \<Rightarrow> go_error option \<times> 'w client_state" where
  "waitForRetry env delay s =
   (case ctx_wait env delay (cs_world s) of (e, w) \<Rightarrow> (e, s\<lparr>cs_world := w\<rparr>))"

definition retryTransient ::
  "'w bank_env \<Rightarrow> ClientConfig \<Rightarrow> string \<Rightarrow> (duration \<Rightarrow> ('w client_state, 'a) action) \<Rightarrow>
   ('w client_state, 'a) action" where
  "retryTransient env config operation attempt s =
   (case attempt (cfg_InitialAttemptTimeout config) s of
      (Inr result, s1) \<Rightarrow> (Inr result, s1)
    | (Inl err, s1) \<Rightarrow>
      if \<not> isRetryablePaymentError err then (Inl err, s1)
      else
      (case waitForRetry env (cfg_RetryDelay config) s1 of
         (Some werr, s2) \<Rightarrow>
           if is_deadline werr then (Inl (NewPaymentBankTimeoutError (Some werr)), s2)
           else (Inl (NewPaymentBankUnavailableError (Some werr)), s2)
       | (None, s2) \<Rightarrow>
           (case attempt (cfg_RetryAttemptTimeout config)
                   (record_metric (MockBankRetry operation ''attempted'') s2) of
              (Inl err2, s3) \<Rightarrow> (Inl err2, record_metric (MockBankRetry operation ''failed'') s3)
            | (Inr result, s3) \<Rightarrow> (Inr result, record_metric (MockBankRetry operation ''succeeded'') s3))))"

definition mockbank_AuthorizePayment where
  "mockbank_AuthorizePayment env config request =
     retryTransient env config ''authorize'' (authorizePaymentAttempt env request)"
definition mockbank_CapturePayment where
  "mockbank_CapturePayment env config request =
     retryTransient env config ''capture'' (capturePaymentAttempt env request)"
definition mockbank_VoidPayment where
  "mockbank_VoidPayment env config request =
     retryTransient env config ''void'' (voidPaymentAttempt env request)"
definition mockbank_RefundPayment where
  "mockbank_RefundPayment env config request =
     retryTransient env config ''refund'' (refundPaymentAttempt env request)"

definition mockbank_client :: "'w bank_env \<Rightarrow> ClientConfig \<Rightarrow> 'w client_state BankClient" where
  "mockbank_client env config =
     \<lparr>bank_AuthorizePayment = mockbank_AuthorizePayment env config,
      bank_CapturePayment = mockbank_CapturePayment env config,
      bank_VoidPayment = mockbank_VoidPayment env config,
      bank_RefundPayment = mockbank_RefundPayment env config\<rparr>"

definition NewClient :: "'w bank_env \<Rightarrow> ClientConfig \<Rightarrow> go_error + 'w client_state BankClient" where
  "NewClient env config =
   (case config_validate config of Some err \<Rightarrow> Inl err | None \<Rightarrow> Inr (mockbank_client env config))"

subsection \<open>The contract\<close>

definition authorize_error_kinds :: "PaymentErrorKind list" where
  "authorize_error_kinds =
     [PaymentErrorInvalidInput, PaymentErrorBankUnavailable, PaymentErrorBankTimeout, PaymentErrorInternal]"

definition existing_error_kinds :: "bool \<Rightarrow> PaymentErrorKind list" where
  "existing_error_kinds can_expire =
     [PaymentErrorInvalidInput, PaymentErrorBankUnavailable, PaymentErrorBankTimeout, PaymentErrorInternal,
      PaymentErrorBankStateConflict] @ (if can_expire then [PaymentErrorAuthorizationExpired] else [])"

text \<open>An action whose errors carry one of the kinds \<open>ks\<close> and whose results satisfy \<open>ok\<close>.\<close>

definition yields :: "PaymentErrorKind list \<Rightarrow> ('a \<Rightarrow> bool) \<Rightarrow> go_error + 'a \<Rightarrow> bool" where
  "yields ks ok r \<longleftrightarrow>
     (case r of Inl e \<Rightarrow> (case PaymentErrorKindOf e of None \<Rightarrow> False | Some k \<Rightarrow> k \<in> set ks) | Inr x \<Rightarrow> ok x)"

lemma yields_simps [simp]:
  "yields ks ok (Inr x) = ok x"
  "PaymentErrorKindOf e = Some k \<Longrightarrow> yields ks ok (Inl e) = (k \<in> set ks)"
  by (simp_all add: yields_def)

lemma yields_InlD: "yields ks ok (Inl e) \<Longrightarrow> \<exists>k \<in> set ks. PaymentErrorKindOf e = Some k"
  by (auto simp: yields_def split: option.splits)

lemma bank_attempt_yields:
  assumes "\<And>response. yields ks ok (fst (classify response))"
    and "{PaymentErrorInternal, PaymentErrorBankTimeout, PaymentErrorBankUnavailable} \<subseteq> set ks"
  shows "yields ks ok (fst (bank_attempt env op path body key classify timeout s))"
proof (cases "newHTTPRequest env path body key")
  case (Inr request)
  obtain r s1 where d: "client_Do env timeout request s = (r, s1)" by fastforce
  show ?thesis
  proof (cases r)
    case (Inr response)
    have "fst (bank_attempt env op path body key classify timeout s) = fst (classify response)"
      using d Inr \<open>newHTTPRequest env path body key = _\<close>
      by (simp add: bank_attempt_def split: prod.split)
    then show ?thesis by (simp add: assms(1))
  qed (use d Inr assms(2) in \<open>simp add: bank_attempt_def\<close>)
qed (use assms(2) in \<open>simp add: bank_attempt_def\<close>)

lemma retryTransient_yields:
  assumes att: "\<And>timeout s. yields ks ok (fst (attempt timeout s))"
    and "{PaymentErrorBankTimeout, PaymentErrorBankUnavailable} \<subseteq> set ks"
  shows "yields ks ok (fst (retryTransient env config op attempt s))"
proof -
  obtain r s1 where a: "attempt (cfg_InitialAttemptTimeout config) s = (r, s1)" by fastforce
  obtain w s2 where wait: "waitForRetry env (cfg_RetryDelay config) s1 = (w, s2)" by fastforce
  obtain r2 s3 where b:
    "attempt (cfg_RetryAttemptTimeout config) (record_metric (MockBankRetry op ''attempted'') s2) = (r2, s3)"
    by fastforce
  have y: "yields ks ok r" "yields ks ok r2"
    using att [of "cfg_InitialAttemptTimeout config" s] a
      att [of "cfg_RetryAttemptTimeout config" "record_metric (MockBankRetry op ''attempted'') s2"] b
    by simp_all
  show ?thesis
    using y assms(2) unfolding retryTransient_def a
    by (cases r; cases w; cases r2) (simp_all add: wait b)
qed

lemma classify_helpers [simp]:
  "PaymentErrorBankUnavailable \<in> set ks \<Longrightarrow> yields ks ok (fst (unavailable e))"
  "PaymentErrorBankUnavailable \<in> set ks \<Longrightarrow> yields ks ok (fst (status_failure t r))"
  "PaymentErrorInvalidInput \<in> set ks \<Longrightarrow> yields ks ok (fst (invalid_input m))"
  by (simp_all add: unavailable_def status_failure_def invalid_input_def)

lemma yields_if [intro]:
  "(c \<Longrightarrow> yields ks ok (fst a)) \<Longrightarrow> (\<not> c \<Longrightarrow> yields ks ok (fst b)) \<Longrightarrow> yields ks ok (fst (if c then a else b))"
  by simp

lemma declined_yields:
  "yields ks authorization_result_ok (fst (declined DeclineReasonExpiredCard))"
  "yields ks authorization_result_ok (fst (declined DeclineReasonInsufficientFunds))"
  by (simp_all add: declined_def authorization_result_ok_def valid_decline_reason_def)

lemma authorize_classify_yields:
  "yields authorize_error_kinds authorization_result_ok (fst (authorize_classify response))"
proof -
  have k: "PaymentErrorBankUnavailable \<in> set authorize_error_kinds"
    "PaymentErrorInvalidInput \<in> set authorize_error_kinds"
    by (simp_all add: authorize_error_kinds_def)
  show ?thesis
    unfolding authorize_classify_def
    by (intro yields_if; cases "authorizationResponse response"; cases "decodeBadRequestCode response")
       (simp_all only: sum.case case_prod_beta k classify_helpers declined_yields yields_if,
        (intro yields_if, simp_all add: k authorization_result_ok_def IsZero_def)+)
qed

lemma existing_classify_yields:
  assumes ok: "\<And>i. TrimSpace i \<noteq> [] \<Longrightarrow> ok (mk i)"
  shows "yields (existing_error_kinds can_expire) ok (fst (existing_classify t m e can_expire mk response))"
proof -
  let ?y = "\<lambda>a. yields (existing_error_kinds can_expire) ok (fst a)"
  have k: "?y (unavailable err)" "?y (status_failure t response)" "?y (invalid_input msg)"
    "?y (Inl (NewPaymentBankStateConflictError None), l)"
    "can_expire \<Longrightarrow> ?y (Inl (NewPaymentAuthorizationExpiredError None), l)" for err msg l
    by (simp_all add: existing_error_kinds_def)
  have bad: "?y (case decodeBadRequestCode response of Inl err \<Rightarrow> unavailable err | Inr code \<Rightarrow>
      if can_expire \<and> code = c1 then (Inl (NewPaymentAuthorizationExpiredError None), l1)
      else if code \<in> cs2 then invalid_input m2 else if code = c3 then invalid_input m3
      else if code \<in> cs4 then (Inl (NewPaymentBankStateConflictError None), l4)
      else status_failure t response)" for c1 l1 cs2 m2 c3 m3 cs4 l4
    by (cases "decodeBadRequestCode response") (simp_all add: k existing_error_kinds_def)
  have good: "?y (case x of Inl err \<Rightarrow> unavailable err
      | Inr i \<Rightarrow> if TrimSpace i = [] then unavailable (OtherError e) else (Inr (mk i), l))" for x l
    by (cases x) (simp_all add: k ok)
  show ?thesis
    unfolding existing_classify_def by (intro yields_if good bad k)
qed

lemma transient_kinds:
  "{PaymentErrorInternal, PaymentErrorBankTimeout, PaymentErrorBankUnavailable} \<subseteq> set authorize_error_kinds"
  "{PaymentErrorInternal, PaymentErrorBankTimeout, PaymentErrorBankUnavailable} \<subseteq> set (existing_error_kinds can_expire)"
  "{PaymentErrorBankTimeout, PaymentErrorBankUnavailable} \<subseteq> set authorize_error_kinds"
  "{PaymentErrorBankTimeout, PaymentErrorBankUnavailable} \<subseteq> set (existing_error_kinds can_expire)"
  by (simp_all add: authorize_error_kinds_def existing_error_kinds_def)

lemma mockbank_yields:
  "yields authorize_error_kinds authorization_result_ok (fst (mockbank_AuthorizePayment env config areq s))"
  "yields (existing_error_kinds True) (\<lambda>r. \<not> blank (bcs_BankCaptureID r)) (fst (mockbank_CapturePayment env config creq s))"
  "yields (existing_error_kinds True) (\<lambda>r. \<not> blank (bvs_BankVoidID r)) (fst (mockbank_VoidPayment env config vreq s))"
  "yields (existing_error_kinds False) (\<lambda>r. \<not> blank (brs_BankRefundID r)) (fst (mockbank_RefundPayment env config rreq s))"
  unfolding mockbank_AuthorizePayment_def mockbank_CapturePayment_def mockbank_VoidPayment_def
    mockbank_RefundPayment_def authorizePaymentAttempt_def capturePaymentAttempt_def
    voidPaymentAttempt_def refundPaymentAttempt_def
  by (intro retryTransient_yields bank_attempt_yields authorize_classify_yields
        existing_classify_yields transient_kinds; simp)+

lemma fst_eqD: "m s = (r, t) \<Longrightarrow> fst (m s) = r"
  by simp

interpretation mockbank: bank_contract "mockbank_client env config" for env config
proof (unfold_locales, goal_cases)
  case (1 req s e t)
  then show ?case using mockbank_yields(1) [of env config req s]
    by (auto simp: mockbank_client_def authorize_error_kinds_def payment_error_kinds_def dest!: yields_InlD)
next
  case (2 req s r t)
  then show ?case using mockbank_yields(1) [of env config req s] by (simp add: mockbank_client_def)
next
  case (3 req s e t)
  then show ?case using mockbank_yields(2) [of env config req s]
    by (auto simp: mockbank_client_def existing_error_kinds_def payment_error_kinds_def dest!: yields_InlD)
next
  case (4 req s r t)
  then show ?case using mockbank_yields(2) [of env config req s] by (simp add: mockbank_client_def)
next
  case (5 req s e t)
  then show ?case using mockbank_yields(3) [of env config req s]
    by (auto simp: mockbank_client_def existing_error_kinds_def payment_error_kinds_def dest!: yields_InlD)
next
  case (6 req s r t)
  then show ?case using mockbank_yields(3) [of env config req s] by (simp add: mockbank_client_def)
next
  case (7 req s e t)
  then show ?case using mockbank_yields(4) [of env config req s]
    by (auto simp: mockbank_client_def existing_error_kinds_def payment_error_kinds_def dest!: yields_InlD)
next
  case (8 req s r t)
  then show ?case using mockbank_yields(4) [of env config req s] by (simp add: mockbank_client_def)
qed

subsection \<open>The retry policy\<close>

text \<open>\<open>n\<close> copies of one request went out between two states of the client.\<close>

definition sent_copies :: "http_request \<Rightarrow> nat \<Rightarrow> 'w client_state \<Rightarrow> 'w client_state \<Rightarrow> bool" where
  "sent_copies request n s t \<longleftrightarrow> cs_sent t = cs_sent s @ replicate n request"

lemma sent_copies_refl [simp]: "sent_copies rq 0 s s"
  by (simp add: sent_copies_def)

lemma sent_copies_trans: "sent_copies rq m s t \<Longrightarrow> sent_copies rq n t u \<Longrightarrow> sent_copies rq (m + n) s u"
  by (simp add: sent_copies_def replicate_add)

lemma sent_copies_record [simp]:
  "sent_copies rq n s (record_metric m t) = sent_copies rq n s t"
  "sent_copies rq n (record_metric m s) t = sent_copies rq n s t"
  by (simp_all add: sent_copies_def record_metric_def)

lemma waitForRetry_sends: "waitForRetry env delay s = (w, t) \<Longrightarrow> sent_copies rq 0 s t"
  by (auto simp: waitForRetry_def sent_copies_def split: prod.splits)

lemma client_Do_sends: "client_Do env timeout rq s = (r, t) \<Longrightarrow> sent_copies rq 1 s t"
  by (auto simp: client_Do_def sent_copies_def split: prod.splits)

lemma bank_attempt_sends:
  "\<exists>n \<le> 1. sent_copies \<lparr>rq_path = path, rq_body = body, rq_idempotency_key = key\<rparr> n s
             (snd (bank_attempt env op path body key classify timeout s))"
proof (cases "endpoint_error env path")
  case None
  let ?rq = "\<lparr>rq_path = path, rq_body = body, rq_idempotency_key = key\<rparr>"
  obtain r s1 where d: "client_Do env timeout ?rq s = (r, s1)" by fastforce
  have "sent_copies ?rq 1 s (snd (bank_attempt env op path body key classify timeout s))"
    using None client_Do_sends [OF d]
    by (cases r) (simp_all add: bank_attempt_def newHTTPRequest_def d split: prod.split)
  then show ?thesis by blast
next
  case (Some e)
  then show ?thesis by (intro exI [of _ 0]) (simp add: bank_attempt_def newHTTPRequest_def)
qed

lemma retryTransient_sends:
  assumes att: "\<And>timeout s. \<exists>n \<le> 1. sent_copies rq n s (snd (attempt timeout s))"
  shows "\<exists>n \<le> 2. sent_copies rq n s (snd (retryTransient env config op attempt s)) \<and>
           (n = 2 \<longrightarrow> (\<exists>e. fst (attempt (cfg_InitialAttemptTimeout config) s) = Inl e \<and> isRetryablePaymentError e))"
proof -
  let ?s2' = "record_metric (MockBankRetry op ''attempted'')"
  obtain r s1 where a: "attempt (cfg_InitialAttemptTimeout config) s = (r, s1)" by fastforce
  then obtain m where m: "m \<le> 1" "sent_copies rq m s s1"
    using att [of s "cfg_InitialAttemptTimeout config"] by auto
  obtain w s2 where wait: "waitForRetry env (cfg_RetryDelay config) s1 = (w, s2)" by fastforce
  obtain r2 s3 where b: "attempt (cfg_RetryAttemptTimeout config) (?s2' s2) = (r2, s3)" by fastforce
  then obtain n where n: "n \<le> 1" "sent_copies rq n s2 s3"
    using att [of "?s2' s2" "cfg_RetryAttemptTimeout config"] by auto
  have m2: "sent_copies rq m s s2" using sent_copies_trans [OF m(2) waitForRetry_sends [OF wait]] by simp
  have mn: "sent_copies rq (m + n) s s3" by (rule sent_copies_trans [OF m2 n(2)])
  have "snd (retryTransient env config op attempt s) \<in> {s1, s2} \<or>
    (\<exists>x e. snd (retryTransient env config op attempt s) = record_metric x s3 \<and>
       r = Inl e \<and> isRetryablePaymentError e)"
    unfolding retryTransient_def a by (cases r; cases w; cases r2) (simp_all add: wait b, blast+)
  then consider (stop) "snd (retryTransient env config op attempt s) \<in> {s1, s2}"
    | (again) x e where "snd (retryTransient env config op attempt s) = record_metric x s3"
        "r = Inl e" "isRetryablePaymentError e"
    by blast
  then show ?thesis
  proof cases
    case stop
    with m m2 show ?thesis by (intro exI [of _ m]) auto
  next
    case again
    with a m n mn show ?thesis by (intro exI [of _ "m + n"]) auto
  qed
qed

lemma client_capture_sends:
  "\<exists>n \<le> 2.
     cs_sent (snd (mockbank_CapturePayment env config req s)) =
       cs_sent s @ replicate n \<lparr>rq_path = ''/api/v1/captures'', rq_body = captureRequest req,
                               rq_idempotency_key = bcr_OperationKey req\<rparr> \<and>
     (n = 2 \<longrightarrow> (\<exists>e. fst (capturePaymentAttempt env req (cfg_InitialAttemptTimeout config) s) = Inl e \<and>
                    isRetryablePaymentError e))"
  unfolding mockbank_CapturePayment_def
  by (rule retryTransient_sends [unfolded sent_copies_def])
     (unfold capturePaymentAttempt_def, rule bank_attempt_sends [unfolded sent_copies_def])

text \<open>The operations and keys of the requests that went out.\<close>

definition path_operation :: "string \<Rightarrow> string" where
  "path_operation path =
   (if path = ''/api/v1/authorizations'' then AuthorizePaymentOperation
    else if path = ''/api/v1/captures'' then CapturePaymentOperation
    else if path = ''/api/v1/voids'' then VoidPaymentOperation
    else RefundPaymentOperation)"

definition client_sent :: "'w client_state \<Rightarrow> (string \<times> string) set" where
  "client_sent s = (\<lambda>rq. (path_operation (rq_path rq), rq_idempotency_key rq)) ` set (cs_sent s)"

lemma retry_client_sent:
  assumes "attempt = bank_attempt env op path body key classify"
  shows "client_sent (snd (retryTransient env config name attempt s)) \<subseteq> insert (path_operation path, key) (client_sent s)"
proof -
  obtain n where "sent_copies \<lparr>rq_path = path, rq_body = body, rq_idempotency_key = key\<rparr> n s
      (snd (retryTransient env config name attempt s))"
    using retryTransient_sends [of "\<lparr>rq_path = path, rq_body = body, rq_idempotency_key = key\<rparr>" attempt s env config name]
      bank_attempt_sends assms by fastforce
  then show ?thesis by (auto simp: sent_copies_def client_sent_def)
qed

interpretation mockbank_log: bank_observer "mockbank_client env config" client_sent for env config
proof (unfold_locales, goal_cases)
  case (1 req s)
  show ?case using retry_client_sent [OF authorizePaymentAttempt_def]
    by (simp add: mockbank_client_def mockbank_AuthorizePayment_def path_operation_def)
next
  case (2 req s)
  show ?case using retry_client_sent [OF capturePaymentAttempt_def]
    by (simp add: mockbank_client_def mockbank_CapturePayment_def path_operation_def)
next
  case (3 req s)
  show ?case using retry_client_sent [OF voidPaymentAttempt_def]
    by (simp add: mockbank_client_def mockbank_VoidPayment_def path_operation_def)
next
  case (4 req s)
  show ?case using retry_client_sent [OF refundPaymentAttempt_def]
    by (simp add: mockbank_client_def mockbank_RefundPayment_def path_operation_def)
qed

subsection \<open>Properties\<close>

text \<open>C36: a capture makes at most two HTTP requests, both identical and carrying the payment's bank
  operation key as idempotency key, and the second one only after the first attempt timed out or
  found the bank unavailable.\<close>

theorem capture_retry_policy:
  "let request = \<lparr>rq_path = ''/api/v1/captures'', rq_body = captureRequest req, rq_idempotency_key = bcr_OperationKey req\<rparr>;
       sent = cs_sent (snd (mockbank_CapturePayment env config req s)) in
   sent = cs_sent s \<or> sent = cs_sent s @ [request] \<or>
   sent = cs_sent s @ [request, request] \<and>
     (\<exists>e. fst (capturePaymentAttempt env req (cfg_InitialAttemptTimeout config) s) = Inl e \<and> isRetryablePaymentError e)"
proof -
  obtain n where n: "n \<le> 2" "cs_sent (snd (mockbank_CapturePayment env config req s)) =
      cs_sent s @ replicate n \<lparr>rq_path = ''/api/v1/captures'', rq_body = captureRequest req, rq_idempotency_key = bcr_OperationKey req\<rparr>"
    "n = 2 \<Longrightarrow> \<exists>e. fst (capturePaymentAttempt env req (cfg_InitialAttemptTimeout config) s) = Inl e \<and> isRetryablePaymentError e"
    using client_capture_sends [of env config req s] by blast
  from n(1) consider "n = 0" | "n = 1" | "n = 2" by linarith
  then show ?thesis using n(2,3) by cases (simp_all add: numeral_2_eq_2)
qed

text \<open>C35: whatever the network and the bank answer, an authorization call returns a decline for one
  of the known reasons, an approval with a non-blank bank id and an expiry, or an error of kind
  invalid input, bank timeout, bank unavailable or internal.\<close>

theorem authorize_outcome_total:
  "case fst (mockbank_AuthorizePayment env config req s) of
     Inr r \<Rightarrow> valid_decline_reason (bas_DeclineReason r) \<or>
             bas_DeclineReason r = [] \<and> \<not> blank (bas_BankAuthorizationID r) \<and>
             bas_AuthorizationExpiresAt r \<noteq> 0
   | Inl e \<Rightarrow> PaymentErrorKindOf e \<in> Some ` set authorize_error_kinds"
  using mockbank_yields(1) [of env config req s]
  by (auto simp: yields_def authorization_result_ok_def split: sum.splits option.splits)

end
