(* ===== verification/Mock_Bank_Http.thy ===== *)
theory Mock_Bank_Http
  imports Complex_Main Mock_Bank_Ledger Bank_Client
begin

text \<open>
  The mock bank's HTTP side: the handlers (\<^verbatim>\<open>mock-bank/bank/internal/handlers\<close>), the generated
  wrappers that bind their parameters (\<^verbatim>\<open>api/server.gen.go\<close>), the failure injection and the
  idempotency middleware, and the cleanup of the response cache.  Requests and responses carry
  JSON documents in the form the gateway's client has them; the body of a plain text answer is one
  that cannot be parsed.
\<close>

subsection \<open>Requests and replies\<close>

record bank_request =
  br_Method :: string
  br_Path :: string
  br_keys :: "string list" \<comment> \<open>the values of the \<^verbatim>\<open>Idempotency-Key\<close> header\<close>
  br_body :: "go_error + json_object"

record bank_reply =
  rp_response :: http_response
  rp_captured :: int \<comment> \<open>the status \<^verbatim>\<open>responseCapture\<close> last saw\<close>
  rp_replayed :: bool

text \<open>A handler that panics answers nothing: the server closes the connection.\<close>

datatype http_outcome = Reply bank_reply | Panicked

type_synonym bank_handler = "BankState \<Rightarrow> http_outcome \<times> BankState"

definition ErrorCodeNotFound :: string where "ErrorCodeNotFound = ''not_found''"

definition json_times_ok :: "json_object \<Rightarrow> bool" where
  "json_times_ok doc \<longleftrightarrow> list_all (\<lambda>(n, v). case v of JTime t \<Rightarrow> year_in_range t | _ \<Rightarrow> True) doc"

text \<open>
  \<^verbatim>\<open>Visit...Response\<close>: when the document cannot be encoded the status is already sent, and the
  error handler's second \<^verbatim>\<open>WriteHeader(500)\<close> reaches the capture only.
\<close>

definition json_reply :: "int \<Rightarrow> json_object \<Rightarrow> bank_reply" where
  "json_reply st doc =
   (if json_times_ok doc
    then \<lparr>rp_response = \<lparr>rs_StatusCode = st, rs_body = Inr doc\<rparr>, rp_captured = st, rp_replayed = False\<rparr>
    else \<lparr>rp_response = \<lparr>rs_StatusCode = st, rs_body = Inl (OtherError ''Time.MarshalJSON: year outside of range [0,9999]'')\<rparr>,
          rp_captured = 500, rp_replayed = False\<rparr>)"

definition text_reply :: "int \<Rightarrow> string \<Rightarrow> bank_reply" where
  "text_reply st message =
     \<lparr>rp_response = \<lparr>rs_StatusCode = st, rs_body = Inl (OtherError message)\<rparr>, rp_captured = st, rp_replayed = False\<rparr>"

definition error_doc :: "string \<Rightarrow> string \<Rightarrow> json_object" where
  "error_doc code message = [(''error'', JString (json_coerce code)), (''message'', JString (json_coerce message))]"

subsection \<open>Identifiers\<close>

definition PrefixAuthorization :: string where "PrefixAuthorization = ''auth_''"
definition PrefixCapture :: string where "PrefixCapture = ''cap_''"
definition PrefixVoid :: string where "PrefixVoid = ''void_''"
definition PrefixRefund :: string where "PrefixRefund = ''ref_''"

definition formatAuthorizationID :: "uuid \<Rightarrow> string" where "formatAuthorizationID u = PrefixAuthorization @ u"
definition formatCaptureID :: "uuid \<Rightarrow> string" where "formatCaptureID u = PrefixCapture @ u"
definition formatVoidID :: "uuid \<Rightarrow> string" where "formatVoidID u = PrefixVoid @ u"
definition formatRefundID :: "uuid \<Rightarrow> string" where "formatRefundID u = PrefixRefund @ u"

definition parseIDWithPrefix :: "BankEnv \<Rightarrow> string \<Rightarrow> string \<Rightarrow> uuid option" where
  "parseIDWithPrefix env i pre = (if prefix pre i then be_parse env (drop (length pre) i) else None)"

definition parseAuthorizationID :: "BankEnv \<Rightarrow> string \<Rightarrow> uuid option" where
  "parseAuthorizationID env i = parseIDWithPrefix env i PrefixAuthorization"
definition parseCaptureID :: "BankEnv \<Rightarrow> string \<Rightarrow> uuid option" where
  "parseCaptureID env i = parseIDWithPrefix env i PrefixCapture"
definition parseRefundID :: "BankEnv \<Rightarrow> string \<Rightarrow> uuid option" where
  "parseRefundID env i = parseIDWithPrefix env i PrefixRefund"

subsection \<open>Errors\<close>

definition mapServiceErrorToCode :: "string \<Rightarrow> string" where
  "mapServiceErrorToCode code =
   (if code = ErrCodeInvalidCard then ''invalid_card''
    else if code = ErrCodeInvalidCVV then ''invalid_cvv''
    else if code = ErrCodeInvalidAmount then ''invalid_amount''
    else if code = ErrCodeCardExpired then ''card_expired''
    else if code = ErrCodeInsufficientFunds then ''insufficient_funds''
    else if code = ErrCodeAuthNotFound then ''authorization_not_found''
    else if code = ErrCodeAuthExpired then ''authorization_expired''
    else if code = ErrCodeAuthAlreadyUsed then ''authorization_already_used''
    else if code = ErrCodeAlreadyCaptured then ''already_captured''
    else if code = ErrCodeAlreadyVoided then ''already_voided''
    else if code = ErrCodeAlreadyRefunded then ''already_refunded''
    else if code = ErrCodeAmountMismatch then ''amount_mismatch''
    else if code = ErrCodeCaptureNotFound then ''capture_not_found''
    else ''internal_error'')"

definition isPaymentRequiredError :: "string \<Rightarrow> bool" where
  "isPaymentRequiredError code \<longleftrightarrow> code = ErrCodeInsufficientFunds"

fun extractServiceError :: "bank_error \<Rightarrow> (string \<times> string) option" where
  "extractServiceError (ServiceError code message) = Some (code, message)"
| "extractServiceError _ = None"

definition internal_reply :: bank_reply where
  "internal_reply = json_reply 500 (error_doc ''internal_error'' ''internal error'')"

definition handleAuthorizationError :: "bank_error \<Rightarrow> bank_reply" where
  "handleAuthorizationError err =
   (case extractServiceError err of
      None \<Rightarrow> internal_reply
    | Some (code, message) \<Rightarrow>
        if isPaymentRequiredError code then json_reply 402 (error_doc (mapServiceErrorToCode code) message)
        else json_reply 400 (error_doc (mapServiceErrorToCode code) message))"

definition handleCaptureError :: "bank_error \<Rightarrow> bank_reply" where
  "handleCaptureError err =
   (case extractServiceError err of
      None \<Rightarrow> internal_reply
    | Some (code, message) \<Rightarrow> json_reply 400 (error_doc (mapServiceErrorToCode code) message))"

definition handleVoidError :: "bank_error \<Rightarrow> bank_reply" where
  "handleVoidError err =
   (case extractServiceError err of
      None \<Rightarrow> internal_reply
    | Some (code, message) \<Rightarrow> json_reply 400 (error_doc (mapServiceErrorToCode code) message))"

definition handleRefundError :: "bank_error \<Rightarrow> bank_reply" where
  "handleRefundError err =
   (case extractServiceError err of
      None \<Rightarrow> internal_reply
    | Some (code, message) \<Rightarrow> json_reply 400 (error_doc (mapServiceErrorToCode code) message))"

subsection \<open>Handlers\<close>

definition authorization_doc :: "Transaction \<Rightarrow> time \<Rightarrow> json_object" where
  "authorization_doc txn expiresAt =
     [(''amount'', JNumber (txn_AmountCents txn)),
      (''authorization_id'', JString (json_coerce (formatAuthorizationID (txn_ID txn)))),
      (''created_at'', JTime (txn_CreatedAt txn)), (''currency'', JString (json_coerce (txn_Currency txn))),
      (''expires_at'', JTime expiresAt), (''status'', JString ''approved'')]"

definition capture_doc :: "Transaction \<Rightarrow> uuid \<Rightarrow> json_object" where
  "capture_doc txn refID =
     [(''amount'', JNumber (txn_AmountCents txn)),
      (''authorization_id'', JString (json_coerce (formatAuthorizationID refID))),
      (''capture_id'', JString (json_coerce (formatCaptureID (txn_ID txn)))),
      (''captured_at'', JTime (txn_CreatedAt txn)), (''currency'', JString (json_coerce (txn_Currency txn))),
      (''status'', JString ''captured'')]"

definition void_doc :: "Transaction \<Rightarrow> uuid \<Rightarrow> json_object" where
  "void_doc txn refID =
     [(''authorization_id'', JString (json_coerce (formatAuthorizationID refID))), (''status'', JString ''voided''),
      (''void_id'', JString (json_coerce (formatVoidID (txn_ID txn)))), (''voided_at'', JTime (txn_CreatedAt txn))]"

definition refund_doc :: "Transaction \<Rightarrow> uuid \<Rightarrow> json_object" where
  "refund_doc txn refID =
     [(''amount'', JNumber (txn_AmountCents txn)),
      (''capture_id'', JString (json_coerce (formatCaptureID refID))),
      (''currency'', JString (json_coerce (txn_Currency txn))),
      (''refund_id'', JString (json_coerce (formatRefundID (txn_ID txn)))),
      (''refunded_at'', JTime (txn_CreatedAt txn)), (''status'', JString ''refunded'')]"

text \<open>The dereference of a pointer field: nil panics.\<close>

definition deref :: "'a option \<Rightarrow> ('a \<Rightarrow> bank_reply) \<Rightarrow> http_outcome" where
  "deref p k = (case p of None \<Rightarrow> Panicked | Some x \<Rightarrow> Reply (k x))"

definition handle_call ::
  "Transaction bank_action \<Rightarrow> (bank_error \<Rightarrow> bank_reply) \<Rightarrow> (Transaction \<Rightarrow> http_outcome) \<Rightarrow> bank_handler" where
  "handle_call call on_error on_txn s =
   (case call s of (Inl err, s1) \<Rightarrow> (Reply (on_error err), s1) | (Inr txn, s1) \<Rightarrow> (on_txn txn, s1))"

text \<open>The card's expiry in the request is not passed on.\<close>

definition CreateAuthorization :: "BankEnv \<Rightarrow> string \<Rightarrow> string \<Rightarrow> int \<Rightarrow> bank_handler" where
  "CreateAuthorization env cardNumber cvv amount =
   handle_call (bank_Authorize env cardNumber cvv amount) handleAuthorizationError
     (\<lambda>txn. deref (txn_ExpiresAt txn) (\<lambda>expiresAt. json_reply 200 (authorization_doc txn expiresAt)))"

definition GetAuthorization :: "BankEnv \<Rightarrow> string \<Rightarrow> bank_handler" where
  "GetAuthorization env i s =
   (let missing = json_reply 404 (error_doc ErrorCodeNotFound ''authorization not found'') in
    case parseAuthorizationID env i of
      None \<Rightarrow> (Reply missing, s)
    | Some authID \<Rightarrow> handle_call (bank_GetAuthorization authID) (\<lambda>_. missing)
        (\<lambda>txn. Reply (json_reply 200 (authorization_doc txn
           (case txn_ExpiresAt txn of None \<Rightarrow> 0 | Some e \<Rightarrow> e)))) s)"

definition CreateCapture :: "BankEnv \<Rightarrow> string \<Rightarrow> int \<Rightarrow> bank_handler" where
  "CreateCapture env authorizationId amount s =
   (case parseAuthorizationID env authorizationId of
      None \<Rightarrow> (Reply (json_reply 400 (error_doc ''authorization_not_found'' ''invalid authorization ID format'')), s)
    | Some authID \<Rightarrow> handle_call (bank_Capture env authID amount) handleCaptureError
        (\<lambda>txn. deref (txn_ReferenceID txn) (\<lambda>refID. json_reply 200 (capture_doc txn refID))) s)"

definition GetCapture :: "BankEnv \<Rightarrow> string \<Rightarrow> bank_handler" where
  "GetCapture env i s =
   (let missing = json_reply 404 (error_doc ErrorCodeNotFound ''capture not found'') in
    case parseCaptureID env i of
      None \<Rightarrow> (Reply missing, s)
    | Some captureID \<Rightarrow> handle_call (bank_GetCapture captureID) (\<lambda>_. missing)
        (\<lambda>txn. deref (txn_ReferenceID txn) (\<lambda>refID. json_reply 200 (capture_doc txn refID))) s)"

definition CreateVoid :: "BankEnv \<Rightarrow> string \<Rightarrow> bank_handler" where
  "CreateVoid env authorizationId s =
   (case parseAuthorizationID env authorizationId of
      None \<Rightarrow> (Reply (json_reply 400 (error_doc ''authorization_not_found'' ''invalid authorization ID format'')), s)
    | Some authID \<Rightarrow> handle_call (bank_Void env authID) handleVoidError
        (\<lambda>txn. deref (txn_ReferenceID txn) (\<lambda>refID. json_reply 200 (void_doc txn refID))) s)"

definition CreateRefund :: "BankEnv \<Rightarrow> string \<Rightarrow> int \<Rightarrow> bank_handler" where
  "CreateRefund env captureId amount s =
   (case parseCaptureID env captureId of
      None \<Rightarrow> (Reply (json_reply 400 (error_doc ''capture_not_found'' ''invalid capture ID format'')), s)
    | Some captureID \<Rightarrow> handle_call (bank_Refund env captureID amount) handleRefundError
        (\<lambda>txn. deref (txn_ReferenceID txn) (\<lambda>refID. json_reply 200 (refund_doc txn refID))) s)"

definition GetRefund :: "BankEnv \<Rightarrow> string \<Rightarrow> bank_handler" where
  "GetRefund env i s =
   (let missing = json_reply 404 (error_doc ErrorCodeNotFound ''refund not found'') in
    case parseRefundID env i of
      None \<Rightarrow> (Reply missing, s)
    | Some refundID \<Rightarrow> handle_call (bank_GetRefund refundID) (\<lambda>_. missing)
        (\<lambda>txn. deref (txn_ReferenceID txn) (\<lambda>refID. json_reply 200 (refund_doc txn refID))) s)"

definition GetHealth :: bank_handler where
  "GetHealth s =
   (case bank_exec ''ping'' (\<lambda>s. Inr ((), s)) s of
      (Inl _, s1) \<Rightarrow> (Reply (json_reply 503 [(''status'', JString ''unhealthy'')]), s1)
    | (Inr _, s1) \<Rightarrow> (Reply (json_reply 200 [(''status'', JString ''healthy'')]), s1))"

subsection \<open>Generated wrappers and routing\<close>

text \<open>An integer member must fit the field's 64 bits.\<close>

definition json_int64_member :: "json_object \<Rightarrow> string \<Rightarrow> go_error + int" where
  "json_int64_member doc name =
   bind_result (json_number_member doc name) (\<lambda>n.
     if list_all (\<lambda>v. case v of JNumber m \<Rightarrow> int64 m | _ \<Rightarrow> True) (json_members doc name) then Inr n
     else Inl (OtherError ''json: cannot unmarshal number into int64''))"

definition decode_authorization_body :: "json_object \<Rightarrow> go_error + string \<times> string \<times> int" where
  "decode_authorization_body doc =
   bind_result (json_int64_member doc ''amount'') (\<lambda>amount.
   bind_result (json_string_member doc ''card_number'') (\<lambda>cardNumber.
   bind_result (json_string_member doc ''cvv'') (\<lambda>cvv.
   bind_result (json_int64_member doc ''expiry_month'') (\<lambda>_.
   bind_result (json_int64_member doc ''expiry_year'') (\<lambda>_. Inr (cardNumber, cvv, amount))))))"

definition decode_amount_body :: "string \<Rightarrow> json_object \<Rightarrow> go_error + string \<times> int" where
  "decode_amount_body member doc =
   bind_result (json_int64_member doc ''amount'') (\<lambda>amount.
   bind_result (json_string_member doc member) (\<lambda>i. Inr (i, amount)))"

definition decode_void_body :: "json_object \<Rightarrow> go_error + string" where
  "decode_void_body doc = json_string_member doc ''authorization_id''"

definition header_error :: "BankEnv \<Rightarrow> string list \<Rightarrow> string option" where
  "header_error env keys =
   (case keys of
      [] \<Rightarrow> Some ''Header parameter Idempotency-Key is required, but not found''
    | [value] \<Rightarrow> (case be_bind_header env value of
        Inl err \<Rightarrow> Some (''Invalid format for parameter Idempotency-Key: '' @ err) | Inr _ \<Rightarrow> None)
    | _ \<Rightarrow> Some (''Expected one value for Idempotency-Key, got '' @ show_nat (length keys)))"

text \<open>
  A wrapper binds the required header or the path parameter; the strict handler behind it decodes
  the JSON body and writes what the handler returns.
\<close>

definition wrapper_post :: "BankEnv \<Rightarrow> bank_request \<Rightarrow> bank_handler \<Rightarrow> bank_handler" where
  "wrapper_post env r strict s =
   (case header_error env (br_keys r) of
      Some message \<Rightarrow> (Reply (text_reply 400 message), s)
    | None \<Rightarrow> strict s)"

definition strict_post :: "bank_request \<Rightarrow> (json_object \<Rightarrow> go_error + 'a) \<Rightarrow> ('a \<Rightarrow> bank_handler) \<Rightarrow> bank_handler" where
  "strict_post r decode handler s =
   (case bind_result (br_body r) decode of
      Inl _ \<Rightarrow> (Reply (text_reply 400 ''cannot decode JSON body''), s)
    | Inr x \<Rightarrow> handler x s)"

definition wrapper_get :: "BankEnv \<Rightarrow> string \<Rightarrow> string \<Rightarrow> (string \<Rightarrow> bank_handler) \<Rightarrow> bank_handler" where
  "wrapper_get env param value strict s =
   (case be_bind_path env value of
      Inl err \<Rightarrow> (Reply (text_reply 400 (''Invalid format for parameter '' @ param @ '': '' @ err)), s)
    | Inr i \<Rightarrow> strict i s)"

definition strict_CreateAuthorization :: "BankEnv \<Rightarrow> bank_request \<Rightarrow> bank_handler" where
  "strict_CreateAuthorization env r =
     strict_post r decode_authorization_body (\<lambda>(number, cvv, amount). CreateAuthorization env number cvv amount)"
definition strict_CreateCapture :: "BankEnv \<Rightarrow> bank_request \<Rightarrow> bank_handler" where
  "strict_CreateCapture env r =
     strict_post r (decode_amount_body ''authorization_id'') (\<lambda>(i, amount). CreateCapture env i amount)"
definition strict_CreateRefund :: "BankEnv \<Rightarrow> bank_request \<Rightarrow> bank_handler" where
  "strict_CreateRefund env r =
     strict_post r (decode_amount_body ''capture_id'') (\<lambda>(i, amount). CreateRefund env i amount)"
definition strict_CreateVoid :: "BankEnv \<Rightarrow> bank_request \<Rightarrow> bank_handler" where
  "strict_CreateVoid env r = strict_post r decode_void_body (\<lambda>i. CreateVoid env i)"
definition strict_GetAuthorization :: "BankEnv \<Rightarrow> string \<Rightarrow> bank_handler" where
  "strict_GetAuthorization env authorizationId = GetAuthorization env authorizationId"
definition strict_GetCapture :: "BankEnv \<Rightarrow> string \<Rightarrow> bank_handler" where
  "strict_GetCapture env captureId = GetCapture env captureId"
definition strict_GetRefund :: "BankEnv \<Rightarrow> string \<Rightarrow> bank_handler" where
  "strict_GetRefund env refundId = GetRefund env refundId"
definition strict_GetHealth :: bank_handler where
  "strict_GetHealth = GetHealth"

definition wrapper_CreateAuthorization :: "BankEnv \<Rightarrow> bank_request \<Rightarrow> bank_handler" where
  "wrapper_CreateAuthorization env r = wrapper_post env r (strict_CreateAuthorization env r)"
definition wrapper_CreateCapture :: "BankEnv \<Rightarrow> bank_request \<Rightarrow> bank_handler" where
  "wrapper_CreateCapture env r = wrapper_post env r (strict_CreateCapture env r)"
definition wrapper_CreateRefund :: "BankEnv \<Rightarrow> bank_request \<Rightarrow> bank_handler" where
  "wrapper_CreateRefund env r = wrapper_post env r (strict_CreateRefund env r)"
definition wrapper_CreateVoid :: "BankEnv \<Rightarrow> bank_request \<Rightarrow> bank_handler" where
  "wrapper_CreateVoid env r = wrapper_post env r (strict_CreateVoid env r)"
definition wrapper_GetAuthorization :: "BankEnv \<Rightarrow> string \<Rightarrow> bank_handler" where
  "wrapper_GetAuthorization env v = wrapper_get env ''authorizationId'' v (strict_GetAuthorization env)"
definition wrapper_GetCapture :: "BankEnv \<Rightarrow> string \<Rightarrow> bank_handler" where
  "wrapper_GetCapture env v = wrapper_get env ''captureId'' v (strict_GetCapture env)"
definition wrapper_GetRefund :: "BankEnv \<Rightarrow> string \<Rightarrow> bank_handler" where
  "wrapper_GetRefund env v = wrapper_get env ''refundId'' v (strict_GetRefund env)"
definition wrapper_GetHealth :: bank_handler where
  "wrapper_GetHealth = strict_GetHealth"

lemmas wrapper_post_defs = wrapper_CreateAuthorization_def wrapper_CreateCapture_def wrapper_CreateRefund_def
  wrapper_CreateVoid_def strict_CreateAuthorization_def strict_CreateCapture_def strict_CreateRefund_def
  strict_CreateVoid_def

definition path_param :: "string \<Rightarrow> string \<Rightarrow> string option" where
  "path_param base path =
   (if prefix base path \<and> drop (length base) path \<noteq> [] \<and> CHR ''/'' \<notin> set (drop (length base) path)
    then Some (drop (length base) path) else None)"

text \<open>
  \<^verbatim>\<open>HandlerFromMux\<close>: the operations of the API.  What \<^verbatim>\<open>http.ServeMux\<close> answers by itself
  (redirects, 404, 405) and the documentation pages are \<open>other\<close>; they do not touch the database.
  A \<^verbatim>\<open>HEAD\<close> request runs the handler of \<^verbatim>\<open>GET\<close>; its body is dropped.
\<close>

definition drop_body :: "bank_request \<Rightarrow> http_outcome \<Rightarrow> http_outcome" where
  "drop_body r out =
   (case out of Panicked \<Rightarrow> Panicked
    | Reply rp \<Rightarrow> if br_Method r = ''HEAD''
        then Reply (rp\<lparr>rp_response := (rp_response rp)\<lparr>rs_body := Inl (OtherError ''EOF'')\<rparr>\<rparr>) else Reply rp)"

definition api_post :: "BankEnv \<Rightarrow> bank_request \<Rightarrow> bank_handler option" where
  "api_post env r =
   (if br_Path r = ''/api/v1/authorizations'' then Some (wrapper_CreateAuthorization env r)
    else if br_Path r = ''/api/v1/captures'' then Some (wrapper_CreateCapture env r)
    else if br_Path r = ''/api/v1/refunds'' then Some (wrapper_CreateRefund env r)
    else if br_Path r = ''/api/v1/voids'' then Some (wrapper_CreateVoid env r)
    else None)"

definition api_get :: "BankEnv \<Rightarrow> bank_request \<Rightarrow> bank_handler option" where
  "api_get env r =
   (if br_Path r = ''/health'' then Some wrapper_GetHealth
    else case path_param ''/api/v1/authorizations/'' (br_Path r) of
      Some v \<Rightarrow> Some (wrapper_GetAuthorization env v)
    | None \<Rightarrow> (case path_param ''/api/v1/captures/'' (br_Path r) of
        Some v \<Rightarrow> Some (wrapper_GetCapture env v)
      | None \<Rightarrow> map_option (wrapper_GetRefund env) (path_param ''/api/v1/refunds/'' (br_Path r))))"

definition api_mux :: "(bank_request \<Rightarrow> bank_reply) \<Rightarrow> BankEnv \<Rightarrow> bank_request \<Rightarrow> bank_handler" where
  "api_mux other env r s =
   (case (if br_Method r = ''POST'' then api_post env r
          else if br_Method r \<in> {''GET'', ''HEAD''} then api_get env r else None) of
      None \<Rightarrow> (Reply (other r), s)
    | Some handler \<Rightarrow> map_prod (drop_body r) id (handler s))"

subsection \<open>Failure injection\<close>

text \<open>A \<^verbatim>\<open>float64\<close>, with its values that are not numbers of the line.\<close>

datatype float64 = Finite rat | PosInf | NegInf | NaN

fun f64_le :: "float64 \<Rightarrow> rat \<Rightarrow> bool" where
  "f64_le (Finite x) y = (x \<le> y)" | "f64_le NegInf y = True" | "f64_le PosInf y = False" | "f64_le NaN y = False"

fun f64_ge :: "float64 \<Rightarrow> rat \<Rightarrow> bool" where
  "f64_ge (Finite x) y = (y \<le> x)" | "f64_ge PosInf y = True" | "f64_ge NegInf y = False" | "f64_ge NaN y = False"

record AppConfig =
  app_FailureRate :: float64
  app_MinLatencyMS :: int
  app_MaxLatencyMS :: int
  app_AuthExpiryHours :: int
  app_AuthExpiryDuration :: duration

definition excludedPaths :: "string list" where "excludedPaths = [''/health'', ''/docs'']"

definition isExcludedPath :: "string \<Rightarrow> bool" where
  "isExcludedPath path = list_ex (\<lambda>excluded. prefix excluded path) excludedPaths"

definition rand_Int :: "BankEnv \<Rightarrow> int \<Rightarrow> BankState \<Rightarrow> int option \<times> BankState" where
  "rand_Int env bound s = (be_draw env (bk_draws s) bound, s\<lparr>bk_draws := bk_draws s + 1\<rparr>)"

definition millisecond :: int where "millisecond = 1000000"

text \<open>The time the request is held back, if it is.\<close>

definition injectLatency :: "BankEnv \<Rightarrow> int \<Rightarrow> int \<Rightarrow> BankState \<Rightarrow> duration option \<times> BankState" where
  "injectLatency env minMS maxMS s =
   (if minMS \<le> 0 \<and> maxMS \<le> 0 then (None, s)
    else let rangeMS = wrap64 (maxMS - minMS) in
      if rangeMS \<le> 0 then (Some (wrap64 (minMS * millisecond)), s)
      else case rand_Int env rangeMS s of
        (None, s1) \<Rightarrow> (Some (wrap64 (minMS * millisecond)), s1)
      | (Some randomOffset, s1) \<Rightarrow> (Some (wrap64 (wrap64 (minMS + randomOffset) * millisecond)), s1))"

text \<open>\<open>threshold\<close> is the conversion \<^verbatim>\<open>int64(failureRate * precision)\<close>.\<close>

definition shouldInjectFailure :: "(float64 \<Rightarrow> int) \<Rightarrow> BankEnv \<Rightarrow> float64 \<Rightarrow> BankState \<Rightarrow> bool \<times> BankState" where
  "shouldInjectFailure threshold env failureRate s =
   (if f64_le failureRate 0 then (False, s)
    else if f64_ge failureRate 1 then (True, s)
    else case rand_Int env 1000000 s of
      (None, s1) \<Rightarrow> (False, s1)
    | (Some randomNum, s1) \<Rightarrow> (randomNum < threshold failureRate, s1))"

definition writeFailureResponse :: bank_reply where
  "writeFailureResponse = json_reply 500 (error_doc ''internal_error'' ''Random failure injection'')"

definition FailureInjection ::
  "(float64 \<Rightarrow> int) \<Rightarrow> BankEnv \<Rightarrow> AppConfig \<Rightarrow> (bank_request \<Rightarrow> bank_handler) \<Rightarrow> bank_request \<Rightarrow> bank_handler" where
  "FailureInjection threshold env cfg next_handler r s =
   (if isExcludedPath (br_Path r) then next_handler r s
    else case injectLatency env (app_MinLatencyMS cfg) (app_MaxLatencyMS cfg) s of (_, s1) \<Rightarrow>
      (case shouldInjectFailure threshold env (app_FailureRate cfg) s1 of
         (True, s2) \<Rightarrow> (Reply writeFailureResponse, s2)
       | (False, s2) \<Rightarrow> next_handler r s2))"

subsection \<open>Idempotency\<close>

definition idempotentPaths :: "string list" where
  "idempotentPaths = [''/api/v1/authorizations'', ''/api/v1/captures'', ''/api/v1/voids'', ''/api/v1/refunds'']"

definition requiresIdempotency :: "bank_request \<Rightarrow> bool" where
  "requiresIdempotency r \<longleftrightarrow> br_Method r = ''POST'' \<and> list_ex (\<lambda>path. br_Path r = path) idempotentPaths"

definition normalizeRequestPath :: "string \<Rightarrow> string" where
  "normalizeRequestPath urlPath = (if suffix ''/'' urlPath then butlast urlPath else urlPath)"

definition shouldCacheResponse :: "int \<Rightarrow> bool" where
  "shouldCacheResponse statusCode \<longleftrightarrow> 200 \<le> statusCode \<and> statusCode < 300"

definition header_Get :: "string list \<Rightarrow> string" where
  "header_Get values = (case values of [] \<Rightarrow> [] | v # _ \<Rightarrow> v)"

definition cached_reply :: "IdempotencyKey \<Rightarrow> bank_reply" where
  "cached_reply cached = \<lparr>rp_response = \<lparr>rs_StatusCode = idk_ResponseStatus cached, rs_body = idk_ResponseBody cached\<rparr>,
     rp_captured = idk_ResponseStatus cached, rp_replayed = True\<rparr>"

definition Idempotency :: "BankEnv \<Rightarrow> (bank_request \<Rightarrow> bank_handler) \<Rightarrow> bank_request \<Rightarrow> bank_handler" where
  "Idempotency env next_handler r s =
   (if \<not> requiresIdempotency r then next_handler r s
    else let idempotencyKey = header_Get (br_keys r); requestPath = normalizeRequestPath (br_Path r) in
      if idempotencyKey = [] then next_handler r s
      else case idem_Get idempotencyKey requestPath s of
        (Inl _, s1) \<Rightarrow> next_handler r s1
      | (Inr (Some cached), s1) \<Rightarrow> (Reply (cached_reply cached), s1)
      | (Inr None, s1) \<Rightarrow>
          (case next_handler r s1 of
             (Panicked, s2) \<Rightarrow> (Panicked, s2)
           | (Reply rp, s2) \<Rightarrow>
               if shouldCacheResponse (rp_captured rp)
               then (Reply rp, snd (act_bind (bank_now env) (\<lambda>now. idem_Store env
                 \<lparr>idk_Key = idempotencyKey, idk_RequestPath = requestPath, idk_ResponseStatus = rp_captured rp,
                  idk_ResponseBody = rs_body (rp_response rp), idk_CreatedAt = now\<rparr>) s2))
               else (Reply rp, s2)))"

definition NewRouter ::
  "(float64 \<Rightarrow> int) \<Rightarrow> (bank_request \<Rightarrow> bank_reply) \<Rightarrow> BankEnv \<Rightarrow> AppConfig \<Rightarrow> bank_request \<Rightarrow> bank_handler" where
  "NewRouter threshold other env cfg = Idempotency env (FailureInjection threshold env cfg (api_mux other env))"

subsection \<open>Cleanup\<close>

definition cleanupIdempotencyKeys :: "BankEnv \<Rightarrow> BankState \<Rightarrow> BankState" where
  "cleanupIdempotencyKeys env s =
     snd (act_bind (bank_now env) (\<lambda>now. idem_DeleteOlderThan env (now - 24 * nanoseconds_per_hour)) s)"

subsection \<open>Identifiers round trip\<close>

lemmas prefix_defs = PrefixAuthorization_def PrefixCapture_def PrefixVoid_def PrefixRefund_def
lemmas format_defs = formatAuthorizationID_def formatCaptureID_def formatVoidID_def formatRefundID_def
lemmas parse_defs = parseAuthorizationID_def parseCaptureID_def parseRefundID_def parseIDWithPrefix_def

text \<open>C39: the identifiers the bank hands out are read back as the transactions they name, and an identifier
  of one kind is never taken for another.\<close>

theorem bank_ids_round_trip:
  assumes "be_parse env u = Some u"
  shows "parseAuthorizationID env (formatAuthorizationID u) = Some u \<and>
    parseCaptureID env (formatCaptureID u) = Some u \<and> parseRefundID env (formatRefundID u) = Some u \<and>
    parseCaptureID env (formatAuthorizationID v) = None \<and> parseRefundID env (formatAuthorizationID v) = None \<and>
    parseAuthorizationID env (formatCaptureID v) = None \<and> parseRefundID env (formatCaptureID v) = None \<and>
    parseAuthorizationID env (formatRefundID v) = None \<and> parseCaptureID env (formatRefundID v) = None \<and>
    parseAuthorizationID env (formatVoidID v) = None \<and> parseCaptureID env (formatVoidID v) = None \<and>
    parseRefundID env (formatVoidID v) = None"
  using assms by (simp add: parse_defs format_defs prefix_defs)

theorem bank_ids_round_trip_witness:
  "parseCaptureID example_env (formatCaptureID ''u0'') = Some ''u0''"
  using bank_ids_round_trip [of example_env "''u0''"] by (simp add: example_env_def)

subsection \<open>A successful answer is given once and replayed\<close>

text \<open>What the services leave alone: the response cache, and the absence of faults.\<close>

definition quiet :: "BankState \<Rightarrow> BankState \<Rightarrow> bool" where
  "quiet s u \<longleftrightarrow> bk_keys u = bk_keys s \<and> (bk_faults s = [] \<longrightarrow> bk_faults u = [])"

lemma quiet_order: "transp quiet" "reflp quiet"
  by (auto simp: quiet_def transp_def reflp_def)

lemma quiet_exec:
  assumes "\<And>s x u. stmt s = Inr (x, u) \<Longrightarrow> quiet s u"
  shows "act_keeps quiet (bank_exec f stmt)"
  unfolding act_keeps_def
proof
  fix s
  have "quiet s (snd (next_fault s))" by (simp add: quiet_def next_fault_def split: list.split)
  with assms [of "snd (next_fault s)"] show "quiet s (snd (bank_exec f stmt s))"
    using quiet_order(1)
    by (auto simp: bank_exec_def split: prod.splits bank_fault.splits sum.splits dest: transpD)
qed

lemmas quiet_pure = act_keeps_pure [OF quiet_order(2)]

lemma quiet_bind:
  "act_keeps quiet m \<Longrightarrow> (\<And>x. act_keeps quiet (f x)) \<Longrightarrow> act_keeps quiet (act_bind m f)"
  using quiet_order(1) by (rule act_keeps_bind)

lemma quiet_tx: assumes "act_keeps quiet body" shows "act_keeps quiet (bank_tx body)"
  unfolding act_keeps_def
proof
  fix s
  have nf: "quiet t (snd (next_fault t))" for t by (simp add: quiet_def next_fault_def split: list.split)
  obtain f s0 where s0: "next_fault s = (f, s0)" by fastforce
  obtain r s1 where s1: "body s0 = (r, s1)" by fastforce
  obtain g s2 where s2: "next_fault s1 = (g, s2)" by fastforce
  have "quiet s0 s1" using assms s1 by (metis act_keeps_def snd_conv)
  then have q: "quiet s s0" "quiet s s1" "quiet s s2"
    using nf [of s] nf [of s1] s0 s2 by (simp_all add: quiet_def)
  moreover have "quiet s (bank_rollback s0 s1)" "quiet s (bank_rollback s0 s2)"
    using q by (simp_all add: quiet_def bank_rollback_def)
  ultimately show "quiet s (snd (bank_tx body s))"
    using s0 s1 s2 by (cases f; cases r; cases g) (simp_all add: bank_tx_def)
qed

lemma quiet_repositories:
  "act_keeps quiet (bank_now env)" "act_keeps quiet (uuid_New env)"
  "act_keeps quiet (txn_FindByIDForUpdate i)" "act_keeps quiet (txn_FindByReferenceID i ty)"
  "act_keeps quiet (acc_FindByAccountNumberForUpdate number)"
  "act_keeps quiet (txn_insert env t)" "act_keeps quiet (txn_UpdateStatus i st)"
  "act_keeps quiet (acc_AdjustBalances env i db da)"
  unfolding txn_FindByIDForUpdate_def txn_FindByReferenceID_def acc_FindByAccountNumberForUpdate_def
    txn_insert_def txn_UpdateStatus_def acc_AdjustBalances_def
  by (auto simp: act_keeps_def [of quiet "bank_now env"] act_keeps_def [of quiet "uuid_New env"]
      bank_now_def uuid_New_def quiet_def Let_def intro!: quiet_exec quiet_bind quiet_pure
      split: option.splits if_splits)

lemma quiet_txn_Create: "act_keeps quiet (txn_Create env t)"
  by (auto simp: txn_Create_def intro: quiet_bind quiet_repositories)

lemma quiet_checks:
  "act_keeps quiet (service_check code err)" "act_keeps quiet (ValidateExpiry env m y)"
  "act_keeps quiet (authorization_expired env t)"
  by (auto simp: service_check_def ValidateExpiry_def authorization_expired_def Let_def case_prod_beta
      intro!: quiet_bind quiet_pure quiet_repositories split: option.split)

lemmas quiet_intros = quiet_bind quiet_pure act_keeps_map_err quiet_repositories quiet_txn_Create quiet_checks quiet_tx

lemma quiet_services:
  "act_keeps quiet (bank_Authorize env number cvv amount)" "act_keeps quiet (bank_Capture env i amount)"
  "act_keeps quiet (bank_Void env i)" "act_keeps quiet (bank_Refund env i amount)"
  unfolding bank_Authorize_def validateAuthorizationRequest_def performAuthorization_def bank_Capture_def
    performCapture_def bank_Void_def performVoid_def bank_Refund_def performRefund_def
  by (auto intro!: quiet_intros)

text \<open>An answer of the API: the status the capture sees is the one sent, or marks a failure.\<close>

definition sound_outcome :: "http_outcome \<Rightarrow> bool" where
  "sound_outcome out \<longleftrightarrow> (case out of Panicked \<Rightarrow> True
     | Reply rp \<Rightarrow> (rp_captured rp = rs_StatusCode (rp_response rp) \<or> rp_captured rp = 500) \<and> \<not> rp_replayed rp)"

definition sound_handler :: "bank_handler \<Rightarrow> bool" where
  "sound_handler h \<longleftrightarrow> (\<forall>s. quiet s (snd (h s)) \<and> sound_outcome (fst (h s)))"

lemma sound_replies [simp]:
  "sound_outcome (Reply (json_reply st doc))" "sound_outcome (Reply (text_reply st msg))"
  "sound_outcome Panicked" "sound_outcome (deref p (\<lambda>x. json_reply st (f x)))"
  by (simp_all add: sound_outcome_def json_reply_def text_reply_def deref_def split: option.split)

lemma sound_const: "sound_outcome out \<Longrightarrow> sound_handler (\<lambda>s. (out, s))"
  using quiet_order(2) by (simp add: sound_handler_def reflp_def)

lemma sound_call:
  assumes "act_keeps quiet call" "\<And>e. sound_outcome (Reply (on_error e))" "\<And>t. sound_outcome (on_txn t)"
  shows "sound_handler (handle_call call on_error on_txn)"
  unfolding sound_handler_def
proof
  fix s
  obtain r u where c: "call s = (r, u)" by fastforce
  moreover from this have "quiet s u" using assms(1) by (metis act_keeps_def snd_conv)
  ultimately show "quiet s (snd (handle_call call on_error on_txn s)) \<and> sound_outcome (fst (handle_call call on_error on_txn s))"
    using assms(2,3) by (cases r) (simp_all add: handle_call_def)
qed

lemma sound_errors [simp]:
  "sound_outcome (Reply (handleAuthorizationError e))" "sound_outcome (Reply (handleCaptureError e))"
  "sound_outcome (Reply (handleVoidError e))" "sound_outcome (Reply (handleRefundError e))"
  by (simp_all add: handleAuthorizationError_def handleCaptureError_def handleVoidError_def handleRefundError_def
      internal_reply_def split: option.split)

lemma sound_parsed:
  assumes "sound_outcome out" "\<And>x. sound_handler (h x)"
  shows "sound_handler (\<lambda>s. case p of None \<Rightarrow> (out, s) | Some x \<Rightarrow> h x s)"
  using assms by (cases p) (simp_all add: sound_const)

lemma sound_creates:
  "sound_handler (CreateAuthorization env number cvv amount)" "sound_handler (CreateCapture env i amount)"
  "sound_handler (CreateVoid env i)" "sound_handler (CreateRefund env i amount)"
  unfolding CreateAuthorization_def CreateCapture_def [abs_def] CreateVoid_def [abs_def] CreateRefund_def [abs_def]
  by (intro sound_parsed sound_call quiet_services; simp)+

lemma sound_wrapper_post: "sound_handler strict \<Longrightarrow> sound_handler (wrapper_post env r strict)"
  using quiet_order(2) by (auto simp: sound_handler_def wrapper_post_def reflp_def split: option.split)

lemma sound_strict_post: "(\<And>x. sound_handler (h x)) \<Longrightarrow> sound_handler (strict_post r decode h)"
  using quiet_order(2) by (auto simp: sound_handler_def strict_post_def reflp_def split: sum.split)

lemma sound_api_post:
  assumes "requiresIdempotency r"
  shows "sound_handler (api_mux other env r)"
proof -
  have post: "br_Method r = ''POST''" and
    path: "br_Path r \<in> {''/api/v1/authorizations'', ''/api/v1/captures'', ''/api/v1/voids'', ''/api/v1/refunds''}"
    using assms by (auto simp: requiresIdempotency_def idempotentPaths_def)
  have w: "sound_handler (wrapper_CreateAuthorization env r)" "sound_handler (wrapper_CreateCapture env r)"
    "sound_handler (wrapper_CreateRefund env r)" "sound_handler (wrapper_CreateVoid env r)"
    unfolding wrapper_post_defs
    by (rule sound_wrapper_post, rule sound_strict_post, simp add: sound_creates split: prod.split)+
  obtain h where h: "api_post env r = Some h" "sound_handler h"
    using path w by (auto simp: api_post_def)
  have "drop_body r out = out" for out using post by (simp add: drop_body_def split: http_outcome.split)
  with h post show ?thesis by (simp add: sound_handler_def api_mux_def)
qed

lemma sound_FailureInjection:
  assumes "sound_handler (next_handler r)"
  shows "sound_handler (FailureInjection threshold env cfg next_handler r)"
  unfolding sound_handler_def
proof
  fix s
  obtain x s1 where l: "injectLatency env (app_MinLatencyMS cfg) (app_MaxLatencyMS cfg) s = (x, s1)" by fastforce
  obtain b s2 where f: "shouldInjectFailure threshold env (app_FailureRate cfg) s1 = (b, s2)" by fastforce
  have "quiet s s1" using l by (auto simp: injectLatency_def rand_Int_def quiet_def Let_def split: if_splits option.splits)
  moreover have "quiet s1 s2" using f by (auto simp: shouldInjectFailure_def rand_Int_def quiet_def split: if_splits option.splits)
  ultimately have q: "quiet s s2" using quiet_order(1) by (auto dest: transpD)
  moreover have "quiet s2 (snd (next_handler r s2))" using assms by (simp add: sound_handler_def)
  ultimately have "quiet s (snd (next_handler r s2))" using quiet_order(1) by (auto dest: transpD)
  with q l f assms show "quiet s (snd (FailureInjection threshold env cfg next_handler r s)) \<and>
      sound_outcome (fst (FailureInjection threshold env cfg next_handler r s))"
    by (cases b) (auto simp: FailureInjection_def sound_handler_def writeFailureResponse_def)
qed

lemma sound_router:
  assumes "requiresIdempotency r"
  shows "sound_handler (FailureInjection threshold env cfg (api_mux other env) r)"
  using assms by (intro sound_FailureInjection sound_api_post)

lemma idem_Get_no_fault:
  "bk_faults s = [] \<Longrightarrow> idem_Get k path s =
     (Inr (lookup_row (\<lambda>k. (idk_Key k, idk_RequestPath k)) (bk_keys s) (k, path)), s)"
  by (simp add: idem_Get_def bank_exec_no_fault)

lemma idem_paths_normal: "requiresIdempotency r \<Longrightarrow> normalizeRequestPath (br_Path r) = br_Path r"
  by (auto simp: requiresIdempotency_def idempotentPaths_def normalizeRequestPath_def suffix_to_prefix)

text \<open>What a first successful answer leaves in the cache.\<close>

lemma router_caches:
  assumes "bk_faults s = []" "requiresIdempotency r" "br_keys r = [k]" "k \<noteq> []"
    "be_fits env 255 k" "be_fits env 100 (br_Path r)"
    "NewRouter threshold other env cfg r s = (Reply rp, s1)" "shouldCacheResponse (rp_captured rp)"
  shows "bk_faults s1 = [] \<and> (\<exists>row. lookup_row (\<lambda>k. (idk_Key k, idk_RequestPath k)) (bk_keys s1) (k, br_Path r) = Some row \<and>
    rp_response (cached_reply row) = rp_response rp)"
proof (cases "lookup_row (\<lambda>k. (idk_Key k, idk_RequestPath k)) (bk_keys s) (k, br_Path r)")
  case None
  define h where "h = FailureInjection threshold env cfg (api_mux other env) r"
  obtain out u where u: "h s = (out, u)" by fastforce
  have "sound_handler h" unfolding h_def using assms(2) by (rule sound_router)
  then have q: "quiet s u" "sound_outcome out" using u by (metis sound_handler_def fst_conv snd_conv)+
  have out: "out = Reply rp"
    and s1: "s1 = snd (idem_Store env \<lparr>idk_Key = k, idk_RequestPath = br_Path r, idk_ResponseStatus = rp_captured rp,
        idk_ResponseBody = rs_body (rp_response rp), idk_CreatedAt = be_clock env (bk_ticks u)\<rparr> (u\<lparr>bk_ticks := bk_ticks u + 1\<rparr>))"
    using assms u None
    by (auto simp: NewRouter_def Idempotency_def h_def [symmetric] header_Get_def idem_paths_normal idem_Get_no_fault
        Let_def bank_now_def act_bind_def split: http_outcome.splits if_splits)
  have "rs_StatusCode (rp_response rp) = rp_captured rp"
    using q(2) out assms(8) by (auto simp: sound_outcome_def shouldCacheResponse_def)
  then show ?thesis
    using q(1) s1 None assms(1,5,6)
    by (auto simp: idem_Store_def bank_exec_no_fault quiet_def sql_insert_def lookup_row_append cached_reply_def)
       (simp add: lookup_row_def)
next
  case (Some row)
  with assms show ?thesis
    by (auto simp: NewRouter_def Idempotency_def header_Get_def idem_paths_normal idem_Get_no_fault Let_def)
qed

lemma router_replays:
  assumes "bk_faults s1 = []" "requiresIdempotency r" "br_keys r = [k]" "k \<noteq> []"
    "lookup_row (\<lambda>k. (idk_Key k, idk_RequestPath k)) (bk_keys s1) (k, br_Path r) = Some row"
  shows "NewRouter threshold other env cfg r s1 = (Reply (cached_reply row), s1)"
  using assms idem_paths_normal [of r]
  by (simp add: NewRouter_def Idempotency_def header_Get_def idem_Get_no_fault Let_def)


definition quiet_config :: AppConfig where
  "quiet_config = \<lparr>app_FailureRate = Finite 0, app_MinLatencyMS = 0, app_MaxLatencyMS = 0,
     app_AuthExpiryHours = 168, app_AuthExpiryDuration = 168 * nanoseconds_per_hour\<rparr>"

definition example_capture_request :: bank_request where
  "example_capture_request = \<lparr>br_Method = ''POST'', br_Path = ''/api/v1/captures'', br_keys = [''key-1''],
     br_body = Inr [(''authorization_id'', JString ''auth_u1''), (''amount'', JNumber 50)]\<rparr>"

definition example_router :: "bank_request \<Rightarrow> bank_handler" where
  "example_router = NewRouter (\<lambda>_. 0) (\<lambda>_. text_reply 404 ''404 page not found'') example_env quiet_config"

lemma example_capture_reply:
  "case fst (example_router example_capture_request example_bank) of Reply rp \<Rightarrow> rp_captured rp = 200 | Panicked \<Rightarrow> False"
  by code_simp


end
