(* ===== verification/Bank_Exchange.thy ===== *)
theory Bank_Exchange
  imports Mock_Bank_Http
begin

text \<open>
  The gateway's bank client against the mock bank: the client's requests go through the bank's
  router, and the network may lose the reply of a request the bank has carried out.  A capture whose
  reply was lost is retried with the same operation key, which the bank answers from its cache: the
  client learns the outcome of the one capture that was made.
\<close>

record Network =
  nw_bank :: BankState
  nw_lost :: "bool list" \<comment> \<open>for each request, whether its reply gets lost\<close>

definition posted :: "http_request \<Rightarrow> bank_request" where
  "posted rq = \<lparr>br_Method = ''POST'', br_Path = rq_path rq, br_keys = [rq_idempotency_key rq], br_body = Inr (rq_body rq)\<rparr>"

definition network_Do :: "(bank_request \<Rightarrow> bank_handler) \<Rightarrow> duration \<Rightarrow> http_request \<Rightarrow> (Network, http_response) action" where
  "network_Do router timeout rq w =
   (case router (posted rq) (nw_bank w) of (out, bank) \<Rightarrow>
      let w' = w\<lparr>nw_bank := bank, nw_lost := tl (nw_lost w)\<rparr> in
      if nw_lost w \<noteq> [] \<and> hd (nw_lost w) then (Inl (TransportError False True), w')
      else case out of Panicked \<Rightarrow> (Inl (TransportError False False), w') | Reply rp \<Rightarrow> (Inr (rp_response rp), w'))"

definition network_env :: "(bank_request \<Rightarrow> bank_handler) \<Rightarrow> Network bank_env" where
  "network_env router = \<lparr>endpoint_error = (\<lambda>_. None), http_Do = network_Do router, ctx_wait = (\<lambda>_ w. (None, w))\<rparr>"

text \<open>What the exchange relies on of the identifiers, the clock and the header binding.\<close>

definition exchange_ok :: "BankEnv \<Rightarrow> BankState \<Rightarrow> Transaction \<Rightarrow> string \<Rightarrow> bool" where
  "exchange_ok env b t k \<longleftrightarrow>
     be_parse env (txn_ID t) = Some (txn_ID t) \<and> list_all printable (txn_ID t) \<and>
     list_all printable (be_uuid env (bk_uuids b)) \<and>
     k \<noteq> [] \<and> (\<exists>v. be_bind_header env k = Inr v) \<and> be_fits env 255 k \<and> be_fits env 100 ''/api/v1/captures'' \<and>
     lookup_row (\<lambda>k. (idk_Key k, idk_RequestPath k)) (bk_keys b) (k, ''/api/v1/captures'') = None"

definition capture_of :: "Transaction \<Rightarrow> string \<Rightarrow> BankCaptureRequest" where
  "capture_of t k = \<lparr>bcr_OperationKey = k, bcr_BankAuthorizationID = formatAuthorizationID (txn_ID t),
     bcr_AmountCents = txn_AmountCents t, bcr_Currency = txn_Currency t\<rparr>"

lemma printable_coerce: "list_all printable s \<Longrightarrow> json_coerce s = s"
  by (intro json_coerce_valid valid_utf8_ascii) (auto simp: list_all_iff printable_def char_between_def)

lemma printable_formats:
  "list_all printable u \<Longrightarrow> list_all printable (formatAuthorizationID u)"
  "list_all printable u \<Longrightarrow> list_all printable (formatCaptureID u)"
  by (simp_all add: format_defs prefix_defs) (simp_all add: printable_def char_between_def)

lemma json_fold_capture [simp]:
  "json_fold ''authorization_id'' = ''authorization_id''" "json_fold ''capture_id'' = ''capture_id''"
  "json_fold ''captured_at'' = ''captured_at''"
  by (simp_all add: json_fold.simps char_between_def)

lemma decode_capture:
  "list_all printable (bcr_BankAuthorizationID q) \<Longrightarrow> int64 (bcr_AmountCents q) \<Longrightarrow>
   decode_amount_body ''authorization_id'' (captureRequest q) = Inr (bcr_BankAuthorizationID q, bcr_AmountCents q)"
  by (simp add: decode_amount_body_def captureRequest_def json_int64_member_def json_member_defs printable_coerce)

lemma injectLatency_state:
  obtains d m where "injectLatency env lo hi s = (d, s\<lparr>bk_draws := m\<rparr>)"
proof (cases "snd (injectLatency env lo hi s) = s")
  case True
  then have "snd (injectLatency env lo hi s) = s\<lparr>bk_draws := bk_draws s\<rparr>" by simp
  then show thesis by (metis prod.collapse that)
next
  case False
  then show thesis
    by (intro that [of "fst (injectLatency env lo hi s)" "bk_draws s + 1"])
       (auto simp: injectLatency_def rand_Int_def Let_def split: if_splits option.splits)
qed

definition capture_http :: "Transaction \<Rightarrow> string \<Rightarrow> http_request" where
  "capture_http t k = \<lparr>rq_path = ''/api/v1/captures'', rq_body = captureRequest (capture_of t k), rq_idempotency_key = k\<rparr>"

lemma settleable_amount: "books_ok opened (tables_of s) \<Longrightarrow> settleable env s t \<Longrightarrow> int64 (txn_AmountCents t)"
proof -
  assume b: "books_ok opened (tables_of s)" "settleable env s t"
  obtain a where a: "a \<in> set (bk_accounts s)" "acc_ID a = txn_AccountID t"
    using settle_facts(2) [OF b] by (auto simp: lookup_row_None_iff)
  have "0 < txn_AmountCents t" using b by (auto simp: settleable_def books_ok_def tables_of_def follow_up_ok_def)
  moreover have "txn_AmountCents t \<le> acc_BalanceCents a - acc_AvailableBalanceCents a" "account_ok opened (bk_txns s) a"
    using active_hold_covered [of opened "bk_accounts s" "bk_txns s" t a] a b
    by (simp_all add: settleable_def tables_of_def)
  ultimately show ?thesis by (simp add: int64_def account_ok_def balances_fit_def)
qed

lemma bank_answers_capture:
  assumes b: "books_ok opened (tables_of b)" "settleable env b t" "exchange_ok env b t k"
    and e: "case txn_ExpiresAt t of None \<Rightarrow> True | Some e \<Rightarrow> be_clock env (bk_ticks b) \<le> e"
    and "f64_le (app_FailureRate cfg) 0" "\<And>n. year_in_range (be_clock env n)"
  obtains rp s1 c where "NewRouter threshold other env cfg (posted (capture_http t k)) b = (Reply rp, s1)"
    "rp_captured rp = 200" "rp_response rp = \<lparr>rs_StatusCode = 200, rs_body = Inr (capture_doc c (txn_ID t))\<rparr>"
    "txn_ID c = be_uuid env (bk_uuids b)" "txn_Type c = TransactionTypeCapture" "follows c t"
    "bk_txns s1 = complete_txn (txn_ID t) (bk_txns b @ [txn_stored env c])"
proof -
  obtain d m where m: "injectLatency env (app_MinLatencyMS cfg) (app_MaxLatencyMS cfg) b = (d, b\<lparr>bk_draws := m\<rparr>)"
    by (rule injectLatency_state)
  let ?b = "b\<lparr>bk_draws := m\<rparr>"
  have b': "books_ok opened (tables_of ?b)" "settleable env ?b t" "bk_faults b = []"
    using b by (simp_all add: tables_of_def settleable_def)
  have e': "case txn_ExpiresAt t of None \<Rightarrow> True | Some e \<Rightarrow> be_clock env (bk_ticks ?b) \<le> e"
    using e by (simp split: option.splits)
  obtain c u n where c: "bank_Capture env (txn_ID t) (txn_AmountCents t) ?b = (Inr c, u)"
    "txn_ID c = be_uuid env (bk_uuids b)" "follows c t" "txn_Type c = TransactionTypeCapture"
    "txn_CreatedAt c = be_clock env n" "bk_txns u = complete_txn (txn_ID t) (bk_txns b @ [txn_stored env c])"
    by (rule capture_goes_through [OF b'(1,2) e']) (rule that; simp)
  define rp where "rp = json_reply 200 (capture_doc c (txn_ID t))"
  have rp: "rp_captured rp = 200" "rp_response rp = \<lparr>rs_StatusCode = 200, rs_body = Inr (capture_doc c (txn_ID t))\<rparr>"
    using c(5) assms(6) by (simp_all add: rp_def json_reply_def json_times_ok_def capture_doc_def)
  have dec: "decode_amount_body ''authorization_id'' (captureRequest (capture_of t k)) =
      Inr (formatAuthorizationID (txn_ID t), txn_AmountCents t)"
    using decode_capture [of "capture_of t k"] b(3) settleable_amount [OF b(1,2)]
    by (simp add: capture_of_def printable_formats exchange_ok_def)
  have "parseAuthorizationID env (formatAuthorizationID (txn_ID t)) = Some (txn_ID t)"
    using b(3) by (simp add: parse_defs format_defs prefix_defs exchange_ok_def)
  then have call: "CreateCapture env (formatAuthorizationID (txn_ID t)) (txn_AmountCents t) ?b = (Reply rp, u)"
    using c by (simp add: CreateCapture_def handle_call_def deref_def follows_def rp_def)
  have post: "api_mux other env (posted (capture_http t k)) ?b = (Reply rp, u)"
    using call dec b(3)
    by (auto simp: api_mux_def api_post_def posted_def capture_http_def wrapper_post_defs wrapper_post_def strict_post_def header_error_def exchange_ok_def
        drop_body_def)
  have inj: "FailureInjection threshold env cfg (api_mux other env) (posted (capture_http t k)) b = (Reply rp, u)"
    using assms(5) m post
    by (simp add: FailureInjection_def isExcludedPath_def excludedPaths_def posted_def capture_http_def shouldInjectFailure_def)
  define s1 where "s1 = snd (act_bind (bank_now env) (\<lambda>now. idem_Store env
      \<lparr>idk_Key = k, idk_RequestPath = ''/api/v1/captures'', idk_ResponseStatus = 200,
       idk_ResponseBody = Inr (capture_doc c (txn_ID t)), idk_CreatedAt = now\<rparr>) u)"
  have "NewRouter threshold other env cfg (posted (capture_http t k)) b = (Reply rp, s1)"
    using inj b(3) b'(3) rp
    by (simp add: NewRouter_def Idempotency_def requiresIdempotency_def idempotentPaths_def posted_def capture_http_def
        header_Get_def normalizeRequestPath_def suffix_to_prefix exchange_ok_def idem_Get_no_fault Let_def shouldCacheResponse_def s1_def)
  moreover have "bk_txns s1 = bk_txns u"
    using cache_tables(1) by (simp add: s1_def bank_now_def act_bind_def tables_of_def)
  ultimately show thesis using that rp c by simp
qed

text \<open>One attempt of the client, with the reply lost or not.\<close>

lemma capture_attempt:
  assumes "router (posted (capture_http t k)) (nw_bank (cs_world cs)) = (Reply rp, s1)"
  shows "nw_lost (cs_world cs) = True # ls \<Longrightarrow>
      capturePaymentAttempt (network_env router) (capture_of t k) timeout cs =
        (Inl (NewPaymentBankTimeoutError (Some (TransportError False True))),
         record_metric (MockBankRequest ''capture'' ''timeout'')
           (cs\<lparr>cs_world := (cs_world cs)\<lparr>nw_bank := s1, nw_lost := ls\<rparr>, cs_sent := cs_sent cs @ [capture_http t k]\<rparr>))"
    and "nw_lost (cs_world cs) = [] \<Longrightarrow>
      existing_classify ''mock bank capture'' ''capture_id'' ''mock bank capture response missing capture id'' True
        (\<lambda>i. \<lparr>bcs_BankCaptureID = i\<rparr>) (rp_response rp) = (r, label) \<Longrightarrow>
      capturePaymentAttempt (network_env router) (capture_of t k) timeout cs =
        (r, record_metric (MockBankRequest ''capture'' label)
           (cs\<lparr>cs_world := (cs_world cs)\<lparr>nw_bank := s1, nw_lost := []\<rparr>, cs_sent := cs_sent cs @ [capture_http t k]\<rparr>))"
  using assms
  by (simp_all add: capturePaymentAttempt_def bank_attempt_def newHTTPRequest_def network_env_def client_Do_def
      network_Do_def capture_http_def capture_of_def Let_def)

lemma capture_reply_read:
  assumes "response = \<lparr>rs_StatusCode = 200, rs_body = Inr (capture_doc c refID)\<rparr>" "list_all printable (txn_ID c)"
  shows "existing_classify p ''capture_id'' x True f response = (Inr (f (formatCaptureID (txn_ID c))), ''success'')"
proof -
  have "list_all printable (formatCaptureID (txn_ID c))" using assms(2) by (rule printable_formats)
  then show ?thesis
    using assms(1) TrimSpace_printable [of "formatCaptureID (txn_ID c)"]
    by (simp add: existing_classify_def capture_doc_def json_member_defs printable_coerce) (simp add: format_defs prefix_defs)
qed

lemma one_capture:
  assumes "books_ok opened (tables_of b)" "settleable env b t" "follows c t" "txn_Type c = TransactionTypeCapture"
  shows "length (filter (\<lambda>u. txn_ReferenceID u = Some (txn_ID t) \<and> txn_Type u = TransactionTypeCapture)
    (complete_txn (txn_ID t) (bk_txns b @ [txn_stored env c]))) = 1"
proof -
  have "filter (\<lambda>u. txn_ReferenceID u = Some (txn_ID t) \<and> txn_Type u = TransactionTypeCapture) (bk_txns b) = []"
    using active_hold_unsettled [of opened "bk_accounts b" "bk_txns b" t] assms(1,2)
    by (auto simp: filter_empty_conv settleable_def tables_of_def)
  moreover have "length (filter (\<lambda>u. txn_ReferenceID u = Some (txn_ID t) \<and> txn_Type u = TransactionTypeCapture) (complete_txn i T)) =
      length (filter (\<lambda>u. txn_ReferenceID u = Some (txn_ID t) \<and> txn_Type u = TransactionTypeCapture) T)" for i T
    by (induction T) (simp_all add: complete_txn_def sql_update_def)
  ultimately show ?thesis using assms(3,4) by (simp add: follows_def)
qed


definition example_client :: "Network client_state" where
  "example_client = \<lparr>cs_world = \<lparr>nw_bank = example_bank, nw_lost = [True]\<rparr>, cs_sent = [], cs_metrics = []\<rparr>"


end
