(* ===== verification/Go_Text.thy ===== *)
theory Go_Text
  imports Go_Effects
begin

text \<open>
  What the configuration, the authenticator and the HTTP layers use of Go's standard library on
  text: \<^verbatim>\<open>strings.Split\<close>, \<^verbatim>\<open>Cut\<close> and \<^verbatim>\<open>Fields\<close>, \<^verbatim>\<open>strconv.Atoi\<close>, \<^verbatim>\<open>time.ParseDuration\<close>,
  \<^verbatim>\<open>net.SplitHostPort\<close> and the unpadded URL alphabet of \<^verbatim>\<open>encoding/base64\<close>.
\<close>

subsection \<open>Splitting\<close>

fun str_Split :: "char \<Rightarrow> string \<Rightarrow> string list" where
  "str_Split sep [] = [[]]"
| "str_Split sep (c # cs) =
     (if c = sep then [] # str_Split sep cs
      else case str_Split sep cs of [] \<Rightarrow> [[c]] | w # ws \<Rightarrow> (c # w) # ws)"

definition str_Cut :: "char \<Rightarrow> string \<Rightarrow> (string \<times> string) option" where
  "str_Cut sep s =
   (if sep \<in> set s then Some (takeWhile (\<lambda>c. c \<noteq> sep) s, tl (dropWhile (\<lambda>c. c \<noteq> sep) s)) else None)"

text \<open>\<^verbatim>\<open>strings.Fields\<close>: the words between runs of white space.\<close>

function str_fields :: "string \<Rightarrow> string \<Rightarrow> string list" where
  "str_fields acc s =
   (if s = [] then (if acc = [] then [] else [rev acc])
    else case find (\<lambda>w. w \<noteq> [] \<and> prefix w s) space_encodings of
      Some w \<Rightarrow> (if acc = [] then str_fields [] (drop (length w) s) else rev acc # str_fields [] (drop (length w) s))
    | None \<Rightarrow> str_fields (hd s # acc) (tl s))"
  by pat_completeness auto
termination
proof (relation "measure (\<lambda>(acc, s). length s)")
  fix acc s w
  assume "s \<noteq> []" "find (\<lambda>w. w \<noteq> [] \<and> prefix w s) space_encodings = Some w"
  then have "w \<noteq> []" by (auto simp: find_Some_iff)
  with \<open>s \<noteq> []\<close> show "(([], drop (length w) s), acc, s) \<in> measure (\<lambda>(acc, s). length s)"
    "(([], drop (length w) s), acc, s) \<in> measure (\<lambda>(acc, s). length s)"
    by (cases s; cases w; simp)+
qed auto

declare str_fields.simps [simp del]

definition str_Fields :: "string \<Rightarrow> string list" where
  "str_Fields s = str_fields [] s"

subsection \<open>Numbers\<close>

definition read_digits :: "string \<Rightarrow> nat option" where
  "read_digits s = (if s \<noteq> [] \<and> list_all digit_char s then Some (read_nat s) else None)"

definition strconv_Atoi :: "string \<Rightarrow> int option" where
  "strconv_Atoi s =
   (let (neg, ds) = (case s of c # cs \<Rightarrow> if c = CHR ''-'' then (True, cs) else if c = CHR ''+'' then (False, cs) else (False, s)
                     | [] \<Rightarrow> (False, [])) in
    case read_digits ds of None \<Rightarrow> None
    | Some n \<Rightarrow> let v = (if neg then - int n else int n) in if int64 v then Some v else None)"

subsection \<open>Durations\<close>

definition Nanosecond :: int where "Nanosecond = 1"
definition Microsecond :: int where "Microsecond = 1000"
definition Millisecond :: int where "Millisecond = 1000000"
definition Second :: int where "Second = 1000000000"
definition Minute :: int where "Minute = 60000000000"
definition Hour :: int where "Hour = 3600000000000"

definition unitMap :: "string \<Rightarrow> int option" where
  "unitMap u =
   (if u = ''ns'' then Some Nanosecond
    else if u = ''us'' \<or> u = [CHR 0xC2, CHR 0xB5, CHR ''s''] \<or> u = [CHR 0xCE, CHR 0xBC, CHR ''s''] then Some Microsecond
    else if u = ''ms'' then Some Millisecond
    else if u = ''s'' then Some Second
    else if u = ''m'' then Some Minute
    else if u = ''h'' then Some Hour
    else None)"

text \<open>The digits of a fraction, cut off before they overflow, and how many of them were used.\<close>

fun leadingFraction :: "int \<Rightarrow> nat \<Rightarrow> bool \<Rightarrow> string \<Rightarrow> int \<times> nat" where
  "leadingFraction x k overflow [] = (x, k)"
| "leadingFraction x k overflow (c # cs) =
     (if overflow \<or> x > (2 ^ 63 - 1) div 10 then leadingFraction x k True cs
      else let y = x * 10 + (of_char c - 48) in
        if y > 2 ^ 63 then leadingFraction x k True cs else leadingFraction y (k + 1) False cs)"

text \<open>
  One quantity with its unit; \<open>frac f unit k\<close> is the truncated \<^verbatim>\<open>float64\<close> product
  \<^verbatim>\<open>float64(f) * (float64(unit) / scale)\<close> for a scale of \<open>10 ^ k\<close>.
\<close>

definition unit_char :: "char \<Rightarrow> bool" where
  "unit_char c \<longleftrightarrow> c \<noteq> CHR ''.'' \<and> \<not> digit_char c"

definition parse_quantity :: "(int \<Rightarrow> int \<Rightarrow> nat \<Rightarrow> int) \<Rightarrow> string \<Rightarrow> (int \<times> string) option" where
  "parse_quantity frac s =
   (let ds = takeWhile digit_char s; r = dropWhile digit_char s; v = int (read_nat ds);
        fs = (case r of c # r' \<Rightarrow> if c = CHR ''.'' then takeWhile digit_char r' else [] | [] \<Rightarrow> []);
        r1 = (case r of c # r' \<Rightarrow> if c = CHR ''.'' then dropWhile digit_char r' else r | [] \<Rightarrow> []);
        (f, k) = leadingFraction 0 0 False fs;
        u = takeWhile unit_char r1; r2 = dropWhile unit_char r1 in
    if ds = [] \<and> fs = [] then None
    else if v > 2 ^ 63 then None
    else case unitMap u of None \<Rightarrow> None
    | Some unit \<Rightarrow>
        if v > 2 ^ 63 div unit then None
        else let w = v * unit + (if f > 0 then frac f unit k else 0) in
          if f > 0 \<and> w > 2 ^ 63 then None else Some (w, r2))"

lemma parse_quantity_shorter: "parse_quantity frac s = Some (v, r) \<Longrightarrow> length r < length s"
proof -
  assume p: "parse_quantity frac s = Some (v, r)"
  have dw: "length (dropWhile P xs) \<le> length xs" for P and xs :: string by (rule length_dropWhile_le)
  define r1 where "r1 = (case dropWhile digit_char s of c # r' \<Rightarrow> if c = CHR ''.'' then dropWhile digit_char r' else dropWhile digit_char s | [] \<Rightarrow> [])"
  have r1: "length r1 \<le> length s"
    using dw [of digit_char s] dw [of digit_char "tl (dropWhile digit_char s)"]
    by (auto simp: r1_def split: list.split)
  have r: "r = dropWhile unit_char r1" and u: "unitMap (takeWhile unit_char r1) \<noteq> None"
    using p by (auto simp: parse_quantity_def Let_def r1_def split: if_splits option.splits prod.splits)
  have "takeWhile unit_char r1 \<noteq> []" using u by (auto simp: unitMap_def)
  then have "length (dropWhile unit_char r1) < length r1"
    by (metis add_diff_cancel_left' append_Nil length_append length_greater_0_conv less_add_same_cancel2 takeWhile_dropWhile_id)
  with r r1 show ?thesis by simp
qed

function parse_quantities :: "(int \<Rightarrow> int \<Rightarrow> nat \<Rightarrow> int) \<Rightarrow> int \<Rightarrow> string \<Rightarrow> int option" where
  "parse_quantities frac d s =
   (if s = [] then Some d
    else case parse_quantity frac s of None \<Rightarrow> None
    | Some (v, r) \<Rightarrow> if (d + v) mod 2 ^ 64 > 2 ^ 63 then None else parse_quantities frac ((d + v) mod 2 ^ 64) r)"
  by pat_completeness auto
termination
  by (relation "measure (\<lambda>(frac, d, s). length s)") (auto dest: parse_quantity_shorter)

declare parse_quantities.simps [simp del]

definition ParseDuration :: "(int \<Rightarrow> int \<Rightarrow> nat \<Rightarrow> int) \<Rightarrow> string \<Rightarrow> duration option" where
  "ParseDuration frac s =
   (let (neg, r) = (case s of c # cs \<Rightarrow> if c = CHR ''-'' then (True, cs) else if c = CHR ''+'' then (False, cs) else (False, s)
                    | [] \<Rightarrow> (False, [])) in
    if r = ''0'' then Some 0
    else if r = [] then None
    else case parse_quantities frac 0 r of None \<Rightarrow> None
    | Some d \<Rightarrow> if neg then Some (- d) else if d > 2 ^ 63 - 1 then None else Some d)"

lemma parse_quantities_range: "0 \<le> d \<Longrightarrow> d \<le> 2 ^ 63 \<Longrightarrow> parse_quantities frac d s = Some e \<Longrightarrow> 0 \<le> e \<and> e \<le> 2 ^ 63"
proof (induction frac d s rule: parse_quantities.induct)
  case (1 frac d s)
  show ?case
  proof (cases "parse_quantity frac s")
    case None
    with 1 parse_quantities.simps [of frac d s] show ?thesis by (auto split: if_splits)
  next
    case (Some vr)
    then obtain v r where vr: "parse_quantity frac s = Some (v, r)" by (cases vr) auto
    show ?thesis
      using "1.IH" [OF _ vr refl] "1.prems" parse_quantities.simps [of frac d s] vr
      by (auto split: if_splits simp: not_less)
  qed
qed

text \<open>A parsed duration fits 64 bits, whatever the text.\<close>

lemma ParseDuration_int64: "case ParseDuration frac s of None \<Rightarrow> True | Some d \<Rightarrow> int64 d"
  using parse_quantities_range [of 0 frac]
  by (fastforce simp: ParseDuration_def int64_def Let_def case_prod_beta split: option.split)

lemma takeWhile_digits:
  "list_all digit_char ds \<Longrightarrow> \<not> digit_char c \<Longrightarrow> takeWhile digit_char (ds @ c # cs) = ds"
  "list_all digit_char ds \<Longrightarrow> \<not> digit_char c \<Longrightarrow> dropWhile digit_char (ds @ c # cs) = c # cs"
  by (auto simp: list_all_iff takeWhile_append dropWhile_append)

definition unit_texts :: "(string \<times> int) list" where
  "unit_texts = [(''ns'', Nanosecond), (''us'', Microsecond), (''ms'', Millisecond), (''s'', Second), (''m'', Minute), (''h'', Hour)]"

lemma unit_texts_ok:
  assumes "(u, unit) \<in> set unit_texts"
  shows "unitMap u = Some unit" "list_all unit_char u" "u \<noteq> []" "0 < unit"
  using assms
  by (auto simp: unit_texts_def unitMap_def unit_char_def digit_char_def char_between_def
      Nanosecond_def Microsecond_def Millisecond_def Second_def Minute_def Hour_def)

lemma parse_whole_quantity:
  assumes "(u, unit) \<in> set unit_texts" "int n * unit \<le> 2 ^ 63"
  shows "parse_quantity frac (show_nat n @ u) = Some (int n * unit, [])"
proof -
  obtain c cs where u: "u = c # cs" using unit_texts_ok(3) [OF assms(1)] by (cases u) auto
  have uc: "unit_char c" "list_all unit_char cs" using unit_texts_ok(2) [OF assms(1)] u by simp_all
  have ds: "list_all digit_char (show_nat n)" using show_nat_digits by (auto simp: list_all_iff)
  have le: "int n \<le> 2 ^ 63 div unit"
    using zdiv_mono1 [OF assms(2) unit_texts_ok(4) [OF assms(1)]] unit_texts_ok(4) [OF assms(1)] by simp
  have "int n * 1 \<le> int n * unit" using unit_texts_ok(4) [OF assms(1)] by (intro mult_left_mono) auto
  then have "int n \<le> 2 ^ 63" using assms(2) by simp
  have tw: "takeWhile unit_char (c # cs) = c # cs" "dropWhile unit_char (c # cs) = []"
    using uc by (simp_all add: list_all_iff)
  have "c \<noteq> CHR ''.''" "\<not> digit_char c" using uc(1) by (simp_all add: unit_char_def)
  with \<open>int n \<le> 2 ^ 63\<close> show ?thesis
    using le ds u unit_texts_ok(1) [OF assms(1)]
    by (simp add: parse_quantity_def takeWhile_digits tw read_show_nat Let_def del: takeWhile.simps dropWhile.simps)
qed

text \<open>What is written as a whole number of a unit is read as that multiple of it, up to the largest
  duration there is.\<close>

lemma ParseDuration_whole:
  assumes "(u, unit) \<in> set unit_texts" "int n * unit < 2 ^ 63"
  shows "ParseDuration frac (show_nat n @ u) = Some (int n * unit)"
proof -
  obtain c cs where n: "show_nat n = c # cs" using show_nat_nonempty [of n] by (cases "show_nat n") auto
  have "digit_char c" using show_nat_digits [of c n] n by simp
  then have c: "c \<noteq> CHR ''-''" "c \<noteq> CHR ''+''" by (auto simp: digit_char_def char_between_def)
  have ne: "show_nat n @ u \<noteq> ''0''" using unit_texts_ok(3) [OF assms(1)] n by (cases cs) auto
  have "parse_quantities frac 0 (show_nat n @ u) = Some (int n * unit)"
    using parse_whole_quantity [of u unit n frac] assms unit_texts_ok(4) [OF assms(1)]
    by (subst parse_quantities.simps) (simp add: parse_quantities.simps [of _ _ "[]"] mod_pos_pos_trivial not_less)
  with c ne n assms show ?thesis by (auto simp: ParseDuration_def Let_def)
qed

subsection \<open>Addresses\<close>

definition index_byte :: "char \<Rightarrow> string \<Rightarrow> nat option" where
  "index_byte c s = (if c \<in> set s then Some (length (takeWhile (\<lambda>x. x \<noteq> c) s)) else None)"

definition last_index_byte :: "char \<Rightarrow> string \<Rightarrow> nat option" where
  "last_index_byte c s = map_option (\<lambda>k. length s - 1 - k) (index_byte c (rev s))"

definition SplitHostPort :: "string \<Rightarrow> (string \<times> string) option" where
  "SplitHostPort hostport =
   (case last_index_byte CHR '':'' hostport of None \<Rightarrow> None
    | Some i \<Rightarrow>
      let bracketed = (hd hostport = CHR ''['') in
      case (if bracketed
            then (case index_byte CHR '']'' hostport of None \<Rightarrow> None
                  | Some e \<Rightarrow> if e + 1 = i then Some (drop 1 (take e hostport), 1, e + 1) else None)
            else if CHR '':'' \<in> set (take i hostport) then None else Some (take i hostport, 0, 0)) of
        None \<Rightarrow> None
      | Some (host, j, k) \<Rightarrow>
          if CHR ''['' \<in> set (drop j hostport) \<or> CHR '']'' \<in> set (drop k hostport) then None
          else Some (host, drop (i + 1) hostport))"

subsection \<open>Base64\<close>

definition b64_alphabet :: string where
  "b64_alphabet = ''ABCDEFGHIJKLMNOPQRSTUVWXYZabcdefghijklmnopqrstuvwxyz0123456789-_''"

definition b64_char :: "nat \<Rightarrow> char" where
  "b64_char v = b64_alphabet ! v"

definition b64_value :: "char \<Rightarrow> nat option" where
  "b64_value c = index_byte c b64_alphabet"

fun b64_encode :: "nat list \<Rightarrow> nat list" where
  "b64_encode [] = []"
| "b64_encode [a] = [a div 4, (a mod 4) * 16]"
| "b64_encode [a, b] = [a div 4, (a mod 4) * 16 + b div 16, (b mod 16) * 4]"
| "b64_encode (a # b # c # rest) =
     a div 4 # ((a mod 4) * 16 + b div 16) # ((b mod 16) * 4 + c div 64) # (c mod 64) # b64_encode rest"

text \<open>Without the strict mode the unused low bits of the last character are ignored.\<close>

fun b64_decode :: "nat list \<Rightarrow> nat list option" where
  "b64_decode [] = Some []"
| "b64_decode [x] = None"
| "b64_decode [x, y] = Some [x * 4 + y div 16]"
| "b64_decode [x, y, z] = Some [x * 4 + y div 16, (y mod 16) * 16 + z div 4]"
| "b64_decode (x # y # z # w # rest) =
     map_option (\<lambda>bs. (x * 4 + y div 16) # ((y mod 16) * 16 + z div 4) # ((z mod 4) * 64 + w) # bs) (b64_decode rest)"

definition RawURLEncoding_EncodeToString :: "string \<Rightarrow> string" where
  "RawURLEncoding_EncodeToString bs = map b64_char (b64_encode (map of_char bs))"

definition RawURLEncoding_DecodeString :: "string \<Rightarrow> string option" where
  "RawURLEncoding_DecodeString s =
   (case those (map b64_value (filter (\<lambda>c. c \<noteq> CHR 0x0D \<and> c \<noteq> CHR 0x0A) s)) of None \<Rightarrow> None
    | Some vs \<Rightarrow> map_option (map char_of) (b64_decode vs))"

lemma b64_value_char: "v < 64 \<Longrightarrow> b64_value (b64_char v) = Some v \<and> b64_char v \<noteq> CHR 0x0D \<and> b64_char v \<noteq> CHR 0x0A"
proof -
  have "list_all (\<lambda>v. b64_value (b64_char v) = Some v \<and> b64_char v \<noteq> CHR 0x0D \<and> b64_char v \<noteq> CHR 0x0A) [0..<64]"
    by code_simp
  then show "v < 64 \<Longrightarrow> b64_value (b64_char v) = Some v \<and> b64_char v \<noteq> CHR 0x0D \<and> b64_char v \<noteq> CHR 0x0A"
    by (simp add: list_all_iff)
qed

lemma b64_encode_range: "list_all (\<lambda>b. b < 256) bs \<Longrightarrow> list_all (\<lambda>v. v < 64) (b64_encode bs)"
  by (induction bs rule: b64_encode.induct) auto

lemma b64_decode_encode: "list_all (\<lambda>b. b < 256) bs \<Longrightarrow> b64_decode (b64_encode bs) = Some bs"
proof (induction bs rule: b64_encode.induct)
  case (4 a b c rest)
  have "((a mod 4) * 16 + b div 16) div 16 = a mod 4" "((a mod 4) * 16 + b div 16) mod 16 = b div 16"
    "((b mod 16) * 4 + c div 64) div 4 = b mod 16" "((b mod 16) * 4 + c div 64) mod 4 = c div 64"
    using 4 by auto
  with 4 show ?case by simp
qed auto

lemma those_map_Some: "(\<And>x. x \<in> set xs \<Longrightarrow> f x = Some (g x)) \<Longrightarrow> those (map f xs) = Some (map g xs)"
  by (induction xs) auto

lemma base64_round_trip: "RawURLEncoding_DecodeString (RawURLEncoding_EncodeToString bs) = Some bs"
proof -
  define vs where "vs = b64_encode (map of_char bs)"
  have r: "list_all (\<lambda>b. b < 256) (map of_char bs :: nat list)" by (auto simp: list_all_iff)
  have v: "v < 64" if "v \<in> set vs" for v
    using b64_encode_range [OF r] that by (simp add: vs_def list_all_iff)
  have "filter (\<lambda>c. c \<noteq> CHR 0x0D \<and> c \<noteq> CHR 0x0A) (map b64_char vs) = map b64_char vs"
    using v b64_value_char by (auto simp: filter_id_conv)
  moreover have "those (map b64_value (map b64_char vs)) = Some vs"
    using those_map_Some [of vs "\<lambda>v. b64_value (b64_char v)" "\<lambda>v. v"] v b64_value_char by (simp add: comp_def)
  ultimately show ?thesis
    using b64_decode_encode [OF r]
    by (simp add: RawURLEncoding_DecodeString_def RawURLEncoding_EncodeToString_def vs_def [symmetric] comp_def)
qed

end
