(* ===== verification/Http_Body.thy ===== *)
theory Http_Body
  imports Go_Text Payment_Snapshot
begin

text \<open>
  Request bodies of the gateway's API, \<^verbatim>\<open>gateway/internal/httpapi/json.go\<close>, with what it uses of
  \<^verbatim>\<open>net/http\<close> and \<^verbatim>\<open>encoding/json\<close>: the reader that stops at a limit, the decoder that delivers one value after
  the other, and the unmarshalling of an object into a struct that allows no unknown field.

  A body is what the decoder finds in it: values and syntax errors, each with the number of bytes the
  decoder must have read to see it, the length of the body, whether something other than white space follows
  the last item, and whether reading fails at the end.
\<close>

subsection \<open>Bodies and the decoder\<close>

datatype json_member = MString string | MInt int | MNull | MObject "(string \<times> json_member) list" | MOther

datatype json_item = Item_value nat json_member | Item_syntax nat

record body =
  bd_items :: "json_item list"
  bd_length :: nat
  bd_partial :: bool \<comment> \<open>a value is cut short by the end of the body\<close>
  bd_broken :: bool \<comment> \<open>reading fails at the end\<close>
  bd_limit :: "int option"

definition MaxBytesReader :: "body \<Rightarrow> int \<Rightarrow> body" where
  "MaxBytesReader b limit = b\<lparr>bd_limit := Some (case bd_limit b of None \<Rightarrow> limit | Some l \<Rightarrow> min l limit)\<rparr>"

definition over_limit :: "body \<Rightarrow> nat \<Rightarrow> bool" where
  "over_limit b n \<longleftrightarrow> (case bd_limit b of None \<Rightarrow> False | Some l \<Rightarrow> l < int n)"

datatype decode_failure =
  SyntaxError | UnexpectedEOF | UnmarshalTypeError | EOF | UnknownField | MaxBytesError | ReadError

definition decoder_next :: "body \<Rightarrow> decode_failure + json_member \<times> body" where
  "decoder_next b =
   (case bd_items b of
      Item_value n v # rest \<Rightarrow> if over_limit b n then Inl MaxBytesError else Inr (v, b\<lparr>bd_items := rest\<rparr>)
    | Item_syntax n # rest \<Rightarrow> Inl (if over_limit b n then MaxBytesError else SyntaxError)
    | [] \<Rightarrow> Inl (if over_limit b (bd_length b) then MaxBytesError
                 else if bd_broken b then ReadError
                 else if bd_partial b then UnexpectedEOF else EOF))"

text \<open>\<^verbatim>\<open>io.Copy(io.Discard, body)\<close>.\<close>

definition io_discard :: "body \<Rightarrow> decode_failure + nat" where
  "io_discard b =
   (if over_limit b (bd_length b) then Inl MaxBytesError else if bd_broken b then Inl ReadError else Inr (bd_length b))"

subsection \<open>Unmarshalling\<close>

text \<open>
  A member goes to the field its name folds to; the first mismatch is the error of the whole
  document, \<^verbatim>\<open>null\<close> leaves the field as it is.
\<close>

type_synonym 'r into = "json_member \<Rightarrow> 'r \<Rightarrow> 'r \<times> decode_failure option"

definition into_string :: "string into" where
  "into_string v old =
   (case v of MString s \<Rightarrow> (s, None) | MNull \<Rightarrow> (old, None) | _ \<Rightarrow> (old, Some UnmarshalTypeError))"

definition into_int :: "int into" where
  "into_int v old =
   (case v of MInt i \<Rightarrow> if int64 i then (i, None) else (old, Some UnmarshalTypeError)
    | MNull \<Rightarrow> (old, None) | _ \<Rightarrow> (old, Some UnmarshalTypeError))"

definition first_error :: "'e option \<Rightarrow> 'e option \<Rightarrow> 'e option" where
  "first_error e f = (case e of None \<Rightarrow> f | Some x \<Rightarrow> Some x)"

definition into_struct :: "(string \<Rightarrow> 'r into option) \<Rightarrow> 'r into" where
  "into_struct fld v r =
   (case v of
      MObject ms \<Rightarrow>
        fold (\<lambda>(name, m) (r, e). case fld (json_fold name) of
            None \<Rightarrow> (r, first_error e (Some UnknownField))
          | Some f \<Rightarrow> (case f m r of (r', e') \<Rightarrow> (r', first_error e e'))) ms (r, None)
    | MNull \<Rightarrow> (r, None)
    | _ \<Rightarrow> (r, Some UnmarshalTypeError))"

definition into_field :: "('r \<Rightarrow> 'f) \<Rightarrow> (('f \<Rightarrow> 'f) \<Rightarrow> 'r \<Rightarrow> 'r) \<Rightarrow> 'f into \<Rightarrow> 'r into" where
  "into_field get upd f m r = (case f m (get r) of (x, e) \<Rightarrow> (upd (\<lambda>_. x) r, e))"

subsection \<open>The helpers of the API\<close>

datatype body_sentinel =
    errInvalidJSONBody | errMalformedJSONBody | errIncorrectJSONType | errEmptyJSONBody | errNonEmptyBody
  | errUnknownJSONField | errOversizedJSONBody | errMultipleJSONValues

text \<open>An error is the sentinels it wraps.\<close>

type_synonym body_error = "body_sentinel list"

definition errors_Is :: "body_error \<Rightarrow> body_sentinel \<Rightarrow> bool" where
  "errors_Is err target \<longleftrightarrow> target \<in> set err"

definition requireEmptyRequestBody :: "body option \<Rightarrow> body_error option" where
  "requireEmptyRequestBody b =
   (case b of None \<Rightarrow> None
    | Some b \<Rightarrow> (case io_discard b of
        Inr n \<Rightarrow> if n = 0 then None else Some [errNonEmptyBody]
      | Inl MaxBytesError \<Rightarrow> Some [errOversizedJSONBody]
      | Inl _ \<Rightarrow> Some []))"

definition decode_error :: "decode_failure \<Rightarrow> body_error" where
  "decode_error e =
   (case e of SyntaxError \<Rightarrow> [errInvalidJSONBody, errMalformedJSONBody]
    | UnexpectedEOF \<Rightarrow> [errInvalidJSONBody, errMalformedJSONBody]
    | UnmarshalTypeError \<Rightarrow> [errInvalidJSONBody, errIncorrectJSONType]
    | EOF \<Rightarrow> [errInvalidJSONBody, errEmptyJSONBody]
    | UnknownField \<Rightarrow> [errInvalidJSONBody, errUnknownJSONField]
    | MaxBytesError \<Rightarrow> [errInvalidJSONBody, errOversizedJSONBody]
    | ReadError \<Rightarrow> [])"

text \<open>\<open>into\<close> stands for the type of the request struct and \<open>zero\<close> for its zero value.\<close>

definition decodeJSONRequest :: "'r into \<Rightarrow> 'r \<Rightarrow> body \<Rightarrow> int \<Rightarrow> body_error + 'r" where
  "decodeJSONRequest into zero b limit =
   (case decoder_next (MaxBytesReader b limit) of
      Inl e \<Rightarrow> Inl (decode_error e)
    | Inr (v, rest) \<Rightarrow>
        (case into v zero of
           (_, Some e) \<Rightarrow> Inl (decode_error e)
         | (request, None) \<Rightarrow>
             (case decoder_next rest of
                Inl EOF \<Rightarrow> Inr request
              | Inl _ \<Rightarrow> Inl [errInvalidJSONBody, errMalformedJSONBody]
              | Inr _ \<Rightarrow> Inl [errInvalidJSONBody, errMultipleJSONValues])))"

subsection \<open>The request structs\<close>

record card_fields =
  cf_Number :: string
  cf_CVV :: string
  cf_ExpiryMonth :: int
  cf_ExpiryYear :: int

record authorize_request =
  aq_OrderID :: string
  aq_CustomerID :: string
  aq_AmountCents :: int
  aq_Card :: card_fields

record retry_request =
  tq_Card :: card_fields

definition zero_card :: card_fields where
  "zero_card = \<lparr>cf_Number = [], cf_CVV = [], cf_ExpiryMonth = 0, cf_ExpiryYear = 0\<rparr>"

definition zero_authorize :: authorize_request where
  "zero_authorize = \<lparr>aq_OrderID = [], aq_CustomerID = [], aq_AmountCents = 0, aq_Card = zero_card\<rparr>"

definition card_field :: "string \<Rightarrow> card_fields into option" where
  "card_field name =
   (if name = ''number'' then Some (into_field cf_Number cf_Number_update into_string)
    else if name = ''cvv'' then Some (into_field cf_CVV cf_CVV_update into_string)
    else if name = ''expiry_month'' then Some (into_field cf_ExpiryMonth cf_ExpiryMonth_update into_int)
    else if name = ''expiry_year'' then Some (into_field cf_ExpiryYear cf_ExpiryYear_update into_int)
    else None)"

definition authorize_field :: "string \<Rightarrow> authorize_request into option" where
  "authorize_field name =
   (if name = ''order_id'' then Some (into_field aq_OrderID aq_OrderID_update into_string)
    else if name = ''customer_id'' then Some (into_field aq_CustomerID aq_CustomerID_update into_string)
    else if name = ''amount'' then Some (into_field aq_AmountCents aq_AmountCents_update into_int)
    else if name = ''card'' then Some (into_field aq_Card aq_Card_update (into_struct card_field))
    else None)"

definition retry_field :: "string \<Rightarrow> retry_request into option" where
  "retry_field name =
   (if name = ''card'' then Some (into_field tq_Card tq_Card_update (into_struct card_field)) else None)"

subsection \<open>What is accepted\<close>

lemma over_limit_mono: "over_limit b m \<Longrightarrow> m \<le> n \<Longrightarrow> over_limit b n"
  by (auto simp: over_limit_def split: option.splits)

lemma MaxBytesReader_over: "over_limit (MaxBytesReader b l) n \<longleftrightarrow> over_limit b n \<or> l < int n"
  by (auto simp: over_limit_def MaxBytesReader_def split: option.split)

lemma decoder_next_keeps:
  "decoder_next b = Inr (v, rest) \<Longrightarrow> bd_length rest = bd_length b \<and> bd_limit rest = bd_limit b"
  by (auto simp: decoder_next_def split: list.splits json_item.splits if_splits)

text \<open>An accepted body was read to its end: it is no longer than the limit and holds one value.\<close>

lemma decodeJSONRequest_Inr:
  assumes "decodeJSONRequest into zero b limit = Inr r"
  shows "int (bd_length b) \<le> limit \<and> \<not> over_limit b (bd_length b) \<and> (\<exists>n v. bd_items b = [Item_value n v] \<and> into v zero = (r, None))"
proof -
  obtain v rest where v: "decoder_next (MaxBytesReader b limit) = Inr (v, rest)" "into v zero = (r, None)"
    "decoder_next rest = Inl EOF"
    using assms by (auto simp: decodeJSONRequest_def split: sum.splits prod.splits option.splits decode_failure.splits)
  have fin: "bd_items rest = []" "\<not> over_limit rest (bd_length rest)"
    using v(3) by (auto simp: decoder_next_def split: list.splits json_item.splits if_splits)
  have "\<not> over_limit (MaxBytesReader b limit) (bd_length b)"
    using fin(2) decoder_next_keeps [OF v(1)] by (simp add: over_limit_def MaxBytesReader_def)
  moreover have "\<exists>n. bd_items b = [Item_value n v]"
    using v(1) fin(1) by (auto simp: decoder_next_def MaxBytesReader_def split: list.splits json_item.splits if_splits)
  ultimately show ?thesis using v(2) by (auto simp: MaxBytesReader_over)
qed

lemma requireEmptyRequestBody_None:
  "requireEmptyRequestBody (Some b) = None \<longleftrightarrow> bd_length b = 0 \<and> \<not> over_limit b 0 \<and> \<not> bd_broken b"
  by (auto simp: requireEmptyRequestBody_def io_discard_def split: sum.split decode_failure.split)

text \<open>
  A body over the limit whose first value fits below it is called malformed, not oversized: the error of the
  second read is not among those the result wraps.
\<close>

theorem trailing_excess_malformed:
  "decodeJSONRequest (into_struct retry_field) \<lparr>tq_Card = zero_card\<rparr>
     \<lparr>bd_items = [Item_value 2 (MObject [])], bd_length = 100, bd_partial = False, bd_broken = False, bd_limit = None\<rparr> 50 =
   Inl [errInvalidJSONBody, errMalformedJSONBody]"
  by (simp add: decodeJSONRequest_def MaxBytesReader_def decoder_next_def over_limit_def into_struct_def)

end
