(* ===== verification/Service_Auth.thy ===== *)
theory Service_Auth
  imports Go_Text Hmac_Sha256
begin

text \<open>
  The verification of service credentials, \<^verbatim>\<open>gateway/internal/serviceauth/authenticator.go\<close>: the
  digests of the configured credentials, and the principal a presented credential stands for.
\<close>

type_synonym Scope = string

definition OrderServicePrincipal :: string where "OrderServicePrincipal = ''order-service''"
definition ScopePaymentsRead :: Scope where "ScopePaymentsRead = ''payments:read''"
definition ScopePaymentsWrite :: Scope where "ScopePaymentsWrite = ''payments:write''"

record Credential =
  crd_Digest :: string
  crd_Scopes :: "Scope list"

record Principal =
  prn_id :: string
  prn_scopes :: "Scope list" \<comment> \<open>the keys of the map, in order of insertion\<close>

record credential =
  acr_digest :: string
  acr_scopes :: "Scope list"

record Authenticator =
  aut_key :: string
  aut_credentials :: "credential list"

text \<open>\<open>raw\<close> is what \<^verbatim>\<open>rand.Read\<close> delivered, or its error.\<close>

definition GenerateCredential :: "go_error + string \<Rightarrow> go_error + string" where
  "GenerateCredential raw = bind_result raw (\<lambda>bs. Inr (RawURLEncoding_EncodeToString bs))"

definition Digest :: "string \<Rightarrow> string \<Rightarrow> string" where
  "Digest key rawCredential = RawURLEncoding_EncodeToString (hmac_sha256 key rawCredential)"

definition ValidateHMACKey :: "string \<Rightarrow> go_error + unit" where
  "ValidateHMACKey key =
   (if length key < 32 then Inl (OtherError ''service credential HMAC key must be at least 32 bytes'') else Inr ())"

fun configured_scopes :: "Scope list \<Rightarrow> Scope list \<Rightarrow> go_error + Scope list" where
  "configured_scopes scopes [] = Inr scopes"
| "configured_scopes scopes (s # rest) =
     (let scope = TrimSpace s in
      if scope \<noteq> ScopePaymentsRead \<and> scope \<noteq> ScopePaymentsWrite
      then Inl (OtherError ''service credential contains an unsupported scope'')
      else configured_scopes (if scope \<in> set scopes then scopes else scopes @ [scope]) rest)"

fun configured_credentials :: "string list \<Rightarrow> credential list \<Rightarrow> Credential list \<Rightarrow> go_error + credential list" where
  "configured_credentials seen creds [] = Inr creds"
| "configured_credentials seen creds (c # rest) =
     (case RawURLEncoding_DecodeString (crd_Digest c) of
        None \<Rightarrow> Inl (OtherError ''service credential digest must be a base64url-encoded SHA-256 HMAC'')
      | Some digest \<Rightarrow>
        if length digest \<noteq> 32
        then Inl (OtherError ''service credential digest must be a base64url-encoded SHA-256 HMAC'')
        else if crd_Digest c \<in> set seen then Inl (OtherError ''service credential digests must be unique'')
        else if crd_Scopes c = [] then Inl (OtherError ''service credential must grant at least one scope'')
        else bind_result (configured_scopes [] (crd_Scopes c)) (\<lambda>scopes.
          configured_credentials (seen @ [crd_Digest c])
            (creds @ [\<lparr>acr_digest = digest, acr_scopes = scopes\<rparr>]) rest))"

definition NewAuthenticator :: "string \<Rightarrow> Credential list \<Rightarrow> go_error + Authenticator" where
  "NewAuthenticator key configured =
   bind_result (ValidateHMACKey key) (\<lambda>_.
     if configured = [] then Inl (OtherError ''at least one service credential is required'')
     else bind_result (configured_credentials [] [] configured) (\<lambda>creds.
       Inr \<lparr>aut_key = key, aut_credentials = creds\<rparr>))"

text \<open>The loop runs over all credentials; the last match counts.\<close>

definition Authenticate :: "Authenticator \<Rightarrow> string \<Rightarrow> Principal option" where
  "Authenticate a presented =
   (if presented = [] then None
    else let digest = hmac_sha256 (aut_key a) presented;
             matched = foldl (\<lambda>m c. if digest = acr_digest c then Some c else m) None (aut_credentials a) in
      map_option (\<lambda>c. \<lparr>prn_id = OrderServicePrincipal, prn_scopes = acr_scopes c\<rparr>) matched)"

definition HasScope :: "Principal \<Rightarrow> Scope \<Rightarrow> bool" where
  "HasScope p scope \<longleftrightarrow> scope \<in> set (prn_scopes p)"

subsection \<open>What is accepted\<close>

lemma configured_scopes_Inr:
  "configured_scopes acc ss = Inr r \<Longrightarrow>
     set r = set acc \<union> TrimSpace ` set ss \<and> TrimSpace ` set ss \<subseteq> {ScopePaymentsRead, ScopePaymentsWrite}"
  by (induction acc ss rule: configured_scopes.induct) (auto simp: Let_def split: if_splits)

definition credential_of :: "Credential \<Rightarrow> credential \<Rightarrow> bool" where
  "credential_of c a \<longleftrightarrow> RawURLEncoding_DecodeString (crd_Digest c) = Some (acr_digest a) \<and>
     set (acr_scopes a) = TrimSpace ` set (crd_Scopes c) \<and> set (acr_scopes a) \<subseteq> {ScopePaymentsRead, ScopePaymentsWrite}"

lemma configured_credentials_Inr:
  "configured_credentials seen acc cs = Inr r \<Longrightarrow> \<exists>as. r = acc @ as \<and> list_all2 credential_of cs as"
proof (induction seen acc cs arbitrary: r rule: configured_credentials.induct)
  case (2 seen acc c rest)
  then obtain digest scopes where d: "RawURLEncoding_DecodeString (crd_Digest c) = Some digest"
    "configured_scopes [] (crd_Scopes c) = Inr scopes" and ok: "length digest = 32" "crd_Digest c \<notin> set seen" "crd_Scopes c \<noteq> []"
    and r: "configured_credentials (seen @ [crd_Digest c]) (acc @ [\<lparr>acr_digest = digest, acr_scopes = scopes\<rparr>]) rest = Inr r"
    by (auto simp: bind_result_Inr_iff split: option.splits if_splits)
  have "credential_of c \<lparr>acr_digest = digest, acr_scopes = scopes\<rparr>"
    using configured_scopes_Inr [OF d(2)] d(1) by (simp add: credential_of_def)
  moreover from "2.IH" [OF d(1) _ _ _ r] ok obtain as where
    "r = (acc @ [\<lparr>acr_digest = digest, acr_scopes = scopes\<rparr>]) @ as" "list_all2 credential_of rest as"
    by auto
  ultimately show ?case by (intro exI [of _ "\<lparr>acr_digest = digest, acr_scopes = scopes\<rparr> # as"]) simp
qed simp

lemma list_all2_matched:
  "list_all2 P xs ys \<Longrightarrow> y \<in> set ys \<Longrightarrow> \<exists>x\<in>set xs. P x y"
  "list_all2 P xs ys \<Longrightarrow> x \<in> set xs \<Longrightarrow> \<exists>y\<in>set ys. P x y"
  by (induction xs ys rule: list_all2_induct) auto

lemma foldl_last_match:
  "foldl (\<lambda>m c. if P c then Some c else m) m cs = (case filter P cs of [] \<Rightarrow> m | xs \<Rightarrow> Some (last xs))"
  by (induction cs arbitrary: m) (auto split: list.split)

lemma NewAuthenticator_credentials:
  assumes "NewAuthenticator key configured = Inr a"
  shows "aut_key a = key \<and> list_all2 credential_of configured (aut_credentials a)"
  using assms configured_credentials_Inr
  by (fastforce simp: NewAuthenticator_def bind_result_Inr_iff split: if_splits)

text \<open>C15: a presented credential is accepted exactly when its HMAC under the configured key is the digest of
  a configured credential; the principal has the scopes of such a credential, none but the two known ones,
  and the stable identity of the order service.\<close>

theorem authenticate_iff_configured:
  assumes "NewAuthenticator key configured = Inr a" "presented \<noteq> []"
  shows "(Authenticate a presented \<noteq> None \<longleftrightarrow>
      (\<exists>c\<in>set configured. RawURLEncoding_DecodeString (crd_Digest c) = Some (hmac_sha256 key presented))) \<and>
    (\<forall>p. Authenticate a presented = Some p \<longrightarrow> prn_id p = OrderServicePrincipal \<and>
      set (prn_scopes p) \<subseteq> {ScopePaymentsRead, ScopePaymentsWrite} \<and>
      (\<exists>c\<in>set configured. RawURLEncoding_DecodeString (crd_Digest c) = Some (hmac_sha256 key presented) \<and>
        set (prn_scopes p) = TrimSpace ` set (crd_Scopes c)))"
proof -
  have k: "aut_key a = key" and l: "list_all2 credential_of configured (aut_credentials a)"
    using NewAuthenticator_credentials [OF assms(1)] by auto
  let ?ms = "filter (\<lambda>c. hmac_sha256 key presented = acr_digest c) (aut_credentials a)"
  have auth: "Authenticate a presented =
      (case ?ms of [] \<Rightarrow> None | xs \<Rightarrow> Some \<lparr>prn_id = OrderServicePrincipal, prn_scopes = acr_scopes (last xs)\<rparr>)"
    using assms(2) k by (simp add: Authenticate_def foldl_last_match Let_def split: list.split)
  have bwd: "\<exists>c\<in>set configured. credential_of c x" if "x \<in> set (aut_credentials a)" for x
    using l that by (rule list_all2_matched)
  have fwd: "\<exists>x\<in>set (aut_credentials a). credential_of c x" if "c \<in> set configured" for c
    using l that by (rule list_all2_matched)
  show ?thesis
  proof (cases "?ms = []")
    case True
    have "RawURLEncoding_DecodeString (crd_Digest c) \<noteq> Some (hmac_sha256 key presented)" if c: "c \<in> set configured" for c
    proof -
      obtain x where "x \<in> set (aut_credentials a)" "credential_of c x" using fwd [OF c] by blast
      with True show ?thesis by (auto simp: filter_empty_conv credential_of_def)
    qed
    with True auth show ?thesis by auto
  next
    case False
    then obtain c where c: "c \<in> set configured" "credential_of c (last ?ms)" "acr_digest (last ?ms) = hmac_sha256 key presented"
      using last_in_set [OF False] bwd [of "last ?ms"] by auto
    have "Authenticate a presented = Some \<lparr>prn_id = OrderServicePrincipal, prn_scopes = acr_scopes (last ?ms)\<rparr>"
      using auth False by (simp split: list.splits)
    with c show ?thesis by (auto simp: credential_of_def)
  qed
qed

definition example_key :: string where
  "example_key = replicate 32 CHR ''k''"

definition issued :: "string \<Rightarrow> string \<Rightarrow> Scope list \<Rightarrow> Credential" where
  "issued key raw scopes = \<lparr>crd_Digest = Digest key raw, crd_Scopes = scopes\<rparr>"

lemma trim_scopes [simp]:
  "TrimSpace ScopePaymentsRead = ScopePaymentsRead" "TrimSpace ScopePaymentsWrite = ScopePaymentsWrite"
  by (rule TrimSpace_printable; simp add: ScopePaymentsRead_def ScopePaymentsWrite_def printable_def char_between_def)+

lemma Digest_decoded: "RawURLEncoding_DecodeString (Digest key raw) = Some (hmac_sha256 key raw)"
  by (simp add: Digest_def base64_round_trip)

lemma NewAuthenticator_issued:
  assumes "32 \<le> length key" "scopes \<noteq> []" "set scopes \<subseteq> {ScopePaymentsRead, ScopePaymentsWrite}"
  obtains ss where "NewAuthenticator key [issued key raw scopes] =
      Inr \<lparr>aut_key = key, aut_credentials = [\<lparr>acr_digest = hmac_sha256 key raw, acr_scopes = ss\<rparr>]\<rparr>"
    "set ss = set scopes"
proof -
  have trim: "TrimSpace s = s" if "s \<in> set scopes" for s using assms(3) that by auto
  have "\<exists>ss. configured_scopes acc scopes = Inr ss" for acc
    using assms(3) by (induction scopes arbitrary: acc) auto
  then obtain ss where ss: "configured_scopes [] scopes = Inr ss" by blast
  have "set ss = set scopes" using configured_scopes_Inr [OF ss] trim by (auto simp: image_iff)
  then show thesis
    using assms(1,2) ss by (intro that [of ss]) (simp_all add: NewAuthenticator_def ValidateHMACKey_def issued_def Digest_decoded)
qed

theorem authenticate_iff_configured_witness:
  "\<exists>a p. NewAuthenticator example_key [issued example_key ''secret'' [ScopePaymentsRead]] = Inr a \<and>
     Authenticate a ''secret'' = Some p \<and> \<not> HasScope p ScopePaymentsWrite"
proof -
  obtain ss where a: "NewAuthenticator example_key [issued example_key ''secret'' [ScopePaymentsRead]] =
      Inr \<lparr>aut_key = example_key, aut_credentials = [\<lparr>acr_digest = hmac_sha256 example_key ''secret'', acr_scopes = ss\<rparr>]\<rparr>"
    by (rule NewAuthenticator_issued [of example_key "[ScopePaymentsRead]" "''secret''"]) (simp_all add: example_key_def)
  have "ScopePaymentsWrite \<noteq> ScopePaymentsRead" by (simp add: ScopePaymentsRead_def ScopePaymentsWrite_def)
  then show ?thesis
    using authenticate_iff_configured [OF a, of "''secret''"] a
    by (auto simp: issued_def Digest_decoded HasScope_def)
qed

text \<open>Uniqueness is checked on the text of a digest, not on the digest: two configured credentials can carry
  the same digest in different spellings, and then the scopes of the later one count for both.\<close>

theorem digest_spelled_twice:
  "\<exists>d1 d2 bs a. d1 \<noteq> d2 \<and> RawURLEncoding_DecodeString d1 = Some bs \<and> RawURLEncoding_DecodeString d2 = Some bs \<and>
     NewAuthenticator example_key [\<lparr>crd_Digest = d1, crd_Scopes = [ScopePaymentsWrite]\<rparr>,
       \<lparr>crd_Digest = d2, crd_Scopes = [ScopePaymentsRead]\<rparr>] = Inr a \<and>
     map acr_digest (aut_credentials a) = [bs, bs]"
proof -
  let ?d1 = "replicate 43 CHR ''A''" and ?d2 = "replicate 42 CHR ''A'' @ ''B''"
  have "RawURLEncoding_DecodeString ?d1 = Some (replicate 32 CHR 0x00)" "RawURLEncoding_DecodeString ?d2 = Some (replicate 32 CHR 0x00)"
    by code_simp+
  moreover have "?d1 \<noteq> ?d2" by (simp add: eval_nat_numeral)
  ultimately show ?thesis
    by (intro exI [of _ ?d1] exI [of _ ?d2] exI [of _ "replicate 32 CHR 0x00"])
       (simp add: NewAuthenticator_def ValidateHMACKey_def example_key_def)
qed

end
