(* ===== verification/Http_Api.thy ===== *)
theory Http_Api
  imports Http_Body Service_Auth Payment_Service "HOL-Library.AList"
begin

text \<open>
  The HTTP interface of the gateway, \<^verbatim>\<open>gateway/internal/httpapi\<close>: \<^verbatim>\<open>handler.go\<close> (routes),
  \<^verbatim>\<open>handlers.go\<close> (one handler per operation), \<^verbatim>\<open>middleware.go\<close> (authentication, scopes, rate and body limits,
  panic recovery, log and metrics) and \<^verbatim>\<open>rate_limiter.go\<close>.

  The application behind the interface is the record \<open>paymentApplication\<close> of the seven functions the
  handlers call, on a state of its own; a call may panic.  \<open>pa_expired\<close> tells whether a context of the
  given timeout, created in the first state, is past its deadline in the second.  The token bucket
  of \<^verbatim>\<open>golang.org/x/time/rate\<close> is the record \<open>rate_package\<close>.
\<close>

subsection \<open>Requests and the response writer\<close>

record api_request =
  ar_Method :: string
  ar_path :: "string list" \<comment> \<open>the decoded segments; paths the mux answers with a redirect (unclean ones and \<^verbatim>\<open>/api/v1\<close>) are left out\<close>
  ar_slash :: bool \<comment> \<open>whether the path ends in a slash after its last segment\<close>
  ar_query :: "(string \<times> string list) list"
  ar_Authorization :: string
  ar_ContentType :: string
  ar_IdempotencyKey :: string
  ar_ContentLength :: int
  ar_Body :: "body option"
  ar_principal :: "Principal option" \<comment> \<open>the value of the request's context\<close>

record paymentPayload =
  pp_ID :: string
  pp_OrderID :: string
  pp_CustomerID :: string
  pp_AmountCents :: int
  pp_Currency :: string
  pp_Status :: string
  pp_DeclineReason :: string
  pp_AuthorizationExpiresAt :: "time option" \<comment> \<open>omitted when empty\<close>
  pp_CreatedAt :: time
  pp_UpdatedAt :: time

record errorPayload =
  ep_Code :: string
  ep_Message :: string

text \<open>The values that are marshalled, and the plain text of the mux.\<close>

datatype content =
  PaymentEnvelope paymentPayload | PaymentsEnvelope "paymentPayload list" | ErrorEnvelope errorPayload | PlainText string

record responseRecorder =
  rec_wroteHeader :: bool
  rec_status :: int

text \<open>
  The recorders wrapped around the server's writer, innermost first; what the server has sent is the
  status with the header fields of that moment, and the body.
\<close>

record writer =
  wr_recorders :: "responseRecorder list"
  wr_header :: "(string \<times> string) list"
  wr_sent :: "(int \<times> (string \<times> string) list) option"
  wr_body :: "content list"

definition fresh_recorder :: responseRecorder where
  "fresh_recorder = \<lparr>rec_wroteHeader = False, rec_status = 0\<rparr>"

definition header_Set :: "string \<Rightarrow> string \<Rightarrow> writer \<Rightarrow> writer" where
  "header_Set k v w = w\<lparr>wr_header := filter (\<lambda>(n, _). n \<noteq> k) (wr_header w) @ [(k, v)]\<rparr>"

text \<open>\<^verbatim>\<open>WriteHeader\<close> of the recorders from the innermost outwards; the result tells whether the call
  reaches the server's writer.\<close>

fun recorders_WriteHeader :: "int \<Rightarrow> responseRecorder list \<Rightarrow> responseRecorder list \<times> bool" where
  "recorders_WriteHeader st [] = ([], True)"
| "recorders_WriteHeader st (r # rs) =
     (if rec_wroteHeader r then (r # rs, False)
      else let r' = (if st \<ge> 200 then r\<lparr>rec_wroteHeader := True, rec_status := st\<rparr> else r);
               (rs', through) = recorders_WriteHeader st rs in
        (r' # rs', through))"

definition WriteHeader :: "int \<Rightarrow> writer \<Rightarrow> writer" where
  "WriteHeader st w =
   (case recorders_WriteHeader st (wr_recorders w) of (rs, through) \<Rightarrow>
      w\<lparr>wr_recorders := rs,
        wr_sent := (if through \<and> wr_sent w = None \<and> st \<ge> 200 then Some (st, wr_header w) else wr_sent w)\<rparr>)"

definition writer_Write :: "content \<Rightarrow> writer \<Rightarrow> writer" where
  "writer_Write c w =
   (let wrote = (case wr_recorders w of rc # _ \<Rightarrow> rec_wroteHeader rc | [] \<Rightarrow> wr_sent w \<noteq> None);
        w = (if wrote then w else WriteHeader 200 w) in w\<lparr>wr_body := wr_body w @ [c]\<rparr>)"

text \<open>\<^verbatim>\<open>Flush\<close> of the recorders, each handing the call on, and of the server's writer.  No handler calls it.\<close>

definition Flush :: "writer \<Rightarrow> writer" where
  "Flush w =
   w\<lparr>wr_recorders := map (\<lambda>rc. if rec_wroteHeader rc then rc else rc\<lparr>rec_wroteHeader := True, rec_status := 200\<rparr>) (wr_recorders w),
     wr_sent := (case wr_sent w of None \<Rightarrow> Some (200, wr_header w) | sent \<Rightarrow> sent)\<rparr>"

definition writeJSON :: "int \<Rightarrow> content \<Rightarrow> writer \<Rightarrow> writer" where
  "writeJSON st c w = writer_Write c (WriteHeader st (header_Set ''Content-Type'' ''application/json'' w))"

definition writeError :: "int \<Rightarrow> string \<Rightarrow> string \<Rightarrow> writer \<Rightarrow> writer" where
  "writeError st code message w = writeJSON st (ErrorEnvelope \<lparr>ep_Code = code, ep_Message = message\<rparr>) w"

definition http_Error :: "int \<Rightarrow> string \<Rightarrow> writer \<Rightarrow> writer" where
  "http_Error st message w = writer_Write (PlainText message) (WriteHeader st (header_Set ''Content-Type'' ''text/plain; charset=utf-8'' w))"

text \<open>\<^verbatim>\<open>http.StatusText\<close> for the statuses in use.\<close>

definition StatusText :: "int \<Rightarrow> string" where
  "StatusText st =
   (if st = 401 then ''Unauthorized'' else if st = 403 then ''Forbidden''
    else if st = 405 then ''Method Not Allowed'' else if st = 500 then ''Internal Server Error''
    else if st = 503 then ''Service Unavailable'' else [])"

subsection \<open>The rate limiter\<close>

type_synonym RouteClass = string

definition RouteClassRead :: RouteClass where "RouteClassRead = ''read''"
definition RouteClassWrite :: RouteClass where "RouteClassWrite = ''write''"

record RateLimitConfig =
  rl_ReadRequestsPerSecond :: int
  rl_ReadBurst :: int
  rl_WriteRequestsPerSecond :: int
  rl_WriteBurst :: int

definition ratelimit_validate :: "RateLimitConfig \<Rightarrow> string option" where
  "ratelimit_validate c =
   (if rl_ReadRequestsPerSecond c \<le> 0 \<or> rl_ReadBurst c \<le> 0 \<or> rl_WriteRequestsPerSecond c \<le> 0 \<or> rl_WriteBurst c \<le> 0
    then Some ''rate limit settings must be positive'' else None)"

record ('l, 'r) rate_package =
  rate_NewLimiter :: "int \<Rightarrow> int \<Rightarrow> 'l"
  rate_AllowN :: "'l \<Rightarrow> time \<Rightarrow> int \<Rightarrow> bool \<times> 'l"
  rate_ReserveN :: "'l \<Rightarrow> time \<Rightarrow> int \<Rightarrow> 'r \<times> 'l"
  rate_DelayFrom :: "'r \<Rightarrow> time \<Rightarrow> duration"
  rate_CancelAt :: "'r \<Rightarrow> time \<Rightarrow> 'l \<Rightarrow> 'l"

type_synonym rateLimitKey = "string \<times> RouteClass"

record 'l RateLimiter =
  rl_config :: RateLimitConfig
  rl_ticks :: nat \<comment> \<open>how often the clock was read\<close>
  rl_buckets :: "(rateLimitKey \<times> 'l) list"

definition NewRateLimiter :: "RateLimitConfig \<Rightarrow> string + 'l RateLimiter" where
  "NewRateLimiter config =
   (case ratelimit_validate config of Some e \<Rightarrow> Inl e
    | None \<Rightarrow> Inr \<lparr>rl_config = config, rl_ticks = 0, rl_buckets = []\<rparr>)"

definition limitFor :: "'l RateLimiter \<Rightarrow> RouteClass \<Rightarrow> int \<times> int" where
  "limitFor l routeClass =
   (if routeClass = RouteClassRead then (rl_ReadRequestsPerSecond (rl_config l), rl_ReadBurst (rl_config l))
    else (rl_WriteRequestsPerSecond (rl_config l), rl_WriteBurst (rl_config l)))"

text \<open>\<^verbatim>\<open>int(math.Ceil(d.Seconds()))\<close>; the rounding of \<^verbatim>\<open>float64\<close> does not show in it below \<open>2\<^sup>2\<^sup>2\<close> seconds.\<close>

definition ceil_seconds :: "duration \<Rightarrow> int" where
  "ceil_seconds d = - ((- d) div Second)"

definition Reserve ::
  "('l, 'r) rate_package \<Rightarrow> (nat \<Rightarrow> time) \<Rightarrow> string \<Rightarrow> RouteClass \<Rightarrow> 'l RateLimiter \<Rightarrow> (bool \<times> int) \<times> 'l RateLimiter" where
  "Reserve rate clock principalID routeClass l =
   (let key = (principalID, routeClass);
        limiter = (case map_of (rl_buckets l) key of
          Some b \<Rightarrow> b
        | None \<Rightarrow> (case limitFor l routeClass of (requestsPerSecond, burst) \<Rightarrow> rate_NewLimiter rate requestsPerSecond burst));
        now = clock (rl_ticks l);
        l = l\<lparr>rl_ticks := rl_ticks l + 1\<rparr>;
        (allowed, limiter) = rate_AllowN rate limiter now 1 in
    if allowed then ((True, 0), l\<lparr>rl_buckets := AList.update key limiter (rl_buckets l)\<rparr>)
    else let (reservation, limiter) = rate_ReserveN rate limiter now 1;
             delay = ceil_seconds (rate_DelayFrom rate reservation now);
             delay = (if delay < 1 then 1 else delay);
             limiter = rate_CancelAt rate reservation now limiter in
      ((False, delay), l\<lparr>rl_buckets := AList.update key limiter (rl_buckets l)\<rparr>))"

subsection \<open>The handler\<close>

datatype panic = ErrAbortHandler | PanicValue string

type_synonym ('s, 'c, 'a) app_call = "'c \<Rightarrow> 's \<Rightarrow> (panic + (go_error + 'a)) \<times> 's"

record 's paymentApplication =
  pa_AuthorizePayment :: "('s, AuthorizePaymentCommand, PaymentCommandResult) app_call"
  pa_RetryAuthorization :: "('s, RetryAuthorizationCommand, PaymentCommandResult) app_call"
  pa_CapturePayment :: "('s, CapturePaymentCommand, PaymentCommandResult) app_call"
  pa_VoidPayment :: "('s, VoidPaymentCommand, PaymentCommandResult) app_call"
  pa_RefundPayment :: "('s, RefundPaymentCommand, PaymentCommandResult) app_call"
  pa_GetPayment :: "('s, GetPaymentQuery, PaymentResult) app_call"
  pa_SearchPayments :: "('s, SearchPaymentsQuery, PaymentResult list) app_call"
  pa_expired :: "duration \<Rightarrow> 's \<Rightarrow> 's \<Rightarrow> bool"

record HandlerConfig =
  hc_PaymentCommandTimeout :: duration
  hc_PaymentReadTimeout :: duration
  hc_ReadinessTimeout :: duration
  hc_MaxRequestBodyBytes :: int
  hc_RateLimit :: RateLimitConfig

record ('s, 'l, 'r) Handler =
  h_payments :: "'s paymentApplication"
  h_CheckReady :: "duration \<Rightarrow> 's \<Rightarrow> go_error option \<times> 's"
  h_authenticator :: Authenticator
  h_rate :: "('l, 'r) rate_package"
  h_clock :: "nat \<Rightarrow> time"
  h_config :: HandlerConfig

datatype http_metric = HTTPRequest string string int | RateLimitRejection string

datatype log_entry = LogError string int | LogInfo string int | LogPanic string

record ('s, 'l) ApiState =
  as_app :: 's
  as_rateLimiter :: "'l RateLimiter"
  as_metrics :: "http_metric list"
  as_log :: "log_entry list"

definition handler_validate :: "HandlerConfig \<Rightarrow> string option" where
  "handler_validate config =
   (if hc_PaymentCommandTimeout config \<le> 0 then Some ''httpapi handler payment command timeout must be positive''
    else if hc_PaymentReadTimeout config \<le> 0 then Some ''httpapi handler payment read timeout must be positive''
    else if hc_ReadinessTimeout config \<le> 0 then Some ''httpapi handler readiness timeout must be positive''
    else if hc_MaxRequestBodyBytes config \<le> 0 then Some ''httpapi handler max request body bytes must be positive''
    else None)"

text \<open>The collaborators of the model are never nil.\<close>

definition NewHandler ::
  "'s paymentApplication \<Rightarrow> (duration \<Rightarrow> 's \<Rightarrow> go_error option \<times> 's) \<Rightarrow> Authenticator \<Rightarrow> ('l, 'r) rate_package \<Rightarrow>
   (nat \<Rightarrow> time) \<Rightarrow> HandlerConfig \<Rightarrow> string + ('s, 'l, 'r) Handler \<times> 'l RateLimiter" where
  "NewHandler payments readiness authenticator rate clock config =
   (case handler_validate config of Some e \<Rightarrow> Inl e
    | None \<Rightarrow> (case NewRateLimiter (hc_RateLimit config) of Inl e \<Rightarrow> Inl (''httpapi handler: '' @ e)
      | Inr rateLimiter \<Rightarrow>
          Inr (\<lparr>h_payments = payments, h_CheckReady = readiness, h_authenticator = authenticator, h_rate = rate,
                h_clock = clock, h_config = config\<rparr>, rateLimiter)))"

type_synonym ('s, 'l) serve = "api_request \<Rightarrow> writer \<times> ('s, 'l) ApiState \<Rightarrow> panic option \<times> writer \<times> ('s, 'l) ApiState"

definition reply :: "(writer \<Rightarrow> writer) \<Rightarrow> writer \<times> 'a \<Rightarrow> panic option \<times> writer \<times> 'a" where
  "reply f ws = (None, f (fst ws), snd ws)"

subsection \<open>Payloads and errors\<close>

definition newPaymentEnvelope :: "PaymentResult \<Rightarrow> paymentPayload" where
  "newPaymentEnvelope p =
   \<lparr>pp_ID = pr_ID p, pp_OrderID = pr_OrderID p, pp_CustomerID = pr_CustomerID p, pp_AmountCents = pr_AmountCents p,
    pp_Currency = pr_Currency p, pp_Status = pr_Status p, pp_DeclineReason = pr_DeclineReason p,
    pp_AuthorizationExpiresAt = (if pr_AuthorizationExpiresAt p = 0 then None else Some (pr_AuthorizationExpiresAt p)),
    pp_CreatedAt = pr_CreatedAt p, pp_UpdatedAt = pr_UpdatedAt p\<rparr>"

definition newPaymentsEnvelope :: "PaymentResult list \<Rightarrow> paymentPayload list" where
  "newPaymentsEnvelope ps = map newPaymentEnvelope ps"

definition errorCodeInternalServer :: string where "errorCodeInternalServer = ''internal_server_error''"
definition errorCodeInvalidJSONBody :: string where "errorCodeInvalidJSONBody = ''invalid_json_body''"
definition errorCodeUnsupportedMediaType :: string where "errorCodeUnsupportedMediaType = ''unsupported_media_type''"
definition errorCodeServiceUnavailable :: string where "errorCodeServiceUnavailable = ''service_unavailable''"
definition errorCodeValidation :: string where "errorCodeValidation = ''validation_error''"
definition errorCodeIdempotencyConflict :: string where "errorCodeIdempotencyConflict = ''idempotency_key_conflict''"
definition errorCodeIdempotencyInProgress :: string where "errorCodeIdempotencyInProgress = ''idempotency_key_in_progress''"
definition errorCodePaymentStatusConflict :: string where "errorCodePaymentStatusConflict = ''payment_status_conflict''"
definition errorCodePaymentNotFound :: string where "errorCodePaymentNotFound = ''payment_not_found''"
definition errorCodeBankStateConflict :: string where "errorCodeBankStateConflict = ''bank_state_conflict''"
definition errorCodeBankUnavailable :: string where "errorCodeBankUnavailable = ''bank_unavailable''"
definition errorCodeBankTimeout :: string where "errorCodeBankTimeout = ''bank_timeout''"
definition errorCodePaymentTimeout :: string where "errorCodePaymentTimeout = ''payment_timeout''"
definition errorCodeRequestTimeout :: string where "errorCodeRequestTimeout = ''request_timeout''"

definition writePaymentServiceError :: "go_error \<Rightarrow> writer \<Rightarrow> writer" where
  "writePaymentServiceError err =
   (case PaymentErrorKindOf err of
      None \<Rightarrow> writeError 500 errorCodeInternalServer (StatusText 500)
    | Some kind \<Rightarrow>
        if kind = PaymentErrorInvalidInput then writeError 422 errorCodeValidation ''payment request is invalid''
        else if kind = PaymentErrorIdempotencyConflict
        then writeError 409 errorCodeIdempotencyConflict ''idempotency key was already used with a different request''
        else if kind = PaymentErrorIdempotencyInProgress
        then writeError 409 errorCodeIdempotencyInProgress ''idempotency key is already in progress''
        else if kind = PaymentErrorPaymentStatusConflict
        then writeError 409 errorCodePaymentStatusConflict ''payment status does not allow this operation''
        else if kind = PaymentErrorAuthorizationExpired
        then writeError 409 errorCodePaymentStatusConflict ''payment status does not allow this operation''
        else if kind = PaymentErrorNotFound then writeError 404 errorCodePaymentNotFound ''payment was not found''
        else if kind = PaymentErrorBankStateConflict
        then writeError 502 errorCodeBankStateConflict ''bank state conflicts with local payment state''
        else if kind = PaymentErrorBankUnavailable then writeError 502 errorCodeBankUnavailable ''bank is unavailable''
        else if kind = PaymentErrorBankTimeout then writeError 504 errorCodeBankTimeout ''bank request timed out''
        else writeError 500 errorCodeInternalServer ''internal server error'')"

subsection \<open>Handlers\<close>

text \<open>\<^verbatim>\<open>strings.EqualFold\<close> with an ASCII text.\<close>

definition EqualFold :: "string \<Rightarrow> string \<Rightarrow> bool" where
  "EqualFold s t \<longleftrightarrow> json_fold s = json_fold t"

definition isJSONRequest :: "api_request \<Rightarrow> bool" where
  "isJSONRequest r =
   (let contentType = ar_ContentType r in
    contentType \<noteq> [] \<and>
    EqualFold (TrimSpace (case str_Cut CHR '';'' contentType of Some (mediaType, _) \<Rightarrow> mediaType | None \<Rightarrow> contentType))
      ''application/json'')"

definition hex_upper :: "nat \<Rightarrow> char" where
  "hex_upper n = (if n < 10 then char_of (48 + n) else char_of (55 + n))"

definition PathEscape :: "string \<Rightarrow> string" where
  "PathEscape s = concat (map (\<lambda>c.
     if char_between CHR ''a'' CHR ''z'' c \<or> char_between CHR ''A'' CHR ''Z'' c \<or> char_between CHR ''0'' CHR ''9'' c \<or>
        c \<in> set ''-_.~$&+:=@''
     then [c] else [CHR ''%'', hex_upper (of_char c div 16), hex_upper (of_char c mod 16)]) s)"

definition payment_id :: "api_request \<Rightarrow> string" where
  "payment_id r = ar_path r ! 3"

text \<open>The answer to a body that cannot be decoded, and to one that should be empty.\<close>

definition bad_json_body :: "body_error \<Rightarrow> writer \<Rightarrow> writer" where
  "bad_json_body err =
   (if errors_Is err errOversizedJSONBody then writeError 413 ''request_body_too_large'' ''request body is too large''
    else if errors_Is err errInvalidJSONBody then writeError 400 errorCodeInvalidJSONBody ''invalid JSON body''
    else writeError 500 errorCodeInternalServer (StatusText 500))"

definition bad_empty_body :: "body_error \<Rightarrow> writer \<Rightarrow> writer" where
  "bad_empty_body err =
   (if errors_Is err errOversizedJSONBody then writeError 413 ''request_body_too_large'' ''request body is too large''
    else if errors_Is err errNonEmptyBody then writeError 400 errorCodeInvalidJSONBody ''request body must be empty''
    else writeError 500 errorCodeInternalServer (StatusText 500))"

text \<open>
  The call of the application at the end of a handler and what the handler does with its result:
  under a timeout, answering \<open>late\<close> when the deadline has passed.
\<close>

definition app_respond ::
  "'s paymentApplication \<Rightarrow> duration \<Rightarrow> (writer \<Rightarrow> writer) \<Rightarrow> ('s \<Rightarrow> (panic + (go_error + 'a)) \<times> 's) \<Rightarrow>
   ('a \<Rightarrow> writer \<Rightarrow> writer) \<Rightarrow> writer \<times> ('s, 'l) ApiState \<Rightarrow> panic option \<times> writer \<times> ('s, 'l) ApiState" where
  "app_respond app timeout late call answer ws =
   (case ws of (w, s) \<Rightarrow>
     (case call (as_app s) of (res, t) \<Rightarrow>
       let s' = s\<lparr>as_app := t\<rparr> in
       case res of
         Inl p \<Rightarrow> (Some p, w, s')
       | Inr r \<Rightarrow>
           if pa_expired app timeout (as_app s) t then (None, late w, s')
           else (case r of Inl err \<Rightarrow> (None, writePaymentServiceError err w, s') | Inr x \<Rightarrow> (None, answer x w, s'))))"

definition command_late :: "writer \<Rightarrow> writer" where
  "command_late = writeError 504 errorCodePaymentTimeout ''payment command timed out; retry with the same idempotency key''"

definition read_late :: "writer \<Rightarrow> writer" where
  "read_late = writeError 504 errorCodeRequestTimeout ''payment read timed out''"

definition nil_body :: panic where
  "nil_body = PanicValue ''invalid memory address or nil pointer dereference''"

definition authorizePayment :: "('s, 'l, 'r) Handler \<Rightarrow> ('s, 'l) serve" where
  "authorizePayment h r ws =
   (if \<not> isJSONRequest r
    then reply (writeError 415 errorCodeUnsupportedMediaType ''content type must be application/json'') ws
    else case ar_Body r of None \<Rightarrow> (Some nil_body, ws)
    | Some b \<Rightarrow>
      (case decodeJSONRequest (into_struct authorize_field) zero_authorize b (hc_MaxRequestBodyBytes (h_config h)) of
         Inl err \<Rightarrow> reply (bad_json_body err) ws
       | Inr request \<Rightarrow>
         (case NewAuthorizePaymentCommand (aq_OrderID request) (aq_CustomerID request) (aq_AmountCents request)
             (cf_Number (aq_Card request)) (cf_CVV (aq_Card request)) (cf_ExpiryMonth (aq_Card request))
             (cf_ExpiryYear (aq_Card request)) (ar_IdempotencyKey r) of
            Inl err \<Rightarrow> reply (writePaymentServiceError err) ws
          | Inr command \<Rightarrow>
              app_respond (h_payments h) (hc_PaymentCommandTimeout (h_config h)) command_late
                (pa_AuthorizePayment (h_payments h) command)
                (\<lambda>result w. writeJSON (if pr_Status (pcr_Payment result) = PaymentStatusPending then 202 else 201)
                   (PaymentEnvelope (newPaymentEnvelope (pcr_Payment result)))
                   (header_Set ''Location'' (''/api/v1/payments/'' @ PathEscape (pr_ID (pcr_Payment result))) w)) ws)))"

definition retryAuthorization :: "('s, 'l, 'r) Handler \<Rightarrow> ('s, 'l) serve" where
  "retryAuthorization h r ws =
   (if \<not> isJSONRequest r
    then reply (writeError 415 errorCodeUnsupportedMediaType ''content type must be application/json'') ws
    else case ar_Body r of None \<Rightarrow> (Some nil_body, ws)
    | Some b \<Rightarrow>
      (case decodeJSONRequest (into_struct retry_field) \<lparr>tq_Card = zero_card\<rparr> b (hc_MaxRequestBodyBytes (h_config h)) of
         Inl err \<Rightarrow> reply (bad_json_body err) ws
       | Inr request \<Rightarrow>
         (case NewRetryAuthorizationCommand (payment_id r)
             (cf_Number (tq_Card request)) (cf_CVV (tq_Card request)) (cf_ExpiryMonth (tq_Card request))
             (cf_ExpiryYear (tq_Card request)) (ar_IdempotencyKey r) of
            Inl err \<Rightarrow> reply (writePaymentServiceError err) ws
          | Inr command \<Rightarrow>
              app_respond (h_payments h) (hc_PaymentCommandTimeout (h_config h)) command_late
                (pa_RetryAuthorization (h_payments h) command)
                (\<lambda>result. writeJSON 200 (PaymentEnvelope (newPaymentEnvelope (pcr_Payment result)))) ws)))"

definition capturePayment :: "('s, 'l, 'r) Handler \<Rightarrow> ('s, 'l) serve" where
  "capturePayment h r ws =
   (case requireEmptyRequestBody (ar_Body r) of Some err \<Rightarrow> reply (bad_empty_body err) ws
    | None \<Rightarrow>
      (case NewCapturePaymentCommand (payment_id r) (ar_IdempotencyKey r) of
         Inl err \<Rightarrow> reply (writePaymentServiceError err) ws
       | Inr command \<Rightarrow>
           app_respond (h_payments h) (hc_PaymentCommandTimeout (h_config h)) command_late
             (pa_CapturePayment (h_payments h) command)
             (\<lambda>result. writeJSON 200 (PaymentEnvelope (newPaymentEnvelope (pcr_Payment result)))) ws))"

definition voidPayment :: "('s, 'l, 'r) Handler \<Rightarrow> ('s, 'l) serve" where
  "voidPayment h r ws =
   (case requireEmptyRequestBody (ar_Body r) of Some err \<Rightarrow> reply (bad_empty_body err) ws
    | None \<Rightarrow>
      (case NewVoidPaymentCommand (payment_id r) (ar_IdempotencyKey r) of
         Inl err \<Rightarrow> reply (writePaymentServiceError err) ws
       | Inr command \<Rightarrow>
           app_respond (h_payments h) (hc_PaymentCommandTimeout (h_config h)) command_late
             (pa_VoidPayment (h_payments h) command)
             (\<lambda>result. writeJSON 200 (PaymentEnvelope (newPaymentEnvelope (pcr_Payment result)))) ws))"

definition refundPayment :: "('s, 'l, 'r) Handler \<Rightarrow> ('s, 'l) serve" where
  "refundPayment h r ws =
   (case requireEmptyRequestBody (ar_Body r) of Some err \<Rightarrow> reply (bad_empty_body err) ws
    | None \<Rightarrow>
      (case NewRefundPaymentCommand (payment_id r) (ar_IdempotencyKey r) of
         Inl err \<Rightarrow> reply (writePaymentServiceError err) ws
       | Inr command \<Rightarrow>
           app_respond (h_payments h) (hc_PaymentCommandTimeout (h_config h)) command_late
             (pa_RefundPayment (h_payments h) command)
             (\<lambda>result. writeJSON 200 (PaymentEnvelope (newPaymentEnvelope (pcr_Payment result)))) ws))"

definition getPayment :: "('s, 'l, 'r) Handler \<Rightarrow> ('s, 'l) serve" where
  "getPayment h r ws =
   (case NewGetPaymentQuery (payment_id r) of
      Inl err \<Rightarrow> reply (writePaymentServiceError err) ws
    | Inr query \<Rightarrow>
        app_respond (h_payments h) (hc_PaymentReadTimeout (h_config h)) read_late
          (pa_GetPayment (h_payments h) query)
          (\<lambda>payment. writeJSON 200 (PaymentEnvelope (newPaymentEnvelope payment))) ws)"

definition query_Get :: "(string \<times> string list) list \<Rightarrow> string \<Rightarrow> string" where
  "query_Get q key = (case map_of q key of Some (v # _) \<Rightarrow> v | _ \<Rightarrow> [])"

definition searchPayments :: "('s, 'l, 'r) Handler \<Rightarrow> ('s, 'l) serve" where
  "searchPayments h r ws =
   (let query = ar_query r in
    if \<not> list_all (\<lambda>(key, _). key \<in> {''order_id'', ''customer_id'', ''status''}) query
    then reply (writePaymentServiceError (NewInvalidPaymentInputError ''unsupported payment search filter'' None)) ws
    else case NewSearchPaymentsQuery (query_Get query ''order_id'') (query_Get query ''customer_id'') (query_Get query ''status'') of
      Inl err \<Rightarrow> reply (writePaymentServiceError err) ws
    | Inr searchQuery \<Rightarrow>
        app_respond (h_payments h) (hc_PaymentReadTimeout (h_config h)) read_late
          (pa_SearchPayments (h_payments h) searchQuery)
          (\<lambda>payments. writeJSON 200 (PaymentsEnvelope (newPaymentsEnvelope payments))) ws)"

definition healthz :: "('s, 'l) serve" where
  "healthz r ws = reply (WriteHeader 204) ws"

definition readyz :: "('s, 'l, 'r) Handler \<Rightarrow> ('s, 'l) serve" where
  "readyz h r ws =
   (case ws of (w, s) \<Rightarrow>
     (case h_CheckReady h (hc_ReadinessTimeout (h_config h)) (as_app s) of (err, t) \<Rightarrow>
       (None, (if err \<noteq> None then writeError 503 errorCodeServiceUnavailable (StatusText 503) w else WriteHeader 204 w),
        s\<lparr>as_app := t\<rparr>)))"

subsection \<open>Middleware\<close>

definition bearerCredential :: "string \<Rightarrow> string option" where
  "bearerCredential header =
   (case str_Fields header of
      [scheme, credential] \<Rightarrow> if EqualFold scheme ''Bearer'' \<and> credential \<noteq> [] then Some credential else None
    | _ \<Rightarrow> None)"

definition unauthorized :: "writer \<Rightarrow> writer" where
  "unauthorized w = writeError 401 ''unauthorized'' (StatusText 401) (header_Set ''WWW-Authenticate'' ''Bearer'' w)"

definition requireAuthentication :: "('s, 'l, 'r) Handler \<Rightarrow> ('s, 'l) serve \<Rightarrow> ('s, 'l) serve" where
  "requireAuthentication h nxt r ws =
   (case bearerCredential (ar_Authorization r) of None \<Rightarrow> reply unauthorized ws
    | Some cred \<Rightarrow> (case Authenticate (h_authenticator h) cred of None \<Rightarrow> reply unauthorized ws
      | Some prn \<Rightarrow> nxt (r\<lparr>ar_principal := Some prn\<rparr>) ws))"

definition forbidden :: "writer \<Rightarrow> writer" where
  "forbidden = writeError 403 ''forbidden'' (StatusText 403)"

definition requireScope :: "Scope \<Rightarrow> ('s, 'l) serve \<Rightarrow> ('s, 'l) serve" where
  "requireScope scope nxt r ws =
   (case ar_principal r of None \<Rightarrow> reply forbidden ws
    | Some prn \<Rightarrow> if HasScope prn scope then nxt r ws else reply forbidden ws)"

definition limitRate :: "('s, 'l, 'r) Handler \<Rightarrow> RouteClass \<Rightarrow> ('s, 'l) serve \<Rightarrow> ('s, 'l) serve" where
  "limitRate h routeClass nxt r ws =
   (case ar_principal r of None \<Rightarrow> reply forbidden ws
    | Some prn \<Rightarrow>
      (case ws of (w, s) \<Rightarrow>
        (case Reserve (h_rate h) (h_clock h) (prn_id prn) routeClass (as_rateLimiter s) of ((allowed, retryAfter), l) \<Rightarrow>
          let s = s\<lparr>as_rateLimiter := l\<rparr> in
          if allowed then nxt r (w, s)
          else (None, writeError 429 ''rate_limited'' ''rate limit exceeded'' (header_Set ''Retry-After'' (show_int retryAfter) w),
                s\<lparr>as_metrics := as_metrics s @ [RateLimitRejection routeClass]\<rparr>))))"

definition limitRequestBody :: "('s, 'l, 'r) Handler \<Rightarrow> ('s, 'l) serve \<Rightarrow> ('s, 'l) serve" where
  "limitRequestBody h nxt r ws =
   (if ar_ContentLength r > hc_MaxRequestBodyBytes (h_config h)
    then reply (writeError 413 ''request_body_too_large'' ''request body is too large'') ws
    else nxt (r\<lparr>ar_Body := map_option (\<lambda>b. MaxBytesReader b (hc_MaxRequestBodyBytes (h_config h))) (ar_Body r)\<rparr>) ws)"

definition push_recorder :: "writer \<times> 'a \<Rightarrow> writer \<times> 'a" where
  "push_recorder ws = ((fst ws)\<lparr>wr_recorders := fresh_recorder # wr_recorders (fst ws)\<rparr>, snd ws)"

definition pop_recorder :: "writer \<Rightarrow> responseRecorder \<times> writer" where
  "pop_recorder w = (hd (wr_recorders w), w\<lparr>wr_recorders := tl (wr_recorders w)\<rparr>)"

definition recoverPanic :: "('s, 'l) serve \<Rightarrow> ('s, 'l) serve" where
  "recoverPanic nxt r ws =
   (case nxt r (push_recorder ws) of (p, w, s) \<Rightarrow>
     (case p of
        None \<Rightarrow> (None, snd (pop_recorder w), s)
      | Some ErrAbortHandler \<Rightarrow> (Some ErrAbortHandler, snd (pop_recorder w), s)
      | Some (PanicValue v) \<Rightarrow>
          let s = s\<lparr>as_log := as_log s @ [LogPanic v]\<rparr>;
              w = header_Set ''Connection'' ''close'' w;
              w = (if rec_wroteHeader (hd (wr_recorders w)) then w
                   else writeError 500 errorCodeInternalServer (StatusText 500) w) in
          (None, snd (pop_recorder w), s)))"

definition recorded_status :: "responseRecorder \<Rightarrow> int" where
  "recorded_status rc = (if rec_status rc = 0 then 200 else rec_status rc)"

definition logRequest :: "('s, 'l) serve \<Rightarrow> ('s, 'l) serve" where
  "logRequest nxt r ws =
   (case nxt r (push_recorder ws) of (p, w, s) \<Rightarrow>
     (case pop_recorder w of (rc, w) \<Rightarrow>
       (case p of Some _ \<Rightarrow> (p, w, s)
        | None \<Rightarrow>
            (None, w, s\<lparr>as_log := as_log s @
               [if recorded_status rc \<ge> 500 then LogError (ar_Method r) (recorded_status rc)
                else LogInfo (ar_Method r) (recorded_status rc)]\<rparr>))))"

definition recordHTTPRequest :: "string \<Rightarrow> ('s, 'l) serve \<Rightarrow> ('s, 'l) serve" where
  "recordHTTPRequest route nxt r ws =
   (case nxt r (push_recorder ws) of (p, w, s) \<Rightarrow>
     (case pop_recorder w of (rc, w) \<Rightarrow>
       (case p of Some _ \<Rightarrow> (p, w, s)
        | None \<Rightarrow> (None, w, s\<lparr>as_metrics := as_metrics s @ [HTTPRequest (ar_Method r) route (recorded_status rc)]\<rparr>))))"

subsection \<open>Routes\<close>

text \<open>
  \<^verbatim>\<open>http.ServeMux\<close>: the handlers registered for a path by method, where a GET handler also serves HEAD;
  an unknown method is answered with the methods there are, an unknown path with 404.
\<close>

definition mux_serve :: "(string \<times> ('s, 'l) serve) list \<Rightarrow> string \<Rightarrow> ('s, 'l) serve" where
  "mux_serve handlers allow r ws =
   (if handlers = [] then reply (http_Error 404 ''404 page not found'') ws
    else case map_of handlers (if ar_Method r = ''HEAD'' then ''GET'' else ar_Method r) of
      Some f \<Rightarrow> f r ws
    | None \<Rightarrow> reply (\<lambda>w. http_Error 405 (StatusText 405) (header_Set ''Allow'' allow w)) ws)"

definition registerRoute :: "('s, 'l, 'r) Handler \<Rightarrow> string \<Rightarrow> ('s, 'l) serve \<Rightarrow> ('s, 'l) serve" where
  "registerRoute h route f = recordHTTPRequest route (recoverPanic (limitRequestBody h f))"

definition registerVersionedRoute ::
  "('s, 'l, 'r) Handler \<Rightarrow> string \<Rightarrow> Scope \<Rightarrow> RouteClass \<Rightarrow> ('s, 'l) serve \<Rightarrow> ('s, 'l) serve" where
  "registerVersionedRoute h route scope routeClass f =
   recordHTTPRequest route (recoverPanic (requireScope scope (limitRate h routeClass (limitRequestBody h f))))"

definition read_route where
  "read_route h route f = registerVersionedRoute h route ScopePaymentsRead RouteClassRead f"

definition write_route where
  "write_route h route f = registerVersionedRoute h route ScopePaymentsWrite RouteClassWrite f"

text \<open>The mux of the versioned paths.\<close>

definition versioned :: "('s, 'l, 'r) Handler \<Rightarrow> ('s, 'l) serve" where
  "versioned h r =
   (let none = mux_serve [] [] r in
    if ar_slash r then none
    else case ar_path r of
      [_, _, a] \<Rightarrow>
        if a = ''payments''
        then mux_serve [(''GET'', read_route h ''/api/v1/payments'' (searchPayments h)),
                        (''POST'', write_route h ''/api/v1/payments'' (authorizePayment h))] ''GET, HEAD, POST'' r
        else none
    | [_, _, a, _] \<Rightarrow>
        if a = ''payments''
        then mux_serve [(''GET'', read_route h ''/api/v1/payments/{payment_id}'' (getPayment h))] ''GET, HEAD'' r
        else none
    | [_, _, a, _, op] \<Rightarrow>
        if a \<noteq> ''payments'' then none
        else if op = ''authorization-retries''
        then mux_serve [(''POST'', write_route h ''/api/v1/payments/{payment_id}/authorization-retries'' (retryAuthorization h))] ''POST'' r
        else if op = ''capture''
        then mux_serve [(''POST'', write_route h ''/api/v1/payments/{payment_id}/capture'' (capturePayment h))] ''POST'' r
        else if op = ''void''
        then mux_serve [(''POST'', write_route h ''/api/v1/payments/{payment_id}/void'' (voidPayment h))] ''POST'' r
        else if op = ''refund''
        then mux_serve [(''POST'', write_route h ''/api/v1/payments/{payment_id}/refund'' (refundPayment h))] ''POST'' r
        else none
    | _ \<Rightarrow> none)"

definition api_path :: "api_request \<Rightarrow> bool" where
  "api_path r \<longleftrightarrow> take 2 (ar_path r) = [''api'', ''v1''] \<and> (length (ar_path r) > 2 \<or> ar_slash r)"

text \<open>The outer mux.\<close>

definition root_mux :: "('s, 'l, 'r) Handler \<Rightarrow> ('s, 'l) serve" where
  "root_mux h r =
   (if api_path r then requireAuthentication h (versioned h) r
    else if ar_path r = [''healthz''] \<and> \<not> ar_slash r
    then mux_serve [(''GET'', registerRoute h ''/healthz'' healthz)] ''GET, HEAD'' r
    else if ar_path r = [''readyz''] \<and> \<not> ar_slash r
    then mux_serve [(''GET'', registerRoute h ''/readyz'' (readyz h))] ''GET, HEAD'' r
    else mux_serve [] [] r)"

definition routes :: "('s, 'l, 'r) Handler \<Rightarrow> ('s, 'l) serve" where
  "routes h = logRequest (recoverPanic (root_mux h))"

definition new_writer :: writer where
  "new_writer = \<lparr>wr_recorders = [], wr_header = [], wr_sent = None, wr_body = []\<rparr>"

record api_response =
  resp_status :: int
  resp_header :: "(string \<times> string) list"
  resp_body :: "content list"

text \<open>What the client receives: nothing when the handler aborts, and a status of 200 when it wrote nothing.\<close>

definition ServeHTTP :: "('s, 'l, 'r) Handler \<Rightarrow> api_request \<Rightarrow> ('s, 'l) ApiState \<Rightarrow> api_response option \<times> ('s, 'l) ApiState" where
  "ServeHTTP h r s =
   (case routes h r (new_writer, s) of (p, w, t) \<Rightarrow>
     ((case p of Some _ \<Rightarrow> None
       | None \<Rightarrow> (case wr_sent w of
           Some (st, fs) \<Rightarrow> Some \<lparr>resp_status = st, resp_header = fs, resp_body = wr_body w\<rparr>
         | None \<Rightarrow> Some \<lparr>resp_status = 200, resp_header = wr_header w, resp_body = wr_body w\<rparr>)), t))"

end
