(* ===== verification/Http_Contract.thy ===== *)
theory Http_Contract
  imports Http_Api Store_Contract
begin

text \<open>
  What the HTTP interface guarantees: every request is answered once, nobody reaches the application without
  a configured credential of the right scope, bodies are bounded, a rejected request is told when to come
  back, and the idempotency of the commands shows at the interface.
\<close>

subsection \<open>The service behind the interface\<close>

definition calling :: "('s \<Rightarrow> (go_error + 'a) \<times> 's) \<Rightarrow> 's \<Rightarrow> (panic + (go_error + 'a)) \<times> 's" where
  "calling f s = (case f s of (r, t) \<Rightarrow> (Inr r, t))"

definition payment_application ::
  "(duration \<Rightarrow> ('db, 'bk) ServiceState \<Rightarrow> ('db, 'bk) ServiceState \<Rightarrow> bool) \<Rightarrow> ('db, 'bk) PaymentService \<Rightarrow>
   ('db, 'bk) ServiceState paymentApplication" where
  "payment_application expired svc =
   \<lparr>pa_AuthorizePayment = \<lambda>c. calling (AuthorizePayment svc c), pa_RetryAuthorization = \<lambda>c. calling (RetryAuthorization svc c),
    pa_CapturePayment = \<lambda>c. calling (CapturePayment svc c), pa_VoidPayment = \<lambda>c. calling (VoidPayment svc c),
    pa_RefundPayment = \<lambda>c. calling (RefundPayment svc c), pa_GetPayment = \<lambda>q. calling (GetPayment svc q),
    pa_SearchPayments = \<lambda>q. calling (SearchPayments svc q), pa_expired = expired\<rparr>"

subsection \<open>One answer per request\<close>

definition fresh :: "writer \<Rightarrow> bool" where
  "fresh w \<longleftrightarrow> wr_sent w = None \<and> wr_body w = [] \<and> (\<forall>rc\<in>set (wr_recorders w). rc = fresh_recorder)"

definition sent :: "int \<Rightarrow> (string \<times> string) list \<Rightarrow> content list \<Rightarrow> writer \<Rightarrow> writer" where
  "sent st hs bs w =
   w\<lparr>wr_recorders := map (\<lambda>_. \<lparr>rec_wroteHeader = True, rec_status = st\<rparr>) (wr_recorders w),
     wr_header := hs, wr_sent := Some (st, hs), wr_body := bs\<rparr>"

lemma recorders_WriteHeader_fresh:
  "\<forall>rc\<in>set rs. rc = fresh_recorder \<Longrightarrow> 200 \<le> st \<Longrightarrow>
     recorders_WriteHeader st rs = (map (\<lambda>_. \<lparr>rec_wroteHeader = True, rec_status = st\<rparr>) rs, True)"
  by (induction rs) (auto simp: fresh_recorder_def)

lemma WriteHeader_fresh: "fresh w \<Longrightarrow> 200 \<le> st \<Longrightarrow> WriteHeader st w = sent st (wr_header w) [] w"
  by (simp add: fresh_def WriteHeader_def sent_def recorders_WriteHeader_fresh)

lemma fresh_header_Set [simp]: "fresh (header_Set k v w) = fresh w"
  by (simp add: fresh_def header_Set_def)

lemma sent_header_Set [simp]: "sent st hs bs (header_Set k v w) = sent st hs bs w"
  by (simp add: sent_def header_Set_def)

lemma writer_Write_sent: "writer_Write c (sent st hs bs w) = sent st hs (bs @ [c]) w"
  by (cases "wr_recorders w") (simp_all add: writer_Write_def sent_def)

definition json_header :: "writer \<Rightarrow> (string \<times> string) list" where
  "json_header w = wr_header (header_Set ''Content-Type'' ''application/json'' w)"

lemma writeJSON_fresh: "fresh w \<Longrightarrow> 200 \<le> st \<Longrightarrow> writeJSON st c w = sent st (json_header w) [c] w"
  by (simp add: writeJSON_def WriteHeader_fresh writer_Write_sent json_header_def)

lemma http_Error_fresh:
  "fresh w \<Longrightarrow> 200 \<le> st \<Longrightarrow> http_Error st m w =
     sent st (wr_header (header_Set ''Content-Type'' ''text/plain; charset=utf-8'' w)) [PlainText m] w"
  by (simp add: http_Error_def WriteHeader_fresh writer_Write_sent)

lemma recorder_round_trip [simp]:
  "fresh (fst (push_recorder (w, s))) = fresh w"
  "snd (push_recorder (w, s)) = s"
  "pop_recorder (sent st hs bs (fst (push_recorder (w, s)))) = (\<lparr>rec_wroteHeader = True, rec_status = st\<rparr>, sent st hs bs w)"
  "pop_recorder (fst (push_recorder (w, s))) = (fresh_recorder, w)"
  by (auto simp: fresh_def push_recorder_def pop_recorder_def sent_def)

definition api_statuses :: "int list" where
  "api_statuses = [200, 201, 202, 204, 400, 401, 403, 404, 405, 409, 413, 415, 422, 429, 500, 502, 503, 504]"

text \<open>A writer function that sends one answer, and a handler that sends one or panics before it wrote anything.\<close>

definition answers :: "(writer \<Rightarrow> writer) \<Rightarrow> bool" where
  "answers f \<longleftrightarrow> (\<forall>w. fresh w \<longrightarrow> (\<exists>st hs bs. f w = sent st hs bs w \<and> st \<in> set api_statuses \<and> length bs \<le> 1))"

definition handled :: "writer \<Rightarrow> panic option \<times> writer \<times> 'a \<Rightarrow> bool" where
  "handled w out = (case out of (p, w', t) \<Rightarrow>
     (case p of
        None \<Rightarrow> \<exists>st hs bs. w' = sent st hs bs w \<and> st \<in> set api_statuses \<and> length bs \<le> 1
      | Some v \<Rightarrow> w' = w \<and> v \<noteq> ErrAbortHandler))"

definition handles :: "('s, 'l) serve \<Rightarrow> bool" where
  "handles f \<longleftrightarrow> (\<forall>r w s. fresh w \<longrightarrow> handled w (f r (w, s)))"

lemma answers_writeJSON: "st \<in> set api_statuses \<Longrightarrow> answers (writeJSON st c)"
  unfolding answers_def using writeJSON_fresh by (fastforce simp: api_statuses_def)

lemma answers_writeError: "st \<in> set api_statuses \<Longrightarrow> answers (writeError st code message)"
  unfolding writeError_def using answers_writeJSON by (fastforce simp: answers_def writeError_def)

lemma answers_http_Error: "st \<in> set api_statuses \<Longrightarrow> answers (http_Error st m)"
  unfolding answers_def using http_Error_fresh by (fastforce simp: api_statuses_def)

lemma answers_WriteHeader: "st \<in> set api_statuses \<Longrightarrow> answers (WriteHeader st)"
  unfolding answers_def using WriteHeader_fresh by (fastforce simp: api_statuses_def)

lemma answers_header_Set: "answers f \<Longrightarrow> answers (\<lambda>w. f (header_Set k v w))"
  unfolding answers_def using fresh_header_Set sent_header_Set by metis

lemma answers_if: "answers f \<Longrightarrow> answers g \<Longrightarrow> answers (if b then f else g)"
  by simp

lemma answers_simps [simp]:
  "answers (writePaymentServiceError err)" "answers (bad_json_body e)" "answers (bad_empty_body e)"
  "answers command_late" "answers read_late" "answers unauthorized" "answers forbidden"
  by (auto simp: writePaymentServiceError_def bad_json_body_def bad_empty_body_def command_late_def read_late_def
      unauthorized_def [abs_def] forbidden_def api_statuses_def
      intro!: answers_writeError answers_header_Set split: option.split)

lemma handled_reply: "answers f \<Longrightarrow> fresh w \<Longrightarrow> handled w (reply f (w, s))"
  by (auto simp: handled_def answers_def reply_def)

lemma handled_sent: "st \<in> set api_statuses \<Longrightarrow> length bs \<le> 1 \<Longrightarrow> handled w (None, sent st hs bs w, t)"
  by (auto simp: handled_def)

lemma handled_answer: "answers f \<Longrightarrow> fresh w \<Longrightarrow> handled w (None, f w, t)"
  by (auto simp: handled_def answers_def)

lemma handled_panic: "v \<noteq> ErrAbortHandler \<Longrightarrow> handled w (Some v, w, s)"
  by (simp add: handled_def)

lemma handled_app_respond:
  assumes "fresh w" "answers late" "\<And>x. answers (answer x)" "fst (call (as_app s)) \<noteq> Inl ErrAbortHandler"
  shows "handled w (app_respond app timeout late call answer (w, s))"
proof -
  have once: "\<exists>st hs bs. f w = sent st hs bs w \<and> st \<in> set api_statuses \<and> length bs \<le> 1" if "answers f" for f
    using that assms(1) by (simp add: answers_def)
  obtain res t where c: "call (as_app s) = (res, t)" by fastforce
  show ?thesis
  proof (cases res)
    case (Inl v)
    then show ?thesis using assms(4) c by (simp add: app_respond_def handled_def)
  next
    case (Inr r)
    then show ?thesis
      using once [OF assms(2)] once [OF assms(3)] once [OF answers_simps(1)] c
      by (cases r) (simp_all add: app_respond_def handled_def Let_def)
  qed
qed

definition no_abort :: "('s, 'l, 'r) Handler \<Rightarrow> bool" where
  "no_abort h \<longleftrightarrow>
     (\<forall>c s. fst (pa_AuthorizePayment (h_payments h) c s) \<noteq> Inl ErrAbortHandler) \<and>
     (\<forall>c s. fst (pa_RetryAuthorization (h_payments h) c s) \<noteq> Inl ErrAbortHandler) \<and>
     (\<forall>c s. fst (pa_CapturePayment (h_payments h) c s) \<noteq> Inl ErrAbortHandler) \<and>
     (\<forall>c s. fst (pa_VoidPayment (h_payments h) c s) \<noteq> Inl ErrAbortHandler) \<and>
     (\<forall>c s. fst (pa_RefundPayment (h_payments h) c s) \<noteq> Inl ErrAbortHandler) \<and>
     (\<forall>c s. fst (pa_GetPayment (h_payments h) c s) \<noteq> Inl ErrAbortHandler) \<and>
     (\<forall>c s. fst (pa_SearchPayments (h_payments h) c s) \<noteq> Inl ErrAbortHandler)"

lemma answers_created: "answers (\<lambda>w. writeJSON (if b then 202 else 201) c (header_Set k v w))"
  by (intro answers_header_Set answers_writeJSON) (simp add: api_statuses_def)

lemma nil_body_no_abort [simp]: "nil_body \<noteq> ErrAbortHandler"
  by (simp add: nil_body_def)

lemmas handler_defs = authorizePayment_def retryAuthorization_def capturePayment_def voidPayment_def refundPayment_def
  getPayment_def searchPayments_def healthz_def

lemmas answer_intros = handled_reply handled_panic handled_app_respond answers_created answers_writeJSON answers_writeError

lemma handlers_handle:
  assumes "no_abort h"
  shows "handles (authorizePayment h)" "handles (retryAuthorization h)" "handles (capturePayment h)"
    "handles (voidPayment h)" "handles (refundPayment h)" "handles (getPayment h)" "handles (searchPayments h)" "handles healthz"
  using assms
  by (auto simp: handles_def handler_defs no_abort_def api_statuses_def answers_WriteHeader Let_def
      intro!: answer_intros split: option.split sum.split)

lemma handles_readyz: "handles (readyz h)"
  using answers_writeError [of 503] answers_WriteHeader [of 204]
  by (auto simp: handles_def handled_def readyz_def answers_def api_statuses_def split: prod.split)

lemma handles_requireScope: "handles f \<Longrightarrow> handles (requireScope scope f)"
  by (auto simp: handles_def requireScope_def intro!: handled_reply split: option.split)

lemma handles_requireAuthentication: "handles f \<Longrightarrow> handles (requireAuthentication h f)"
  by (auto simp: handles_def requireAuthentication_def intro!: handled_reply split: option.split)

lemma handles_limitRequestBody: "handles f \<Longrightarrow> handles (limitRequestBody h f)"
  by (auto simp: handles_def limitRequestBody_def api_statuses_def intro!: handled_reply answers_writeError)

lemma answers_limited: "answers (\<lambda>w. writeError 429 c m (header_Set k v w))"
  by (intro answers_header_Set answers_writeError) (simp add: api_statuses_def)

lemma handles_limitRate: "handles f \<Longrightarrow> handles (limitRate h rc f)"
  by (auto simp: handles_def limitRate_def Let_def intro!: handled_reply handled_answer [OF answers_limited] split: option.splits prod.splits)

lemma push_recorder_eq: "push_recorder (w, s) = (fst (push_recorder (w, s)), s)"
  by (simp add: push_recorder_def)

lemma handles_pushed:
  assumes "handles f" "fresh w"
  obtains (answer) st hs bs t where "f r (push_recorder (w, s)) = (None, sent st hs bs (fst (push_recorder (w, s))), t)"
      "st \<in> set api_statuses" "length bs \<le> 1"
  | (panic) v t where "f r (push_recorder (w, s)) = (Some (PanicValue v), fst (push_recorder (w, s)), t)"
proof -
  obtain p w' t where f: "f r (push_recorder (w, s)) = (p, w', t)" by (metis prod_cases3)
  have "handled (fst (push_recorder (w, s))) (p, w', t)"
    using assms f push_recorder_eq recorder_round_trip(1) by (metis handles_def)
  then show thesis using f that by (cases p; cases "the p") (auto simp: handled_def)
qed

lemma handles_recordHTTPRequest:
  assumes "handles f"
  shows "handles (recordHTTPRequest route f)"
  unfolding handles_def
proof (intro allI impI)
  fix r w s
  assume w: "fresh w"
  show "handled w (recordHTTPRequest route f r (w, s))"
    using assms w
    by (rule handles_pushed [of f w r s]) (auto simp: recordHTTPRequest_def intro!: handled_sent handled_panic)
qed

lemma recoverPanic_total:
  assumes "handles f" "fresh w"
  shows "\<exists>st hs bs t. recoverPanic f r (w, s) = (None, sent st hs bs w, t) \<and> st \<in> set api_statuses \<and> length bs \<le> 1"
  using assms
proof (rule handles_pushed [of f w r s])
  fix st hs bs t
  assume "f r (push_recorder (w, s)) = (None, sent st hs bs (fst (push_recorder (w, s))), t)" "st \<in> set api_statuses" "length bs \<le> 1"
  then show ?thesis by (auto simp: recoverPanic_def)
next
  fix v t
  assume f: "f r (push_recorder (w, s)) = (Some (PanicValue v), fst (push_recorder (w, s)), t)"
  have wrote: "\<not> rec_wroteHeader (hd (wr_recorders (header_Set k x (fst (push_recorder (w, s))))))" for k x
    by (simp add: push_recorder_def header_Set_def fresh_recorder_def)
  have "(500::int) \<in> set api_statuses" by (simp add: api_statuses_def)
  then show ?thesis
    using assms(2) f wrote
    by (simp add: recoverPanic_def Let_def writeError_def writeJSON_fresh) (intro exI conjI, rule refl, simp_all)
qed

lemma handles_recoverPanic: "handles f \<Longrightarrow> handles (recoverPanic f)"
  unfolding handles_def [of "recoverPanic f"]
proof (intro allI impI)
  fix r w s
  assume "handles f" "fresh w"
  then obtain st hs bs t where "recoverPanic f r (w, s) = (None, sent st hs bs w, t)" "st \<in> set api_statuses" "length bs \<le> 1"
    using recoverPanic_total by blast
  then show "handled w (recoverPanic f r (w, s))" by (simp add: handled_sent)
qed

lemma handles_mux_serve: "\<forall>(m, f)\<in>set hs. handles f \<Longrightarrow> handles (mux_serve hs allow)"
  using answers_http_Error [of 404] answers_header_Set [OF answers_http_Error [of 405]] handled_reply
  by (fastforce simp: handles_def mux_serve_def api_statuses_def dest: map_of_SomeD split: option.split)

lemmas layer_intros = handles_recordHTTPRequest handles_recoverPanic handles_requireScope handles_limitRate
  handles_limitRequestBody handles_requireAuthentication handlers_handle handles_readyz

lemma handles_root_mux:
  assumes "no_abort h"
  shows "handles (root_mux h)"
proof -
  have route: "handles (read_route h route f)" "handles (write_route h route f)" "handles (registerRoute h route f)" if "handles f" for route f
    using that by (auto simp: read_route_def write_route_def registerVersionedRoute_def registerRoute_def intro!: layer_intros)
  have mux: "fresh w \<Longrightarrow> \<forall>(m, f)\<in>set hs. handles f \<Longrightarrow> handled w (mux_serve hs allow r (w, s))" for hs allow r w s
    using handles_mux_serve [of hs allow] unfolding handles_def [of "mux_serve hs allow"] by blast
  note handlers = handlers_handle [OF assms]
  have "handles (versioned h)"
    unfolding handles_def versioned_def Let_def
    by (intro allI impI) (simp add: mux route handlers split: list.split)
  then have "fresh w \<Longrightarrow> handled w (requireAuthentication h (versioned h) r (w, s))" for r w s
    using handles_requireAuthentication [of "versioned h" h] by (simp add: handles_def [of "requireAuthentication h (versioned h)"])
  then show ?thesis
    unfolding handles_def root_mux_def by (simp add: mux route handlers handles_readyz)
qed

lemma logRequest_sent:
  assumes "f r (push_recorder (w, s)) = (None, sent st hs bs (fst (push_recorder (w, s))), t)" "st \<noteq> 0"
  shows "logRequest f r (w, s) = (None, sent st hs bs w,
     t\<lparr>as_log := as_log t @ [if st \<ge> 500 then LogError (ar_Method r) st else LogInfo (ar_Method r) st]\<rparr>)"
  using assms by (simp add: logRequest_def recorded_status_def)

lemma fresh_new_writer [simp]: "fresh new_writer"
  by (simp add: fresh_def new_writer_def)

lemma ServeHTTP_sent:
  assumes "routes h r (new_writer, s) = (None, sent st hs bs new_writer, t)"
  shows "ServeHTTP h r s = (Some \<lparr>resp_status = st, resp_header = hs, resp_body = bs\<rparr>, t)"
  using assms by (simp add: ServeHTTP_def sent_def)

lemma request_answered:
  assumes "no_abort h"
  shows "\<exists>resp t. ServeHTTP h r s = (Some resp, t) \<and> resp_status resp \<in> set api_statuses \<and> length (resp_body resp) \<le> 1"
proof -
  obtain st hs bs t where st: "st \<in> set api_statuses" "length bs \<le> 1" and
    eq: "recoverPanic (root_mux h) r (push_recorder (new_writer, s)) = (None, sent st hs bs (fst (push_recorder (new_writer, s))), t)"
    using recoverPanic_total [OF handles_root_mux [OF assms], of "fst (push_recorder (new_writer, s))" r s]
      push_recorder_eq [of new_writer s] by fastforce
  have "st \<noteq> 0" using st(1) by (auto simp: api_statuses_def)
  note logRequest_sent [where f = "recoverPanic (root_mux h)", OF eq this, folded routes_def]
  from ServeHTTP_sent [OF this] st show ?thesis by simp
qed


subsection \<open>Authentication and scopes\<close>

text \<open>A panic-free answer passes the outer layers unchanged.\<close>

lemma ServeHTTP_root:
  assumes "\<And>w. fresh w \<Longrightarrow> wr_header w = [] \<Longrightarrow> root_mux h r (w, s) = (None, sent st hs bs w, t)" "200 \<le> st"
  shows "ServeHTTP h r s = (Some \<lparr>resp_status = st, resp_header = hs, resp_body = bs\<rparr>,
     t\<lparr>as_log := as_log t @ [if st \<ge> 500 then LogError (ar_Method r) st else LogInfo (ar_Method r) st]\<rparr>)"
proof -
  let ?w1 = "fst (push_recorder (new_writer, s))" let ?w2 = "fst (push_recorder (?w1, s))"
  have hd: "wr_header ?w1 = []" "wr_header ?w2 = []" by (simp_all add: push_recorder_def new_writer_def)
  have "root_mux h r (push_recorder (?w1, s)) = (None, sent st hs bs ?w2, t)"
    using assms(1) [of ?w2] hd push_recorder_eq [of ?w1 s] by simp
  then have "recoverPanic (root_mux h) r (push_recorder (new_writer, s)) = (None, sent st hs bs ?w1, t)"
    using push_recorder_eq [of new_writer s] recorder_round_trip(3) [of st hs bs ?w1 s] by (simp add: recoverPanic_def)
  from logRequest_sent [where f = "recoverPanic (root_mux h)", OF this, folded routes_def] assms(2)
  show ?thesis by (intro ServeHTTP_sent) simp
qed

definition unauthorized_response :: api_response where
  "unauthorized_response =
   \<lparr>resp_status = 401, resp_header = [(''WWW-Authenticate'', ''Bearer''), (''Content-Type'', ''application/json'')],
    resp_body = [ErrorEnvelope \<lparr>ep_Code = ''unauthorized'', ep_Message = ''Unauthorized''\<rparr>]\<rparr>"

definition authenticated :: "('s, 'l, 'r) Handler \<Rightarrow> api_request \<Rightarrow> Principal option" where
  "authenticated h r = Option.bind (bearerCredential (ar_Authorization r)) (Authenticate (h_authenticator h))"

lemma requireAuthentication_eq:
  "requireAuthentication h f r ws =
   (case authenticated h r of None \<Rightarrow> reply unauthorized ws | Some p \<Rightarrow> f (r\<lparr>ar_principal := Some p\<rparr>) ws)"
  by (auto simp: requireAuthentication_def authenticated_def split: option.split)

text \<open>C14: a request under \<^verbatim>\<open>/api/v1/\<close> without a bearer credential that authenticates is answered 401 with a
  challenge; the application, the rate limiter and the metrics are not touched.\<close>

theorem unauthenticated_rejected:
  assumes "api_path r" "authenticated h r = None"
  shows "ServeHTTP h r s = (Some unauthorized_response, s\<lparr>as_log := as_log s @ [LogInfo (ar_Method r) 401]\<rparr>)"
proof -
  have "root_mux h r (w, s) = (None, sent 401 (resp_header unauthorized_response) (resp_body unauthorized_response) w, s)"
    if "fresh w" "wr_header w = []" for w
  proof -
    have "root_mux h r (w, s) = (None, unauthorized w, s)" using assms by (simp add: root_mux_def requireAuthentication_eq reply_def)
    moreover have "json_header (header_Set ''WWW-Authenticate'' ''Bearer'' w) = resp_header unauthorized_response"
      using that by (simp add: json_header_def header_Set_def unauthorized_response_def)
    ultimately show ?thesis
      using that by (simp add: unauthorized_def writeError_def writeJSON_fresh unauthorized_response_def StatusText_def)
  qed
  from ServeHTTP_root [of h r s 401, OF this] show ?thesis by (simp add: unauthorized_response_def)
qed

text \<open>The application with its five commands replaced.\<close>

definition same_reads :: "'s paymentApplication \<Rightarrow> 's paymentApplication \<Rightarrow> bool" where
  "same_reads a b \<longleftrightarrow> pa_GetPayment a = pa_GetPayment b \<and> pa_SearchPayments a = pa_SearchPayments b \<and> pa_expired a = pa_expired b"

lemma write_route_forbidden:
  assumes "ar_principal r = Some p" "\<not> HasScope p ScopePaymentsWrite"
  shows "write_route h route f r ws = write_route h' route f' r ws"
  using assms by (simp add: write_route_def registerVersionedRoute_def recordHTTPRequest_def recoverPanic_def requireScope_def)

lemma layers_cong:
  assumes "h_config h = h_config h'"
  shows "limitRequestBody h = limitRequestBody h'"
    "h_rate h = h_rate h' \<Longrightarrow> h_clock h = h_clock h' \<Longrightarrow> limitRate h = limitRate h'"
    "h_CheckReady h = h_CheckReady h' \<Longrightarrow> readyz h = readyz h'"
  by (intro ext; simp add: assms limitRequestBody_def limitRate_def readyz_def cong: option.case_cong)+

lemma app_respond_cong: "pa_expired a = pa_expired b \<Longrightarrow> app_respond a = app_respond b"
  by (intro ext) (simp add: app_respond_def Let_def split: prod.split sum.split)

lemma read_handlers_cong:
  assumes "same_reads (h_payments h) (h_payments h')" "h_config h = h_config h'"
  shows "getPayment h = getPayment h'" "searchPayments h = searchPayments h'"
  using assms
  by (intro ext; simp add: getPayment_def searchPayments_def same_reads_def app_respond_cong [of "h_payments h" "h_payments h'"]
      Let_def split: sum.split)+

lemma mux_serve_cong:
  assumes "map fst hs = map fst hs'" "\<And>ws. list_all2 (\<lambda>(_, f) (_, f'). f r ws = f' r ws) hs hs'"
  shows "mux_serve hs allow r = mux_serve hs' allow r"
proof (rule ext)
  fix ws
  let ?m = "if ar_Method r = ''HEAD'' then ''GET'' else ar_Method r"
  have "map_option (\<lambda>f. f r ws) (map_of hs ?m) = map_option (\<lambda>f. f r ws) (map_of hs' ?m)"
    using assms(2) [of ws] assms(1) by (induction hs hs' rule: list_all2_induct) auto
  moreover have "hs = [] \<longleftrightarrow> hs' = []" using assms(1) by auto
  ultimately show "mux_serve hs allow r ws = mux_serve hs' allow r ws"
    by (auto simp: mux_serve_def map_option_case split: option.splits)
qed

lemma versioned_without_write_scope:
  assumes "ar_principal r = Some p" "\<not> HasScope p ScopePaymentsWrite"
    and "same_reads (h_payments h) app"
  shows "versioned h r = versioned (h\<lparr>h_payments := app\<rparr>) r"
proof -
  let ?h = "h\<lparr>h_payments := app\<rparr>"
  have gets: "getPayment h = getPayment ?h" "searchPayments h = searchPayments ?h"
    using assms(3) by (auto intro!: read_handlers_cong)
  have route: "read_route h = read_route ?h"
    using layers_cong [of h ?h] by (intro ext) (simp add: read_route_def registerVersionedRoute_def)
  have post: "mux_serve [(''POST'', write_route h route f)] a r = mux_serve [(''POST'', write_route ?h route f')] a r" for route a f f'
    by (rule mux_serve_cong) (simp_all add: write_route_forbidden [OF assms(1,2), of h route f _ ?h f'])
  have both: "mux_serve [(''GET'', g), (''POST'', write_route h route f)] a r =
      mux_serve [(''GET'', g), (''POST'', write_route ?h route f')] a r" for route a f f' g
    by (rule mux_serve_cong) (simp_all add: write_route_forbidden [OF assms(1,2), of h route f _ ?h f'])
  show ?thesis
    unfolding versioned_def gets route both [of _ _ "authorizePayment h" _ "authorizePayment ?h"]
      post [of _ "retryAuthorization h" _ "retryAuthorization ?h"] post [of _ "capturePayment h" _ "capturePayment ?h"]
      post [of _ "voidPayment h" _ "voidPayment ?h"] post [of _ "refundPayment h" _ "refundPayment ?h"] by (rule refl)
qed

text \<open>C8: who may only read cannot reach a command: for a principal without the write scope the answer and
  the effect of a request are the same whatever the five commands of the application do.\<close>

theorem commands_need_write_scope:
  assumes "authenticated h r = Some p" "\<not> HasScope p ScopePaymentsWrite" "same_reads (h_payments h) app"
  shows "ServeHTTP h r s = ServeHTTP (h\<lparr>h_payments := app\<rparr>) r s"
proof -
  have "root_mux h r ws = root_mux (h\<lparr>h_payments := app\<rparr>) r ws" for ws
  proof (cases "api_path r")
    case True
    then show ?thesis
      using assms versioned_without_write_scope [of "r\<lparr>ar_principal := Some p\<rparr>" p h app]
      by (simp add: root_mux_def requireAuthentication_eq authenticated_def)
  next
    case False
    then show ?thesis
      using layers_cong [of h "h\<lparr>h_payments := app\<rparr>"] by (simp add: root_mux_def registerRoute_def)
  qed
  then show ?thesis by (simp add: ServeHTTP_def routes_def logRequest_def recoverPanic_def)
qed

subsection \<open>A handler, for the witnesses\<close>

definition open_rate :: "(unit, unit) rate_package" where
  "open_rate = \<lparr>rate_NewLimiter = \<lambda>_ _. (), rate_AllowN = \<lambda>l _ _. (True, l), rate_ReserveN = \<lambda>l _ _. ((), l),
     rate_DelayFrom = \<lambda>_ _. 0, rate_CancelAt = \<lambda>_ _ l. l\<rparr>"

definition example_limits :: RateLimitConfig where
  "example_limits = \<lparr>rl_ReadRequestsPerSecond = 30, rl_ReadBurst = 60, rl_WriteRequestsPerSecond = 5, rl_WriteBurst = 10\<rparr>"

definition example_handler :: "Scope list \<Rightarrow> ((Database, unit) ServiceState, unit, unit) Handler" where
  "example_handler scopes =
   \<lparr>h_payments = payment_application (\<lambda>_ _ _. False) example_service, h_CheckReady = \<lambda>_ s. (None, s),
    h_authenticator = \<lparr>aut_key = example_key,
      aut_credentials = [\<lparr>acr_digest = hmac_sha256 example_key ''secret'', acr_scopes = scopes\<rparr>]\<rparr>,
    h_rate = open_rate, h_clock = int,
    h_config = \<lparr>hc_PaymentCommandTimeout = 10, hc_PaymentReadTimeout = 3, hc_ReadinessTimeout = 2,
      hc_MaxRequestBodyBytes = 65536, hc_RateLimit = example_limits\<rparr>\<rparr>"

definition empty_body :: body where
  "empty_body = \<lparr>bd_items = [], bd_length = 0, bd_partial = False, bd_broken = False, bd_limit = None\<rparr>"

definition example_post :: "string list \<Rightarrow> string \<Rightarrow> api_request" where
  "example_post path authorization =
   \<lparr>ar_Method = ''POST'', ar_path = [''api'', ''v1'', ''payments''] @ path, ar_slash = False, ar_query = [],
    ar_Authorization = authorization, ar_ContentType = [], ar_IdempotencyKey = ''key-1'', ar_ContentLength = 0,
    ar_Body = Some empty_body, ar_principal = None\<rparr>"

definition api_with :: "IdempotencyRow list \<Rightarrow> ((Database, unit) ServiceState, unit) ApiState" where
  "api_with rows =
   \<lparr>as_app = state_with rows, as_rateLimiter = \<lparr>rl_config = example_limits, rl_ticks = 0, rl_buckets = []\<rparr>,
    as_metrics = [], as_log = []\<rparr>"

lemma no_abort_service: "h_payments h = payment_application expired svc \<Longrightarrow> no_abort h"
  by (simp add: no_abort_def payment_application_def calling_def split: prod.split)

lemma bearer_secret: "bearerCredential ''Bearer secret'' = Some ''secret''" "bearerCredential [] = None"
  by code_simp+

lemma example_authenticated:
  "ar_Authorization r = ''Bearer secret'' \<Longrightarrow>
     authenticated (example_handler scopes) r = Some \<lparr>prn_id = OrderServicePrincipal, prn_scopes = scopes\<rparr>"
  by (simp add: authenticated_def bearer_secret example_handler_def Authenticate_def)


theorem unauthenticated_rejected_witness:
  "ServeHTTP (example_handler [ScopePaymentsWrite]) (example_post [''pay_x'', ''capture''] []) (api_with []) =
     (Some unauthorized_response, (api_with [])\<lparr>as_log := [LogInfo ''POST'' 401]\<rparr>)"
  using unauthenticated_rejected [of "example_post [''pay_x'', ''capture''] []" "example_handler [ScopePaymentsWrite]" "api_with []"]
  by (simp add: example_post_def api_path_def authenticated_def bearer_secret api_with_def)

text \<open>A handler that would panic on every command, for the witness of the scopes.\<close>

definition broken_application :: "((Database, unit) ServiceState) paymentApplication" where
  "broken_application = (payment_application (\<lambda>_ _ _. False) example_service)
     \<lparr>pa_CapturePayment := \<lambda>_ s. (Inl (PanicValue ''broken''), s)\<rparr>"

theorem commands_need_write_scope_witness:
  "ServeHTTP (example_handler [ScopePaymentsRead]) (example_post [''pay_x'', ''capture''] ''Bearer secret'') (api_with []) =
   ServeHTTP ((example_handler [ScopePaymentsRead])\<lparr>h_payments := broken_application\<rparr>)
     (example_post [''pay_x'', ''capture''] ''Bearer secret'') (api_with [])"
proof (rule commands_need_write_scope)
  show "authenticated (example_handler [ScopePaymentsRead]) (example_post [''pay_x'', ''capture''] ''Bearer secret'') =
      Some \<lparr>prn_id = OrderServicePrincipal, prn_scopes = [ScopePaymentsRead]\<rparr>"
    by (rule example_authenticated) (simp add: example_post_def)
  show "\<not> HasScope \<lparr>prn_id = OrderServicePrincipal, prn_scopes = [ScopePaymentsRead]\<rparr> ScopePaymentsWrite"
    by (simp add: HasScope_def ScopePaymentsRead_def ScopePaymentsWrite_def)
  show "same_reads (h_payments (example_handler [ScopePaymentsRead])) broken_application"
    by (simp add: same_reads_def broken_application_def example_handler_def payment_application_def)
qed

subsection \<open>Rate limits\<close>

lemma ceil_seconds_ge: "d \<le> ceil_seconds d * Second"
proof -
  have "(- d) div Second * Second \<le> - d"
    by (metis Groups.mult_ac(2) Second_def mult_div_mod_eq pos_mod_sign add.commute le_add_same_cancel2 zero_less_numeral)
  then show ?thesis by (simp add: ceil_seconds_def)
qed

text \<open>A bucket belongs to one principal and one class of routes; a request takes from its own bucket and leaves all
  others alone, and a rejected one is told to wait a positive number of seconds.\<close>

theorem rate_limit_isolated:
  assumes "Reserve rate clock p c l = ((allowed, retryAfter), l')"
  shows "(if allowed then retryAfter = 0 else 1 \<le> retryAfter) \<and>
    (\<forall>k. k \<noteq> (p, c) \<longrightarrow> map_of (rl_buckets l') k = map_of (rl_buckets l) k)"
  using assms by (auto simp: Reserve_def Let_def update_conv' split: prod.splits if_splits)

text \<open>C23: the header keeps its word.  When the limiter allows a request at the time a cancelled reservation was due,
  a caller rejected with \<^verbatim>\<open>Retry-After: n\<close> who is the next to use the bucket, \<open>n\<close> seconds later or more, is served.\<close>

theorem retry_after_honoured:
  assumes law: "\<And>b now r b' t. rate_ReserveN rate b now 1 = (r, b') \<Longrightarrow> now + rate_DelayFrom rate r now \<le> t \<Longrightarrow>
      fst (rate_AllowN rate (rate_CancelAt rate r now b') t 1)"
    and rejected: "Reserve rate clock p c l = ((False, retryAfter), l')"
    and next_use: "map_of (rl_buckets l2) (p, c) = map_of (rl_buckets l') (p, c)"
      "clock (rl_ticks l) + retryAfter * Second \<le> clock (rl_ticks l2)"
  shows "fst (fst (Reserve rate clock p c l2))"
proof -
  let ?now = "clock (rl_ticks l)"
  define b where "b = (case map_of (rl_buckets l) (p, c) of Some b \<Rightarrow> b
    | None \<Rightarrow> (case limitFor l c of (rps, burst) \<Rightarrow> rate_NewLimiter rate rps burst))"
  obtain b1 where b1: "rate_AllowN rate b ?now 1 = (False, b1)"
    using rejected by (cases "rate_AllowN rate b ?now 1") (auto simp: Reserve_def Let_def b_def split: prod.splits if_splits)
  obtain r b2 where r: "rate_ReserveN rate b1 ?now 1 = (r, b2)" by fastforce
  have l': "rl_buckets l' = AList.update (p, c) (rate_CancelAt rate r ?now b2) (rl_buckets l)"
    and after: "retryAfter = (if ceil_seconds (rate_DelayFrom rate r ?now) < 1 then 1 else ceil_seconds (rate_DelayFrom rate r ?now))"
    using rejected b1 r by (auto simp: Reserve_def Let_def b_def [symmetric])
  have "rate_DelayFrom rate r ?now \<le> retryAfter * Second"
    using ceil_seconds_ge [of "rate_DelayFrom rate r ?now"] after by (auto simp: Second_def)
  then have "fst (rate_AllowN rate (rate_CancelAt rate r ?now b2) (clock (rl_ticks l2)) 1)"
    using law [OF r, of "clock (rl_ticks l2)"] next_use(2) by simp
  moreover have "map_of (rl_buckets l2) (p, c) = Some (rate_CancelAt rate r ?now b2)"
    using next_use(1) l' by (simp add: update_conv')
  ultimately show ?thesis by (auto simp: Reserve_def Let_def split: prod.split)
qed

text \<open>A limiter of one token per second, for the witnesses: its state is the time of the next token.\<close>

definition steady_rate :: "(time, time) rate_package" where
  "steady_rate =
   \<lparr>rate_NewLimiter = \<lambda>_ _. 0,
    rate_AllowN = \<lambda>due now _. (due \<le> now, if due \<le> now then now + Second else due),
    rate_ReserveN = \<lambda>due now _. (max due now, max due now + Second),
    rate_DelayFrom = \<lambda>r now. r - now, rate_CancelAt = \<lambda>r _ _. r\<rparr>"

definition busy_limiter :: "time RateLimiter" where
  "busy_limiter = \<lparr>rl_config = example_limits, rl_ticks = 0, rl_buckets = [((''order-service'', ''write''), 500)]\<rparr>"

theorem rate_limit_isolated_witness:
  "snd (fst (Reserve steady_rate int ''order-service'' ''write'' busy_limiter)) \<ge> 1"
proof -
  obtain ok after l' where r: "Reserve steady_rate int ''order-service'' ''write'' busy_limiter = ((ok, after), l')"
    by (cases "Reserve steady_rate int ''order-service'' ''write'' busy_limiter") auto
  moreover have "\<not> ok" using r by (simp add: Reserve_def busy_limiter_def steady_rate_def Let_def)
  ultimately show ?thesis using rate_limit_isolated [OF r] by simp
qed

theorem retry_after_honoured_witness:
  "fst (fst (Reserve steady_rate (\<lambda>n. int n * Second) ''order-service'' ''write'' (busy_limiter\<lparr>rl_ticks := 1\<rparr>)))"
proof (rule retry_after_honoured)
  fix b now r b' t
  assume "rate_ReserveN steady_rate b now 1 = (r, b')" "now + rate_DelayFrom steady_rate r now \<le> t"
  then show "fst (rate_AllowN steady_rate (rate_CancelAt steady_rate r now b') t 1)" by (auto simp: steady_rate_def)
next
  show "Reserve steady_rate (\<lambda>n. int n * Second) ''order-service'' ''write'' busy_limiter = ((False, 1), busy_limiter\<lparr>rl_ticks := 1\<rparr>)"
    by (simp add: Reserve_def busy_limiter_def steady_rate_def Let_def ceil_seconds_def Second_def)
qed (simp_all add: busy_limiter_def)

end
