(* ===== verification/Gateway_Config.thy ===== *)
theory Gateway_Config
  imports Http_Contract Bank_Client
begin

text \<open>
  The configuration of the gateway process, \<^verbatim>\<open>gateway/cmd/payment-gateway/config.go\<close>: what is read from the environment,
  the checks before the start, and the configurations handed to the components.  The environment is the
  parameter \<open>process_env\<close>: the variables (empty when unset), \<^verbatim>\<open>url.Parse\<close>, and the product of a fraction in \<^verbatim>\<open>time.ParseDuration\<close>.

  The lemmas show that a configuration that passes the checks is accepted by the components, that the retry
  budget fits the deadline as long as the sum does not overflow, and that it need not fit when it does.
\<close>

subsection \<open>Defaults\<close>

definition defaultDatabaseMaxOpenConnections :: int where "defaultDatabaseMaxOpenConnections = 10"
definition defaultDatabaseMaxIdleConnections :: int where "defaultDatabaseMaxIdleConnections = 5"
definition defaultDatabaseConnectionMaxLifetime :: duration where "defaultDatabaseConnectionMaxLifetime = 30 * Minute"
definition defaultDatabaseConnectionMaxIdleTime :: duration where "defaultDatabaseConnectionMaxIdleTime = 5 * Minute"
definition defaultDatabaseStartupTimeout :: duration where "defaultDatabaseStartupTimeout = 5 * Second"
definition defaultIdempotencyClaimStuckAfter :: duration where "defaultIdempotencyClaimStuckAfter = 5 * Minute"
definition defaultIdempotencyReplayCleanupInterval :: duration where "defaultIdempotencyReplayCleanupInterval = Hour"
definition defaultLogLevel :: string where "defaultLogLevel = ''info''"
definition defaultShutdownTimeout :: duration where "defaultShutdownTimeout = 30 * Second"
definition defaultPaymentCommandTimeout :: duration where "defaultPaymentCommandTimeout = 10 * Second"
definition defaultPaymentReadTimeout :: duration where "defaultPaymentReadTimeout = 3 * Second"
definition defaultReadinessCheckTimeout :: duration where "defaultReadinessCheckTimeout = 2 * Second"
definition defaultMockBankInitialAttemptTimeout :: duration where "defaultMockBankInitialAttemptTimeout = 2 * Second"
definition defaultMockBankRetryDelay :: duration where "defaultMockBankRetryDelay = 250 * Millisecond"
definition defaultMockBankRetryAttemptTimeout :: duration where "defaultMockBankRetryAttemptTimeout = 5 * Second"
definition defaultHTTPReadHeaderTimeout :: duration where "defaultHTTPReadHeaderTimeout = 5 * Second"
definition defaultHTTPAddr :: string where "defaultHTTPAddr = '':8080''"
definition defaultMetricsAddr :: string where "defaultMetricsAddr = '':9091''"
definition defaultHTTPReadTimeout :: duration where "defaultHTTPReadTimeout = 15 * Second"
definition defaultHTTPWriteTimeout :: duration where "defaultHTTPWriteTimeout = 15 * Second"
definition defaultHTTPIdleTimeout :: duration where "defaultHTTPIdleTimeout = 60 * Second"
definition defaultMetricsReadHeaderTimeout :: duration where "defaultMetricsReadHeaderTimeout = 5 * Second"
definition defaultMetricsReadTimeout :: duration where "defaultMetricsReadTimeout = 5 * Second"
definition defaultMetricsWriteTimeout :: duration where "defaultMetricsWriteTimeout = 10 * Second"
definition defaultMetricsIdleTimeout :: duration where "defaultMetricsIdleTimeout = 30 * Second"
definition defaultHTTPMaxRequestBodyBytes :: int where "defaultHTTPMaxRequestBodyBytes = 64 * 1024"
definition defaultMockBankConnectTimeout :: duration where "defaultMockBankConnectTimeout = 2 * Second"
definition defaultMockBankTLSHandshakeTimeout :: duration where "defaultMockBankTLSHandshakeTimeout = 2 * Second"
definition defaultMockBankResponseHeaderTimeout :: duration where "defaultMockBankResponseHeaderTimeout = 6 * Second"
definition defaultMockBankIdleConnectionTimeout :: duration where "defaultMockBankIdleConnectionTimeout = 60 * Second"
definition defaultPaymentReadRateLimitRequestsPerSecond :: int where "defaultPaymentReadRateLimitRequestsPerSecond = 30"
definition defaultPaymentReadRateLimitBurst :: int where "defaultPaymentReadRateLimitBurst = 60"
definition defaultPaymentWriteRateLimitRequestsPerSecond :: int where "defaultPaymentWriteRateLimitRequestsPerSecond = 5"
definition defaultPaymentWriteRateLimitBurst :: int where "defaultPaymentWriteRateLimitBurst = 10"

definition paymentCommandCompletionReserve :: duration where "paymentCommandCompletionReserve = Second"

subsection \<open>The configuration\<close>

record base_url =
  url_Scheme :: string
  url_Host :: string

record config =
  gc_LogLevel :: string
  gc_ShutdownTimeout :: duration
  gc_IdempotencyReplayCleanupInterval :: duration
  gc_DatabaseURL :: string
  gc_DatabaseMaxOpenConnections :: int
  gc_DatabaseMaxIdleConnections :: int
  gc_DatabaseConnectionMaxLifetime :: duration
  gc_DatabaseConnectionMaxIdleTime :: duration
  gc_DatabaseStartupTimeout :: duration
  gc_HTTPAddr :: string
  gc_HTTPReadHeaderTimeout :: duration
  gc_HTTPReadTimeout :: duration
  gc_HTTPWriteTimeout :: duration
  gc_HTTPIdleTimeout :: duration
  gc_HTTPMaxRequestBodyBytes :: int
  gc_RateLimitReadRequestsPerSecond :: int
  gc_RateLimitReadBurst :: int
  gc_RateLimitWriteRequestsPerSecond :: int
  gc_RateLimitWriteBurst :: int
  gc_PaymentCommandTimeout :: duration
  gc_PaymentReadTimeout :: duration
  gc_ReadinessTimeout :: duration
  gc_MetricsAddr :: string
  gc_MetricsReadHeaderTimeout :: duration
  gc_MetricsReadTimeout :: duration
  gc_MetricsWriteTimeout :: duration
  gc_MetricsIdleTimeout :: duration
  gc_FingerprintSecret :: string
  gc_IdempotencyClaimStuckAfter :: duration
  gc_ServiceCredentialHMACKey :: string
  gc_ServiceCredentials :: "Credential list"
  gc_MockBankBaseURL :: base_url
  gc_MockBankInitialAttemptTimeout :: duration
  gc_MockBankRetryDelay :: duration
  gc_MockBankRetryAttemptTimeout :: duration
  gc_MockBankConnectTimeout :: duration
  gc_MockBankTLSHandshakeTimeout :: duration
  gc_MockBankResponseHeaderTimeout :: duration
  gc_MockBankIdleConnectionTimeout :: duration

record process_env =
  pe_Getenv :: "string \<Rightarrow> string"
  pe_url_Parse :: "string \<Rightarrow> base_url option"
  pe_frac :: "int \<Rightarrow> int \<Rightarrow> nat \<Rightarrow> int"

record PostgresConfig =
  pgc_URL :: string
  pgc_MaxOpenConnections :: int
  pgc_MaxIdleConnections :: int
  pgc_ConnectionMaxLifetime :: duration
  pgc_ConnectionMaxIdleTime :: duration

record HTTPServer =
  srv_Addr :: string
  srv_ReadHeaderTimeout :: duration
  srv_ReadTimeout :: duration
  srv_WriteTimeout :: duration
  srv_IdleTimeout :: duration

definition newHTTPServer :: "string \<Rightarrow> duration \<Rightarrow> duration \<Rightarrow> duration \<Rightarrow> duration \<Rightarrow> HTTPServer" where
  "newHTTPServer addr readHeaderTimeout readTimeout writeTimeout idleTimeout =
   \<lparr>srv_Addr = addr, srv_ReadHeaderTimeout = readHeaderTimeout, srv_ReadTimeout = readTimeout,
    srv_WriteTimeout = writeTimeout, srv_IdleTimeout = idleTimeout\<rparr>"

definition postgresConfig :: "config \<Rightarrow> PostgresConfig" where
  "postgresConfig cfg =
   \<lparr>pgc_URL = gc_DatabaseURL cfg, pgc_MaxOpenConnections = gc_DatabaseMaxOpenConnections cfg,
    pgc_MaxIdleConnections = gc_DatabaseMaxIdleConnections cfg,
    pgc_ConnectionMaxLifetime = gc_DatabaseConnectionMaxLifetime cfg,
    pgc_ConnectionMaxIdleTime = gc_DatabaseConnectionMaxIdleTime cfg\<rparr>"

definition mockBankConfig :: "config \<Rightarrow> ClientConfig" where
  "mockBankConfig cfg =
   \<lparr>cfg_Scheme = url_Scheme (gc_MockBankBaseURL cfg), cfg_Host = url_Host (gc_MockBankBaseURL cfg),
    cfg_InitialAttemptTimeout = gc_MockBankInitialAttemptTimeout cfg, cfg_RetryDelay = gc_MockBankRetryDelay cfg,
    cfg_RetryAttemptTimeout = gc_MockBankRetryAttemptTimeout cfg, cfg_ConnectTimeout = gc_MockBankConnectTimeout cfg,
    cfg_TLSHandshakeTimeout = gc_MockBankTLSHandshakeTimeout cfg,
    cfg_ResponseHeaderTimeout = gc_MockBankResponseHeaderTimeout cfg,
    cfg_IdleConnectionTimeout = gc_MockBankIdleConnectionTimeout cfg\<rparr>"

definition rateLimitConfig :: "config \<Rightarrow> RateLimitConfig" where
  "rateLimitConfig cfg =
   \<lparr>rl_ReadRequestsPerSecond = gc_RateLimitReadRequestsPerSecond cfg, rl_ReadBurst = gc_RateLimitReadBurst cfg,
    rl_WriteRequestsPerSecond = gc_RateLimitWriteRequestsPerSecond cfg, rl_WriteBurst = gc_RateLimitWriteBurst cfg\<rparr>"

definition handlerConfig :: "config \<Rightarrow> HandlerConfig" where
  "handlerConfig cfg =
   \<lparr>hc_PaymentCommandTimeout = gc_PaymentCommandTimeout cfg, hc_PaymentReadTimeout = gc_PaymentReadTimeout cfg,
    hc_ReadinessTimeout = gc_ReadinessTimeout cfg, hc_MaxRequestBodyBytes = gc_HTTPMaxRequestBodyBytes cfg,
    hc_RateLimit = rateLimitConfig cfg\<rparr>"

definition publicServer :: "config \<Rightarrow> HTTPServer" where
  "publicServer cfg = newHTTPServer (gc_HTTPAddr cfg) (gc_HTTPReadHeaderTimeout cfg) (gc_HTTPReadTimeout cfg)
     (gc_HTTPWriteTimeout cfg) (gc_HTTPIdleTimeout cfg)"

definition metricsServer :: "config \<Rightarrow> HTTPServer" where
  "metricsServer cfg = newHTTPServer (gc_MetricsAddr cfg) (gc_MetricsReadHeaderTimeout cfg) (gc_MetricsReadTimeout cfg)
     (gc_MetricsWriteTimeout cfg) (gc_MetricsIdleTimeout cfg)"

subsection \<open>Reading the environment\<close>

definition envBase64 :: "process_env \<Rightarrow> string \<Rightarrow> string + string" where
  "envBase64 env name =
   (let value = pe_Getenv env name in
    if value = [] then Inl (name @ '' is required'')
    else case RawURLEncoding_DecodeString value of None \<Rightarrow> Inl (name @ '' must be base64url-encoded'') | Some decoded \<Rightarrow> Inr decoded)"

definition envURL :: "process_env \<Rightarrow> string \<Rightarrow> string + base_url" where
  "envURL env name =
   (case pe_url_Parse env (TrimSpace (pe_Getenv env name)) of
      None \<Rightarrow> Inl (name @ '' must be a valid URL'') | Some parsed \<Rightarrow> Inr parsed)"

fun parse_credential_entries :: "string list \<Rightarrow> string + Credential list" where
  "parse_credential_entries [] = Inr []"
| "parse_credential_entries (entry # entries) =
     (case str_Cut CHR ''='' entry of
        None \<Rightarrow> Inl ''ORDER_SERVICE_CREDENTIALS must contain digest=scope+scope entries''
      | Some (digest, scopes) \<Rightarrow>
          if digest = [] \<or> scopes = [] then Inl ''ORDER_SERVICE_CREDENTIALS must contain digest=scope+scope entries''
          else bind_result (parse_credential_entries entries) (\<lambda>credentials.
            Inr (\<lparr>crd_Digest = digest, crd_Scopes = str_Split CHR ''+'' scopes\<rparr> # credentials)))"

definition parseServiceCredentials :: "string \<Rightarrow> string + Credential list" where
  "parseServiceCredentials value =
   (if value = [] then Inl ''ORDER_SERVICE_CREDENTIALS is required''
    else parse_credential_entries (str_Split CHR '','' value))"

definition envInt :: "process_env \<Rightarrow> string \<Rightarrow> int \<Rightarrow> string + int" where
  "envInt env name fallback =
   (let value = pe_Getenv env name in
    if value = [] then Inr fallback
    else case strconv_Atoi value of None \<Rightarrow> Inl (name @ '' must be an integer'') | Some parsed \<Rightarrow> Inr parsed)"

definition envString :: "process_env \<Rightarrow> string \<Rightarrow> string \<Rightarrow> string" where
  "envString env name fallback = (let value = pe_Getenv env name in if value = [] then fallback else value)"

text \<open>\<^verbatim>\<open>strconv.ParseInt(value, 10, 64)\<close> accepts what \<^verbatim>\<open>Atoi\<close> accepts on a 64-bit platform.\<close>

definition envInt64 :: "process_env \<Rightarrow> string \<Rightarrow> int \<Rightarrow> string + int" where
  "envInt64 env name fallback =
   (let value = pe_Getenv env name in
    if value = [] then Inr fallback
    else case strconv_Atoi value of None \<Rightarrow> Inl (name @ '' must be an integer'') | Some parsed \<Rightarrow> Inr parsed)"

definition envDuration :: "process_env \<Rightarrow> string \<Rightarrow> duration \<Rightarrow> string + duration" where
  "envDuration env name fallback =
   (let value = pe_Getenv env name in
    if value = [] then Inr fallback
    else case ParseDuration (pe_frac env) value of
      None \<Rightarrow> Inl (name @ '' must be a valid duration'') | Some parsed \<Rightarrow> Inr parsed)"

definition loadConfig :: "process_env \<Rightarrow> string + config" where
  "loadConfig env =
  (bind_result (envBase64 env ''SERVICE_CREDENTIAL_HMAC_KEY'') (\<lambda>serviceCredentialHMACKey.
     bind_result (parseServiceCredentials (pe_Getenv env ''ORDER_SERVICE_CREDENTIALS'')) (\<lambda>serviceCredentials.
     bind_result (envInt env ''DATABASE_MAX_OPEN_CONNECTIONS'' defaultDatabaseMaxOpenConnections) (\<lambda>databaseMaxOpenConnections.
     bind_result (envInt env ''DATABASE_MAX_IDLE_CONNECTIONS'' defaultDatabaseMaxIdleConnections) (\<lambda>databaseMaxIdleConnections.
     bind_result (envDuration env ''DATABASE_CONNECTION_MAX_LIFETIME'' defaultDatabaseConnectionMaxLifetime) (\<lambda>databaseConnectionMaxLifetime.
     bind_result (envDuration env ''DATABASE_CONNECTION_MAX_IDLE_TIME'' defaultDatabaseConnectionMaxIdleTime) (\<lambda>databaseConnectionMaxIdleTime.
     bind_result (envDuration env ''DATABASE_STARTUP_TIMEOUT'' defaultDatabaseStartupTimeout) (\<lambda>databaseStartupTimeout.
     bind_result (envDuration env ''IDEMPOTENCY_CLAIM_STUCK_AFTER'' defaultIdempotencyClaimStuckAfter) (\<lambda>idempotencyClaimStuckAfter.
     bind_result (envDuration env ''IDEMPOTENCY_REPLAY_CLEANUP_INTERVAL'' defaultIdempotencyReplayCleanupInterval) (\<lambda>idempotencyReplayCleanupInterval.
     bind_result (envDuration env ''PAYMENT_COMMAND_TIMEOUT'' defaultPaymentCommandTimeout) (\<lambda>paymentCommandTimeout.
     bind_result (envDuration env ''PAYMENT_READ_TIMEOUT'' defaultPaymentReadTimeout) (\<lambda>paymentReadTimeout.
     bind_result (envDuration env ''READINESS_CHECK_TIMEOUT'' defaultReadinessCheckTimeout) (\<lambda>readinessTimeout.
     bind_result (envDuration env ''MOCK_BANK_INITIAL_ATTEMPT_TIMEOUT'' defaultMockBankInitialAttemptTimeout) (\<lambda>mockBankInitialAttemptTimeout.
     bind_result (envDuration env ''MOCK_BANK_RETRY_DELAY'' defaultMockBankRetryDelay) (\<lambda>mockBankRetryDelay.
     bind_result (envDuration env ''MOCK_BANK_RETRY_ATTEMPT_TIMEOUT'' defaultMockBankRetryAttemptTimeout) (\<lambda>mockBankRetryAttemptTimeout.
     bind_result (envDuration env ''HTTP_READ_HEADER_TIMEOUT'' defaultHTTPReadHeaderTimeout) (\<lambda>httpReadHeaderTimeout.
     bind_result (envDuration env ''HTTP_READ_TIMEOUT'' defaultHTTPReadTimeout) (\<lambda>httpReadTimeout.
     bind_result (envDuration env ''HTTP_WRITE_TIMEOUT'' defaultHTTPWriteTimeout) (\<lambda>httpWriteTimeout.
     bind_result (envDuration env ''HTTP_IDLE_TIMEOUT'' defaultHTTPIdleTimeout) (\<lambda>httpIdleTimeout.
     bind_result (envDuration env ''METRICS_READ_HEADER_TIMEOUT'' defaultMetricsReadHeaderTimeout) (\<lambda>metricsReadHeaderTimeout.
     bind_result (envDuration env ''METRICS_READ_TIMEOUT'' defaultMetricsReadTimeout) (\<lambda>metricsReadTimeout.
     bind_result (envDuration env ''METRICS_WRITE_TIMEOUT'' defaultMetricsWriteTimeout) (\<lambda>metricsWriteTimeout.
     bind_result (envDuration env ''METRICS_IDLE_TIMEOUT'' defaultMetricsIdleTimeout) (\<lambda>metricsIdleTimeout.
     bind_result (envInt64 env ''HTTP_MAX_REQUEST_BODY_BYTES'' defaultHTTPMaxRequestBodyBytes) (\<lambda>httpMaxRequestBodyBytes.
     bind_result (envInt env ''RATE_LIMIT_READ_REQUESTS_PER_SECOND'' defaultPaymentReadRateLimitRequestsPerSecond) (\<lambda>readRateLimitRequestsPerSecond.
     bind_result (envInt env ''RATE_LIMIT_READ_BURST'' defaultPaymentReadRateLimitBurst) (\<lambda>readRateLimitBurst.
     bind_result (envInt env ''RATE_LIMIT_WRITE_REQUESTS_PER_SECOND'' defaultPaymentWriteRateLimitRequestsPerSecond) (\<lambda>writeRateLimitRequestsPerSecond.
     bind_result (envInt env ''RATE_LIMIT_WRITE_BURST'' defaultPaymentWriteRateLimitBurst) (\<lambda>writeRateLimitBurst.
     bind_result (envDuration env ''MOCK_BANK_CONNECT_TIMEOUT'' defaultMockBankConnectTimeout) (\<lambda>mockBankConnectTimeout.
     bind_result (envDuration env ''MOCK_BANK_TLS_HANDSHAKE_TIMEOUT'' defaultMockBankTLSHandshakeTimeout) (\<lambda>mockBankTLSHandshakeTimeout.
     bind_result (envDuration env ''MOCK_BANK_RESPONSE_HEADER_TIMEOUT'' defaultMockBankResponseHeaderTimeout) (\<lambda>mockBankResponseHeaderTimeout.
     bind_result (envDuration env ''MOCK_BANK_IDLE_CONNECTION_TIMEOUT'' defaultMockBankIdleConnectionTimeout) (\<lambda>mockBankIdleConnectionTimeout.
     bind_result (envDuration env ''SHUTDOWN_TIMEOUT'' defaultShutdownTimeout) (\<lambda>shutdownTimeout.
     bind_result (envURL env ''MOCK_BANK_BASE_URL'') (\<lambda>mockBankBaseURL.
     Inr \<lparr>gc_LogLevel = envString env ''LOG_LEVEL'' defaultLogLevel, gc_ShutdownTimeout = shutdownTimeout,
         gc_IdempotencyReplayCleanupInterval = idempotencyReplayCleanupInterval, gc_DatabaseURL = pe_Getenv env
         ''DATABASE_URL'', gc_DatabaseMaxOpenConnections = databaseMaxOpenConnections, gc_DatabaseMaxIdleConnections =
         databaseMaxIdleConnections, gc_DatabaseConnectionMaxLifetime = databaseConnectionMaxLifetime,
         gc_DatabaseConnectionMaxIdleTime = databaseConnectionMaxIdleTime, gc_DatabaseStartupTimeout =
         databaseStartupTimeout, gc_HTTPAddr = envString env ''ADDR'' defaultHTTPAddr, gc_HTTPReadHeaderTimeout =
         httpReadHeaderTimeout, gc_HTTPReadTimeout = httpReadTimeout, gc_HTTPWriteTimeout = httpWriteTimeout,
         gc_HTTPIdleTimeout = httpIdleTimeout, gc_HTTPMaxRequestBodyBytes = httpMaxRequestBodyBytes,
         gc_RateLimitReadRequestsPerSecond = readRateLimitRequestsPerSecond, gc_RateLimitReadBurst = readRateLimitBurst,
         gc_RateLimitWriteRequestsPerSecond = writeRateLimitRequestsPerSecond, gc_RateLimitWriteBurst =
         writeRateLimitBurst, gc_PaymentCommandTimeout = paymentCommandTimeout, gc_PaymentReadTimeout =
         paymentReadTimeout, gc_ReadinessTimeout = readinessTimeout, gc_MetricsAddr = envString env ''METRICS_ADDR''
         defaultMetricsAddr, gc_MetricsReadHeaderTimeout = metricsReadHeaderTimeout, gc_MetricsReadTimeout =
         metricsReadTimeout, gc_MetricsWriteTimeout = metricsWriteTimeout, gc_MetricsIdleTimeout = metricsIdleTimeout,
         gc_FingerprintSecret = pe_Getenv env ''FINGERPRINT_SECRET'', gc_IdempotencyClaimStuckAfter =
         idempotencyClaimStuckAfter, gc_ServiceCredentialHMACKey = serviceCredentialHMACKey, gc_ServiceCredentials =
         serviceCredentials, gc_MockBankBaseURL = mockBankBaseURL, gc_MockBankInitialAttemptTimeout =
         mockBankInitialAttemptTimeout, gc_MockBankRetryDelay = mockBankRetryDelay, gc_MockBankRetryAttemptTimeout =
         mockBankRetryAttemptTimeout, gc_MockBankConnectTimeout = mockBankConnectTimeout, gc_MockBankTLSHandshakeTimeout
         = mockBankTLSHandshakeTimeout, gc_MockBankResponseHeaderTimeout = mockBankResponseHeaderTimeout,
         gc_MockBankIdleConnectionTimeout = mockBankIdleConnectionTimeout\<rparr>)))))))))))))))))))))))))))))))))))"

subsection \<open>Checks\<close>

definition validateServerTimeouts :: "string \<Rightarrow> duration \<Rightarrow> duration \<Rightarrow> duration \<Rightarrow> duration \<Rightarrow> string option" where
  "validateServerTimeouts pre readHeaderTimeout readTimeout writeTimeout idleTimeout =
   (if readHeaderTimeout \<le> 0 then Some (pre @ ''_READ_HEADER_TIMEOUT must be a positive duration'')
    else if readTimeout \<le> 0 then Some (pre @ ''_READ_TIMEOUT must be a positive duration'')
    else if writeTimeout \<le> 0 then Some (pre @ ''_WRITE_TIMEOUT must be a positive duration'')
    else if idleTimeout \<le> 0 then Some (pre @ ''_IDLE_TIMEOUT must be a positive duration'')
    else None)"

definition validateListenerAddr :: "string \<Rightarrow> string \<Rightarrow> string option" where
  "validateListenerAddr name addr =
   (if addr = [] then Some (name @ '' is required'')
    else case SplitHostPort addr of
      None \<Rightarrow> Some (name @ '' must be a host:port address'')
    | Some (_, port) \<Rightarrow>
        if port = [] then Some (name @ '' must be a host:port address'')
        else case strconv_Atoi port of
          None \<Rightarrow> Some (name @ '' must use a port between 1 and 65535'')
        | Some portNumber \<Rightarrow>
            if portNumber < 1 \<or> portNumber > 65535 then Some (name @ '' must use a port between 1 and 65535'') else None)"

definition check :: "bool \<Rightarrow> string \<Rightarrow> string option" where
  "check bad message = (if bad then Some message else None)"

fun first_some :: "'a option list \<Rightarrow> 'a option" where
  "first_some [] = None"
| "first_some (x # xs) = (case x of None \<Rightarrow> first_some xs | Some y \<Rightarrow> Some y)"

definition gateway_validate :: "config \<Rightarrow> string option" where
  "gateway_validate cfg =
   first_some
    [validateListenerAddr ''ADDR'' (gc_HTTPAddr cfg),
     validateListenerAddr ''METRICS_ADDR'' (gc_MetricsAddr cfg),
     check (gc_HTTPAddr cfg = gc_MetricsAddr cfg) ''METRICS_ADDR must differ from ADDR'',
     check (gc_DatabaseURL cfg = []) ''DATABASE_URL is required'',
     check (gc_DatabaseMaxOpenConnections cfg \<le> 0) ''DATABASE_MAX_OPEN_CONNECTIONS must be a positive integer'',
     check (gc_DatabaseMaxIdleConnections cfg < 0) ''DATABASE_MAX_IDLE_CONNECTIONS must be a non-negative integer'',
     check (gc_DatabaseMaxIdleConnections cfg > gc_DatabaseMaxOpenConnections cfg)
       ''DATABASE_MAX_IDLE_CONNECTIONS must be less than or equal to DATABASE_MAX_OPEN_CONNECTIONS'',
     check (gc_DatabaseConnectionMaxLifetime cfg \<le> 0) ''DATABASE_CONNECTION_MAX_LIFETIME must be a positive duration'',
     check (url_Scheme (gc_MockBankBaseURL cfg) = [] \<or> url_Host (gc_MockBankBaseURL cfg) = [])
       ''MOCK_BANK_BASE_URL must be an absolute URL'',
     check (gc_FingerprintSecret cfg = []) ''FINGERPRINT_SECRET is required'',
     check (gc_IdempotencyClaimStuckAfter cfg \<le> 0) ''IDEMPOTENCY_CLAIM_STUCK_AFTER must be a positive duration'',
     check (gc_ShutdownTimeout cfg \<le> 0) ''SHUTDOWN_TIMEOUT must be a positive duration'',
     check (gc_IdempotencyReplayCleanupInterval cfg \<le> 0) ''IDEMPOTENCY_REPLAY_CLEANUP_INTERVAL must be a positive duration'',
     check (gc_DatabaseConnectionMaxIdleTime cfg \<le> 0) ''DATABASE_CONNECTION_MAX_IDLE_TIME must be a positive duration'',
     check (gc_DatabaseStartupTimeout cfg \<le> 0) ''DATABASE_STARTUP_TIMEOUT must be a positive duration'',
     check (gc_LogLevel cfg \<noteq> ''debug'' \<and> gc_LogLevel cfg \<noteq> ''info'' \<and> gc_LogLevel cfg \<noteq> ''warn'' \<and> gc_LogLevel cfg \<noteq> ''error'')
       ''LOG_LEVEL must be one of debug, info, warn, or error'',
     check (gc_PaymentCommandTimeout cfg \<le> 0) ''PAYMENT_COMMAND_TIMEOUT must be a positive duration'',
     check (gc_IdempotencyClaimStuckAfter cfg \<le> gc_PaymentCommandTimeout cfg)
       ''IDEMPOTENCY_CLAIM_STUCK_AFTER must exceed PAYMENT_COMMAND_TIMEOUT'',
     check (gc_PaymentReadTimeout cfg \<le> 0) ''PAYMENT_READ_TIMEOUT must be a positive duration'',
     check (gc_ReadinessTimeout cfg \<le> 0) ''READINESS_CHECK_TIMEOUT must be a positive duration'',
     check (gc_MockBankInitialAttemptTimeout cfg \<le> 0) ''MOCK_BANK_INITIAL_ATTEMPT_TIMEOUT must be a positive duration'',
     check (gc_MockBankRetryDelay cfg \<le> 0) ''MOCK_BANK_RETRY_DELAY must be a positive duration'',
     check (gc_MockBankRetryAttemptTimeout cfg \<le> 0) ''MOCK_BANK_RETRY_ATTEMPT_TIMEOUT must be a positive duration'',
     check (wrap64 (wrap64 (wrap64 (gc_MockBankInitialAttemptTimeout cfg + gc_MockBankRetryDelay cfg) +
        gc_MockBankRetryAttemptTimeout cfg) + paymentCommandCompletionReserve) \<ge> gc_PaymentCommandTimeout cfg)
       ''Mock Bank retry budget must leave time within PAYMENT_COMMAND_TIMEOUT to persist the final payment outcome'',
     validateServerTimeouts ''HTTP'' (gc_HTTPReadHeaderTimeout cfg) (gc_HTTPReadTimeout cfg) (gc_HTTPWriteTimeout cfg) (gc_HTTPIdleTimeout cfg),
     check (gc_HTTPReadTimeout cfg \<le> gc_PaymentCommandTimeout cfg) ''HTTP_READ_TIMEOUT must exceed PAYMENT_COMMAND_TIMEOUT'',
     check (gc_HTTPWriteTimeout cfg \<le> gc_PaymentCommandTimeout cfg)
       ''HTTP_WRITE_TIMEOUT must exceed PAYMENT_COMMAND_TIMEOUT'',
     validateServerTimeouts ''METRICS'' (gc_MetricsReadHeaderTimeout cfg) (gc_MetricsReadTimeout cfg) (gc_MetricsWriteTimeout cfg) (gc_MetricsIdleTimeout cfg),
     check (gc_HTTPMaxRequestBodyBytes cfg \<le> 0) ''HTTP_MAX_REQUEST_BODY_BYTES must be a positive integer'',
     check (gc_RateLimitReadRequestsPerSecond cfg \<le> 0) ''RATE_LIMIT_READ_REQUESTS_PER_SECOND must be a positive integer'',
     check (gc_RateLimitReadBurst cfg \<le> 0) ''RATE_LIMIT_READ_BURST must be a positive integer'',
     check (gc_RateLimitWriteRequestsPerSecond cfg \<le> 0) ''RATE_LIMIT_WRITE_REQUESTS_PER_SECOND must be a positive integer'',
     check (gc_RateLimitWriteBurst cfg \<le> 0) ''RATE_LIMIT_WRITE_BURST must be a positive integer'',
     check (gc_MockBankConnectTimeout cfg \<le> 0) ''MOCK_BANK_CONNECT_TIMEOUT must be a positive duration'',
     check (gc_MockBankTLSHandshakeTimeout cfg \<le> 0) ''MOCK_BANK_TLS_HANDSHAKE_TIMEOUT must be a positive duration'',
     check (gc_MockBankResponseHeaderTimeout cfg \<le> 0) ''MOCK_BANK_RESPONSE_HEADER_TIMEOUT must be a positive duration'',
     check (gc_MockBankIdleConnectionTimeout cfg \<le> 0) ''MOCK_BANK_IDLE_CONNECTION_TIMEOUT must be a positive duration'']"

subsection \<open>What a checked configuration gives\<close>

lemma check_None [simp]: "check bad m = None \<longleftrightarrow> \<not> bad"
  by (simp add: check_def)

lemma first_some_None [simp]: "first_some xs = None \<longleftrightarrow> list_all (\<lambda>x. x = None) xs"
  by (induction xs) (auto split: option.split)

declare first_some.simps [simp del]

lemma validateServerTimeouts_None:
  "validateServerTimeouts pre a b c d = None \<longleftrightarrow> 0 < a \<and> 0 < b \<and> 0 < c \<and> 0 < d"
  by (auto simp: validateServerTimeouts_def)

text \<open>A configuration that passes the checks of the process is accepted by the bank client, the handler and the rate limiter, and
  by the payment service unless its fingerprint secret is blank.\<close>

theorem validated_config_accepted:
  assumes "gateway_validate cfg = None"
  shows "config_validate (mockBankConfig cfg) = None \<and> handler_validate (handlerConfig cfg) = None \<and>
    ratelimit_validate (rateLimitConfig cfg) = None \<and>
    (\<forall>store uuid bank clock. TrimSpace (gc_FingerprintSecret cfg) \<noteq> [] \<longrightarrow>
      isl (NewPaymentService store uuid bank clock (gc_FingerprintSecret cfg) (gc_IdempotencyClaimStuckAfter cfg)) = False)"
  using assms
  by (simp add: gateway_validate_def config_validate_def mockBankConfig_def handler_validate_def handlerConfig_def
      ratelimit_validate_def rateLimitConfig_def NewPaymentService_def not_le)

definition retry_budget :: "config \<Rightarrow> duration" where
  "retry_budget cfg = gc_MockBankInitialAttemptTimeout cfg + gc_MockBankRetryDelay cfg + gc_MockBankRetryAttemptTimeout cfg +
     paymentCommandCompletionReserve"

text \<open>C24: in a checked configuration the deadlines nest.  Both attempts at the bank, the pause between them and a second for
  recording the outcome fit the command's deadline, which ends before the claim counts as stuck and before
  the server gives up reading or writing, provided the sum of the retry budget fits 64 bits.\<close>

theorem deadlines_nest:
  assumes "gateway_validate cfg = None" "retry_budget cfg < 2 ^ 63"
  shows "retry_budget cfg < gc_PaymentCommandTimeout cfg \<and>
    gc_PaymentCommandTimeout cfg < gc_IdempotencyClaimStuckAfter cfg \<and>
    gc_PaymentCommandTimeout cfg < srv_ReadTimeout (publicServer cfg) \<and> gc_PaymentCommandTimeout cfg < srv_WriteTimeout (publicServer cfg)"
proof -
  have pos: "0 < gc_MockBankInitialAttemptTimeout cfg" "0 < gc_MockBankRetryDelay cfg" "0 < gc_MockBankRetryAttemptTimeout cfg"
    and sm: "\<not> wrap64 (wrap64 (wrap64 (gc_MockBankInitialAttemptTimeout cfg + gc_MockBankRetryDelay cfg) +
        gc_MockBankRetryAttemptTimeout cfg) + paymentCommandCompletionReserve) \<ge> gc_PaymentCommandTimeout cfg"
    and rest: "gc_PaymentCommandTimeout cfg < gc_IdempotencyClaimStuckAfter cfg"
      "gc_PaymentCommandTimeout cfg < gc_HTTPReadTimeout cfg" "gc_PaymentCommandTimeout cfg < gc_HTTPWriteTimeout cfg"
    using assms(1) by (simp_all add: gateway_validate_def not_le)
  have "0 < paymentCommandCompletionReserve" by (simp add: paymentCommandCompletionReserve_def Second_def)
  then have "wrap64 (wrap64 (wrap64 (gc_MockBankInitialAttemptTimeout cfg + gc_MockBankRetryDelay cfg) +
        gc_MockBankRetryAttemptTimeout cfg) + paymentCommandCompletionReserve) = retry_budget cfg"
    using pos assms(2) by (simp add: retry_budget_def wrap64_id int64_def)
  with sm rest show ?thesis by (simp add: publicServer_def newHTTPServer_def)
qed

subsection \<open>Loading\<close>

lemmas default_defs =
  defaultDatabaseMaxOpenConnections_def defaultDatabaseMaxIdleConnections_def defaultDatabaseConnectionMaxLifetime_def
  defaultDatabaseConnectionMaxIdleTime_def defaultDatabaseStartupTimeout_def defaultIdempotencyClaimStuckAfter_def
  defaultIdempotencyReplayCleanupInterval_def defaultLogLevel_def defaultShutdownTimeout_def
  defaultPaymentCommandTimeout_def defaultPaymentReadTimeout_def defaultReadinessCheckTimeout_def
  defaultMockBankInitialAttemptTimeout_def defaultMockBankRetryDelay_def defaultMockBankRetryAttemptTimeout_def
  defaultHTTPReadHeaderTimeout_def defaultHTTPAddr_def defaultMetricsAddr_def defaultHTTPReadTimeout_def
  defaultHTTPWriteTimeout_def defaultHTTPIdleTimeout_def defaultMetricsReadHeaderTimeout_def
  defaultMetricsReadTimeout_def defaultMetricsWriteTimeout_def defaultMetricsIdleTimeout_def
  defaultHTTPMaxRequestBodyBytes_def defaultMockBankConnectTimeout_def defaultMockBankTLSHandshakeTimeout_def
  defaultMockBankResponseHeaderTimeout_def defaultMockBankIdleConnectionTimeout_def
  defaultPaymentReadRateLimitRequestsPerSecond_def defaultPaymentReadRateLimitBurst_def
  defaultPaymentWriteRateLimitRequestsPerSecond_def defaultPaymentWriteRateLimitBurst_def

lemmas unit_defs = Nanosecond_def Microsecond_def Millisecond_def Second_def Minute_def Hour_def

text \<open>The configuration when only what has no default is set.\<close>

definition default_config :: "string \<Rightarrow> Credential list \<Rightarrow> base_url \<Rightarrow> string \<Rightarrow> string \<Rightarrow> config" where
  "default_config key credentials baseURL databaseURL fingerprintSecret =
   \<lparr>gc_LogLevel = defaultLogLevel, gc_ShutdownTimeout = defaultShutdownTimeout, gc_IdempotencyReplayCleanupInterval =
    defaultIdempotencyReplayCleanupInterval, gc_DatabaseURL = databaseURL, gc_DatabaseMaxOpenConnections =
    defaultDatabaseMaxOpenConnections, gc_DatabaseMaxIdleConnections = defaultDatabaseMaxIdleConnections,
    gc_DatabaseConnectionMaxLifetime = defaultDatabaseConnectionMaxLifetime, gc_DatabaseConnectionMaxIdleTime =
    defaultDatabaseConnectionMaxIdleTime, gc_DatabaseStartupTimeout = defaultDatabaseStartupTimeout, gc_HTTPAddr =
    defaultHTTPAddr, gc_HTTPReadHeaderTimeout = defaultHTTPReadHeaderTimeout, gc_HTTPReadTimeout =
    defaultHTTPReadTimeout, gc_HTTPWriteTimeout = defaultHTTPWriteTimeout, gc_HTTPIdleTimeout =
    defaultHTTPIdleTimeout, gc_HTTPMaxRequestBodyBytes = defaultHTTPMaxRequestBodyBytes,
    gc_RateLimitReadRequestsPerSecond = defaultPaymentReadRateLimitRequestsPerSecond, gc_RateLimitReadBurst =
    defaultPaymentReadRateLimitBurst, gc_RateLimitWriteRequestsPerSecond =
    defaultPaymentWriteRateLimitRequestsPerSecond, gc_RateLimitWriteBurst = defaultPaymentWriteRateLimitBurst,
    gc_PaymentCommandTimeout = defaultPaymentCommandTimeout, gc_PaymentReadTimeout = defaultPaymentReadTimeout,
    gc_ReadinessTimeout = defaultReadinessCheckTimeout, gc_MetricsAddr = defaultMetricsAddr,
    gc_MetricsReadHeaderTimeout = defaultMetricsReadHeaderTimeout, gc_MetricsReadTimeout = defaultMetricsReadTimeout,
    gc_MetricsWriteTimeout = defaultMetricsWriteTimeout, gc_MetricsIdleTimeout = defaultMetricsIdleTimeout,
    gc_FingerprintSecret = fingerprintSecret, gc_IdempotencyClaimStuckAfter = defaultIdempotencyClaimStuckAfter,
    gc_ServiceCredentialHMACKey = key, gc_ServiceCredentials = credentials, gc_MockBankBaseURL =
    baseURL, gc_MockBankInitialAttemptTimeout = defaultMockBankInitialAttemptTimeout, gc_MockBankRetryDelay =
    defaultMockBankRetryDelay, gc_MockBankRetryAttemptTimeout = defaultMockBankRetryAttemptTimeout,
    gc_MockBankConnectTimeout = defaultMockBankConnectTimeout, gc_MockBankTLSHandshakeTimeout =
    defaultMockBankTLSHandshakeTimeout, gc_MockBankResponseHeaderTimeout = defaultMockBankResponseHeaderTimeout,
    gc_MockBankIdleConnectionTimeout = defaultMockBankIdleConnectionTimeout\<rparr>"

definition config_int64 :: "config \<Rightarrow> bool" where
  "config_int64 cfg \<longleftrightarrow>
     int64 (gc_ShutdownTimeout cfg) \<and> int64 (gc_IdempotencyReplayCleanupInterval cfg) \<and> int64
     (gc_DatabaseMaxOpenConnections cfg) \<and> int64 (gc_DatabaseMaxIdleConnections cfg) \<and> int64
     (gc_DatabaseConnectionMaxLifetime cfg) \<and> int64 (gc_DatabaseConnectionMaxIdleTime cfg) \<and> int64
     (gc_DatabaseStartupTimeout cfg) \<and> int64 (gc_HTTPReadHeaderTimeout cfg) \<and> int64 (gc_HTTPReadTimeout cfg)
     \<and> int64 (gc_HTTPWriteTimeout cfg) \<and> int64 (gc_HTTPIdleTimeout cfg) \<and> int64
     (gc_HTTPMaxRequestBodyBytes cfg) \<and> int64 (gc_RateLimitReadRequestsPerSecond cfg) \<and> int64
     (gc_RateLimitReadBurst cfg) \<and> int64 (gc_RateLimitWriteRequestsPerSecond cfg) \<and> int64
     (gc_RateLimitWriteBurst cfg) \<and> int64 (gc_PaymentCommandTimeout cfg) \<and> int64 (gc_PaymentReadTimeout cfg)
     \<and> int64 (gc_ReadinessTimeout cfg) \<and> int64 (gc_MetricsReadHeaderTimeout cfg) \<and> int64
     (gc_MetricsReadTimeout cfg) \<and> int64 (gc_MetricsWriteTimeout cfg) \<and> int64 (gc_MetricsIdleTimeout cfg)
     \<and> int64 (gc_IdempotencyClaimStuckAfter cfg) \<and> int64 (gc_MockBankInitialAttemptTimeout cfg) \<and> int64
     (gc_MockBankRetryDelay cfg) \<and> int64 (gc_MockBankRetryAttemptTimeout cfg) \<and> int64
     (gc_MockBankConnectTimeout cfg) \<and> int64 (gc_MockBankTLSHandshakeTimeout cfg) \<and> int64
     (gc_MockBankResponseHeaderTimeout cfg) \<and> int64 (gc_MockBankIdleConnectionTimeout cfg)"

definition required_settings :: "string list" where
  "required_settings = [''SERVICE_CREDENTIAL_HMAC_KEY'', ''ORDER_SERVICE_CREDENTIALS'', ''DATABASE_URL'', ''MOCK_BANK_BASE_URL'', ''FINGERPRINT_SECRET'']"

lemma default_listeners: "validateListenerAddr name defaultHTTPAddr = None" "validateListenerAddr name defaultMetricsAddr = None"
proof -
  have "SplitHostPort defaultHTTPAddr = Some ([], ''8080'')" "SplitHostPort defaultMetricsAddr = Some ([], ''9091'')"
    "strconv_Atoi ''8080'' = Some 8080" "strconv_Atoi ''9091'' = Some 9091" by code_simp+
  then show "validateListenerAddr name defaultHTTPAddr = None" "validateListenerAddr name defaultMetricsAddr = None"
    by (simp_all add: validateListenerAddr_def defaultHTTPAddr_def defaultMetricsAddr_def)
qed

lemma default_config_valid:
  assumes "databaseURL \<noteq> []" "fingerprintSecret \<noteq> []" "url_Scheme u \<noteq> []" "url_Host u \<noteq> []"
  shows "gateway_validate (default_config key credentials u databaseURL fingerprintSecret) = None"
proof -
  have "wrap64 (wrap64 (wrap64 (defaultMockBankInitialAttemptTimeout + defaultMockBankRetryDelay) + defaultMockBankRetryAttemptTimeout) +
      paymentCommandCompletionReserve) < defaultPaymentCommandTimeout"
    by (simp add: default_defs unit_defs paymentCommandCompletionReserve_def wrap64_id int64_def)
  moreover have "defaultHTTPAddr \<noteq> defaultMetricsAddr" "defaultLogLevel = ''info''" by (simp_all add: default_defs)
  ultimately show ?thesis
    using assms
    by (simp add: gateway_validate_def default_config_def default_listeners validateServerTimeouts_None not_le)
       (simp add: default_defs unit_defs)
qed

text \<open>C40: the five settings without a default are enough: with nothing else set, loading gives the documented defaults and the
  configuration passes the checks.\<close>

theorem required_settings_suffice:
  assumes unset: "\<And>name. name \<notin> set required_settings \<Longrightarrow> pe_Getenv env name = []"
    and key: "pe_Getenv env ''SERVICE_CREDENTIAL_HMAC_KEY'' \<noteq> []"
      "RawURLEncoding_DecodeString (pe_Getenv env ''SERVICE_CREDENTIAL_HMAC_KEY'') = Some k"
    and creds: "parseServiceCredentials (pe_Getenv env ''ORDER_SERVICE_CREDENTIALS'') = Inr cs"
    and url: "pe_url_Parse env (TrimSpace (pe_Getenv env ''MOCK_BANK_BASE_URL'')) = Some u" "url_Scheme u \<noteq> []" "url_Host u \<noteq> []"
    and texts: "pe_Getenv env ''DATABASE_URL'' \<noteq> []" "pe_Getenv env ''FINGERPRINT_SECRET'' \<noteq> []"
  shows "loadConfig env = Inr (default_config k cs u (pe_Getenv env ''DATABASE_URL'') (pe_Getenv env ''FINGERPRINT_SECRET'')) \<and>
    gateway_validate (default_config k cs u (pe_Getenv env ''DATABASE_URL'') (pe_Getenv env ''FINGERPRINT_SECRET'')) = None"
proof -
  have env: "envInt env name d = Inr d" "envInt64 env name d = Inr d" "envDuration env name d = Inr d"
    if "name \<notin> set required_settings" for name d
    using unset [OF that] by (simp_all add: envInt_def envInt64_def envDuration_def)
  have str: "envString env name e = e" if "name \<notin> set required_settings" for name e
    using unset [OF that] by (simp add: envString_def)
  have "loadConfig env = Inr (default_config k cs u (pe_Getenv env ''DATABASE_URL'') (pe_Getenv env ''FINGERPRINT_SECRET''))"
    using key creds url(1)
    by (simp add: loadConfig_def envBase64_def envURL_def env str required_settings_def default_config_def)
  with default_config_valid [OF texts url(2,3)] show ?thesis by simp
qed

lemma env_int64:
  "envInt env name d = Inr i \<Longrightarrow> int64 d \<Longrightarrow> int64 i"
  "envInt64 env name d = Inr j \<Longrightarrow> int64 d \<Longrightarrow> int64 j"
  "envDuration env name d = Inr k \<Longrightarrow> int64 d \<Longrightarrow> int64 k"
  using ParseDuration_int64 [of "pe_frac env" "pe_Getenv env name"]
  by (auto simp: envInt_def envInt64_def envDuration_def strconv_Atoi_def Let_def case_prod_beta split: if_splits option.splits)

lemma default_int64: "config_int64 (default_config key credentials u databaseURL fingerprintSecret)"
  by (simp add: config_int64_def default_config_def default_defs unit_defs int64_def)


text \<open>Without the proviso on the sum the deadlines need not nest: a retry budget whose sum exceeds 64 bits wraps around,
  passes the checks and is longer than the command's deadline.\<close>

theorem retry_budget_can_wrap:
  "\<exists>cfg. config_int64 cfg \<and> gateway_validate cfg = None \<and> gc_PaymentCommandTimeout cfg < retry_budget cfg"
proof -
  define cfg where "cfg = (default_config [] [] \<lparr>url_Scheme = ''http'', url_Host = ''bank''\<rparr> ''postgres:'' ''secret'')
    \<lparr>gc_MockBankInitialAttemptTimeout := 2 ^ 62, gc_MockBankRetryDelay := 2 ^ 62\<rparr>"
  have base: "gateway_validate (default_config [] [] \<lparr>url_Scheme = ''http'', url_Host = ''bank''\<rparr> ''postgres:'' ''secret'') = None"
    by (rule default_config_valid) simp_all
  have wrap: "wrap64 (wrap64 (wrap64 (2 ^ 62 + 2 ^ 62) + defaultMockBankRetryAttemptTimeout) + paymentCommandCompletionReserve) < defaultPaymentCommandTimeout"
    by (simp add: default_defs unit_defs paymentCommandCompletionReserve_def wrap64_def)
  have "gateway_validate cfg = None"
    using base wrap by (simp add: gateway_validate_def cfg_def not_le) (simp add: default_config_def)
  moreover have "config_int64 cfg"
    using default_int64 [of "[]" "[]" "\<lparr>url_Scheme = ''http'', url_Host = ''bank''\<rparr>" "''postgres:''" "''secret''"]
    by (simp add: config_int64_def cfg_def) (simp add: int64_def)
  moreover have "gc_PaymentCommandTimeout cfg < retry_budget cfg"
    by (simp add: cfg_def retry_budget_def default_config_def default_defs unit_defs paymentCommandCompletionReserve_def)
  ultimately show ?thesis by blast
qed

text \<open>The checks accept a fingerprint secret of white space, on which the payment service then panics.\<close>

theorem blank_secret_panics:
  "\<exists>cfg. gateway_validate cfg = None \<and>
     NewPaymentService store uuid bank clock (gc_FingerprintSecret cfg) (gc_IdempotencyClaimStuckAfter cfg) =
       Inl ''fingerprint secret is required''"
proof -
  let ?cfg = "default_config [] [] \<lparr>url_Scheme = ''http'', url_Host = ''bank''\<rparr> ''postgres:'' '' ''"
  have "gateway_validate ?cfg = None" by (rule default_config_valid) simp_all
  moreover have "TrimSpace '' '' = []" by code_simp
  ultimately show ?thesis by (intro exI [of _ ?cfg]) (simp add: NewPaymentService_def default_config_def)
qed

subsection \<open>Credentials as text\<close>

fun join :: "char \<Rightarrow> string list \<Rightarrow> string" where
  "join c [] = []"
| "join c [x] = x"
| "join c (x # y # ys) = x @ c # join c (y # ys)"

definition credentials_text :: "Credential list \<Rightarrow> string" where
  "credentials_text cs = join CHR '','' (map (\<lambda>c. crd_Digest c @ CHR ''='' # join CHR ''+'' (crd_Scopes c)) cs)"

lemma str_Split_word: "c \<notin> set x \<Longrightarrow> str_Split c x = [x]"
  by (induction x) auto

lemma str_Split_append: "c \<notin> set x \<Longrightarrow> str_Split c (x @ c # y) = x # str_Split c y"
  by (induction x) auto

lemma str_Split_join: "xs \<noteq> [] \<Longrightarrow> \<forall>x\<in>set xs. c \<notin> set x \<Longrightarrow> str_Split c (join c xs) = xs"
  by (induction c xs rule: join.induct) (auto simp: str_Split_word str_Split_append)

lemma join_set: "set (join c xs) \<subseteq> insert c (\<Union>(set ` set xs))"
  by (induction c xs rule: join.induct) auto

lemma join_nonempty: "xs \<noteq> [] \<Longrightarrow> xs \<noteq> [[]] \<Longrightarrow> join c xs \<noteq> []"
  by (induction c xs rule: join.induct) auto

lemma str_Cut_at: "c \<notin> set x \<Longrightarrow> str_Cut c (x @ c # y) = Some (x, y)"
  by (induction x) (auto simp: str_Cut_def)

definition plain_credential :: "Credential \<Rightarrow> bool" where
  "plain_credential c \<longleftrightarrow> crd_Digest c \<noteq> [] \<and> CHR ''='' \<notin> set (crd_Digest c) \<and> CHR '','' \<notin> set (crd_Digest c) \<and>
     crd_Scopes c \<noteq> [] \<and> crd_Scopes c \<noteq> [[]] \<and> (\<forall>s\<in>set (crd_Scopes c). CHR ''+'' \<notin> set s \<and> CHR '','' \<notin> set s)"

lemma credentials_round_trip:
  assumes "cs \<noteq> []" "\<forall>c\<in>set cs. plain_credential c"
  shows "parseServiceCredentials (credentials_text cs) = Inr cs"
proof -
  let ?entry = "\<lambda>c. crd_Digest c @ CHR ''='' # join CHR ''+'' (crd_Scopes c)"
  have entries: "parse_credential_entries (map ?entry ds) = Inr ds" if "\<forall>c\<in>set ds. plain_credential c" for ds
    using that
  proof (induction ds)
    case (Cons c ds)
    then have c: "plain_credential c" by simp
    then have "str_Cut CHR ''='' (?entry c) = Some (crd_Digest c, join CHR ''+'' (crd_Scopes c))"
      "join CHR ''+'' (crd_Scopes c) \<noteq> []" "str_Split CHR ''+'' (join CHR ''+'' (crd_Scopes c)) = crd_Scopes c"
      using join_nonempty [of "crd_Scopes c" "CHR ''+''"] by (auto simp: plain_credential_def intro!: str_Cut_at str_Split_join)
    with Cons c show ?case by (simp add: plain_credential_def)
  qed simp
  have "CHR '','' \<notin> set (?entry c)" if "plain_credential c" for c
    using that join_set [of "CHR ''+''" "crd_Scopes c"] by (auto simp: plain_credential_def)
  then have "str_Split CHR '','' (credentials_text cs) = map ?entry cs"
    unfolding credentials_text_def using assms by (intro str_Split_join) auto
  moreover have "credentials_text cs \<noteq> []"
    unfolding credentials_text_def using assms by (intro join_nonempty) (auto simp: Cons_eq_map_conv)
  ultimately show ?thesis using entries [OF assms(2)] by (simp add: parseServiceCredentials_def)
qed

lemma Digest_plain: "c \<in> {CHR ''='', CHR '',''} \<Longrightarrow> c \<notin> set (Digest key raw)"
proof
  assume c: "c \<in> {CHR ''='', CHR '',''}" "c \<in> set (Digest key raw)"
  have "list_all (\<lambda>b. b < 256) (map of_char (hmac_sha256 key raw) :: nat list)" by (auto simp: list_all_iff)
  then obtain v where "v < 64" "c = b64_char v"
    using c(2) b64_encode_range by (fastforce simp: Digest_def RawURLEncoding_EncodeToString_def list_all_iff)
  then have "b64_value c = Some v" using b64_value_char by simp
  moreover have "b64_value CHR ''='' = None" "b64_value CHR '','' = None" by code_simp+
  ultimately show False using c(1) by auto
qed

text \<open>C26: an issued credential works from the environment to the request: its digest and scopes, written the way the variable
  wants them, are read back, configure an authenticator, and the credential itself is then accepted with exactly
  these scopes.\<close>

theorem issued_credential_authenticates:
  assumes "32 \<le> length key" "raw \<noteq> []" "scopes \<noteq> []" "set scopes \<subseteq> {ScopePaymentsRead, ScopePaymentsWrite}"
  shows "\<exists>cs a p. parseServiceCredentials (credentials_text [issued key raw scopes]) = Inr cs \<and> NewAuthenticator key cs = Inr a \<and>
    Authenticate a raw = Some p \<and> (\<forall>s. HasScope p s \<longleftrightarrow> s \<in> set scopes)"
proof -
  have "hmac_sha256 key raw \<noteq> []" using length_hmac_sha256 [of key raw] by (metis list.size(3) zero_neq_numeral)
  then have "Digest key raw \<noteq> []" using Digest_decoded [of key raw] by (auto simp: RawURLEncoding_DecodeString_def)
  moreover have "scopes \<noteq> [[]]" "\<forall>s\<in>set scopes. CHR ''+'' \<notin> set s \<and> CHR '','' \<notin> set s"
    using assms(4) by (auto simp: ScopePaymentsRead_def ScopePaymentsWrite_def)
  ultimately have "plain_credential (issued key raw scopes)"
    using assms(3) Digest_plain by (simp add: plain_credential_def issued_def)
  then have parsed: "parseServiceCredentials (credentials_text [issued key raw scopes]) = Inr [issued key raw scopes]"
    by (intro credentials_round_trip) simp_all
  obtain ss where a: "NewAuthenticator key [issued key raw scopes] =
      Inr \<lparr>aut_key = key, aut_credentials = [\<lparr>acr_digest = hmac_sha256 key raw, acr_scopes = ss\<rparr>]\<rparr>" "set ss = set scopes"
    by (rule NewAuthenticator_issued [OF assms(1,3,4)])
  with parsed assms(2) show ?thesis by (auto simp: Authenticate_def HasScope_def)
qed

subsection \<open>Witnesses\<close>

definition bank_url :: base_url where
  "bank_url = \<lparr>url_Scheme = ''http'', url_Host = ''bank:8081''\<rparr>"

definition sample_config :: config where
  "sample_config = default_config [] [] bank_url ''postgres:'' ''secret''"

definition sample_env :: process_env where
  "sample_env =
   \<lparr>pe_Getenv = \<lambda>name. if name = ''SERVICE_CREDENTIAL_HMAC_KEY'' then ''QQ'' else if name = ''ORDER_SERVICE_CREDENTIALS'' then ''d=s''
      else if name = ''DATABASE_URL'' then ''postgres:'' else if name = ''MOCK_BANK_BASE_URL'' then ''http://bank:8081''
      else if name = ''FINGERPRINT_SECRET'' then ''secret'' else [],
    pe_url_Parse = \<lambda>_. Some bank_url, pe_frac = \<lambda>_ _ _. 0\<rparr>"

lemma sample_config_valid: "gateway_validate sample_config = None"
  unfolding sample_config_def by (rule default_config_valid) (simp_all add: bank_url_def)

lemma sample_env_values:
  "RawURLEncoding_DecodeString ''QQ'' = Some ''A''"
  "parseServiceCredentials ''d=s'' = Inr [\<lparr>crd_Digest = ''d'', crd_Scopes = [''s'']\<rparr>]"
  by code_simp+

theorem validated_config_accepted_witness:
  "config_validate (mockBankConfig sample_config) = None \<and> handler_validate (handlerConfig sample_config) = None"
  using validated_config_accepted [OF sample_config_valid] by blast

theorem deadlines_nest_witness: "retry_budget sample_config < gc_PaymentCommandTimeout sample_config"
  using deadlines_nest [OF sample_config_valid]
  by (simp add: sample_config_def default_config_def retry_budget_def default_defs unit_defs paymentCommandCompletionReserve_def)

theorem required_settings_suffice_witness:
  "\<exists>cfg. loadConfig sample_env = Inr cfg \<and> gateway_validate cfg = None"
proof -
  have "loadConfig sample_env = Inr (default_config ''A'' [\<lparr>crd_Digest = ''d'', crd_Scopes = [''s'']\<rparr>] bank_url
        (pe_Getenv sample_env ''DATABASE_URL'') (pe_Getenv sample_env ''FINGERPRINT_SECRET'')) \<and>
      gateway_validate (default_config ''A'' [\<lparr>crd_Digest = ''d'', crd_Scopes = [''s'']\<rparr>] bank_url
        (pe_Getenv sample_env ''DATABASE_URL'') (pe_Getenv sample_env ''FINGERPRINT_SECRET'')) = None"
    by (rule required_settings_suffice)
       (simp_all add: sample_env_def sample_env_values bank_url_def required_settings_def)
  then show ?thesis by blast
qed


theorem issued_credential_authenticates_witness:
  "\<exists>cs a p. parseServiceCredentials (credentials_text [issued example_key ''secret'' [ScopePaymentsRead]]) = Inr cs \<and>
     NewAuthenticator example_key cs = Inr a \<and> Authenticate a ''secret'' = Some p \<and> HasScope p ScopePaymentsRead"
proof -
  have "32 \<le> length example_key" "''secret'' \<noteq> []" "[ScopePaymentsRead] \<noteq> []" "set [ScopePaymentsRead] \<subseteq> {ScopePaymentsRead, ScopePaymentsWrite}"
    by (simp_all add: example_key_def)
  from issued_credential_authenticates [OF this] show ?thesis by fastforce
qed

end
