(* ===== verification/Http_Commands.thy ===== *)
theory Http_Commands
  imports Http_Contract
begin

text \<open>
  The commands as they appear at the HTTP interface: which command a POST stands for, how its outcome is
  answered, that bodies beyond the limit never reach the application, and that a repeated request is answered with the
  outcome of the first.
\<close>

subsection \<open>From a request to a command\<close>

text \<open>\<open>Inl (Inl p)\<close>: the handler panics; \<open>Inl (Inr f)\<close>: it answers \<open>f\<close> without calling the application.\<close>

definition json_command ::
  "('s, 'l, 'r) Handler \<Rightarrow> api_request \<Rightarrow> 'q into \<Rightarrow> 'q \<Rightarrow> ('q \<Rightarrow> go_error + 'c) \<Rightarrow> (panic + (writer \<Rightarrow> writer)) + 'c" where
  "json_command h r into zero command =
   (if \<not> isJSONRequest r
    then Inl (Inr (writeError 415 errorCodeUnsupportedMediaType ''content type must be application/json''))
    else case ar_Body r of None \<Rightarrow> Inl (Inl nil_body)
    | Some b \<Rightarrow> (case decodeJSONRequest into zero b (hc_MaxRequestBodyBytes (h_config h)) of
        Inl err \<Rightarrow> Inl (Inr (bad_json_body err))
      | Inr q \<Rightarrow> (case command q of Inl err \<Rightarrow> Inl (Inr (writePaymentServiceError err)) | Inr c \<Rightarrow> Inr c)))"

definition empty_command :: "api_request \<Rightarrow> go_error + 'c \<Rightarrow> (panic + (writer \<Rightarrow> writer)) + 'c" where
  "empty_command r command =
   (case requireEmptyRequestBody (ar_Body r) of Some err \<Rightarrow> Inl (Inr (bad_empty_body err))
    | None \<Rightarrow> (case command of Inl err \<Rightarrow> Inl (Inr (writePaymentServiceError err)) | Inr c \<Rightarrow> Inr c))"

definition command_of :: "('s, 'l, 'r) Handler \<Rightarrow> api_request \<Rightarrow> (panic + (writer \<Rightarrow> writer)) + payment_command" where
  "command_of h r =
   (if length (ar_path r) = 3
    then map_sum id Authorize (json_command h r (into_struct authorize_field) zero_authorize (\<lambda>q.
      NewAuthorizePaymentCommand (aq_OrderID q) (aq_CustomerID q) (aq_AmountCents q) (cf_Number (aq_Card q)) (cf_CVV (aq_Card q))
        (cf_ExpiryMonth (aq_Card q)) (cf_ExpiryYear (aq_Card q)) (ar_IdempotencyKey r)))
    else if ar_path r ! 4 = ''authorization-retries''
    then map_sum id Retry (json_command h r (into_struct retry_field) \<lparr>tq_Card = zero_card\<rparr> (\<lambda>q.
      NewRetryAuthorizationCommand (payment_id r) (cf_Number (tq_Card q)) (cf_CVV (tq_Card q)) (cf_ExpiryMonth (tq_Card q))
        (cf_ExpiryYear (tq_Card q)) (ar_IdempotencyKey r)))
    else if ar_path r ! 4 = ''capture''
    then map_sum id Capture (empty_command r (NewCapturePaymentCommand (payment_id r) (ar_IdempotencyKey r)))
    else if ar_path r ! 4 = ''void''
    then map_sum id Void (empty_command r (NewVoidPaymentCommand (payment_id r) (ar_IdempotencyKey r)))
    else map_sum id Refund (empty_command r (NewRefundPaymentCommand (payment_id r) (ar_IdempotencyKey r))))"

fun app_run :: "'s paymentApplication \<Rightarrow> payment_command \<Rightarrow> 's \<Rightarrow> (panic + (go_error + PaymentCommandResult)) \<times> 's" where
  "app_run app (Authorize c) = pa_AuthorizePayment app c"
| "app_run app (Retry c) = pa_RetryAuthorization app c"
| "app_run app (Capture c) = pa_CapturePayment app c"
| "app_run app (Void c) = pa_VoidPayment app c"
| "app_run app (Refund c) = pa_RefundPayment app c"

fun command_answer :: "payment_command \<Rightarrow> PaymentCommandResult \<Rightarrow> writer \<Rightarrow> writer" where
  "command_answer (Authorize c) result w =
     writeJSON (if pr_Status (pcr_Payment result) = PaymentStatusPending then 202 else 201)
       (PaymentEnvelope (newPaymentEnvelope (pcr_Payment result)))
       (header_Set ''Location'' (''/api/v1/payments/'' @ PathEscape (pr_ID (pcr_Payment result))) w)"
| "command_answer _ result w = writeJSON 200 (PaymentEnvelope (newPaymentEnvelope (pcr_Payment result))) w"

definition command_serve :: "('s, 'l, 'r) Handler \<Rightarrow> ('s, 'l) serve" where
  "command_serve h r ws =
   (case command_of h r of
      Inl (Inl p) \<Rightarrow> (Some p, ws)
    | Inl (Inr f) \<Rightarrow> reply f ws
    | Inr cmd \<Rightarrow> app_respond (h_payments h) (hc_PaymentCommandTimeout (h_config h)) command_late
        (app_run (h_payments h) cmd) (command_answer cmd) ws)"

lemma serve_authorize: "length (ar_path r) = 3 \<Longrightarrow> authorizePayment h r ws = command_serve h r ws"
  by (auto simp: authorizePayment_def command_serve_def command_of_def json_command_def command_answer.simps [abs_def]
      split: option.split sum.split)

lemma serve_others:
  assumes "length (ar_path r) = 5"
  shows "ar_path r ! 4 = ''authorization-retries'' \<Longrightarrow> retryAuthorization h r ws = command_serve h r ws"
    "ar_path r ! 4 = ''capture'' \<Longrightarrow> capturePayment h r ws = command_serve h r ws"
    "ar_path r ! 4 = ''void'' \<Longrightarrow> voidPayment h r ws = command_serve h r ws"
    "ar_path r ! 4 = ''refund'' \<Longrightarrow> refundPayment h r ws = command_serve h r ws"
  using assms
  by (auto simp: handler_defs command_serve_def command_of_def json_command_def empty_command_def command_answer.simps [abs_def]
      split: option.split sum.split)

subsection \<open>Through the layers\<close>

text \<open>A writer function that gives a fixed answer, and a handler that gives one in a given state.\<close>

definition gives :: "(writer \<Rightarrow> writer) \<Rightarrow> api_response \<Rightarrow> bool" where
  "gives f a \<longleftrightarrow> (\<forall>w. fresh w \<longrightarrow> wr_header w = [] \<longrightarrow> f w = sent (resp_status a) (resp_header a) (resp_body a) w)"

definition served :: "('s, 'l) serve \<Rightarrow> api_request \<Rightarrow> ('s, 'l) ApiState \<Rightarrow> api_response \<Rightarrow> ('s, 'l) ApiState \<Rightarrow> bool" where
  "served f r s a t \<longleftrightarrow> (\<forall>w. fresh w \<longrightarrow> wr_header w = [] \<longrightarrow>
     f r (w, s) = (None, sent (resp_status a) (resp_header a) (resp_body a) w, t))"

definition json_response :: "int \<Rightarrow> (string \<times> string) list \<Rightarrow> content \<Rightarrow> api_response" where
  "json_response st hs c = \<lparr>resp_status = st, resp_header = hs @ [(''Content-Type'', ''application/json'')], resp_body = [c]\<rparr>"

lemma gives_writeJSON: "200 \<le> st \<Longrightarrow> gives (writeJSON st c) (json_response st [] c)"
  by (simp add: gives_def writeJSON_fresh json_header_def header_Set_def json_response_def)

lemma gives_writeJSON_header:
  "200 \<le> st \<Longrightarrow> k \<noteq> ''Content-Type'' \<Longrightarrow> gives (\<lambda>w. writeJSON st c (header_Set k v w)) (json_response st [(k, v)] c)"
  unfolding gives_def
proof (intro allI impI)
  fix w
  assume "200 \<le> st" "k \<noteq> ''Content-Type''" "fresh w" "wr_header w = []"
  moreover from this have "json_header (header_Set k v w) = [(k, v), (''Content-Type'', ''application/json'')]"
    by (simp add: json_header_def header_Set_def)
  ultimately show "writeJSON st c (header_Set k v w) =
      sent (resp_status (json_response st [(k, v)] c)) (resp_header (json_response st [(k, v)] c)) (resp_body (json_response st [(k, v)] c)) w"
    by (simp add: writeJSON_fresh json_response_def)
qed

definition refuses :: "(writer \<Rightarrow> writer) \<Rightarrow> bool" where
  "refuses f \<longleftrightarrow> (\<exists>a. gives f a \<and> 400 \<le> resp_status a)"

lemma gives_unique: "gives f a \<Longrightarrow> gives f b \<Longrightarrow> a = b"
proof -
  assume "gives f a" "gives f b"
  then have "sent (resp_status a) (resp_header a) (resp_body a) new_writer = sent (resp_status b) (resp_header b) (resp_body b) new_writer"
    by (simp add: gives_def) (metis fresh_new_writer new_writer_def writer.select_convs(2))
  then have "resp_status a = resp_status b" "resp_header a = resp_header b" "resp_body a = resp_body b"
    by (simp_all add: sent_def new_writer_def)
  then show "a = b" by (cases a; cases b) simp
qed

lemma refuses_writeError: "400 \<le> st \<Longrightarrow> refuses (writeError st code message)"
  using gives_writeJSON [of st "ErrorEnvelope \<lparr>ep_Code = code, ep_Message = message\<rparr>"]
  unfolding refuses_def writeError_def [abs_def] by (fastforce simp: json_response_def)

lemma refuses_writeError_header:
  "400 \<le> st \<Longrightarrow> k \<noteq> ''Content-Type'' \<Longrightarrow> refuses (\<lambda>w. writeError st code message (header_Set k v w))"
  unfolding writeError_def refuses_def using gives_writeJSON_header [of st k] by (fastforce simp: json_response_def)

lemma refuses_http_Error: "400 \<le> st \<Longrightarrow> refuses (http_Error st m)"
proof -
  assume "400 \<le> st"
  then have "gives (http_Error st m)
      \<lparr>resp_status = st, resp_header = [(''Content-Type'', ''text/plain; charset=utf-8'')], resp_body = [PlainText m]\<rparr>"
    by (simp add: gives_def http_Error_fresh header_Set_def)
  with \<open>400 \<le> st\<close> show ?thesis by (auto simp: refuses_def)
qed

lemma refuses_not_allowed: "refuses (\<lambda>w. http_Error 405 m (header_Set ''Allow'' a w))"
proof -
  let ?a = "\<lparr>resp_status = 405, resp_header = [(''Allow'', a), (''Content-Type'', ''text/plain; charset=utf-8'')], resp_body = [PlainText m]\<rparr>"
  have "wr_header (header_Set ''Content-Type'' ''text/plain; charset=utf-8'' (header_Set ''Allow'' a w)) = resp_header ?a"
    if "wr_header w = []" for w
    using that by (simp add: header_Set_def)
  then have "gives (\<lambda>w. http_Error 405 m (header_Set ''Allow'' a w)) ?a"
    by (simp add: gives_def http_Error_fresh)
  then show ?thesis unfolding refuses_def by fastforce
qed

lemma refuses_simps [simp]:
  "refuses (writePaymentServiceError err)" "refuses (bad_json_body e)" "refuses (bad_empty_body e)"
  "refuses command_late" "refuses unauthorized" "refuses forbidden"
  by (auto simp: writePaymentServiceError_def bad_json_body_def bad_empty_body_def command_late_def
      unauthorized_def [abs_def] forbidden_def
      intro!: refuses_writeError refuses_writeError_header split: option.split)

lemma served_reply: "gives f a \<Longrightarrow> served (\<lambda>r ws. reply f ws) r s a s"
  by (simp add: served_def gives_def reply_def)

lemma served_pushed:
  "served f r s a t \<Longrightarrow> fresh w \<Longrightarrow> wr_header w = [] \<Longrightarrow>
     f r (push_recorder (w, s)) = (None, sent (resp_status a) (resp_header a) (resp_body a) (fst (push_recorder (w, s))), t)"
proof -
  assume a: "served f r s a t" "fresh w" "wr_header w = []"
  have "wr_header (fst (push_recorder (w, s))) = []" using a(3) by (simp add: push_recorder_def)
  then show ?thesis
    using a push_recorder_eq [of w s] recorder_round_trip(1) [of w s] unfolding served_def by metis
qed

lemma served_recoverPanic: "served f r s a t \<Longrightarrow> served (recoverPanic f) r s a t"
  unfolding served_def [of "recoverPanic f"] by (simp add: recoverPanic_def served_pushed)

lemma served_recordHTTPRequest:
  "served f r s a t \<Longrightarrow> resp_status a \<noteq> 0 \<Longrightarrow>
     served (recordHTTPRequest route f) r s a (t\<lparr>as_metrics := as_metrics t @ [HTTPRequest (ar_Method r) route (resp_status a)]\<rparr>)"
  unfolding served_def [of "recordHTTPRequest route f"] by (simp add: recordHTTPRequest_def served_pushed recorded_status_def)

lemma served_root:
  assumes "served (root_mux h) r s a t" "200 \<le> resp_status a"
  shows "\<exists>log. ServeHTTP h r s = (Some a, t\<lparr>as_log := log\<rparr>)"
  using ServeHTTP_root [of h r s "resp_status a" "resp_header a" "resp_body a" t] assms by (auto simp: served_def)

subsection \<open>What a POST does\<close>

definition limited :: "('s, 'l, 'r) Handler \<Rightarrow> api_request \<Rightarrow> api_request" where
  "limited h r = r\<lparr>ar_Body := map_option (\<lambda>b. MaxBytesReader b (hc_MaxRequestBodyBytes (h_config h))) (ar_Body r)\<rparr>"

definition command_path :: "api_request \<Rightarrow> bool" where
  "command_path r \<longleftrightarrow> \<not> ar_slash r \<and> take 3 (ar_path r) = [''api'', ''v1'', ''payments''] \<and>
     (length (ar_path r) = 3 \<or>
      length (ar_path r) = 5 \<and> ar_path r ! 4 \<in> {''authorization-retries'', ''capture'', ''void'', ''refund''})"

text \<open>The command a POST request stands for, if the caller may give it.\<close>

definition request_command :: "('s, 'l, 'r) Handler \<Rightarrow> api_request \<Rightarrow> payment_command option" where
  "request_command h r =
   (case authenticated h r of None \<Rightarrow> None
    | Some p \<Rightarrow>
        if command_path r \<and> HasScope p ScopePaymentsWrite \<and> ar_ContentLength r \<le> hc_MaxRequestBodyBytes (h_config h)
        then (case command_of h (limited h r) of Inl _ \<Rightarrow> None | Inr cmd \<Rightarrow> Some cmd) else None)"

lemma write_route_at:
  assumes "\<And>b ws. f (r\<lparr>ar_Body := b\<rparr>) ws = g (r\<lparr>ar_Body := b\<rparr>) ws"
  shows "write_route h route f r = write_route h route g r"
proof -
  have "limitRequestBody h f r = limitRequestBody h g r"
    by (intro ext) (simp add: limitRequestBody_def assms)
  then have "requireScope sc (limitRate h rc (limitRequestBody h f)) r = requireScope sc (limitRate h rc (limitRequestBody h g)) r" for sc rc
    by (intro ext) (simp add: requireScope_def limitRate_def Let_def split: option.split prod.split)
  then show ?thesis
    by (intro ext) (simp add: write_route_def registerVersionedRoute_def recordHTTPRequest_def recoverPanic_def)
qed

lemma post_mux: "ar_Method r = ''POST'' \<Longrightarrow> mux_serve [(''POST'', f)] a r = f r"
  "ar_Method r = ''POST'' \<Longrightarrow> mux_serve [(''GET'', g), (''POST'', f)] a r = f r"
  by (intro ext; simp add: mux_serve_def)+

lemma mux_refuses: "mux_serve [] a r = reply (http_Error 404 ''404 page not found'')"
  "ar_Method r = ''POST'' \<Longrightarrow> mux_serve [(''GET'', g)] a r = reply (\<lambda>w. http_Error 405 (StatusText 405) (header_Set ''Allow'' a w))"
  by (intro ext; simp add: mux_serve_def)+

lemma versioned_post:
  assumes post: "ar_Method r = ''POST''" and path: "take 3 (ar_path r) = [''api'', ''v1'', ''payments'']" "command_path r"
  shows "\<exists>route. versioned h r = write_route h route (command_serve h) r"
proof -
  consider (three) "ar_path r = [''api'', ''v1'', ''payments'']"
    | (five) x op where "ar_path r = [''api'', ''v1'', ''payments'', x, op]" "op \<in> {''authorization-retries'', ''capture'', ''void'', ''refund''}"
  proof -
    have l: "length (ar_path r) = 3 \<or> length (ar_path r) = 5 \<and> ar_path r ! 4 \<in> {''authorization-retries'', ''capture'', ''void'', ''refund''}"
      using path(2) by (auto simp: command_path_def)
    have split: "ar_path r = [''api'', ''v1'', ''payments''] @ drop 3 (ar_path r)" using path(1) append_take_drop_id [of 3 "ar_path r"] by simp
    from l show thesis
    proof
      assume "length (ar_path r) = 3"
      with split that(1) show thesis by simp
    next
      assume l5: "length (ar_path r) = 5 \<and> ar_path r ! 4 \<in> {''authorization-retries'', ''capture'', ''void'', ''refund''}"
      then obtain x op where "drop 3 (ar_path r) = [x, op]"
      proof -
        obtain d where d: "drop 3 (ar_path r) = d" by blast
        then have "length d = Suc (Suc 0)" using l5 by auto
        then show ?thesis using that d by (auto simp: length_Suc_conv)
      qed
      with split l5 that(2) show thesis by simp
    qed
  qed
  then show ?thesis
  proof cases
    case three
    then have "write_route h route (authorizePayment h) r = write_route h route (command_serve h) r" for route
      by (intro write_route_at serve_authorize) simp
    then show ?thesis using three path(2) post by (auto simp: versioned_def post_mux command_path_def)
  next
    case five
    have at: "(\<And>b ws. f (r\<lparr>ar_Body := b\<rparr>) ws = command_serve h (r\<lparr>ar_Body := b\<rparr>) ws) \<Longrightarrow>
        write_route h route f r = write_route h route (command_serve h) r" for f route
      by (rule write_route_at)
    have eq: "op = ''authorization-retries'' \<Longrightarrow> write_route h route (retryAuthorization h) r = write_route h route (command_serve h) r"
      "op = ''capture'' \<Longrightarrow> write_route h route (capturePayment h) r = write_route h route (command_serve h) r"
      "op = ''void'' \<Longrightarrow> write_route h route (voidPayment h) r = write_route h route (command_serve h) r"
      "op = ''refund'' \<Longrightarrow> write_route h route (refundPayment h) r = write_route h route (command_serve h) r" for route
      using five by (auto intro!: at serve_others)
    have slash: "\<not> ar_slash r" using path(2) by (simp add: command_path_def)
    have "versioned h r = write_route h (''/api/v1/payments/{payment_id}/'' @ op) (command_serve h) r"
      using five(2) by (elim insertE emptyE) (simp_all add: versioned_def five(1) slash eq post_mux [OF post])
    then show ?thesis by blast
  qed
qed

lemma versioned_no_command:
  assumes post: "ar_Method r = ''POST''" and path: "take 2 (ar_path r) = [''api'', ''v1'']" "\<not> command_path r"
  shows "\<exists>f. refuses f \<and> versioned h r = reply f"
proof -
  have no: "\<exists>f. refuses f \<and> mux_serve [] [] r = reply f"
    using refuses_http_Error [of 404] mux_refuses(1) by fastforce
  have get: "\<exists>f. refuses f \<and> mux_serve [(''GET'', g)] a r = reply f" for g a
    using refuses_not_allowed mux_refuses(2) [OF post] by blast
  obtain rest where p: "ar_path r = ''api'' # ''v1'' # rest"
    using path(1) append_take_drop_id [of 2 "ar_path r"] by (metis append_Cons append_Nil)
  consider "rest = []" | a where "rest = [a]" | a b where "rest = [a, b]" | a b c where "rest = [a, b, c]"
    | a b c d cs where "rest = a # b # c # d # cs"
    by (cases rest; cases "tl rest"; cases "tl (tl rest)"; cases "tl (tl (tl rest))") auto
  then show ?thesis
  proof cases
    case 2
    then have "versioned h r = mux_serve [] [] r" using p path(2) by (auto simp: versioned_def Let_def command_path_def)
    then show ?thesis using no by simp
  next
    case 3
    then show ?thesis
      using no get p by (cases "a = ''payments'' \<and> \<not> ar_slash r") (auto simp: versioned_def Let_def)
  next
    case 4
    then have "versioned h r = mux_serve [] [] r" using p path(2) by (auto simp: versioned_def Let_def command_path_def)
    then show ?thesis using no by simp
  qed (use no p in \<open>simp_all add: versioned_def Let_def\<close>)
qed

lemma served_unique:
  assumes "served (root_mux h) r s b t" "200 \<le> resp_status b" "ServeHTTP h r s = (Some a, s')"
  shows "a = b" "as_app s' = as_app t"
  using served_root [OF assms(1,2)] assms(3) by auto

lemma command_serve_limited:
  fixes h :: "('s, 'l, 'r) Handler"
  assumes "\<And>c x p. fst (app_run (h_payments h) c x) \<noteq> Inl p"
  obtains (refused) f where "refuses f" "command_of h r = Inl (Inr f)" "\<And>(s :: ('s, 'l) ApiState) b. gives f b \<Longrightarrow> served (command_serve h) r s b s"
  | (nil) "command_of h r = Inl (Inl nil_body)" "\<And>ws. command_serve h r ws = (Some nil_body, ws)"
  | (command) cmd where "command_of h r = Inr cmd"
      "\<And>(s :: ('s, 'l) ApiState) res t b. app_run (h_payments h) cmd (as_app s) = (Inr res, t) \<Longrightarrow>
        gives (if pa_expired (h_payments h) (hc_PaymentCommandTimeout (h_config h)) (as_app s) t then command_late
               else case res of Inl err \<Rightarrow> writePaymentServiceError err | Inr x \<Rightarrow> command_answer cmd x) b \<Longrightarrow>
        served (command_serve h) r s b (s\<lparr>as_app := t\<rparr>)"
proof (cases "command_of h r")
  case (Inl e)
  have "e = Inl nil_body \<or> (\<exists>f. e = Inr f \<and> refuses f)"
    using Inl refuses_writeError [of 415]
    by (auto simp: command_of_def json_command_def empty_command_def split: if_splits option.splits sum.splits)
  then show thesis
    using Inl that(1,2) by (auto simp: command_serve_def served_def gives_def reply_def)
next
  case (Inr cmd)
  show thesis
  proof (rule that(3) [OF Inr])
    fix s :: "('s, 'l) ApiState" and res t b
    assume run: "app_run (h_payments h) cmd (as_app s) = (Inr res, t)"
      and g: "gives (if pa_expired (h_payments h) (hc_PaymentCommandTimeout (h_config h)) (as_app s) t then command_late
               else case res of Inl err \<Rightarrow> writePaymentServiceError err | Inr x \<Rightarrow> command_answer cmd x) b"
    show "served (command_serve h) r s b (s\<lparr>as_app := t\<rparr>)"
      using run g Inr by (auto simp: served_def gives_def command_serve_def app_respond_def Let_def split: if_splits sum.splits)
  qed
qed

lemma served_write_route:
  assumes "served (recoverPanic (requireScope ScopePaymentsWrite (limitRate h RouteClassWrite (limitRequestBody h f)))) r s b t" "200 \<le> resp_status b"
  shows "\<exists>t'. served (write_route h route f) r s b t' \<and> as_app t' = as_app t"
  using served_recordHTTPRequest [OF assms(1)] assms(2)
  unfolding write_route_def registerVersionedRoute_def by fastforce

lemma refuses_limited: "refuses (\<lambda>w. writeError 429 c m (header_Set ''Retry-After'' v w))"
  by (rule refuses_writeError_header) simp_all

lemma served_nil_body:
  assumes "\<And>w. f r (w, s) = (Some nil_body, w, u)"
  shows "\<exists>b t. served (recoverPanic f) r s b t \<and> 400 \<le> resp_status b \<and> as_app t = as_app u"
proof -
  let ?b = "\<lparr>resp_status = 500, resp_header = [(''Connection'', ''close''), (''Content-Type'', ''application/json'')],
    resp_body = [ErrorEnvelope \<lparr>ep_Code = errorCodeInternalServer, ep_Message = StatusText 500\<rparr>]\<rparr>"
  have "recoverPanic f r (w, s) = (None, sent (resp_status ?b) (resp_header ?b) (resp_body ?b) w,
      u\<lparr>as_log := as_log u @ [LogPanic ''invalid memory address or nil pointer dereference'']\<rparr>)"
    if w: "fresh w" "wr_header w = []" for w
  proof -
    let ?w = "fst (push_recorder (w, s))"
    have hd: "json_header (header_Set ''Connection'' ''close'' ?w) = resp_header ?b"
      using w by (simp add: json_header_def header_Set_def push_recorder_def)
    have wrote: "\<not> rec_wroteHeader (hd (wr_recorders (header_Set ''Connection'' ''close'' ?w)))"
      by (simp add: push_recorder_def header_Set_def fresh_recorder_def)
    have "writeError 500 errorCodeInternalServer (StatusText 500) (header_Set ''Connection'' ''close'' ?w) =
        sent (resp_status ?b) (resp_header ?b) (resp_body ?b) ?w"
      using w(1) hd by (simp add: writeError_def writeJSON_fresh)
    then show ?thesis
      using assms [of ?w] wrote push_recorder_eq [of w s]
      by (simp add: recoverPanic_def nil_body_def Let_def case_prod_beta)
  qed
  then show ?thesis by (intro exI [of _ ?b]) (auto simp: served_def)
qed

lemma command_of_principal [simp]: "command_of h (r\<lparr>ar_principal := p\<rparr>) = command_of h r"
  "limited h (r\<lparr>ar_principal := p\<rparr>) = (limited h r)\<lparr>ar_principal := p\<rparr>"
  "command_path (r\<lparr>ar_principal := p\<rparr>) = command_path r"
  by (simp_all add: command_of_def json_command_def empty_command_def isJSONRequest_def payment_id_def limited_def command_path_def)

lemma command_reply_gives:
  "\<exists>b. gives (if late then command_late else case res of Inl err \<Rightarrow> writePaymentServiceError err | Inr x \<Rightarrow> command_answer cmd x) b \<and>
     200 \<le> resp_status b"
proof -
  have ref: "\<exists>b. gives f b \<and> 200 \<le> resp_status b" if "refuses f" for f
    using that by (auto simp: refuses_def)
  have "\<exists>b. gives (command_answer cmd x) b \<and> 200 \<le> resp_status b" for x
  proof (cases cmd)
    case (Authorize c)
    let ?st = "if pr_Status (pcr_Payment x) = PaymentStatusPending then 202 else 201 :: int"
    have "200 \<le> ?st" "''Location'' \<noteq> ''Content-Type''" by simp_all
    from gives_writeJSON_header [OF this, of "PaymentEnvelope (newPaymentEnvelope (pcr_Payment x))"
        "''/api/v1/payments/'' @ PathEscape (pr_ID (pcr_Payment x))"] Authorize
    show ?thesis by (intro exI [of _ "json_response ?st [(''Location'', ''/api/v1/payments/'' @ PathEscape (pr_ID (pcr_Payment x)))]
        (PaymentEnvelope (newPaymentEnvelope (pcr_Payment x)))"]) (simp add: gives_def json_response_def)
  qed (use gives_writeJSON [of 200 "PaymentEnvelope (newPaymentEnvelope (pcr_Payment x))"] in
      \<open>auto simp: gives_def json_response_def intro!: exI [of _ "json_response 200 [] (PaymentEnvelope (newPaymentEnvelope (pcr_Payment x)))"]\<close>)
  then show ?thesis using ref by (cases res) simp_all
qed

definition write_allowed :: "('s, 'l, 'r) Handler \<Rightarrow> Principal \<Rightarrow> ('s, 'l) ApiState \<Rightarrow> bool" where
  "write_allowed h p s = fst (fst (Reserve (h_rate h) (h_clock h) (prn_id p) RouteClassWrite (as_rateLimiter s)))"

lemma write_route_cases:
  fixes h :: "('s, 'l, 'r) Handler"
  assumes prn: "ar_principal r = Some p" and quiet: "\<And>c x v. fst (app_run (h_payments h) c x) \<noteq> Inl v"
  obtains (refused) b t where "served (write_route h route (command_serve h)) r s b t" "400 \<le> resp_status b" "as_app t = as_app s"
      "resp_status b = 429 \<and> \<not> write_allowed h p s \<or> \<not> HasScope p ScopePaymentsWrite \<or> hc_MaxRequestBodyBytes (h_config h) < ar_ContentLength r \<or>
       (\<exists>e. command_of h (limited h r) = Inl e)"
  | (called) cmd res t b t' where "HasScope p ScopePaymentsWrite" "ar_ContentLength r \<le> hc_MaxRequestBodyBytes (h_config h)"
      "command_of h (limited h r) = Inr cmd" "app_run (h_payments h) cmd (as_app s) = (Inr res, t)"
      "gives (if pa_expired (h_payments h) (hc_PaymentCommandTimeout (h_config h)) (as_app s) t then command_late
              else case res of Inl err \<Rightarrow> writePaymentServiceError err | Inr x \<Rightarrow> command_answer cmd x) b"
      "200 \<le> resp_status b" "served (write_route h route (command_serve h)) r s b t'" "as_app t' = t"
proof -
  let ?max = "hc_MaxRequestBodyBytes (h_config h)"
  let ?chain = "requireScope ScopePaymentsWrite (limitRate h RouteClassWrite (limitRequestBody h (command_serve h)))"
  have refuse: thesis if f: "refuses f" "\<And>w. ?chain r (w, s) = (None, f w, t)" "as_app t = as_app s"
    "\<And>b. gives f b \<Longrightarrow> resp_status b = 429 \<and> \<not> write_allowed h p s \<or> \<not> HasScope p ScopePaymentsWrite \<or> ?max < ar_ContentLength r \<or> (\<exists>e. command_of h (limited h r) = Inl e)"
    for f t
  proof -
    obtain b where b: "gives f b" "400 \<le> resp_status b" using f(1) by (auto simp: refuses_def)
    then have "served ?chain r s b t" using f(2) by (simp add: served_def gives_def)
    from served_write_route [OF served_recoverPanic [OF this], of route] b(2) obtain t' where
      "served (write_route h route (command_serve h)) r s b t'" "as_app t' = as_app t" by auto
    with b(2) f(3) f(4) [OF b(1)] show thesis by (intro refused [of b t']) simp_all
  qed
  show thesis
  proof (cases "HasScope p ScopePaymentsWrite")
    case False
    then show thesis using prn by (intro refuse [of forbidden s]) (auto simp: requireScope_def reply_def)
  next
    case scope: True
    obtain ok after l where res: "Reserve (h_rate h) (h_clock h) (prn_id p) RouteClassWrite (as_rateLimiter s) = ((ok, after), l)"
      by (cases "Reserve (h_rate h) (h_clock h) (prn_id p) RouteClassWrite (as_rateLimiter s)") auto
    let ?s = "s\<lparr>as_rateLimiter := l\<rparr>"
    show thesis
    proof (cases ok)
      case False
      have st: "resp_status b = 429" if "gives (\<lambda>w. writeError 429 ''rate_limited'' ''rate limit exceeded'' (header_Set ''Retry-After'' (show_int after) w)) b" for b
        using gives_unique [OF that [unfolded writeError_def] gives_writeJSON_header] by (simp add: json_response_def)
      show thesis
        using False scope prn res st
        by (intro refuse [where t = "?s\<lparr>as_metrics := as_metrics ?s @ [RateLimitRejection RouteClassWrite]\<rparr>", OF refuses_limited])
           (auto simp: requireScope_def limitRate_def Let_def write_allowed_def)
    next
      case True
      have chain: "?chain r (w, s) = limitRequestBody h (command_serve h) r (w, ?s)" for w
        using True scope prn res by (simp add: requireScope_def limitRate_def Let_def)
      show thesis
      proof (cases "?max < ar_ContentLength r")
        case True
        then show thesis
          using chain by (intro refuse [where t = ?s, OF refuses_writeError [of 413]]) (auto simp: limitRequestBody_def reply_def)
      next
        case False
        then have inner: "?chain r (w, s) = command_serve h (limited h r) (w, ?s)" for w
          using chain by (simp add: limitRequestBody_def limited_def)
        from quiet show thesis
        proof (rule command_serve_limited [of h "limited h r"])
          fix f
          assume f: "refuses f" "command_of h (limited h r) = Inl (Inr f)"
          then show thesis
            using inner by (intro refuse [of f ?s]) (auto simp: command_serve_def reply_def)
        next
          assume nil: "command_of h (limited h r) = Inl (Inl nil_body)" "\<And>ws. command_serve h (limited h r) ws = (Some nil_body, ws)"
          then have "?chain r (w, s) = (Some nil_body, w, ?s)" for w using inner by simp
          from served_nil_body [of ?chain, OF this] obtain b t where
            b: "served (recoverPanic ?chain) r s b t" "400 \<le> resp_status b" "as_app t = as_app ?s" by blast
          from served_write_route [OF b(1), of route] b(2,3) obtain t' where
            "served (write_route h route (command_serve h)) r s b t'" "as_app t' = as_app s" by auto
          with nil(1) b(2) show thesis by (intro refused [of b t']) auto
        next
          fix cmd
          assume cmd: "command_of h (limited h r) = Inr cmd"
            and run: "\<And>(s :: ('s, 'l) ApiState) res t b. app_run (h_payments h) cmd (as_app s) = (Inr res, t) \<Longrightarrow>
              gives (if pa_expired (h_payments h) (hc_PaymentCommandTimeout (h_config h)) (as_app s) t then command_late
               else case res of Inl err \<Rightarrow> writePaymentServiceError err | Inr x \<Rightarrow> command_answer cmd x) b \<Longrightarrow>
              served (command_serve h) (limited h r) s b (s\<lparr>as_app := t\<rparr>)"
          obtain res t where app: "app_run (h_payments h) cmd (as_app s) = (Inr res, t)"
            using quiet [of cmd "as_app s"] by (metis prod.collapse sum.exhaust)
          let ?f = "if pa_expired (h_payments h) (hc_PaymentCommandTimeout (h_config h)) (as_app s) t then command_late
               else case res of Inl err \<Rightarrow> writePaymentServiceError err | Inr x \<Rightarrow> command_answer cmd x"
          obtain b where b: "gives ?f b" "200 \<le> resp_status b" using command_reply_gives by blast
          have "served ?chain r s b (?s\<lparr>as_app := t\<rparr>)"
            using run [of ?s res t b] app b(1) inner by (simp add: served_def)
          from served_write_route [OF served_recoverPanic [OF this] b(2), of route] show thesis
            using called [OF scope _ cmd app b] False by auto
        qed
      qed
    qed
  qed
qed

lemma root_refuses:
  assumes "ServeHTTP h r s = (Some a, s')" "refuses f" "\<And>ws. root_mux h r ws = reply f ws"
  shows "400 \<le> resp_status a \<and> as_app s' = as_app s"
proof -
  obtain b where b: "gives f b" "400 \<le> resp_status b" using assms(2) by (auto simp: refuses_def)
  have "served (root_mux h) r s b s" using assms(3) b(1) by (simp add: served_def gives_def reply_def)
  from served_unique [OF this _ assms(1)] b(2) show ?thesis by simp
qed

text \<open>A POST is refused without touching the application, or the command it stands for is run and answered.\<close>

lemma post_cases:
  fixes h :: "('s, 'l, 'r) Handler"
  assumes post: "ar_Method r = ''POST''" and quiet: "\<And>c x v. fst (app_run (h_payments h) c x) \<noteq> Inl v"
    and serve: "ServeHTTP h r s = (Some a, s')"
  obtains (refused) "400 \<le> resp_status a" "as_app s' = as_app s"
      "resp_status a = 429 \<and> \<not> (\<exists>p. authenticated h r = Some p \<and> write_allowed h p s) \<or> request_command h r = None"
  | (called) cmd res t where "request_command h r = Some cmd" "app_run (h_payments h) cmd (as_app s) = (Inr res, t)" "as_app s' = t"
      "gives (if pa_expired (h_payments h) (hc_PaymentCommandTimeout (h_config h)) (as_app s) t then command_late
              else case res of Inl err \<Rightarrow> writePaymentServiceError err | Inr x \<Rightarrow> command_answer cmd x) a"
proof -
  have path: "command_path r \<Longrightarrow> api_path r \<and> take 2 (ar_path r) = [''api'', ''v1'']"
  proof -
    assume c: "command_path r"
    then have "take 2 (take 3 (ar_path r)) = [''api'', ''v1'']" by (simp add: command_path_def)
    then have "take 2 (ar_path r) = [''api'', ''v1'']" by (simp add: take_take)
    with c show ?thesis by (auto simp: api_path_def command_path_def)
  qed
  consider (other) "\<not> api_path r" | (anonymous) "api_path r" "authenticated h r = None"
    | (no_command) p where "api_path r" "authenticated h r = Some p" "\<not> command_path r"
    | (command) p where "api_path r" "authenticated h r = Some p" "command_path r" by blast
  then show thesis
  proof cases
    case other
    have "\<exists>f. refuses f \<and> root_mux h r = reply f"
      using other post refuses_http_Error [of 404] refuses_not_allowed by (auto simp: root_mux_def mux_refuses)
    then show thesis
      using root_refuses [OF serve] other path by (intro refused) (auto simp: request_command_def split: option.split)
  next
    case anonymous
    then show thesis
      using root_refuses [OF serve, of unauthorized]
      by (intro refused) (auto simp: root_mux_def requireAuthentication_eq request_command_def)
  next
    case no_command
    then obtain f where "refuses f" "versioned h (r\<lparr>ar_principal := Some p\<rparr>) = reply f"
      using versioned_no_command [of "r\<lparr>ar_principal := Some p\<rparr>" h] post by (auto simp: api_path_def)
    then show thesis
      using root_refuses [OF serve, of f] no_command
      by (intro refused) (auto simp: root_mux_def requireAuthentication_eq request_command_def)
  next
    case command
    let ?r = "r\<lparr>ar_principal := Some p\<rparr>"
    obtain route where route: "versioned h ?r = write_route h route (command_serve h) ?r"
      using versioned_post [of ?r h] post command by (auto simp: command_path_def)
    have root: "served (root_mux h) r s b t" if "served (write_route h route (command_serve h)) ?r s b t" for b t
      using that command route by (simp add: served_def root_mux_def requireAuthentication_eq)
    have prn: "ar_principal ?r = Some p" by simp
    show thesis
      using prn quiet
    proof (rule write_route_cases [of ?r p h route s])
      fix b t
      assume b: "served (write_route h route (command_serve h)) ?r s b t" "400 \<le> resp_status b" "as_app t = as_app s"
        and why: "resp_status b = 429 \<and> \<not> write_allowed h p s \<or> \<not> HasScope p ScopePaymentsWrite \<or> hc_MaxRequestBodyBytes (h_config h) < ar_ContentLength ?r \<or>
          (\<exists>e. command_of h (limited h ?r) = Inl e)"
      from served_unique [OF root [OF b(1)] _ serve] b(2,3) have "a = b" "as_app s' = as_app s" by simp_all
      with b(2) why command show thesis by (intro refused) (auto simp: request_command_def)
    next
      fix cmd res t b t'
      assume ok: "HasScope p ScopePaymentsWrite" "ar_ContentLength ?r \<le> hc_MaxRequestBodyBytes (h_config h)"
          "command_of h (limited h ?r) = Inr cmd"
        and run: "app_run (h_payments h) cmd (as_app s) = (Inr res, t)"
          "gives (if pa_expired (h_payments h) (hc_PaymentCommandTimeout (h_config h)) (as_app s) t then command_late
              else case res of Inl err \<Rightarrow> writePaymentServiceError err | Inr x \<Rightarrow> command_answer cmd x) b"
        and b: "200 \<le> resp_status b" "served (write_route h route (command_serve h)) ?r s b t'" "as_app t' = t"
      from served_unique [OF root [OF b(2)] b(1) serve] b(3) have "a = b" "as_app s' = t" by simp_all
      with ok run command show thesis by (intro called [of cmd res t]) (auto simp: request_command_def)
    qed
  qed
qed

subsection \<open>Properties\<close>

definition error_statuses :: "(PaymentErrorKind \<times> int) list" where
  "error_statuses =
   [(PaymentErrorInvalidInput, 422), (PaymentErrorIdempotencyConflict, 409), (PaymentErrorIdempotencyInProgress, 409),
    (PaymentErrorPaymentStatusConflict, 409), (PaymentErrorAuthorizationExpired, 409), (PaymentErrorNotFound, 404),
    (PaymentErrorBankStateConflict, 502), (PaymentErrorBankUnavailable, 502), (PaymentErrorBankTimeout, 504)]"

definition error_status :: "go_error \<Rightarrow> int" where
  "error_status err = (case Option.bind (PaymentErrorKindOf err) (map_of error_statuses) of Some st \<Rightarrow> st | None \<Rightarrow> 500)"

lemma gives_writeError: "200 \<le> st \<Longrightarrow> gives (writeError st code m) (json_response st [] (ErrorEnvelope \<lparr>ep_Code = code, ep_Message = m\<rparr>))"
  using gives_writeJSON [of st] unfolding writeError_def [abs_def] by blast

lemma gives_service_error:
  assumes "gives (writePaymentServiceError err) a"
  shows "resp_status a = error_status err"
proof -
  have "\<exists>code m. writePaymentServiceError err = writeError (error_status err) code m \<and> 200 \<le> error_status err"
    by (cases "PaymentErrorKindOf err")
       (auto simp: writePaymentServiceError_def error_status_def error_statuses_def)
  then obtain code m where "writePaymentServiceError err = writeError (error_status err) code m" "200 \<le> error_status err" by blast
  with gives_unique [OF assms] gives_writeError [of "error_status err" code m] show ?thesis by (simp add: json_response_def)
qed

definition success_status :: "payment_command \<Rightarrow> PaymentCommandResult \<Rightarrow> int" where
  "success_status cmd x =
   (case cmd of Authorize _ \<Rightarrow> if pr_Status (pcr_Payment x) = PaymentStatusPending then 202 else 201 | _ \<Rightarrow> 200)"

lemma success_status_range: "success_status cmd x < 400"
  by (simp add: success_status_def split: payment_command.split)

lemma gives_command_answer:
  assumes "gives (command_answer cmd x) a"
  shows "resp_status a = success_status cmd x \<and> resp_body a = [PaymentEnvelope (newPaymentEnvelope (pcr_Payment x))]"
proof -
  have "\<exists>hs. gives (command_answer cmd x) (json_response (success_status cmd x) hs (PaymentEnvelope (newPaymentEnvelope (pcr_Payment x))))"
  proof (cases cmd)
    case (Authorize c)
    have "200 \<le> success_status cmd x" "''Location'' \<noteq> ''Content-Type''" using Authorize by (simp_all add: success_status_def)
    from gives_writeJSON_header [OF this] Authorize show ?thesis
      by (fastforce simp: gives_def success_status_def)
  qed (use gives_writeJSON [of 200] in \<open>fastforce simp: gives_def success_status_def\<close>)+
  with gives_unique [OF assms] show ?thesis by (fastforce simp: json_response_def)
qed

lemma error_status_range: "400 \<le> error_status err"
proof -
  have "\<forall>(k, st)\<in>set error_statuses. 400 \<le> st" by (simp add: error_statuses_def)
  then show ?thesis by (auto simp: error_status_def split: option.split bind_splits dest: map_of_SomeD)
qed

lemma command_reply:
  assumes "gives (if late then command_late else case res of Inl err \<Rightarrow> writePaymentServiceError err | Inr x \<Rightarrow> command_answer cmd x) a"
  shows "if late then resp_status a = 504
     else case res of
       Inl err \<Rightarrow> resp_status a = error_status err
     | Inr x \<Rightarrow> resp_status a = success_status cmd x \<and> resp_body a = [PaymentEnvelope (newPaymentEnvelope (pcr_Payment x))]"
proof -
  have "resp_status a = 504" if "gives command_late a"
    using gives_unique [OF that [unfolded command_late_def] gives_writeError] by (simp add: json_response_def)
  then show ?thesis using assms gives_service_error gives_command_answer by (auto split: if_splits sum.splits)
qed

lemma command_reply_success:
  assumes "gives (if late then command_late else case res of Inl err \<Rightarrow> writePaymentServiceError err | Inr x \<Rightarrow> command_answer cmd x) a"
    "resp_status a < 400"
  shows "\<exists>x. res = Inr x \<and> resp_body a = [PaymentEnvelope (newPaymentEnvelope (pcr_Payment x))]"
proof (cases res)
  case (Inl e)
  then show ?thesis using command_reply [OF assms(1)] assms(2) error_status_range [of e] by (auto split: if_splits)
next
  case (Inr x)
  then show ?thesis using command_reply [OF assms(1)] assms(2) by (auto split: if_splits)
qed

text \<open>C13: an admitted command is answered by its outcome: 504 when its deadline has passed, the status of the error's
  kind when the application fails, and otherwise the payment, with 202 for an authorization that is still
  pending, 201 for any other authorization and 200 for the other commands.  The application has then
  taken the one step of that command.\<close>

theorem accepted_command_answered:
  assumes "ar_Method r = ''POST''" "\<And>c x v. fst (app_run (h_payments h) c x) \<noteq> Inl v"
    and "request_command h r = Some cmd" "app_run (h_payments h) cmd (as_app s) = (Inr res, t)"
    and "ServeHTTP h r s = (Some a, s')" "resp_status a \<noteq> 429"
  shows "as_app s' = t \<and>
    (if pa_expired (h_payments h) (hc_PaymentCommandTimeout (h_config h)) (as_app s) t then resp_status a = 504
     else case res of
       Inl err \<Rightarrow> resp_status a = error_status err
     | Inr x \<Rightarrow> resp_status a = success_status cmd x \<and> resp_body a = [PaymentEnvelope (newPaymentEnvelope (pcr_Payment x))])"
  using assms(1,2,5)
proof (cases rule: post_cases)
  case refused
  then show ?thesis using assms(3,6) by simp
next
  case (called cmd' res' t')
  then have eq: "cmd' = cmd" "res' = res" "t' = t" using assms(3,4) by simp_all
  show ?thesis using called(3) command_reply [OF called(4)] unfolding eq by simp
qed

lemma map_sum_Inr: "map_sum id f x = Inr y \<longleftrightarrow> (\<exists>c. x = Inr c \<and> y = f c)"
  by (cases x) auto

lemma json_command_body:
  "json_command h r into zero f = Inr c \<Longrightarrow> ar_Body r = Some b \<Longrightarrow> \<not> over_limit b (bd_length b)"
  using decodeJSONRequest_Inr by (fastforce simp: json_command_def split: if_splits option.splits sum.splits)

lemma empty_command_body: "empty_command r f = Inr c \<Longrightarrow> ar_Body r = Some b \<Longrightarrow> \<not> over_limit b (bd_length b)"
  using requireEmptyRequestBody_None [of b] by (auto simp: empty_command_def split: option.splits)

lemma command_of_body: "command_of h r = Inr cmd \<Longrightarrow> ar_Body r = Some b \<Longrightarrow> \<not> over_limit b (bd_length b)"
  by (auto simp: command_of_def map_sum_Inr split: if_splits dest: json_command_body empty_command_body)

text \<open>C22: a command whose body is longer than the configured limit is refused, whatever length its header
  claims, and the application is not called.\<close>

theorem oversized_body_refused:
  assumes "ar_Method r = ''POST''" "\<And>c x v. fst (app_run (h_payments h) c x) \<noteq> Inl v"
    and "ar_Body r = Some b" "hc_MaxRequestBodyBytes (h_config h) < int (bd_length b)"
    and "ServeHTTP h r s = (Some a, s')"
  shows "400 \<le> resp_status a \<and> as_app s' = as_app s"
  using assms(1,2,5)
proof (cases rule: post_cases)
  case (called cmd res t)
  then have "command_of h (limited h r) = Inr cmd"
    by (auto simp: request_command_def split: option.splits if_splits sum.splits)
  from command_of_body [OF this] assms(3,4) show ?thesis by (simp add: limited_def MaxBytesReader_over) (simp add: MaxBytesReader_def)
qed simp

subsection \<open>Repeated requests\<close>

lemma app_run_service:
  "app_run (payment_application expired svc) cmd x = (Inr (fst (run_command svc cmd x)), snd (run_command svc cmd x))"
  by (cases cmd) (simp_all add: payment_application_def calling_def split: prod.split)

lemma operation_command_valid:
  "NewCapturePaymentCommand i k = Inr c \<Longrightarrow> command_valid (Capture c) \<and> cpc_idempotencyKey c = TrimSpace k"
  "NewVoidPaymentCommand i k = Inr v \<Longrightarrow> command_valid (Void v) \<and> vpc_idempotencyKey v = TrimSpace k"
  "NewRefundPaymentCommand i k = Inr f \<Longrightarrow> command_valid (Refund f) \<and> rpc_idempotencyKey f = TrimSpace k"
  by (auto simp: NewCapturePaymentCommand_def NewVoidPaymentCommand_def NewRefundPaymentCommand_def bind_result_Inr_iff
      parsePaymentOperationInput_def Let_def parsePaymentID_Inr_iff normalized_def split: if_splits)

lemma card_command_valid:
  "NewRetryAuthorizationCommand i n cv m y k = Inr c \<Longrightarrow> command_valid (Retry c) \<and> rac_idempotencyKey c = TrimSpace k"
  "NewAuthorizePaymentCommand ord cust amt n cv m y k = Inr d \<Longrightarrow> command_valid (Authorize d) \<and> apc_idempotencyKey d = TrimSpace k"
  by (auto simp: NewRetryAuthorizationCommand_def NewAuthorizePaymentCommand_def bind_result_Inr_iff Let_def parsePaymentID_Inr_iff
      normalized_def authorize_command_ok_def dest: newCardDetails_Inr split: if_splits)

lemma request_command_valid:
  assumes "request_command h r = Some cmd"
  shows "command_valid cmd \<and> snd (command_pk cmd) = TrimSpace (ar_IdempotencyKey r)"
proof -
  have c: "command_of h (limited h r) = Inr cmd"
    using assms by (auto simp: request_command_def split: option.splits if_splits sum.splits)
  have key: "ar_IdempotencyKey (limited h r) = ar_IdempotencyKey r" by (simp add: limited_def)
  from c show ?thesis
    unfolding command_of_def key
    by (auto simp: map_sum_Inr json_command_def empty_command_def
        split: if_splits option.splits sum.splits dest: operation_command_valid card_command_valid)
qed


subsection \<open>Witnesses\<close>

abbreviation writer_handler :: "((Database, unit) ServiceState, unit, unit) Handler" where
  "writer_handler \<equiv> example_handler [ScopePaymentsWrite]"

definition capture_post :: api_request where
  "capture_post = example_post [example_id, ''capture''] ''Bearer secret''"

lemma example_quiet: "fst (app_run (h_payments writer_handler) c x) \<noteq> Inl v"
  by (simp add: example_handler_def app_run_service)

lemma capture_post_command: "request_command writer_handler capture_post = Some (Capture example_capture)"
proof -
  have "NewCapturePaymentCommand example_id ''key-1'' = Inr example_capture" by code_simp
  moreover have "requireEmptyRequestBody (Some (MaxBytesReader empty_body 65536)) = None"
    by (simp add: requireEmptyRequestBody_None) (simp add: MaxBytesReader_def empty_body_def over_limit_def)
  moreover have "authenticated writer_handler capture_post = Some \<lparr>prn_id = OrderServicePrincipal, prn_scopes = [ScopePaymentsWrite]\<rparr>"
    by (rule example_authenticated) (simp add: capture_post_def example_post_def)
  ultimately show ?thesis
    by (simp add: request_command_def capture_post_def example_post_def command_path_def HasScope_def command_of_def limited_def
        example_handler_def payment_id_def empty_command_def)
qed

lemma example_write_allowed: "write_allowed writer_handler p s"
  by (simp add: write_allowed_def Reserve_def example_handler_def open_rate_def Let_def limitFor_def)

lemma capture_post_served:
  obtains a s' where "ServeHTTP writer_handler capture_post s = (Some a, s')" "resp_status a \<noteq> 429"
proof -
  have "no_abort writer_handler" by (rule no_abort_service) (simp add: example_handler_def)
  from request_answered [OF this, of capture_post s] obtain a s' where a: "ServeHTTP writer_handler capture_post s = (Some a, s')"
    by blast
  have post: "ar_Method capture_post = ''POST''" by (simp add: capture_post_def example_post_def)
  from post example_quiet a have "resp_status a \<noteq> 429"
  proof (cases rule: post_cases)
    case refused
    then show ?thesis
      using capture_post_command example_write_allowed by (auto simp: request_command_def split: option.splits)
  next
    case (called cmd res t)
    have "success_status cmd x \<noteq> 429" for x by (simp add: success_status_def split: payment_command.split)
    moreover have "error_status e \<noteq> 429" for e
    proof -
      have "\<forall>(k, st)\<in>set error_statuses. st \<noteq> 429" by (simp add: error_statuses_def)
      then show ?thesis by (auto simp: error_status_def split: option.split bind_splits dest: map_of_SomeD)
    qed
    ultimately show ?thesis using command_reply [OF called(4)] by (auto split: if_splits sum.splits)
  qed
  with a that show thesis by blast
qed

lemma capture_post_method [simp]: "ar_Method capture_post = ''POST''" "TrimSpace (ar_IdempotencyKey capture_post) = ''key-1''"
  by (simp_all add: capture_post_def example_post_def) code_simp

lemma recorded_capture:
  assumes "ss_db x = ss_db (state_with [recorded_row])"
  obtains u where "app_run (h_payments writer_handler) (Capture example_capture) x = (Inr (Inr (stored_as example_outcome)), u)"
    "ss_db u = ss_db x"
proof -
  obtain res u where run: "run_command example_service (Capture example_capture) x = (res, u)" by fastforce
  have d: "records_inv (ss_db x)" "db_faults (ss_db x) = []"
    using assms recorded_row_ok(1) by (simp_all add: state_with_def)
  have "ss_db u = ss_db x \<and> res = Inr (stored_as example_outcome)"
    using pg.run_command_taken [OF example_service_ok(1-3) d, of "the (ledger_of (ss_db x) (command_pk (Capture example_capture)))" _ u]
      recorded_row_ok(2) run assms
    by (simp add: example_service_ok(4) state_with_def replayPaymentCommand_def stored_as_def example_outcome_def)
  with run that show thesis by (simp add: example_handler_def app_run_service del: app_run.simps run_command.simps)
qed

lemma example_in_time: "\<not> pa_expired (h_payments writer_handler) d x y"
  by (simp add: example_handler_def payment_application_def)

theorem accepted_command_answered_witness:
  "\<exists>a s'. ServeHTTP writer_handler capture_post (api_with [recorded_row]) = (Some a, s') \<and>
     resp_status a = 200 \<and> resp_body a = [PaymentEnvelope (newPaymentEnvelope (pcr_Payment (stored_as example_outcome)))]"
proof -
  obtain u where u: "app_run (h_payments writer_handler) (Capture example_capture) (as_app (api_with [recorded_row])) =
      (Inr (Inr (stored_as example_outcome)), u)"
    by (rule recorded_capture [of "as_app (api_with [recorded_row])"]) (simp add: api_with_def)
  obtain a s' where a: "ServeHTTP writer_handler capture_post (api_with [recorded_row]) = (Some a, s')" "resp_status a \<noteq> 429"
    by (rule capture_post_served)
  show ?thesis
    using accepted_command_answered [OF capture_post_method(1) example_quiet capture_post_command u a] a(1)
    by (simp add: success_status_def example_in_time)
qed

lemma recorded_capture_served:
  assumes "ss_db (as_app s) = ss_db (state_with [recorded_row])"
  obtains a s' where "ServeHTTP writer_handler capture_post s = (Some a, s')" "resp_status a = 200" "ss_db (as_app s') = ss_db (as_app s)"
proof -
  obtain a s' where a: "ServeHTTP writer_handler capture_post s = (Some a, s')" "resp_status a \<noteq> 429" by (rule capture_post_served)
  obtain u where u: "app_run (h_payments writer_handler) (Capture example_capture) (as_app s) = (Inr (Inr (stored_as example_outcome)), u)"
    "ss_db u = ss_db (as_app s)" by (rule recorded_capture [OF assms])
  from capture_post_method(1) example_quiet a(1) show thesis
  proof (cases rule: post_cases)
    case refused
    then show thesis using a(2) capture_post_command by simp
  next
    case (called cmd res t)
    have eq: "cmd = Capture example_capture" "res = Inr (stored_as example_outcome)" "t = u"
      using called(1,2) u(1) capture_post_command by auto
    have "resp_status a = 200"
      using command_reply [OF called(4)] unfolding eq by (simp add: example_in_time success_status_def)
    with called(3) u(2) a(1) eq(3) that show thesis by simp
  qed
qed

definition long_post :: api_request where
  "long_post = capture_post\<lparr>ar_Body := Some (empty_body\<lparr>bd_length := 70000\<rparr>)\<rparr>"

theorem oversized_body_refused_witness:
  "\<exists>a s'. ServeHTTP writer_handler long_post (api_with []) = (Some a, s') \<and> 400 \<le> resp_status a \<and> as_app s' = as_app (api_with [])"
proof -
  have "no_abort writer_handler" by (rule no_abort_service) (simp add: example_handler_def)
  from request_answered [OF this] obtain a s' where a: "ServeHTTP writer_handler long_post (api_with []) = (Some a, s')" by blast
  have "400 \<le> resp_status a \<and> as_app s' = as_app (api_with [])"
    by (rule oversized_body_refused [OF _ example_quiet _ _ a, of "empty_body\<lparr>bd_length := 70000\<rparr>"])
       (simp_all add: long_post_def example_handler_def)
  with a show ?thesis by blast
qed


end
