(* ===== verification/Gateway_Runtime.thy ===== *)
theory Gateway_Runtime
  imports Gateway_Config Http_Commands
begin

text \<open>
  The life of the gateway process: opening the database (\<^verbatim>\<open>gateway/internal/postgres/db.go\<close>), wiring the components, the
  readiness during a shutdown and the shutdown itself (\<^verbatim>\<open>gateway/cmd/payment-gateway/runtime.go\<close>), and the periodic removal of old
  replays (\<^verbatim>\<open>gateway/internal/idempotencycleanup/cleanup.go\<close>).

  What the process waits for is given: the answers of the driver, of the two servers, the signals, and the
  sequence of ticks.
\<close>

subsection \<open>The database\<close>

record sql_driver =
  drv_Open :: "string \<Rightarrow> string option" \<comment> \<open>the error of \<^verbatim>\<open>sql.Open\<close>\<close>
  drv_Ping :: "string option"

record sql_pool =
  pool_MaxOpenConns :: int
  pool_MaxIdleConns :: int
  pool_ConnMaxLifetime :: duration
  pool_ConnMaxIdleTime :: duration

definition postgres_validate :: "PostgresConfig \<Rightarrow> string option" where
  "postgres_validate config =
   (if TrimSpace (pgc_URL config) = [] then Some ''postgres URL is required''
    else if pgc_MaxOpenConnections config \<le> 0 then Some ''postgres max open connections must be positive''
    else if pgc_MaxIdleConnections config < 0 then Some ''postgres max idle connections must be non-negative''
    else if pgc_MaxIdleConnections config > pgc_MaxOpenConnections config
    then Some ''postgres max idle connections must not exceed max open connections''
    else if pgc_ConnectionMaxLifetime config \<le> 0 then Some ''postgres connection max lifetime must be positive''
    else if pgc_ConnectionMaxIdleTime config \<le> 0 then Some ''postgres connection max idle time must be positive''
    else None)"

definition postgres_Open :: "sql_driver \<Rightarrow> PostgresConfig \<Rightarrow> string + sql_pool" where
  "postgres_Open drv config =
   (case postgres_validate config of Some e \<Rightarrow> Inl e
    | None \<Rightarrow> (case drv_Open drv (pgc_URL config) of Some e \<Rightarrow> Inl e
      | None \<Rightarrow>
          let pool = \<lparr>pool_MaxOpenConns = pgc_MaxOpenConnections config, pool_MaxIdleConns = pgc_MaxIdleConnections config,
                pool_ConnMaxLifetime = pgc_ConnectionMaxLifetime config, pool_ConnMaxIdleTime = pgc_ConnectionMaxIdleTime config\<rparr> in
          (case drv_Ping drv of Some e \<Rightarrow> Inl e | None \<Rightarrow> Inr pool)))"

subsection \<open>Readiness\<close>

text \<open>The flag that the gateway is draining stands beside the state of the application.\<close>

definition shutdown_CheckReady ::
  "(duration \<Rightarrow> 's \<Rightarrow> go_error option \<times> 's) \<Rightarrow> duration \<Rightarrow> 's \<times> bool \<Rightarrow> go_error option \<times> 's \<times> bool" where
  "shutdown_CheckReady delegate timeout st =
   (case st of (s, draining) \<Rightarrow>
      if draining then (Some (OtherError ''payment-gateway is draining''), s, draining)
      else (case delegate timeout s of (err, t) \<Rightarrow> (err, t, draining)))"

definition beginDrain :: "'s \<times> bool \<Rightarrow> 's \<times> bool" where
  "beginDrain st = (fst st, True)"

definition beside_flag :: "('s, 'c, 'a) app_call \<Rightarrow> ('s \<times> bool, 'c, 'a) app_call" where
  "beside_flag f c st = (case f c (fst st) of (r, t) \<Rightarrow> (r, t, snd st))"

definition flagged_application :: "'s paymentApplication \<Rightarrow> ('s \<times> bool) paymentApplication" where
  "flagged_application app =
   \<lparr>pa_AuthorizePayment = beside_flag (pa_AuthorizePayment app), pa_RetryAuthorization = beside_flag (pa_RetryAuthorization app),
    pa_CapturePayment = beside_flag (pa_CapturePayment app), pa_VoidPayment = beside_flag (pa_VoidPayment app),
    pa_RefundPayment = beside_flag (pa_RefundPayment app), pa_GetPayment = beside_flag (pa_GetPayment app),
    pa_SearchPayments = beside_flag (pa_SearchPayments app), pa_expired = \<lambda>d x y. pa_expired app d (fst x) (fst y)\<rparr>"

subsection \<open>Wiring\<close>

record ('w, 'l, 'r) surroundings =
  sr_driver :: sql_driver
  sr_ts :: "time \<Rightarrow> time"
  sr_text_le :: "string \<Rightarrow> string \<Rightarrow> bool"
  sr_metrics :: "string option" \<comment> \<open>the error of registering the metrics\<close>
  sr_bank :: "'w bank_env"
  sr_uuid :: "nat \<Rightarrow> string"
  sr_clock :: "nat \<Rightarrow> time"
  sr_ping :: "duration \<Rightarrow> (Database, 'w client_state) ServiceState \<Rightarrow> go_error option \<times> (Database, 'w client_state) ServiceState"
  sr_expired :: "duration \<Rightarrow> (Database, 'w client_state) ServiceState \<Rightarrow> (Database, 'w client_state) ServiceState \<Rightarrow> bool"
  sr_rate :: "('l, 'r) rate_package"

datatype startup_failure = StartupError string | StartupGoError go_error | StartupPanic string

record ('w, 'l, 'r) gateway =
  gwy_service :: "(Database, 'w client_state) PaymentService"
  gwy_handler :: "((Database, 'w client_state) ServiceState \<times> bool, 'l, 'r) Handler"
  gwy_rateLimiter :: "'l RateLimiter"
  gwy_public :: HTTPServer
  gwy_metrics :: HTTPServer

definition run_start :: "('w, 'l, 'r) surroundings \<Rightarrow> config \<Rightarrow> startup_failure + ('w, 'l, 'r) gateway" where
  "run_start sr cfg =
   (case postgres_Open (sr_driver sr) (postgresConfig cfg) of Inl e \<Rightarrow> Inl (StartupError e)
    | Inr pool \<Rightarrow>
      (case sr_metrics sr of Some e \<Rightarrow> Inl (StartupError e)
       | None \<Rightarrow>
         (case NewClient (sr_bank sr) (mockBankConfig cfg) of Inl e \<Rightarrow> Inl (StartupGoError e)
          | Inr mockBank \<Rightarrow>
            (case NewPaymentService (NewPaymentStore (sr_ts sr) (sr_text_le sr)) (sr_uuid sr) mockBank (sr_clock sr)
                (gc_FingerprintSecret cfg) (gc_IdempotencyClaimStuckAfter cfg) of Inl p \<Rightarrow> Inl (StartupPanic p)
             | Inr svc \<Rightarrow>
               (case NewAuthenticator (gc_ServiceCredentialHMACKey cfg) (gc_ServiceCredentials cfg) of Inl e \<Rightarrow> Inl (StartupGoError e)
                | Inr authenticator \<Rightarrow>
                  (case NewHandler (flagged_application (payment_application (sr_expired sr) svc)) (shutdown_CheckReady (sr_ping sr))
                      authenticator (sr_rate sr) (sr_clock sr) (handlerConfig cfg) of Inl e \<Rightarrow> Inl (StartupError e)
                   | Inr (h, l) \<Rightarrow>
                       Inr \<lparr>gwy_service = svc, gwy_handler = h, gwy_rateLimiter = l, gwy_public = publicServer cfg,
                            gwy_metrics = metricsServer cfg\<rparr>))))))"

subsection \<open>Shutdown\<close>

datatype server_error = ErrServerClosed | ServerError string

definition listenAndServe :: "server_error option \<Rightarrow> server_error option" where
  "listenAndServe err = (if err = Some ErrServerClosed then None else err)"

definition shutdownServers :: "server_error option \<Rightarrow> server_error option \<Rightarrow> server_error option" where
  "shutdownServers firstErr secondErr = (if firstErr \<noteq> None then firstErr else secondErr)"

text \<open>The errors that \<^verbatim>\<open>errors.Join\<close> collects; none is nil.\<close>

definition closeServers :: "server_error option \<Rightarrow> server_error option \<Rightarrow> server_error list" where
  "closeServers publicErr metricsErr =
   (let publicErr = (if publicErr = Some ErrServerClosed then None else publicErr);
        metricsErr = (if metricsErr = Some ErrServerClosed then None else metricsErr) in
    List.map_filter id [publicErr, metricsErr])"

text \<open>
  What happens while the gateway runs: a server stops, or a signal arrives; the results of the two
  shutdowns in the order they arrive; whether a second signal comes before them; the results of closing the
  servers; the results the two serving goroutines deliver.
\<close>

record shutdown_course =
  sc_stopped :: "server_error option option" \<comment> \<open>\<open>Some r\<close>: a server stopped first, with result \<open>r\<close>; \<open>None\<close>: a signal arrived\<close>
  sc_shutdown :: "server_error option \<times> server_error option"
  sc_second_signal :: bool
  sc_close :: "server_error option \<times> server_error option"
  sc_serve :: "server_error option"

datatype shutdown_action = BeginDrain | Shutdown | Close

definition run_stop :: "shutdown_course \<Rightarrow> shutdown_action list \<times> server_error list" where
  "run_stop w =
   (let shutdownErr = shutdownServers (fst (sc_shutdown w)) (snd (sc_shutdown w));
        close = (let closeErr = closeServers (fst (sc_close w)) (snd (sc_close w)) in
          ([BeginDrain, Shutdown, Close], if closeErr \<noteq> [] then closeErr else List.map_filter id [sc_serve w])) in
    case sc_stopped w of
      Some err \<Rightarrow> ([BeginDrain, Shutdown], List.map_filter id [if shutdownErr \<noteq> None then shutdownErr else err])
    | None \<Rightarrow>
        if \<not> sc_second_signal w then
          (if shutdownErr = None then ([BeginDrain, Shutdown], List.map_filter id [sc_serve w]) else close)
        else close)"

subsection \<open>The cleanup job\<close>

datatype cleanup_event = CtxDone | TickerFired

datatype cleanup_metric = IdempotencyReplayCleanup string nat

text \<open>\<open>True\<close>: the runner has returned; otherwise it still waits.\<close>

fun Runner_Run ::
  "('s \<Rightarrow> (go_error + nat) \<times> 's) \<Rightarrow> cleanup_event list \<Rightarrow> 's \<times> cleanup_metric list \<Rightarrow> bool \<times> 's \<times> cleanup_metric list" where
  "Runner_Run cleaner [] st = (False, st)"
| "Runner_Run cleaner (CtxDone # evs) st = (True, st)"
| "Runner_Run cleaner (TickerFired # evs) (s, ms) =
     (case cleaner s of
        (Inl err, t) \<Rightarrow> Runner_Run cleaner evs (t, ms @ [IdempotencyReplayCleanup ''failed'' 0])
      | (Inr removed, t) \<Rightarrow>
          Runner_Run cleaner evs (t, ms @ [IdempotencyReplayCleanup (if removed = 0 then ''empty'' else ''completed'') removed]))"

subsection \<open>Starting\<close>

text \<open>C25: a configuration that passes the checks, with texts that are not blank and credentials the authenticator takes, starts the
  gateway when the database answers and the metrics can be registered.\<close>

theorem checked_config_starts:
  assumes cfg: "gateway_validate cfg = None" "TrimSpace (gc_DatabaseURL cfg) \<noteq> []" "TrimSpace (gc_FingerprintSecret cfg) \<noteq> []"
    and auth: "NewAuthenticator (gc_ServiceCredentialHMACKey cfg) (gc_ServiceCredentials cfg) = Inr a"
    and world: "drv_Open (sr_driver sr) (gc_DatabaseURL cfg) = None" "drv_Ping (sr_driver sr) = None" "sr_metrics sr = None"
  shows "\<exists>g. run_start sr cfg = Inr g \<and> h_authenticator (gwy_handler g) = a \<and> h_config (gwy_handler g) = handlerConfig cfg \<and>
    svc_bank (gwy_service g) = mockbank_client (sr_bank sr) (mockBankConfig cfg) \<and>
    svc_store (gwy_service g) = NewPaymentStore (sr_ts sr) (sr_text_le sr)"
proof -
  have pg: "postgres_validate (postgresConfig cfg) = None"
    and bank: "config_validate (mockBankConfig cfg) = None"
    and handler: "handler_validate (handlerConfig cfg) = None" "ratelimit_validate (hc_RateLimit (handlerConfig cfg)) = None"
    and stuck: "\<not> gc_IdempotencyClaimStuckAfter cfg \<le> 0"
    using cfg(1,2)
    by (simp_all add: gateway_validate_def postgres_validate_def postgresConfig_def config_validate_def mockBankConfig_def
        handler_validate_def handlerConfig_def ratelimit_validate_def rateLimitConfig_def not_le)
  have "pgc_URL (postgresConfig cfg) = gc_DatabaseURL cfg" by (simp add: postgresConfig_def)
  then show ?thesis
    using pg bank handler stuck cfg(3) auth world
    by (simp add: run_start_def postgres_Open_def NewClient_def NewPaymentService_def NewHandler_def NewRateLimiter_def Let_def)
qed

subsection \<open>Stopping\<close>

text \<open>However the gateway stops, it first reports itself as draining, then shuts the servers down; it closes connections by force
  exactly when it was stopped by a signal and a second signal arrives or the shutdown fails.\<close>

theorem drains_before_shutdown:
  "(\<exists>rest. fst (run_stop w) = BeginDrain # Shutdown # rest) \<and>
   (Close \<in> set (fst (run_stop w)) \<longleftrightarrow>
     sc_stopped w = None \<and> (sc_second_signal w \<or> shutdownServers (fst (sc_shutdown w)) (snd (sc_shutdown w)) \<noteq> None))"
  by (auto simp: run_stop_def Let_def split: option.split)

lemma probe_served:
  assumes "root_mux h r = registerRoute h route f r" "ar_ContentLength r \<le> hc_MaxRequestBodyBytes (h_config h)"
    and "served f (limited h r) s a t" "200 \<le> resp_status a"
  shows "\<exists>t'. ServeHTTP h r s = (Some a, t') \<and> as_app t' = as_app t"
proof -
  have "served (limitRequestBody h f) r s a t"
    using assms(2,3) by (simp add: served_def limitRequestBody_def limited_def)
  from served_recordHTTPRequest [OF served_recoverPanic [OF this], of route] assms(4)
  have "served (registerRoute h route f) r s a (t\<lparr>as_metrics := as_metrics t @ [HTTPRequest (ar_Method r) route (resp_status a)]\<rparr>)"
    by (simp add: registerRoute_def)
  then have "served (root_mux h) r s a (t\<lparr>as_metrics := as_metrics t @ [HTTPRequest (ar_Method r) route (resp_status a)]\<rparr>)"
    using assms(1) by (simp add: served_def)
  from served_root [OF this assms(4)] show ?thesis by auto
qed

lemma probe_routes:
  assumes "ar_Method r = ''GET''" "\<not> ar_slash r"
  shows "ar_path r = [''readyz''] \<Longrightarrow> root_mux h r = registerRoute h ''/readyz'' (readyz h) r"
    "ar_path r = [''healthz''] \<Longrightarrow> root_mux h r = registerRoute h ''/healthz'' healthz r"
  using assms by (auto simp: root_mux_def api_path_def mux_serve_def)

text \<open>C30: once the gateway drains, the readiness endpoint answers 503 whatever the database says, without asking it.\<close>

theorem draining_not_ready:
  assumes "h_CheckReady h = shutdown_CheckReady delegate" "ar_Method r = ''GET''" "\<not> ar_slash r" "ar_path r = [''readyz'']"
    and "ar_ContentLength r \<le> hc_MaxRequestBodyBytes (h_config h)"
  shows "\<exists>a t. ServeHTTP h r (s\<lparr>as_app := beginDrain (as_app s)\<rparr>) = (Some a, t) \<and> resp_status a = 503 \<and> as_app t = beginDrain (as_app s)"
proof -
  let ?s = "s\<lparr>as_app := beginDrain (as_app s)\<rparr>"
  let ?a = "json_response 503 [] (ErrorEnvelope \<lparr>ep_Code = errorCodeServiceUnavailable, ep_Message = StatusText 503\<rparr>)"
  have "served (readyz h) (limited h r) ?s ?a ?s"
    using gives_writeError [of 503 errorCodeServiceUnavailable "StatusText 503"] assms(1)
    by (simp add: served_def gives_def readyz_def shutdown_CheckReady_def beginDrain_def)
  from probe_served [OF probe_routes(1) [OF assms(2-4)] assms(5) this] show ?thesis
    by (auto simp: json_response_def)
qed

subsection \<open>Cleaning up\<close>

text \<open>C29: the cleanup job ends when its context is cancelled, and only then; until then it records one outcome per tick,
  also when a run fails.\<close>

theorem cleanup_ends_with_context:
  "(fst (Runner_Run cleaner evs (s, ms)) \<longleftrightarrow> CtxDone \<in> set evs) \<and>
   length (snd (snd (Runner_Run cleaner evs (s, ms)))) = length ms + length (takeWhile (\<lambda>e. e = TickerFired) evs)"
proof (induction evs arbitrary: s ms)
  case (Cons e evs)
  show ?case
  proof (cases e)
    case TickerFired
    obtain r t where "cleaner s = (r, t)" by fastforce
    with TickerFired Cons show ?thesis by (cases r) simp_all
  qed simp
qed simp

lemma cleanup_step:
  assumes "svc_store svc = NewPaymentStore ts text_le" "CleanupCompletedIdempotencyReplays svc s = (r, t)"
  shows "ss_ticks t = ss_ticks s + 1 \<and> db_payments (ss_db t) = db_payments (ss_db s) \<and>
    (\<forall>x\<in>set (db_records (ss_db s)). x \<in> set (db_records (ss_db t)) \<or>
      expired_record ts (svc_clock svc (ss_ticks s) - idempotencyReplayWindow) x)"
proof -
  obtain d where d: "pg_CleanupCompletedIdempotencyRecords ts (svc_clock svc (ss_ticks s) - idempotencyReplayWindow) (ss_db s) = (r, d)"
    "t = s\<lparr>ss_ticks := ss_ticks s + 1, ss_db := d\<rparr>"
    using assms
    by (auto simp: CleanupCompletedIdempotencyReplays_def clock_Now_def call_store_def NewPaymentStore_def split: prod.splits)
  from pg_Cleanup_cases [OF d(1)] d(2) show ?thesis by (auto simp: tables_def sql_delete_def)
qed


subsection \<open>Witnesses\<close>

definition quiet_surroundings :: "(unit, unit, unit) surroundings" where
  "quiet_surroundings =
   \<lparr>sr_driver = \<lparr>drv_Open = \<lambda>_. None, drv_Ping = None\<rparr>, sr_ts = \<lambda>t. t, sr_text_le = \<lambda>_ _. True, sr_metrics = None,
    sr_bank = \<lparr>endpoint_error = \<lambda>_. None, http_Do = \<lambda>_ _. act_fail DeadlineExceeded, ctx_wait = \<lambda>_ w. (None, w)\<rparr>,
    sr_uuid = \<lambda>_. ''123e4567-e89b-12d3-a456-426614174000'', sr_clock = int, sr_ping = \<lambda>_ s. (None, s),
    sr_expired = \<lambda>_ _ _. False, sr_rate = open_rate\<rparr>"

theorem checked_config_starts_witness:
  "\<exists>g. run_start quiet_surroundings
     (default_config example_key [issued example_key ''secret'' [ScopePaymentsRead]] bank_url ''postgres:'' ''secret'') = Inr g"
proof -
  let ?cfg = "default_config example_key [issued example_key ''secret'' [ScopePaymentsRead]] bank_url ''postgres:'' ''secret''"
  have v: "gateway_validate ?cfg = None" by (rule default_config_valid) (simp_all add: bank_url_def)
  have t: "TrimSpace (gc_DatabaseURL ?cfg) \<noteq> []" "TrimSpace (gc_FingerprintSecret ?cfg) \<noteq> []"
    by (simp_all add: default_config_def) code_simp+
  obtain a where a: "NewAuthenticator (gc_ServiceCredentialHMACKey ?cfg) (gc_ServiceCredentials ?cfg) = Inr a"
    by (rule NewAuthenticator_issued [of example_key "[ScopePaymentsRead]" "''secret''"])
       (simp_all add: example_key_def default_config_def)
  show ?thesis
    using checked_config_starts [OF v t a, of quiet_surroundings] by (auto simp: quiet_surroundings_def)
qed

definition ready_probe :: api_request where
  "ready_probe = (example_post [] [])\<lparr>ar_Method := ''GET'', ar_path := [''readyz'']\<rparr>"

definition draining_handler :: "((Database, unit) ServiceState \<times> bool, unit, unit) Handler" where
  "draining_handler =
   \<lparr>h_payments = flagged_application (payment_application (\<lambda>_ _ _. False) example_service), h_CheckReady = shutdown_CheckReady (\<lambda>_ s. (None, s)),
    h_authenticator = \<lparr>aut_key = example_key, aut_credentials = []\<rparr>, h_rate = open_rate, h_clock = int,
    h_config = handlerConfig sample_config\<rparr>"

theorem draining_not_ready_witness:
  "\<exists>a t. ServeHTTP draining_handler ready_probe
      \<lparr>as_app = (state_with [], True), as_rateLimiter = \<lparr>rl_config = example_limits, rl_ticks = 0, rl_buckets = []\<rparr>, as_metrics = [], as_log = []\<rparr> =
     (Some a, t) \<and> resp_status a = 503"
  using draining_not_ready [of draining_handler "\<lambda>_ s. (None, s)" ready_probe
      "\<lparr>as_app = (state_with [], False), as_rateLimiter = \<lparr>rl_config = example_limits, rl_ticks = 0, rl_buckets = []\<rparr>, as_metrics = [], as_log = []\<rparr>"]
  by (auto simp: draining_handler_def ready_probe_def example_post_def beginDrain_def handlerConfig_def sample_config_def
      default_config_def default_defs)


end
