(* ===== verification/Gateway_Metrics.thy ===== *)
theory Gateway_Metrics
  imports Gateway_Runtime
begin

text \<open>
  What the gateway counts, \<^verbatim>\<open>gateway/internal/observability\<close>: the recorders of the four groups of metrics and the collector of pending
  payments.  A counter with labels is a function of the label values; of a histogram its observations are kept.
  Registering the metrics and serving them is the work of the Prometheus library.
\<close>

type_synonym CounterVec = "string list \<Rightarrow> nat"
type_synonym HistogramVec = "string list \<Rightarrow> duration list"

definition Inc :: "string list \<Rightarrow> CounterVec \<Rightarrow> CounterVec" where
  "Inc labels c = c(labels := c labels + 1)"

definition Observe :: "string list \<Rightarrow> duration \<Rightarrow> HistogramVec \<Rightarrow> HistogramVec" where
  "Observe labels d hv = hv(labels := hv labels @ [d])"

record HTTPMetrics =
  hm_requestsTotal :: CounterVec
  hm_requestDuration :: HistogramVec
  hm_rejectionsTotal :: CounterVec

record MockBankMetrics =
  bm_requestsTotal :: CounterVec
  bm_requestDuration :: HistogramVec
  bm_retriesTotal :: CounterVec

record PaymentOperationMetrics =
  om_operationsTotal :: CounterVec
  om_operationDuration :: HistogramVec
  om_recoveryTotal :: CounterVec
  om_releaseFailures :: CounterVec

record IdempotencyReplayCleanupMetrics =
  cm_runsTotal :: CounterVec
  cm_deletedTotal :: nat

definition RecordRateLimitRejection :: "string \<Rightarrow> HTTPMetrics \<Rightarrow> HTTPMetrics" where
  "RecordRateLimitRejection routeClass m =
   (if routeClass \<noteq> ''read'' \<and> routeClass \<noteq> ''write'' then m else m\<lparr>hm_rejectionsTotal := Inc [routeClass] (hm_rejectionsTotal m)\<rparr>)"

definition RecordHTTPRequest :: "string \<Rightarrow> string \<Rightarrow> int \<Rightarrow> duration \<Rightarrow> HTTPMetrics \<Rightarrow> HTTPMetrics" where
  "RecordHTTPRequest meth route st d m =
   (let statusCode = show_int st in
    m\<lparr>hm_requestsTotal := Inc [meth, route, statusCode] (hm_requestsTotal m),
      hm_requestDuration := Observe [meth, route, statusCode] d (hm_requestDuration m)\<rparr>)"

definition RecordMockBankRetry :: "string \<Rightarrow> string \<Rightarrow> MockBankMetrics \<Rightarrow> MockBankMetrics" where
  "RecordMockBankRetry operation result m = m\<lparr>bm_retriesTotal := Inc [operation, result] (bm_retriesTotal m)\<rparr>"

definition RecordMockBankRequest :: "string \<Rightarrow> string \<Rightarrow> duration \<Rightarrow> MockBankMetrics \<Rightarrow> MockBankMetrics" where
  "RecordMockBankRequest operation result d m =
   m\<lparr>bm_requestsTotal := Inc [operation, result] (bm_requestsTotal m),
     bm_requestDuration := Observe [operation, result] d (bm_requestDuration m)\<rparr>"

definition RecordPaymentOperation :: "string \<Rightarrow> string \<Rightarrow> duration \<Rightarrow> PaymentOperationMetrics \<Rightarrow> PaymentOperationMetrics" where
  "RecordPaymentOperation operation outcome d m =
   m\<lparr>om_operationsTotal := Inc [operation, outcome] (om_operationsTotal m),
     om_operationDuration := Observe [operation, outcome] d (om_operationDuration m)\<rparr>"

definition isPaymentOperation :: "string \<Rightarrow> bool" where
  "isPaymentOperation operation \<longleftrightarrow>
     operation \<in> {AuthorizePaymentOperation, RetryAuthorizationOperation, CapturePaymentOperation, VoidPaymentOperation, RefundPaymentOperation}"

definition isIdempotencyRecoveryResult :: "string \<Rightarrow> bool" where
  "isIdempotencyRecoveryResult result \<longleftrightarrow> result \<in> {''attempted'', ''recovered'', ''unrecoverable'', ''conflict''}"

definition RecordIdempotencyRecovery :: "string \<Rightarrow> string \<Rightarrow> PaymentOperationMetrics \<Rightarrow> PaymentOperationMetrics" where
  "RecordIdempotencyRecovery operation result m =
   (if \<not> isPaymentOperation operation \<or> \<not> isIdempotencyRecoveryResult result then m
    else m\<lparr>om_recoveryTotal := Inc [operation, result] (om_recoveryTotal m)\<rparr>)"

definition RecordPaymentCommandReleaseFailure :: "string \<Rightarrow> PaymentOperationMetrics \<Rightarrow> PaymentOperationMetrics" where
  "RecordPaymentCommandReleaseFailure operation m =
   (if \<not> isPaymentOperation operation then m else m\<lparr>om_releaseFailures := Inc [operation] (om_releaseFailures m)\<rparr>)"

definition isIdempotencyReplayCleanupResult :: "string \<Rightarrow> bool" where
  "isIdempotencyReplayCleanupResult result \<longleftrightarrow> result \<in> {''completed'', ''empty'', ''failed''}"

definition RecordIdempotencyReplayCleanup ::
  "string \<Rightarrow> int \<Rightarrow> IdempotencyReplayCleanupMetrics \<Rightarrow> IdempotencyReplayCleanupMetrics" where
  "RecordIdempotencyReplayCleanup result removed m =
   (if \<not> isIdempotencyReplayCleanupResult result \<or> removed < 0 then m
    else let m = m\<lparr>cm_runsTotal := Inc [result] (cm_runsTotal m)\<rparr> in
      if result \<noteq> ''failed'' then m\<lparr>cm_deletedTotal := cm_deletedTotal m + nat removed\<rparr> else m)"

text \<open>The two gauges of a scrape; nothing when the query fails.\<close>

definition PendingPaymentCollector_Collect :: "time \<Rightarrow> Database \<Rightarrow> (nat \<times> duration) option \<times> Database" where
  "PendingPaymentCollector_Collect pg_now d =
   (case pg_PendingPaymentMetrics pg_now d of (Inl err, d') \<Rightarrow> (None, d') | (Inr g, d') \<Rightarrow> (Some g, d'))"

subsection \<open>From events to counters\<close>

fun count_operation :: "duration \<times> operation_metric \<Rightarrow> PaymentOperationMetrics \<Rightarrow> PaymentOperationMetrics" where
  "count_operation (d, PaymentOperation operation outcome) = RecordPaymentOperation operation outcome d"
| "count_operation (d, IdempotencyRecovery operation result) = RecordIdempotencyRecovery operation result"
| "count_operation (d, PaymentCommandReleaseFailure operation) = RecordPaymentCommandReleaseFailure operation"

fun count_cleanup :: "cleanup_metric \<Rightarrow> IdempotencyReplayCleanupMetrics \<Rightarrow> IdempotencyReplayCleanupMetrics" where
  "count_cleanup (IdempotencyReplayCleanup result removed) = RecordIdempotencyReplayCleanup result (int removed)"

definition bounded_labels :: "PaymentOperationMetrics \<Rightarrow> bool" where
  "bounded_labels m \<longleftrightarrow>
     (\<forall>l. 0 < om_recoveryTotal m l \<longrightarrow> (\<exists>op r. l = [op, r] \<and> isPaymentOperation op \<and> isIdempotencyRecoveryResult r)) \<and>
     (\<forall>l. 0 < om_releaseFailures m l \<longrightarrow> (\<exists>op. l = [op] \<and> isPaymentOperation op))"

lemma bounded_labels_step: "bounded_labels m \<Longrightarrow> bounded_labels (count_operation e m)"
  by (cases e rule: count_operation.cases)
    (auto simp: bounded_labels_def RecordPaymentOperation_def RecordIdempotencyRecovery_def
      RecordPaymentCommandReleaseFailure_def Inc_def)

text \<open>The labels of the recovery and release counters stay within a fixed set, whatever events are recorded.\<close>

lemma operation_labels_bounded: "bounded_labels m \<Longrightarrow> bounded_labels (fold count_operation es m)"
  by (induction es arbitrary: m) (simp_all add: bounded_labels_step)

lemma cleanup_removed:
  assumes "svc_store svc = NewPaymentStore ts text_le" "CleanupCompletedIdempotencyReplays svc s = (r, t)"
  shows "length (db_records (ss_db t)) + (case r of Inl _ \<Rightarrow> 0 | Inr n \<Rightarrow> n) \<le> length (db_records (ss_db s))"
proof -
  define cut where "cut = svc_clock svc (ss_ticks s) - idempotencyReplayWindow"
  obtain d where d: "pg_CleanupCompletedIdempotencyRecords ts cut (ss_db s) = (r, d)" "ss_db t = d"
    using assms
    by (auto simp: cut_def CleanupCompletedIdempotencyReplays_def clock_Now_def call_store_def NewPaymentStore_def split: prod.splits)
  show ?thesis
  proof (cases r)
    case (Inl e)
    then show ?thesis using pg_Cleanup_cases [OF d(1)] d(2) by (auto simp: tables_def sql_delete_def)
  next
    case (Inr n)
    with pg_Cleanup_InrD [of ts cut "ss_db s" n d] d(1)
    have "db_records d = sql_delete (expired_record ts cut) (db_records (ss_db s))"
      "n = sql_count (expired_record ts cut) (db_records (ss_db s))"
      by (simp_all add: tables_def)
    then show ?thesis
      using Inr d(2) sum_length_filter_compl [of "expired_record ts cut" "db_records (ss_db s)"]
      by (simp add: sql_delete_def sql_count_def)
  qed
qed

lemma count_cleanup_deleted:
  "cm_deletedTotal (count_cleanup (IdempotencyReplayCleanup (if n = 0 then ''empty'' else ''completed'') n) m) = cm_deletedTotal m + n"
  "cm_deletedTotal (count_cleanup (IdempotencyReplayCleanup ''failed'' 0) m) = cm_deletedTotal m"
  by (simp_all add: RecordIdempotencyReplayCleanup_def isIdempotencyReplayCleanupResult_def)

lemma runner_counts:
  assumes "svc_store svc = NewPaymentStore ts text_le"
    and "Runner_Run (CleanupCompletedIdempotencyReplays svc) evs (s, ms) = (ended, s', ms')"
  shows "length (db_records (ss_db s')) + cm_deletedTotal (fold count_cleanup ms' m) \<le>
    length (db_records (ss_db s)) + cm_deletedTotal (fold count_cleanup ms m)"
  using assms(2)
proof (induction evs arbitrary: s ms)
  case (Cons e evs)
  show ?case
  proof (cases e)
    case CtxDone
    then show ?thesis using Cons.prems by simp
  next
    case TickerFired
    obtain r t where run: "CleanupCompletedIdempotencyReplays svc s = (r, t)" by fastforce
    note removed = cleanup_removed [OF assms(1) run]
    show ?thesis
    proof (cases r)
      case (Inl err)
      with run TickerFired Cons.prems
      have "Runner_Run (CleanupCompletedIdempotencyReplays svc) evs (t, ms @ [IdempotencyReplayCleanup ''failed'' 0]) = (ended, s', ms')"
        by simp
      from Cons.IH [OF this] removed Inl show ?thesis
        by (simp add: count_cleanup_deleted del: count_cleanup.simps)
    next
      case (Inr n)
      with run TickerFired Cons.prems
      have "Runner_Run (CleanupCompletedIdempotencyReplays svc) evs
        (t, ms @ [IdempotencyReplayCleanup (if n = 0 then ''empty'' else ''completed'') n]) = (ended, s', ms')"
        by simp
      from Cons.IH [OF this] removed Inr show ?thesis
        unfolding fold_append comp_apply fold_simps count_cleanup_deleted by simp
    qed
  qed
qed simp

text \<open>The counter of deleted replays never overstates: together with the records that are left, what it grew by during any
  run of the job is at most the number of records there were.\<close>

theorem deleted_counter_sound:
  assumes "svc_store svc = NewPaymentStore ts text_le"
    and "Runner_Run (CleanupCompletedIdempotencyReplays svc) evs (s, []) = (ended, s', ms)"
  shows "length (db_records (ss_db s')) + cm_deletedTotal (fold count_cleanup ms m) \<le> length (db_records (ss_db s)) + cm_deletedTotal m"
  using runner_counts [OF assms, of m] by simp

theorem deleted_counter_sound_witness:
  "\<exists>ended s' ms.
     Runner_Run (CleanupCompletedIdempotencyReplays example_service) [TickerFired, CtxDone] (state_with [recorded_row], []) = (ended, s', ms) \<and>
     length (db_records (ss_db s')) + cm_deletedTotal (fold count_cleanup ms \<lparr>cm_runsTotal = \<lambda>_. 0, cm_deletedTotal = 0\<rparr>) \<le> 1"
proof -
  obtain ended s' ms where run:
    "Runner_Run (CleanupCompletedIdempotencyReplays example_service) [TickerFired, CtxDone] (state_with [recorded_row], []) = (ended, s', ms)"
    by (metis prod_cases3)
  from deleted_counter_sound [OF example_service_ok(1) run, of "\<lparr>cm_runsTotal = \<lambda>_. 0, cm_deletedTotal = 0\<rparr>"] run
  show ?thesis by (auto simp: state_with_def)
qed

end
