(* ===== verification/Mock_Bank_Process.thy ===== *)
theory Mock_Bank_Process
  imports Go_Text Mock_Bank_Http
begin

text \<open>
  The mock bank as a process: its configuration and log levels (\<^verbatim>\<open>mock-bank/bank/internal/config\<close>), the connection to its database
  (\<^verbatim>\<open>internal/db/connection.go\<close>) and the hourly cleanup (\<^verbatim>\<open>cmd/bank/main.go\<close>).

  The environment is the parameter \<open>bank_environment\<close>: the variables (empty when unset), \<^verbatim>\<open>strconv.ParseFloat\<close>, and the product of
  a fraction in \<^verbatim>\<open>time.ParseDuration\<close>.
\<close>

subsection \<open>Configuration\<close>

record bank_environment =
  env_Getenv :: "string \<Rightarrow> string"
  env_ParseFloat :: "string \<Rightarrow> float64 option"
  env_fraction :: "int \<Rightarrow> int \<Rightarrow> nat \<Rightarrow> int"

record ServerConfig =
  srv_Port :: string
  srv_ReadTimeout :: duration
  srv_WriteTimeout :: duration
  srv_IdleTimeout :: duration

record DatabaseConfig =
  dbc_Host :: string
  dbc_Port :: string
  dbc_User :: string
  dbc_Password :: string
  dbc_DBName :: string
  dbc_SSLMode :: string
  dbc_ConnMaxLifetime :: duration
  dbc_MaxOpenConns :: int
  dbc_MaxIdleConns :: int

record LoggerConfig =
  log_Level :: string

record Config =
  cfg_Server :: ServerConfig
  cfg_Logger :: LoggerConfig
  cfg_Database :: DatabaseConfig
  cfg_App :: AppConfig

datatype config_error =
    EmptyServerPort
  | EmptyDatabaseHost
  | EmptyDatabaseName
  | FailureRateOutOfRange float64
  | NegativeMinLatency
  | MaxBelowMinLatency int int
  | InvalidLogLevel string

definition getEnv :: "bank_environment \<Rightarrow> string \<Rightarrow> string \<Rightarrow> string" where
  "getEnv env key defaultValue = (if env_Getenv env key \<noteq> [] then env_Getenv env key else defaultValue)"

definition getEnvAsInt :: "bank_environment \<Rightarrow> string \<Rightarrow> int \<Rightarrow> int" where
  "getEnvAsInt env key defaultValue =
   (let valueStr = env_Getenv env key in
    if valueStr = [] then defaultValue
    else case strconv_Atoi valueStr of None \<Rightarrow> defaultValue | Some v \<Rightarrow> v)"

definition getEnvAsFloat :: "bank_environment \<Rightarrow> string \<Rightarrow> float64 \<Rightarrow> float64" where
  "getEnvAsFloat env key defaultValue =
   (let valueStr = env_Getenv env key in
    if valueStr = [] then defaultValue
    else case env_ParseFloat env valueStr of None \<Rightarrow> defaultValue | Some v \<Rightarrow> v)"

definition getEnvAsDuration :: "bank_environment \<Rightarrow> string \<Rightarrow> string \<Rightarrow> duration" where
  "getEnvAsDuration env key defaultValue =
   (case ParseDuration (env_fraction env) (getEnv env key defaultValue) of
      Some d \<Rightarrow> d
    | None \<Rightarrow> (case ParseDuration (env_fraction env) defaultValue of Some d \<Rightarrow> d | None \<Rightarrow> 0))"

fun f64_lt :: "float64 \<Rightarrow> rat \<Rightarrow> bool" where
  "f64_lt (Finite x) y = (x < y)" | "f64_lt NegInf y = True" | "f64_lt PosInf y = False" | "f64_lt NaN y = False"

fun f64_gt :: "float64 \<Rightarrow> rat \<Rightarrow> bool" where
  "f64_gt (Finite x) y = (y < x)" | "f64_gt PosInf y = True" | "f64_gt NegInf y = False" | "f64_gt NaN y = False"

definition validLevels :: "string list" where
  "validLevels = [''debug'', ''info'', ''warn'', ''error'']"

definition Config_Validate :: "Config \<Rightarrow> config_error option" where
  "Config_Validate c =
   (if srv_Port (cfg_Server c) = [] then Some EmptyServerPort
    else if dbc_Host (cfg_Database c) = [] then Some EmptyDatabaseHost
    else if dbc_DBName (cfg_Database c) = [] then Some EmptyDatabaseName
    else if f64_lt (app_FailureRate (cfg_App c)) 0 \<or> f64_gt (app_FailureRate (cfg_App c)) 1
    then Some (FailureRateOutOfRange (app_FailureRate (cfg_App c)))
    else if app_MinLatencyMS (cfg_App c) < 0 then Some NegativeMinLatency
    else if app_MaxLatencyMS (cfg_App c) < app_MinLatencyMS (cfg_App c)
    then Some (MaxBelowMinLatency (app_MaxLatencyMS (cfg_App c)) (app_MinLatencyMS (cfg_App c)))
    else if log_Level (cfg_Logger c) \<notin> set validLevels then Some (InvalidLogLevel (log_Level (cfg_Logger c)))
    else None)"

text \<open>The literal \<^verbatim>\<open>0.05\<close> is the \<^verbatim>\<open>float64\<close> next to it.\<close>

definition defaultFailureRate :: float64 where
  "defaultFailureRate = Finite (3602879701896397 / 72057594037927936)"

definition Load :: "bank_environment \<Rightarrow> config_error + Config" where
  "Load env =
   (let authExpiryHours = getEnvAsInt env ''AUTH_EXPIRY_HOURS'' 168;
        cfg = \<lparr>cfg_Server =
            \<lparr>srv_Port = getEnv env ''PORT'' ''8080'',
             srv_ReadTimeout = getEnvAsDuration env ''SERVER_READ_TIMEOUT'' ''15s'',
             srv_WriteTimeout = getEnvAsDuration env ''SERVER_WRITE_TIMEOUT'' ''15s'',
             srv_IdleTimeout = getEnvAsDuration env ''SERVER_IDLE_TIMEOUT'' ''60s''\<rparr>,
          cfg_Logger = \<lparr>log_Level = getEnv env ''LOG_LEVEL'' ''info''\<rparr>,
          cfg_Database =
            \<lparr>dbc_Host = getEnv env ''DB_HOST'' ''localhost'',
             dbc_Port = getEnv env ''DB_PORT'' ''5432'',
             dbc_User = getEnv env ''DB_USER'' ''postgres'',
             dbc_Password = getEnv env ''DB_PASSWORD'' ''postgres'',
             dbc_DBName = getEnv env ''DB_NAME'' ''mockbank'',
             dbc_SSLMode = getEnv env ''DB_SSLMODE'' ''disable'',
             dbc_ConnMaxLifetime = getEnvAsDuration env ''DB_CONN_MAX_LIFETIME'' ''5m'',
             dbc_MaxOpenConns = getEnvAsInt env ''DB_MAX_OPEN_CONNS'' 25,
             dbc_MaxIdleConns = getEnvAsInt env ''DB_MAX_IDLE_CONNS'' 5\<rparr>,
          cfg_App =
            \<lparr>app_FailureRate = getEnvAsFloat env ''FAILURE_RATE'' defaultFailureRate,
             app_MinLatencyMS = getEnvAsInt env ''MIN_LATENCY_MS'' 100,
             app_MaxLatencyMS = getEnvAsInt env ''MAX_LATENCY_MS'' 2000,
             app_AuthExpiryHours = authExpiryHours,
             app_AuthExpiryDuration = wrap64 (authExpiryHours * Hour)\<rparr>\<rparr> in
    case Config_Validate cfg of Some err \<Rightarrow> Inl err | None \<Rightarrow> Inr cfg)"

definition DSN :: "DatabaseConfig \<Rightarrow> string" where
  "DSN c = ''host='' @ dbc_Host c @ '' port='' @ dbc_Port c @ '' user='' @ dbc_User c @ '' password='' @ dbc_Password c @
     '' dbname='' @ dbc_DBName c @ '' sslmode='' @ dbc_SSLMode c"

subsection \<open>Log levels\<close>

datatype slog_Level = LevelDebug | LevelInfo | LevelWarn | LevelError

definition parseLogLevel :: "string \<Rightarrow> slog_Level" where
  "parseLogLevel level =
   (let l = ToLower level in
    if l = ''debug'' then LevelDebug
    else if l = ''info'' then LevelInfo
    else if l = ''warn'' \<or> l = ''warning'' then LevelWarn
    else if l = ''error'' then LevelError
    else LevelInfo)"

record HandlerOptions =
  opt_Level :: slog_Level
  opt_AddSource :: bool

definition NewLogger :: "LoggerConfig \<Rightarrow> HandlerOptions" where
  "NewLogger c =
   (let level = parseLogLevel (log_Level c) in \<lparr>opt_Level = level, opt_AddSource = (level = LevelDebug \<or> level = LevelError)\<rparr>)"

subsection \<open>Database connection\<close>

record bank_pool =
  bp_DSN :: string
  bp_MaxOpenConns :: int
  bp_MaxIdleConns :: int
  bp_ConnMaxLifetime :: duration

text \<open>\<open>open_error\<close> and \<open>ping_error\<close> are the answers of the driver.\<close>

definition Connect :: "(string \<Rightarrow> string option) \<Rightarrow> string option \<Rightarrow> DatabaseConfig \<Rightarrow> string + bank_pool" where
  "Connect open_error ping_error cfg =
   (case open_error (DSN cfg) of Some err \<Rightarrow> Inl (''failed to open database connection: '' @ err)
    | None \<Rightarrow> (case ping_error of Some err \<Rightarrow> Inl (''failed to ping database: '' @ err)
      | None \<Rightarrow> Inr \<lparr>bp_DSN = DSN cfg, bp_MaxOpenConns = dbc_MaxOpenConns cfg, bp_MaxIdleConns = dbc_MaxIdleConns cfg,
          bp_ConnMaxLifetime = dbc_ConnMaxLifetime cfg\<rparr>))"

subsection \<open>Periodic cleanup\<close>

datatype periodic_event = TickerC | StopClosed

fun runPeriodicCleanup :: "BankEnv \<Rightarrow> periodic_event list \<Rightarrow> BankState \<Rightarrow> bool \<times> BankState" where
  "runPeriodicCleanup env [] s = (False, s)"
| "runPeriodicCleanup env (TickerC # evs) s = runPeriodicCleanup env evs (cleanupIdempotencyKeys env s)"
| "runPeriodicCleanup env (StopClosed # evs) s = (True, s)"

subsection \<open>What a loaded configuration guarantees\<close>

lemma Load_validated: "Load env = Inr cfg \<Longrightarrow> Config_Validate cfg = None"
  by (auto simp: Load_def Let_def simp del: Config.simps split: option.splits)

lemma Validate_latency:
  "Config_Validate cfg = None \<Longrightarrow> 0 \<le> app_MinLatencyMS (cfg_App cfg) \<and> app_MinLatencyMS (cfg_App cfg) \<le> app_MaxLatencyMS (cfg_App cfg)"
  by (auto simp: Config_Validate_def not_less split: if_splits)

lemma latency_milliseconds:
  assumes "0 \<le> ms" "ms \<le> limit" "limit * millisecond < 2 ^ 63"
  shows "int64 ms" "wrap64 (ms * millisecond) = ms * millisecond"
proof -
  have le: "ms * millisecond \<le> limit * millisecond" using assms by (intro mult_right_mono) (simp_all add: millisecond_def)
  then have "int64 (ms * millisecond)" using assms by (simp add: int64_def millisecond_def)
  then show "wrap64 (ms * millisecond) = ms * millisecond" by (rule wrap64_id)
  show "int64 ms" using le assms by (simp add: int64_def millisecond_def)
qed

text \<open>C37: under a configuration that loads, a request is held back for a time between the two configured latencies, and not at all
  only when both are zero; the product with a millisecond does not wrap as long as the larger one fits.\<close>

theorem injected_latency_bounded:
  assumes "Load penv = Inr cfg"
    and draws: "\<And>n bound x. be_draw env n bound = Some x \<Longrightarrow> 0 \<le> x \<and> x < bound"
    and fits: "app_MaxLatencyMS (cfg_App cfg) * millisecond < 2 ^ 63"
  shows "case fst (injectLatency env (app_MinLatencyMS (cfg_App cfg)) (app_MaxLatencyMS (cfg_App cfg)) s) of
      None \<Rightarrow> app_MaxLatencyMS (cfg_App cfg) = 0
    | Some d \<Rightarrow> app_MinLatencyMS (cfg_App cfg) * millisecond \<le> d \<and> d \<le> app_MaxLatencyMS (cfg_App cfg) * millisecond"
proof -
  let ?lo = "app_MinLatencyMS (cfg_App cfg)" and ?hi = "app_MaxLatencyMS (cfg_App cfg)"
  have v: "0 \<le> ?lo" "?lo \<le> ?hi" using Validate_latency [OF Load_validated [OF assms(1)]] by simp_all
  note ms = latency_milliseconds [OF _ _ fits]
  have lo: "wrap64 (?lo * millisecond) = ?lo * millisecond" using ms [of ?lo] v by simp
  have mono: "a \<le> b \<Longrightarrow> a * millisecond \<le> b * millisecond" for a b :: int by (simp add: millisecond_def)
  have range: "wrap64 (?hi - ?lo) = ?hi - ?lo"
    using wrap64_id [OF ms(1) [of "?hi - ?lo"]] v by simp
  show ?thesis
  proof (cases "be_draw env (bk_draws s) (?hi - ?lo)")
    case None
    with v lo range mono [of ?lo ?hi] show ?thesis by (simp add: injectLatency_def rand_Int_def)
  next
    case (Some x)
    then have x: "0 \<le> x" "x < ?hi - ?lo" using draws by blast+
    then have "wrap64 (?lo + x) = ?lo + x" "wrap64 ((?lo + x) * millisecond) = (?lo + x) * millisecond"
      using wrap64_id ms [of "?lo + x"] v by simp_all
    with Some v lo range x mono [of ?lo ?hi] mono [of ?lo "?lo + x"] mono [of "?lo + x" ?hi]
    show ?thesis by (simp add: injectLatency_def rand_Int_def)
  qed
qed

definition bare_environment :: bank_environment where
  "bare_environment = \<lparr>env_Getenv = \<lambda>_. [], env_ParseFloat = \<lambda>_. None, env_fraction = \<lambda>_ _ _. 0\<rparr>"

lemma bare_environment_loads:
  "Load bare_environment = Inr cfg \<Longrightarrow> app_MinLatencyMS (cfg_App cfg) = 100 \<and> app_MaxLatencyMS (cfg_App cfg) = 2000"
  "\<exists>cfg. Load bare_environment = Inr cfg"
  by (auto simp: Load_def Config_Validate_def bare_environment_def getEnv_def getEnvAsInt_def getEnvAsFloat_def
      defaultFailureRate_def validLevels_def Let_def split: option.splits if_splits)

theorem injected_latency_bounded_witness:
  "\<exists>cfg d. Load bare_environment = Inr cfg \<and>
     fst (injectLatency example_env (app_MinLatencyMS (cfg_App cfg)) (app_MaxLatencyMS (cfg_App cfg)) example_bank) = Some d \<and>
     100 * millisecond \<le> d \<and> d \<le> 2000 * millisecond"
proof -
  obtain cfg where cfg: "Load bare_environment = Inr cfg" using bare_environment_loads(2) by auto
  note bounds = bare_environment_loads(1) [OF cfg]
  have "be_draw example_env n b = None" for n b by (simp add: example_env_def)
  then show ?thesis
    using injected_latency_bounded [OF cfg, of example_env example_bank] cfg bounds
    by (cases "fst (injectLatency example_env 100 2000 example_bank)") (auto simp: millisecond_def)
qed

text \<open>A failure rate that is not a number passes the check on its range.\<close>

theorem nan_failure_rate_accepted:
  "\<exists>cfg. Load (bare_environment\<lparr>env_Getenv := (\<lambda>_. [])(''FAILURE_RATE'' := ''NaN''), env_ParseFloat := (\<lambda>_. None)(''NaN'' := Some NaN)\<rparr>) = Inr cfg \<and>
     app_FailureRate (cfg_App cfg) = NaN"
  by (simp add: Load_def Config_Validate_def bare_environment_def getEnv_def getEnvAsInt_def getEnvAsFloat_def
      validLevels_def Let_def)

text \<open>The level \<^verbatim>\<open>"warning"\<close> the logger knows is refused by the check.\<close>

theorem warning_level_refused:
  "parseLogLevel ''warning'' = LevelWarn \<and> Config_Validate (cfg\<lparr>cfg_Logger := \<lparr>log_Level = ''warning''\<rparr>\<rparr>) \<noteq> None"
proof
  show "parseLogLevel ''warning'' = LevelWarn" by code_simp
qed (auto simp: Config_Validate_def validLevels_def)

subsection \<open>What the cleanup forgets\<close>

lemma cleanupIdempotencyKeys_step:
  "tables_of (cleanupIdempotencyKeys env s) = tables_of s \<and> bk_ticks (cleanupIdempotencyKeys env s) = bk_ticks s + 1 \<and>
   (\<forall>k\<in>set (bk_keys s). k \<in> set (bk_keys (cleanupIdempotencyKeys env s)) \<or>
     idk_CreatedAt k < be_stored env (be_clock env (bk_ticks s) - 24 * nanoseconds_per_hour))"
  by (auto simp: cleanupIdempotencyKeys_def idem_DeleteOlderThan_def bank_exec_def bank_now_def act_bind_def next_fault_def
      tables_of_def sql_delete_def Let_def split: list.splits bank_fault.splits)

text \<open>The hourly job of the bank stops when it is told to, leaves accounts and transactions alone, and drops a cached response
  only when it is more than a day older than the clock reading of one of its runs.\<close>

theorem bank_cleanup_keeps_recent:
  "(fst (runPeriodicCleanup env evs s) \<longleftrightarrow> StopClosed \<in> set evs) \<and>
   tables_of (snd (runPeriodicCleanup env evs s)) = tables_of s \<and>
   (\<forall>k. k \<in> set (bk_keys s) \<longrightarrow> k \<in> set (bk_keys (snd (runPeriodicCleanup env evs s))) \<or>
     (\<exists>n. idk_CreatedAt k < be_stored env (be_clock env n - 24 * nanoseconds_per_hour)))"
proof (induction evs arbitrary: s)
  case (Cons e evs)
  show ?case
  proof (cases e)
    case TickerC
    then show ?thesis
      using Cons [of "cleanupIdempotencyKeys env s"] cleanupIdempotencyKeys_step [of env s] by auto
  qed simp
qed simp

end
