(* ===== verification/Spec2Isabelle.thy ===== *)
theory Spec2Isabelle
  imports Service_Simulation Bank_Exchange Gateway_Metrics Mock_Bank_Process
begin

text \<open>
  A verification development of the payment gateway and of the mock bank it talks to.

  \<^bold>\<open>The program.\<close>  The gateway (\<^verbatim>\<open>src/gateway\<close>) is an HTTP service through which an order service authorizes,
  captures, voids and refunds card payments.  A request passes the middleware (log, panic recovery, authentication, scope, rate
  and body limit), a handler turns it into a command, the payment service claims the command's idempotency
  key in PostgreSQL, calls the bank under a stored bank operation key, and completes the claim with the new state of
  the payment and a snapshot of the result, or releases it.  The mock bank (\<^verbatim>\<open>src/mock-bank/bank\<close>) keeps accounts and
  transactions in a database of its own and answers repeated requests from a cache of responses.

  \<^bold>\<open>Conventions.\<close>  Strings are lists of bytes; times and durations are integers in nanoseconds, with 0 for Go's zero time;
  \<^verbatim>\<open>wrap64\<close> is written where 64-bit arithmetic can overflow.  A function that can fail returns a sum with the
  error on the left.  Code with effects is a function on an explicit state, composed with the combinators of \<open>Go_Effects\<close>.
  A database carries the outcomes of its next statements: each may succeed, fail without effect, or take effect
  and lose its reply; so may a commit.  Clocks, identifiers, random draws, the network, \<^verbatim>\<open>url.Parse\<close>, \<^verbatim>\<open>uuid.Parse\<close>,
  float arithmetic and the token bucket of \<^verbatim>\<open>golang.org/x/time/rate\<close> are parameters.

  \<^bold>\<open>The gateway's core.\<close>
  \<^item> \<open>Gateway_Prelude\<close>: results, decimal texts, white space, tables keyed by a column (locale \<open>keyed_table\<close>), 64-bit
    arithmetic, reachability (locale \<open>invariant_system\<close>).  \<open>Go_Effects\<close>: stateful actions.  \<open>Go_Text\<close>: splitting, numbers, durations,
    addresses, base64, with round trips.  \<open>Hmac_Sha256\<close>: SHA-256 and HMAC on words.
  \<^item> \<open>Payment_Errors\<close> (\<^verbatim>\<open>app/payment_errors.go\<close>), \<open>Payment_Domain\<close> and \<open>Payment_Lifecycle\<close> (\<^verbatim>\<open>domain/payment.go\<close>): the payment as a record,
    its methods, the invariant \<open>payment_wf\<close> that every method keeps, the edges of the lifecycle.
  \<^item> \<open>Payment_Commands\<close> (\<^verbatim>\<open>app/payment_commands.go\<close>, \<^verbatim>\<open>payment_queries.go\<close>, \<^verbatim>\<open>payment_validation.go\<close>): validation and request fingerprints; when a
    fingerprint identifies a request and when it does not.
  \<^item> \<open>Payment_Claims\<close>: the types between service, store and bank client, and the locale \<open>bank_contract\<close> for what the service
    relies on of the client.  \<open>Payment_Snapshot\<close>: the replayed result as JSON, with its round trip.
  \<^item> \<open>Payment_Store\<close> (\<^verbatim>\<open>postgres/payment_store.go\<close> and the migration): rows, checks and every method of the store.
    \<open>Store_Rows\<close>, \<open>Store_Effects\<close>, \<open>Store_Ledger\<close>, \<open>Store_Invariants\<close>: a payment survives being stored and scanned, what each statement can
    do to the tables, and the invariants each method keeps.  \<open>Idempotency_Ledger\<close> is the abstract ledger of claims that the store
    refines.
  \<^item> \<open>Payment_Service\<close> (\<^verbatim>\<open>app/payment_service.go\<close>): the five commands and the queries.  \<open>Service_Contract\<close> proves them right over any store
    that keeps the ledger's laws (locale \<open>ledger_store\<close>); \<open>Store_Contract\<close> interprets the locale on the PostgreSQL store and
    states replay, conflicts, kinds of errors and release for the whole.
  \<^item> \<open>Gateway_System\<close>: any number of processes over one database as a step relation, crashes included; the invariant gives one
    bank operation key per bank operation and the lifecycle of stored payments.  \<open>Service_Simulation\<close>: every run of a command handler
    is a run of that relation, and the requests it makes (locale \<open>bank_observer\<close>) are requests of the relation.
  \<^item> \<open>Bank_Client\<close> (\<^verbatim>\<open>mockbank/client.go\<close>): requests, classification of responses, retry; it interprets \<open>bank_contract\<close> and
    \<open>bank_observer\<close>.  The theorem at the end of this theory follows the key of an operation from the store to the HTTP request.

  \<^bold>\<open>The gateway's surface.\<close>
  \<^item> \<open>Service_Auth\<close> (\<^verbatim>\<open>serviceauth/authenticator.go\<close>): who is authenticated, exactly.
  \<^item> \<open>Http_Body\<close> (\<^verbatim>\<open>httpapi/json.go\<close>) and \<open>Http_Api\<close> (\<^verbatim>\<open>handler.go\<close>, \<^verbatim>\<open>handlers.go\<close>, \<^verbatim>\<open>middleware.go\<close>, \<^verbatim>\<open>rate_limiter.go\<close>): bodies as what a JSON decoder
    finds in them, a response writer with its recorders, every handler and layer, both muxes.
  \<^item> \<open>Http_Contract\<close>: every request gets one answer with a documented status, nothing under \<^verbatim>\<open>/api/v1/\<close> happens without a credential, no
    command without the write scope, and the rate limiter keeps its word.  \<open>Http_Commands\<close>: an admitted command is answered by
    its outcome, and a repeated request by the same answer, from the HTTP request down to the tables.
  \<^item> \<open>Gateway_Config\<close> (\<^verbatim>\<open>cmd/payment-gateway/config.go\<close>): loading and checking; deadlines nest, required settings suffice.
    \<open>Gateway_Runtime\<close> (\<^verbatim>\<open>runtime.go\<close>, \<^verbatim>\<open>postgres/db.go\<close>, \<^verbatim>\<open>idempotencycleanup/cleanup.go\<close>): a checked configuration starts, the process drains before
    it stops, the cleanup job keeps what is recent.  \<open>Gateway_Metrics\<close> (\<^verbatim>\<open>observability\<close>): the recorders, with bounded labels.

  \<^bold>\<open>The mock bank.\<close>
  \<^item> \<open>Mock_Bank_Store\<close> (models, validators, repositories), \<open>Mock_Bank_Service\<close> (the four operations in their transactions), \<open>Mock_Bank_Ledger\<close>: the
    books balance in every reachable state, an authorization is settled once, a capture refunded once.
  \<^item> \<open>Mock_Bank_Http\<close>: generated wrappers, handlers, failure injection, the cache of responses and the router.
    \<open>Mock_Bank_Process\<close>: its configuration, connection and cleanup.
  \<^item> \<open>Bank_Exchange\<close>: the gateway's client against the bank's router; a capture whose reply is lost is made once.

  \<^bold>\<open>Bounds and loops.\<close>  No fuel is used: loops of the source are structural recursions, or functions with a termination proof (the
  texts of \<open>Go_Text\<close>, which get shorter).  The two loops that wait for ticks (\<open>Runner_Run\<close>, \<open>runPeriodicCleanup\<close>) run over the finite
  sequence of events so far and say whether they have returned.

  \<^bold>\<open>Not modelled.\<close>  Goroutines, channels and signals of the two processes (their results are given as the course of a shutdown);
  the registration of metrics and the pool collector, which only call the Prometheus library; log output beyond the
  entry of a request; the \<^verbatim>\<open>main\<close> functions and the system clock (I/O); the paths that \<^verbatim>\<open>http.ServeMux\<close> answers with
  a redirect; the encoding of responses as bytes; the embedded API description and documentation pages of the bank;
  generated mocks and test helpers.  Requests to the bank's middleware are taken one at a time.
\<close>

subsection \<open>The requests that reach the bank\<close>

fun run_commands :: "('db, 'bk) PaymentService \<Rightarrow> payment_command list \<Rightarrow> ('db, 'bk) ServiceState \<Rightarrow> ('db, 'bk) ServiceState" where
  "run_commands svc [] s = s"
| "run_commands svc (cmd # cmds) s = run_commands svc cmds (snd (run_command svc cmd s))"

lemma run_commands_reachable:
  assumes "rounding ts" "times_given ts svc" "svc_store svc = NewPaymentStore ts text_le" "bank_observer (svc_bank svc) sends"
    and "reachable gateway_start (gateway_step ts) g" "ss_db s = gw_db g" "sends (ss_bank s) \<subseteq> logged g"
  shows "\<exists>g'. reachable gateway_start (gateway_step ts) g' \<and> gw_db g' = ss_db (run_commands svc cmds s) \<and>
    sends (ss_bank (run_commands svc cmds s)) \<subseteq> logged g'"
  using assms(5-7)
proof (induction cmds arbitrary: s g)
  case (Cons cmd cmds)
  obtain r s1 where run: "run_command svc cmd s = (r, s1)" by fastforce
  from run_command_reachable [OF assms(1-4) Cons.prems run] obtain g1 where
    "reachable gateway_start (gateway_step ts) g1" "ss_db s1 = gw_db g1" "sends (ss_bank s1) \<subseteq> logged g1" by auto
  from Cons.IH [OF this] run show ?case by simp
qed auto

text \<open>C1: one key per bank operation, down to the wire.  Whatever commands the service runs over its PostgreSQL store and the
  HTTP client, from a database other processes may have worked on, and whatever fails on the way, each HTTP request sent
  to the bank carries, as its idempotency key, the one key there is for its operation on some payment.\<close>

theorem wire_requests_one_key:
  assumes "rounding ts" "times_given ts svc" "svc_store svc = NewPaymentStore ts text_le" "svc_bank svc = mockbank_client env config"
    and "reachable gateway_start (gateway_step ts) g" "ss_db s = gw_db g" "cs_sent (ss_bank s) = []"
  shows "\<exists>g'. reachable gateway_start (gateway_step ts) g' \<and> gw_db g' = ss_db (run_commands svc cmds s) \<and>
    (\<forall>rq\<in>set (cs_sent (ss_bank (run_commands svc cmds s))). \<exists>pid. \<forall>k.
       (path_operation (rq_path rq), pid, k) \<in> set (gw_log g') \<longleftrightarrow> k = rq_idempotency_key rq)"
proof -
  have obs: "bank_observer (svc_bank svc) client_sent" unfolding assms(4) by (rule mockbank_log.bank_observer_axioms)
  have start: "client_sent (ss_bank s) \<subseteq> logged g" by (simp add: client_sent_def assms(7))
  obtain g' where g': "reachable gateway_start (gateway_step ts) g'" "gw_db g' = ss_db (run_commands svc cmds s)"
    "client_sent (ss_bank (run_commands svc cmds s)) \<subseteq> logged g'"
    using run_commands_reachable [OF assms(1-3) obs assms(5,6) start] by blast
  have "\<exists>pid. \<forall>k. (path_operation (rq_path rq), pid, k) \<in> set (gw_log g') \<longleftrightarrow> k = rq_idempotency_key rq"
    if "rq \<in> set (cs_sent (ss_bank (run_commands svc cmds s)))" for rq
  proof -
    have "(path_operation (rq_path rq), rq_idempotency_key rq) \<in> logged g'" using that g'(3) by (auto simp: client_sent_def)
    then obtain pid where "(path_operation (rq_path rq), pid, rq_idempotency_key rq) \<in> set (gw_log g')" by (auto simp: logged_def)
    then show ?thesis using logged_key_unique [OF g'(1)] by blast
  qed
  with g' show ?thesis by blast
qed

definition cut_off :: "unit bank_env" where
  "cut_off = \<lparr>endpoint_error = \<lambda>_. None, http_Do = \<lambda>_ _. act_fail DeadlineExceeded, ctx_wait = \<lambda>_ w. (None, w)\<rparr>"

definition cut_off_service :: "(Database, unit client_state) PaymentService" where
  "cut_off_service =
     \<lparr>svc_store = NewPaymentStore (\<lambda>t. t) (\<lambda>a b. True), svc_bank = mockbank_client cut_off (mockBankConfig sample_config),
      svc_uuid = (\<lambda>_. ''123e4567-e89b-12d3-a456-426614174000''), svc_clock = (\<lambda>n. 1000000 + int n),
      svc_fingerprintSecret = ''secret'', svc_claimStuckAfter = 60000\<rparr>"

lemma cut_off_authorization: "mockbank_AuthorizePayment cut_off config req b \<noteq> (Inr res, b')"
  by (auto simp: mockbank_AuthorizePayment_def retryTransient_def authorizePaymentAttempt_def bank_attempt_def newHTTPRequest_def
      client_Do_def cut_off_def waitForRetry_def split: prod.splits sum.splits if_splits option.splits)

theorem wire_requests_one_key_witness:
  "\<exists>g' s'. run_commands cut_off_service [Authorize example_command, Capture example_capture]
       \<lparr>ss_db = \<lparr>db_payments = [], db_records = [], db_faults = []\<rparr>, ss_bank = \<lparr>cs_world = (), cs_sent = [], cs_metrics = []\<rparr>,
        ss_ticks = 0, ss_ids = 0, ss_metrics = []\<rparr> = s' \<and>
     reachable gateway_start (gateway_step (\<lambda>t. t)) g' \<and> gw_db g' = ss_db s' \<and>
     (\<forall>rq\<in>set (cs_sent (ss_bank s')). \<exists>pid. (path_operation (rq_path rq), pid, rq_idempotency_key rq) \<in> set (gw_log g'))"
proof -
  let ?d = "\<lparr>db_payments = [], db_records = [], db_faults = []\<rparr>"
  have "times_given (\<lambda>t. t) cut_off_service"
    by (simp add: times_given_def cut_off_service_def mockbank_client_def cut_off_authorization)
  moreover have "reachable gateway_start (gateway_step (\<lambda>t. t)) \<lparr>gw_db = ?d, gw_claims = [], gw_log = []\<rparr>"
    by (rule reachable_init) (simp add: gateway_start_def)
  ultimately show ?thesis
    using wire_requests_one_key [of "\<lambda>t. t" cut_off_service "\<lambda>a b. True" cut_off "mockBankConfig sample_config"
        "\<lparr>gw_db = ?d, gw_claims = [], gw_log = []\<rparr>"
        "\<lparr>ss_db = ?d, ss_bank = \<lparr>cs_world = (), cs_sent = [], cs_metrics = []\<rparr>, ss_ticks = 0, ss_ids = 0, ss_metrics = []\<rparr>"
        "[Authorize example_command, Capture example_capture]"]
    by (force simp: rounding_def cut_off_service_def simp del: run_commands.simps)
qed

end
